(* ===== verification/Prelude.thy ===== *)
theory Prelude
  imports Main "HOL-Library.AList" "HOL-Library.Word"
begin

text \<open>
  Shared material of the development.

  \<^item> Hash maps (\<open>FnvHashMap\<close>) are association lists with distinct keys, read with \<open>map_of\<close>
    and changed with \<open>AList.update\<close> and \<open>AList.delete\<close>; hash sets (\<open>FnvHashSet\<close>) are lists
    with distinct elements, changed with \<open>List.insert\<close> and \<open>removeAll\<close>.  The order of such a
    list is the iteration order of the container, which the source leaves open: the theorems
    of the development speak about every list, so about every iteration order.
  \<^item> \<open>Duration\<close> of the Rust standard library is a number of nanoseconds; its operators
    panic on overflow, which is the value \<open>None\<close>.
  \<^item> \<open>DateTime<Utc>\<close> is an integer number of nanoseconds.
  \<^item> The locale \<open>step_system\<close> lifts an invariant of single steps to runs.
\<close>

section \<open>Collections of rewrite rules\<close>

named_theorems alist_simps \<open>lookup and key set of updated association lists\<close>
named_theorems alist_wf \<open>well-formedness of updated association lists\<close>
named_theorems wf_intros \<open>operations keep the well-formedness of what they change\<close>
named_theorems frame_simps \<open>fields that an operation leaves as they are\<close>
named_theorems ledger_simps \<open>what an operation adds to the ledger of reply channels\<close>

section \<open>Hash maps as association lists\<close>

type_synonym ('k, 'v) hmap = "('k \<times> 'v) list"

abbreviation keys :: "('k, 'v) hmap \<Rightarrow> 'k list" where
  "keys m \<equiv> map fst m"

abbreviation contains_key :: "('k, 'v) hmap \<Rightarrow> 'k \<Rightarrow> bool" where
  "contains_key m k \<equiv> map_of m k \<noteq> None"

text \<open>\<open>map.entry(k).or_default()\<close> followed by an in-place change of the value.\<close>

definition or_default_modify :: "'v \<Rightarrow> 'k \<Rightarrow> ('v \<Rightarrow> 'v) \<Rightarrow> ('k, 'v) hmap \<Rightarrow> ('k, 'v) hmap" where
  "or_default_modify d k f m = AList.update k (f (case map_of m k of None \<Rightarrow> d | Some v \<Rightarrow> v)) m"

lemma map_of_update_simp [alist_simps]: "map_of (AList.update k v m) = (map_of m)(k \<mapsto> v)"
  by (rule update_conv')

lemma map_of_delete_simp [alist_simps]: "map_of (AList.delete k m) = (map_of m)(k := None)"
  by (rule delete_conv')

lemma map_of_or_default_modify [alist_simps]:
  "map_of (or_default_modify d k f m) =
     (map_of m)(k \<mapsto> f (case map_of m k of None \<Rightarrow> d | Some v \<Rightarrow> v))"
  by (simp add: or_default_modify_def alist_simps)

lemma distinct_keys_update [alist_wf]:
  "distinct (keys m) \<Longrightarrow> distinct (keys (AList.update k v m))"
  by (rule distinct_update)

lemma distinct_keys_delete [alist_wf]:
  "distinct (keys m) \<Longrightarrow> distinct (keys (AList.delete k m))"
  by (rule distinct_delete)

lemma distinct_keys_or_default_modify [alist_wf]:
  "distinct (keys m) \<Longrightarrow> distinct (keys (or_default_modify d k f m))"
  by (simp add: or_default_modify_def distinct_keys_update)

lemma distinct_keys_filter [alist_wf]:
  "distinct (keys m) \<Longrightarrow> distinct (keys (filter P m))"
  by (rule distinct_map_filter)

lemma map_of_filter_distinct:
  "distinct (keys m) \<Longrightarrow>
     map_of (filter P m) k =
       (case map_of m k of None \<Rightarrow> None | Some v \<Rightarrow> if P (k, v) then Some v else None)"
proof (induction m)
  case Nil
  then show ?case by simp
next
  case (Cons e m)
  obtain k' v' where e: "e = (k', v')" by (cases e)
  show ?case
  proof (cases "k = k'")
    case True
    with Cons.prems e have "map_of m k = None"
      by (simp add: map_of_eq_None_iff)
    with Cons True e show ?thesis by simp
  next
    case False
    with Cons e show ?thesis by (auto split: option.split)
  qed
qed

text \<open>A predicate on every entry, seen through the lookup function.\<close>

definition all_values :: "('k \<Rightarrow> 'v \<Rightarrow> bool) \<Rightarrow> ('k, 'v) hmap \<Rightarrow> bool" where
  "all_values P m \<longleftrightarrow> (\<forall>(k, v) \<in> set m. P k v)"

lemma all_values_Nil [simp]: "all_values P []"
  by (simp add: all_values_def)

lemma all_valuesD: "all_values P m \<Longrightarrow> map_of m k = Some v \<Longrightarrow> P k v"
  by (auto simp: all_values_def dest: map_of_SomeD)

lemma set_update_subset: "set (AList.update k v m) \<subseteq> insert (k, v) (set m)"
  by (induction m) auto

lemma all_values_update [alist_wf]:
  "all_values P m \<Longrightarrow> P k v \<Longrightarrow> all_values P (AList.update k v m)"
  using set_update_subset [of k v m] by (auto simp: all_values_def)

lemma all_values_delete [alist_wf]: "all_values P m \<Longrightarrow> all_values P (AList.delete k m)"
  by (auto simp: all_values_def AList.delete_eq)

lemma all_values_filter [alist_wf]: "all_values P m \<Longrightarrow> all_values P (filter Q m)"
  by (auto simp: all_values_def)

lemma all_values_or_default_modify [alist_wf]:
  assumes "all_values P m"
    and "\<And>v. map_of m k = Some v \<Longrightarrow> P k v \<Longrightarrow> P k (f v)"
    and "map_of m k = None \<Longrightarrow> P k (f d)"
  shows "all_values P (or_default_modify d k f m)"
  using assms
  by (auto simp: or_default_modify_def intro!: all_values_update dest: all_valuesD
      split: option.split)

section \<open>Lists of options\<close>

lemma those_map_Some:
  "(\<And>x. x \<in> set xs \<Longrightarrow> f x = Some (g x)) \<Longrightarrow> those (map f xs) = Some (map g xs)"
  by (induction xs) auto

section \<open>Durations and points in time\<close>

type_synonym duration = nat
type_synonym time = int

definition duration_max :: duration where
  "duration_max = (2 ^ 64 - 1) * 1000000000 + 999999999"

definition from_secs :: "nat \<Rightarrow> duration" where
  "from_secs s = s * 1000000000"

text \<open>\<open>Duration * u32\<close>, \<open>Duration / u32\<close> and \<open>Duration + Duration\<close>.\<close>

definition dur_mul :: "duration \<Rightarrow> nat \<Rightarrow> duration option" where
  "dur_mul d k = (if d * k \<le> duration_max then Some (d * k) else None)"

definition dur_div :: "duration \<Rightarrow> nat \<Rightarrow> duration option" where
  "dur_div d k = (if k = 0 then None else Some (d div k))"

definition dur_add :: "duration \<Rightarrow> duration \<Rightarrow> duration option" where
  "dur_add d e = (if d + e \<le> duration_max then Some (d + e) else None)"

lemma dur_mul_small: "d * k \<le> duration_max \<Longrightarrow> dur_mul d k = Some (d * k)"
  by (simp add: dur_mul_def)

lemma dur_add_small: "d + e \<le> duration_max \<Longrightarrow> dur_add d e = Some (d + e)"
  by (simp add: dur_add_def)

section \<open>Step systems\<close>

text \<open>
  A system is a partial step function (\<open>None\<close> is a panic) and a condition under which the
  environment takes a step.  A client supplies an invariant that no step breaks; the locale
  gives it for every run, and with progress, that runs do not panic.
\<close>

fun run_steps :: "('e \<Rightarrow> 's \<Rightarrow> 's option) \<Rightarrow> 'e list \<Rightarrow> 's \<Rightarrow> 's option" where
  "run_steps step [] s = Some s"
| "run_steps step (e # es) s = (case step e s of None \<Rightarrow> None | Some s' \<Rightarrow> run_steps step es s')"

fun good_run :: "('e \<Rightarrow> 's \<Rightarrow> bool) \<Rightarrow> ('e \<Rightarrow> 's \<Rightarrow> 's option) \<Rightarrow> 'e list \<Rightarrow> 's \<Rightarrow> bool" where
  "good_run good step [] s \<longleftrightarrow> True"
| "good_run good step (e # es) s \<longleftrightarrow>
     good e s \<and> (case step e s of None \<Rightarrow> True | Some s' \<Rightarrow> good_run good step es s')"

locale step_system =
  fixes good :: "'e \<Rightarrow> 's \<Rightarrow> bool"
    and step :: "'e \<Rightarrow> 's \<Rightarrow> 's option"
    and inv :: "'s \<Rightarrow> bool"
  assumes step_inv: "inv s \<Longrightarrow> good e s \<Longrightarrow> step e s = Some s' \<Longrightarrow> inv s'"
begin

lemma run_inv:
  "inv s \<Longrightarrow> good_run good step es s \<Longrightarrow> run_steps step es s = Some s' \<Longrightarrow> inv s'"
proof (induction es arbitrary: s)
  case Nil
  then show ?case by simp
next
  case (Cons e es)
  then obtain t where t: "step e s = Some t" by (auto split: option.splits)
  with Cons.prems have "inv t" by (auto intro: step_inv)
  with Cons t show ?case by auto
qed

end

locale total_step_system = step_system +
  assumes progress: "inv s \<Longrightarrow> good e s \<Longrightarrow> step e s \<noteq> None"
begin

lemma run_total:
  "inv s \<Longrightarrow> good_run good step es s \<Longrightarrow> \<exists>s'. run_steps step es s = Some s' \<and> inv s'"
proof (induction es arbitrary: s)
  case Nil
  then show ?case by simp
next
  case (Cons e es)
  then obtain t where t: "step e s = Some t" using progress by fastforce
  with Cons.prems have "inv t" by (auto intro: step_inv)
  with Cons t show ?case by auto
qed

end

text \<open>
  Functional refinement: an abstract view of the state and what each event does to it.  A step
  commutes with the view, so a run does.
\<close>

locale refined_step_system = step_system good step inv
  for good :: "'e \<Rightarrow> 's \<Rightarrow> bool" and step :: "'e \<Rightarrow> 's \<Rightarrow> 's option" and inv :: "'s \<Rightarrow> bool" +
  fixes view :: "'s \<Rightarrow> 'a" and effect :: "'e \<Rightarrow> 'a \<Rightarrow> 'a"
  assumes simulates:
    "inv s \<Longrightarrow> good e s \<Longrightarrow> step e s = Some s' \<Longrightarrow> view s' = effect e (view s)"
begin

lemma run_view:
  "inv s \<Longrightarrow> good_run good step es s \<Longrightarrow> run_steps step es s = Some s' \<Longrightarrow>
     view s' = fold effect es (view s)"
proof (induction es arbitrary: s)
  case Nil
  then show ?case by simp
next
  case (Cons e es)
  then obtain t where t: "step e s = Some t" by (auto split: option.splits)
  with Cons.prems have "inv t" "view t = effect e (view s)" by (auto intro: step_inv simulates)
  with Cons t show ?case by auto
qed

end

end
