(* ===== verification/Multiaddr.thy ===== *)
theory Multiaddr
  imports Prelude
begin

text \<open>
  Addresses and connection endpoints: the helpers on \<open>Multiaddr\<close> at the top of
  \<open>src/src/net/peers.rs\<close>, \<open>without_peer\<close> of \<open>peer_info.rs\<close> and the dial handler of
  \<open>address_handler.rs\<close>.

  A \<open>Multiaddr\<close> is the sequence of its protocol components: \<open>iter\<close>, \<open>push\<close>, \<open>pop\<close> and
  \<open>replace\<close> are the list operations below.  A component \<open>/p2p/h\<close> carries a multihash; a
  multihash is a peer id or is not one, which is what \<open>try_into::<PeerId>()\<close> decides.
  Components the source never inspects are \<open>OtherProtocol\<close>.
\<close>

section \<open>Data\<close>

type_synonym peer_id = nat
type_synonym cid = nat
type_synonym block = "cid \<times> 8 word list"
type_synonym ip4 = "32 word"
type_synonym ip6 = "128 word"
type_synonym port = "16 word"

datatype multihash = PeerHash peer_id | ForeignHash nat

datatype protocol =
    Ip4 ip4
  | Ip6 ip6
  | Tcp port
  | P2p multihash
  | OtherProtocol nat

type_synonym multiaddr = "protocol list"

datatype ip_addr = V4 ip4 | V6 ip6

datatype endpoint = EndpointDialer | EndpointListener

datatype connected_point =
    Dialer multiaddr endpoint
  | Listener multiaddr multiaddr

datatype direction = Inbound | Outbound

datatype 'a cow = Borrowed 'a | Owned 'a

text \<open>\<open>IntoAddressHandler(own_dial, keep_alive)\<close>; an own dial carries its retries left (\<open>u8\<close>).\<close>

datatype into_address_handler = IntoAddressHandler "(multiaddr \<times> 8 word) option" bool

section \<open>Operations\<close>

definition last_protocol :: "multiaddr \<Rightarrow> protocol option" where
  "last_protocol a = (if a = [] then None else Some (last a))"

definition first_protocol :: "multiaddr \<Rightarrow> protocol option" where
  "first_protocol a = (case a of [] \<Rightarrow> None | p # _ \<Rightarrow> Some p)"

definition push_protocol :: "multiaddr \<Rightarrow> protocol \<Rightarrow> multiaddr" where
  "push_protocol a p = a @ [p]"

definition pop_protocol :: "multiaddr \<Rightarrow> multiaddr" where
  "pop_protocol a = butlast a"

definition replace_protocol ::
  "multiaddr \<Rightarrow> nat \<Rightarrow> (protocol \<Rightarrow> protocol option) \<Rightarrow> multiaddr option" where
  "replace_protocol a i f =
     (if i < length a then map_option (\<lambda>p. a[i := p]) (f (a ! i)) else None)"

definition peer_protocol :: "peer_id \<Rightarrow> protocol" where
  "peer_protocol p = P2p (PeerHash p)"

definition ends_with_p2p :: "multiaddr \<Rightarrow> bool" where
  "ends_with_p2p a = (case last_protocol a of Some (P2p _) \<Rightarrow> True | _ \<Rightarrow> False)"

fun into_owned :: "'a cow \<Rightarrow> 'a" where
  "into_owned (Borrowed a) = a"
| "into_owned (Owned a) = a"

definition normalize_addr :: "multiaddr \<Rightarrow> peer_id \<Rightarrow> multiaddr" where
  "normalize_addr addr peer =
     (if ends_with_p2p addr then addr else push_protocol addr (peer_protocol peer))"

definition normalize_addr_ref :: "multiaddr \<Rightarrow> peer_id \<Rightarrow> multiaddr cow" where
  "normalize_addr_ref addr peer =
     (if ends_with_p2p addr then Borrowed addr
      else Owned (push_protocol addr (peer_protocol peer)))"

abbreviation normalized :: "multiaddr \<Rightarrow> peer_id \<Rightarrow> multiaddr" where
  "normalized addr peer \<equiv> into_owned (normalize_addr_ref addr peer)"

definition without_peer_id :: "multiaddr \<Rightarrow> multiaddr" where
  "without_peer_id addr = (if ends_with_p2p addr then pop_protocol addr else addr)"

definition without_peer :: "multiaddr \<Rightarrow> multiaddr cow" where
  "without_peer a = (if ends_with_p2p a then Owned (pop_protocol a) else Borrowed a)"

fun normalize_connected_point :: "connected_point \<Rightarrow> peer_id \<Rightarrow> peer_id \<Rightarrow> connected_point" where
  "normalize_connected_point (Dialer address role_override) local remote =
     Dialer (normalized address remote) role_override"
| "normalize_connected_point (Listener local_addr send_back_addr) local remote =
     Listener (normalized local_addr local) (normalized send_back_addr remote)"

fun get_remote_address :: "connected_point \<Rightarrow> multiaddr" where
  "get_remote_address (Dialer address _) = address"
| "get_remote_address (Listener _ send_back_addr) = send_back_addr"

fun is_dialer :: "connected_point \<Rightarrow> bool" where
  "is_dialer (Dialer _ _) = True"
| "is_dialer (Listener _ _) = False"

fun direction_from :: "connected_point \<Rightarrow> direction" where
  "direction_from (Dialer _ _) = Outbound"
| "direction_from (Listener _ _) = Inbound"

text \<open>\<open>Ipv4Addr::is_loopback\<close> of the standard library: 127.0.0.0/8.\<close>

definition ip4_is_loopback :: "ip4 \<Rightarrow> bool" where
  "ip4_is_loopback ip \<longleftrightarrow> drop_bit 24 ip = 127"

definition is_loopback :: "multiaddr \<Rightarrow> bool" where
  "is_loopback addr =
     (case first_protocol addr of
        Some (Ip4 ip) \<Rightarrow> if \<not> ip4_is_loopback ip then False else True
      | _ \<Rightarrow> True)"

fun try_into_peer_id :: "multihash \<Rightarrow> peer_id option" where
  "try_into_peer_id (PeerHash p) = Some p"
| "try_into_peer_id (ForeignHash _) = None"

definition multiaddr_peer_id :: "multiaddr \<Rightarrow> peer_id option" where
  "multiaddr_peer_id addr =
     (case last_protocol addr of Some (P2p h) \<Rightarrow> try_into_peer_id h | _ \<Rightarrow> None)"

definition ip_port :: "multiaddr \<Rightarrow> (ip_addr \<times> port) option" where
  "ip_port m =
     (case m of
        Ip4 ip # Tcp p # _ \<Rightarrow> Some (V4 ip, p)
      | Ip6 ip # Tcp p # _ \<Rightarrow> Some (V6 ip, p)
      | _ \<Rightarrow> None)"

fun handler_peer_id :: "into_address_handler \<Rightarrow> peer_id option" where
  "handler_peer_id (IntoAddressHandler None _) = None"
| "handler_peer_id (IntoAddressHandler (Some (addr, _)) _) =
     (case last_protocol addr of Some (P2p h) \<Rightarrow> try_into_peer_id h | _ \<Rightarrow> None)"

section \<open>The connection handler\<close>

record address_handler =
  own_dial :: "(multiaddr \<times> 8 word) option"
  remote_peer_id :: peer_id
  connected_at :: connected_point
  handler_keep_alive :: bool

datatype keep_alive_status = KeepAliveYes | KeepAliveNo

fun into_handler :: "into_address_handler \<Rightarrow> peer_id \<Rightarrow> connected_point \<Rightarrow> address_handler" where
  "into_handler (IntoAddressHandler dial keep) remote cp =
     \<lparr>own_dial = dial, remote_peer_id = remote, connected_at = cp, handler_keep_alive = keep\<rparr>"

definition connection_keep_alive :: "address_handler \<Rightarrow> keep_alive_status" where
  "connection_keep_alive h = (if handler_keep_alive h then KeepAliveYes else KeepAliveNo)"

section \<open>Attaching and stripping the peer component\<close>

text \<open>
  The contract the address book relies on, stated once for the two implementations of it in
  the source: \<open>attach\<close> makes an address end in a peer component and leaves one that already
  does alone, \<open>strip\<close> undoes it.
\<close>

locale peer_suffix =
  fixes attach :: "multiaddr \<Rightarrow> peer_id \<Rightarrow> multiaddr"
    and strip :: "multiaddr \<Rightarrow> multiaddr"
  assumes attach_ends: "ends_with_p2p (attach a p)"
    and attach_same: "ends_with_p2p a \<Longrightarrow> attach a p = a"
    and attach_names: "\<not> ends_with_p2p a \<Longrightarrow> multiaddr_peer_id (attach a p) = Some p"
    and strip_attach: "\<not> ends_with_p2p a \<Longrightarrow> strip (attach a p) = a"
    and strip_same: "\<not> ends_with_p2p a \<Longrightarrow> strip a = a"
begin

lemma attach_idem: "attach (attach a p) q = attach a p"
  by (simp add: attach_ends attach_same)

lemma attach_eq_cases:
  assumes "attach a p = attach b q" and "\<not> ends_with_p2p a" and "\<not> ends_with_p2p b"
  shows "a = b" and "p = q"
proof -
  from assms(1) have "strip (attach a p) = strip (attach b q)" by simp
  then show "a = b" using assms(2,3) by (simp add: strip_attach)
  have "multiaddr_peer_id (attach a p) = multiaddr_peer_id (attach b q)"
    using assms(1) by simp
  then show "p = q" using assms(2,3) by (simp add: attach_names)
qed

lemma attach_neq_bare: "\<not> ends_with_p2p a \<Longrightarrow> attach a p \<noteq> a"
  using attach_ends by metis

end

lemma last_protocol_push [simp]: "last_protocol (push_protocol a p) = Some p"
  by (simp add: last_protocol_def push_protocol_def)

lemma ends_with_p2p_push [simp]: "ends_with_p2p (push_protocol a (peer_protocol p))"
  by (simp add: ends_with_p2p_def peer_protocol_def)

lemma pop_push [simp]: "pop_protocol (push_protocol a p) = a"
  by (simp add: pop_protocol_def push_protocol_def)

lemma multiaddr_peer_id_push [simp]:
  "multiaddr_peer_id (push_protocol a (peer_protocol p)) = Some p"
  by (simp add: multiaddr_peer_id_def peer_protocol_def)

interpretation norm: peer_suffix normalize_addr without_peer_id
  by unfold_locales (auto simp: normalize_addr_def without_peer_id_def)

interpretation norm_ref: peer_suffix normalized "\<lambda>a. into_owned (without_peer a)"
  by unfold_locales (auto simp: normalize_addr_ref_def without_peer_def)

lemma normalized_eq_normalize_addr: "normalized a p = normalize_addr a p"
  by (simp add: normalize_addr_ref_def normalize_addr_def)

lemma without_peer_eq: "into_owned (without_peer a) = without_peer_id a"
  by (simp add: without_peer_def without_peer_id_def)

lemma ends_with_p2p_normalized [simp]: "ends_with_p2p (normalized a p)"
  by (rule norm_ref.attach_ends)

lemma ends_with_p2p_not_Nil: "ends_with_p2p a \<Longrightarrow> a \<noteq> []"
  by (auto simp: ends_with_p2p_def last_protocol_def)

lemma remote_of_normalized [simp]:
  "get_remote_address (normalize_connected_point cp l r) = normalized (get_remote_address cp) r"
  by (cases cp) simp_all

lemma is_dialer_normalized [simp]:
  "is_dialer (normalize_connected_point cp l r) = is_dialer cp"
  by (cases cp) simp_all

lemma normalize_connected_point_idem:
  "normalize_connected_point (normalize_connected_point cp l r) l' r' =
     normalize_connected_point cp l r"
  by (cases cp) (simp_all add: norm_ref.attach_idem)

lemma handler_peer_id_eq:
  "handler_peer_id (IntoAddressHandler (Some (addr, n)) k) = multiaddr_peer_id addr"
  by (simp add: multiaddr_peer_id_def)

text \<open>
  Replacing the port of an address that names one keeps the peer component at its end: the
  unwrap in \<open>set_info\<close> cannot panic, and what it inserts is still a full address.
\<close>

lemma ip_port_shape:
  "ip_port a = Some (ip, p) \<Longrightarrow> \<exists>h t. a = h # Tcp p # t"
  by (auto simp: ip_port_def split: list.splits protocol.splits)

lemma replace_port:
  assumes "ip_port a = Some (ip, p)"
  shows "replace_protocol a 1 (\<lambda>_. Some (Tcp q)) = Some (a[1 := Tcp q])"
  using ip_port_shape [OF assms] by (auto simp: replace_protocol_def)

lemma ends_with_p2p_replace_port:
  assumes "ip_port a = Some (ip, p)" and "ends_with_p2p a"
  shows "ends_with_p2p (a[1 := Tcp q])"
proof -
  obtain h t where a: "a = h # Tcp p # t"
    using ip_port_shape [OF assms(1)] by blast
  with assms(2) have "t \<noteq> []"
    by (auto simp: ends_with_p2p_def last_protocol_def)
  with a assms(2) show ?thesis
    by (auto simp: ends_with_p2p_def last_protocol_def)
qed

lemma ip_port_replace_port:
  assumes "ip_port a = Some (ip, p)"
  shows "ip_port (a[1 := Tcp q]) = Some (ip, q)"
  using assms by (auto simp: ip_port_def split: list.splits protocol.splits)

end
