(* ===== verification/Peer_Info.thy ===== *)
theory Peer_Info
  imports Multiaddr "HOL-Library.Monad_Syntax"
begin

text \<open>
  What is known about one peer: \<open>src/src/net/peer_info.rs\<close>.

  \<open>AddressSource\<close> with its derived order and the three classes of sources, the round-trip
  statistics \<open>Rtt\<close>, \<open>ConnectionFailure\<close> with its constructors, and \<open>PeerInfo\<close> with the
  operations that change it.  Error values of libp2p are the data types below down to the
  case the source matches on; their formatting is not under \<open>src/\<close> and is the record
  \<open>formatter\<close>, an argument of the definitions that print.  \<open>Utc::now()\<close> is an argument.
\<close>

section \<open>Sources of an address\<close>

datatype address_source = Incoming | Listen | Kad | Mdns | Candidate | User | Dial

fun source_rank :: "address_source \<Rightarrow> nat" where
  "source_rank Incoming = 0"
| "source_rank Listen = 1"
| "source_rank Kad = 2"
| "source_rank Mdns = 3"
| "source_rank Candidate = 4"
| "source_rank User = 5"
| "source_rank Dial = 6"

lemma source_rank_inj: "source_rank s = source_rank t \<Longrightarrow> s = t"
  by (cases s; cases t) simp_all

instantiation address_source :: linorder
begin

definition less_eq_address_source :: "address_source \<Rightarrow> address_source \<Rightarrow> bool" where
  "s \<le> t \<longleftrightarrow> source_rank s \<le> source_rank t"

definition less_address_source :: "address_source \<Rightarrow> address_source \<Rightarrow> bool" where
  "s < t \<longleftrightarrow> source_rank s < source_rank t"

instance
  by intro_classes
    (auto simp: less_eq_address_source_def less_address_source_def intro: source_rank_inj)

end

fun is_confirmed :: "address_source \<Rightarrow> bool" where
  "is_confirmed Dial = True"
| "is_confirmed User = True"
| "is_confirmed Candidate = True"
| "is_confirmed _ = False"

fun is_to_probe :: "address_source \<Rightarrow> bool" where
  "is_to_probe Listen = True"
| "is_to_probe Kad = True"
| "is_to_probe Mdns = True"
| "is_to_probe Candidate = True"
| "is_to_probe _ = False"

fun is_to_translate :: "address_source \<Rightarrow> bool" where
  "is_to_translate Incoming = True"
| "is_to_translate _ = False"

section \<open>Errors\<close>

datatype error_kind = InvalidData | OtherKind nat

datatype io_error = IoError error_kind "boxed_error option"
  and boxed_error = BoxedDns dns_error | BoxedNet net_error | BoxedForeign string
  and dns_error = DnsTransport io_error | DnsOther string
  and net_error = NetTimeout | NetTimer | NetOther stack_error
  and stack_error = StackA auth_error | StackB string
  and auth_error = AuthA string | AuthB upgrade_error
  and upgrade_error = UpgradeSelect string | UpgradeApply noise_error
  and noise_error = NoiseIo io_error | NoiseOther string

datatype transport_error = MultiaddrNotSupported multiaddr | TransportOther io_error

datatype peer_condition = CondDefault | CondAlways

datatype dial_error =
    ConnectionIo io_error
  | Transport "(multiaddr \<times> transport_error) list"
  | WrongPeerId peer_id connected_point
  | DialPeerConditionFalse peer_condition
  | Banned
  | LocalPeerId
  | OtherDialError string

text \<open>
  \<open>ConnectionError<MyHandlerError>\<close>: the handler errors of the sub-behaviours, each with its
  rendered text; the ones of type \<open>Void\<close> (address book, mdns) have no value.
\<close>

datatype handler_error =
    KademliaError string
  | PingFailure string
  | IdentifyError string
  | BitswapError string
  | GossipsubError string
  | BroadcastError string

datatype connection_error =
    ConnHandler handler_error
  | ConnIO string
  | KeepAliveTimeout

record formatter =
  show_io :: "io_error \<Rightarrow> string"
  show_transport :: "transport_error \<Rightarrow> string"
  show_source :: "transport_error \<Rightarrow> string option"
  debug_transport :: "transport_error \<Rightarrow> string"
  show_dial :: "dial_error \<Rightarrow> string"
  debug_dial :: "dial_error \<Rightarrow> string"
  debug_close :: "connection_error option \<Rightarrow> string"
  show_addr :: "multiaddr \<Rightarrow> string"

section \<open>Round-trip times\<close>

record rtt =
  rtt_current :: duration
  decay_3 :: duration
  decay_10 :: duration
  rtt_failures :: "32 word"
  failure_rate :: "32 word"

definition rtt_new :: "duration \<Rightarrow> rtt" where
  "rtt_new current =
     \<lparr>rtt_current = current, decay_3 = current, decay_10 = current,
      rtt_failures = 0, failure_rate = 0\<rparr>"

text \<open>\<open>None\<close> is the panic of an overflowing \<open>Duration\<close> operator.\<close>

definition rtt_register :: "rtt \<Rightarrow> duration \<Rightarrow> rtt option" where
  "rtt_register r current =
     do { a \<leftarrow> dur_mul (decay_3 r) 7;
          a' \<leftarrow> dur_div a 10;
          b \<leftarrow> dur_mul current 3;
          b' \<leftarrow> dur_div b 10;
          d3 \<leftarrow> dur_add a' b';
          c \<leftarrow> dur_mul (decay_10 r) 9;
          c' \<leftarrow> dur_div c 10;
          d \<leftarrow> dur_div current 10;
          d10 \<leftarrow> dur_add c' d;
          Some (r\<lparr>rtt_current := current, decay_3 := d3, decay_10 := d10,
                  rtt_failures := 0, failure_rate := failure_rate r * 99 div 100\<rparr>) }"

definition rtt_register_failure :: "rtt \<Rightarrow> rtt" where
  "rtt_register_failure r =
     r\<lparr>rtt_failures := rtt_failures r + 1,
       failure_rate := failure_rate r * 99 div 100 + 10000\<rparr>"

section \<open>Connection failures\<close>

datatype connection_failure_kind = DialErrorKind | PeerDisconnected | WeDisconnected

record connection_failure =
  cf_kind :: connection_failure_kind
  cf_addr :: multiaddr
  cf_time :: time
  cf_display :: string
  cf_debug :: string

text \<open>\<open>impl Display for D\<close>: the error followed by its cause, if it has one.\<close>

definition show_D :: "formatter \<Rightarrow> transport_error \<Rightarrow> string" where
  "show_D F e = show_transport F e @ (case show_source F e of None \<Rightarrow> [] | Some c \<Rightarrow> c)"

fun show_dial_errors :: "formatter \<Rightarrow> (multiaddr \<times> transport_error) list \<Rightarrow> string" where
  "show_dial_errors F [] = []"
| "show_dial_errors F ((addr, err) # es) =
     [CHR 0x0A] @ show_addr F (into_owned (without_peer addr)) @ '' '' @ show_D F err @
     show_dial_errors F es"

definition dial_display :: "formatter \<Rightarrow> dial_error \<Rightarrow> string" where
  "dial_display F e =
     (case e of
        ConnectionIo io \<Rightarrow> ''I/O error: '' @ show_io F io
      | Transport es \<Rightarrow>
          (case es of
             [(_, err)] \<Rightarrow> ''transport error: '' @ show_D F err
           | _ \<Rightarrow> ''transport errors:'' @ show_dial_errors F es)
      | x \<Rightarrow> show_dial F x)"

definition failure_dial :: "formatter \<Rightarrow> time \<Rightarrow> multiaddr \<Rightarrow> dial_error \<Rightarrow> connection_failure" where
  "failure_dial F now addr error =
     \<lparr>cf_kind = DialErrorKind, cf_addr = into_owned (without_peer addr), cf_time = now,
      cf_display = dial_display F error, cf_debug = debug_dial F error\<rparr>"

definition failure_transport ::
  "formatter \<Rightarrow> time \<Rightarrow> multiaddr \<Rightarrow> transport_error \<Rightarrow> connection_failure" where
  "failure_transport F now addr error =
     \<lparr>cf_kind = DialErrorKind, cf_addr = into_owned (without_peer addr), cf_time = now,
      cf_display = ''transport error: '' @ show_D F error, cf_debug = debug_transport F error\<rparr>"

definition failure_us :: "time \<Rightarrow> multiaddr \<Rightarrow> string \<Rightarrow> string \<Rightarrow> connection_failure" where
  "failure_us now addr display debug =
     \<lparr>cf_kind = WeDisconnected, cf_addr = addr, cf_time = now,
      cf_display = display, cf_debug = debug\<rparr>"

definition failure_them :: "time \<Rightarrow> multiaddr \<Rightarrow> string \<Rightarrow> string \<Rightarrow> connection_failure" where
  "failure_them now addr display debug =
     \<lparr>cf_kind = PeerDisconnected, cf_addr = addr, cf_time = now,
      cf_display = display, cf_debug = debug\<rparr>"

section \<open>Peer information\<close>

record peer_info =
  pi_protocol_version :: "string option"
  pi_agent_version :: "string option"
  pi_protocols :: "string list"
  pi_listeners :: "multiaddr list"
  pi_addresses :: "(multiaddr, address_source \<times> time) hmap"
  pi_connections :: "(multiaddr, time \<times> direction) hmap"
  pi_failures :: "connection_failure list"
  pi_rtt :: "rtt option"

definition peer_info_default :: peer_info where
  "peer_info_default =
     \<lparr>pi_protocol_version = None, pi_agent_version = None, pi_protocols = [], pi_listeners = [],
      pi_addresses = [], pi_connections = [], pi_failures = [], pi_rtt = None\<rparr>"

definition info_set_rtt :: "duration option \<Rightarrow> peer_info \<Rightarrow> peer_info option" where
  "info_set_rtt rtt info =
     (case rtt of
        Some duration \<Rightarrow>
          (case pi_rtt info of
             Some r \<Rightarrow> map_option (\<lambda>r'. info\<lparr>pi_rtt := Some r'\<rparr>) (rtt_register r duration)
           | None \<Rightarrow> Some (info\<lparr>pi_rtt := Some (rtt_new duration)\<rparr>))
      | None \<Rightarrow>
          (case pi_rtt info of
             Some r \<Rightarrow> Some (info\<lparr>pi_rtt := Some (rtt_register_failure r)\<rparr>)
           | None \<Rightarrow> Some info))"

definition push_failure ::
  "multiaddr \<Rightarrow> connection_failure \<Rightarrow> bool \<Rightarrow> peer_info \<Rightarrow> peer_info" where
  "push_failure addr f probe_result info =
     (let kept = (if 9 < length (pi_failures info) then butlast (pi_failures info)
                  else pi_failures info);
          addresses =
            (if probe_result \<and>
                (case map_of (pi_addresses info) addr of
                   None \<Rightarrow> False | Some (s, _) \<Rightarrow> is_to_probe s)
             then AList.delete addr (pi_addresses info)
             else pi_addresses info)
      in info\<lparr>pi_addresses := addresses, pi_failures := f # kept\<rparr>)"

definition confirmed_addresses :: "peer_info \<Rightarrow> multiaddr list" where
  "confirmed_addresses info =
     map fst (filter (\<lambda>(_, s, _). is_confirmed s) (pi_addresses info))"

definition addresses_to_probe :: "peer_info \<Rightarrow> multiaddr list" where
  "addresses_to_probe info =
     map fst (filter (\<lambda>(_, s, _). is_to_probe s) (pi_addresses info))"

definition addresses_to_translate :: "peer_info \<Rightarrow> multiaddr list" where
  "addresses_to_translate info =
     map fst (filter (\<lambda>(_, s, _). is_to_translate s) (pi_addresses info))"

definition ingest_address ::
  "time \<Rightarrow> multiaddr \<Rightarrow> address_source \<Rightarrow> peer_info \<Rightarrow> bool \<times> peer_info" where
  "ingest_address now addr source info =
     (case map_of (pi_addresses info) addr of
        Some (src, _) \<Rightarrow>
          if source \<le> src
          then (False, info\<lparr>pi_addresses := AList.update addr (src, now) (pi_addresses info)\<rparr>)
          else (is_to_probe source,
                info\<lparr>pi_addresses := AList.update addr (source, now) (pi_addresses info)\<rparr>)
      | None \<Rightarrow>
          (is_to_probe source,
           info\<lparr>pi_addresses := AList.update addr (source, now) (pi_addresses info)\<rparr>))"


section \<open>Well-formedness\<close>

text \<open>
  Keys of the two maps are distinct and are full addresses (they end in a peer component, the
  debug assertion in \<open>ingest_address\<close>), at most ten failures are kept, the failure rate is a
  rate (at most one million), and nine times a moving average is a representable duration.
\<close>

definition wf_rtt :: "rtt \<Rightarrow> bool" where
  "wf_rtt r \<longleftrightarrow>
     unat (failure_rate r) \<le> 1000000 \<and>
     decay_3 r * 9 \<le> duration_max \<and> decay_10 r * 9 \<le> duration_max"

definition wf_info :: "peer_info \<Rightarrow> bool" where
  "wf_info info \<longleftrightarrow>
     distinct (keys (pi_addresses info)) \<and> distinct (keys (pi_connections info)) \<and>
     list_all ends_with_p2p (keys (pi_addresses info)) \<and>
     list_all ends_with_p2p (keys (pi_connections info)) \<and>
     length (pi_failures info) \<le> 10 \<and>
     (case pi_rtt info of None \<Rightarrow> True | Some r \<Rightarrow> wf_rtt r)"

lemma list_all_keys_update:
  "list_all P (keys m) \<Longrightarrow> P k \<Longrightarrow> list_all P (keys (AList.update k v m))"
  by (auto simp: list_all_iff dom_update)

lemma list_all_keys_delete:
  "list_all P (keys m) \<Longrightarrow> list_all P (keys (AList.delete k m))"
  by (auto simp: list_all_iff delete_keys)

lemma list_all_keys_filter:
  "list_all P (keys m) \<Longrightarrow> list_all P (keys (filter Q m))"
  by (auto simp: list_all_iff)

lemmas keys_intros =
  distinct_keys_update distinct_keys_delete distinct_keys_filter
  list_all_keys_update list_all_keys_delete list_all_keys_filter

lemma wf_info_default [simp]: "wf_info peer_info_default"
  by (simp add: wf_info_def peer_info_default_def)

lemma wf_info_address: "wf_info info \<Longrightarrow> contains_key (pi_addresses info) a \<Longrightarrow> ends_with_p2p a"
  by (auto simp: wf_info_def list_all_iff dest: map_of_SomeD)

lemma wf_info_connection:
  "wf_info info \<Longrightarrow> contains_key (pi_connections info) a \<Longrightarrow> ends_with_p2p a"
  by (auto simp: wf_info_def list_all_iff dest: map_of_SomeD)

lemma wf_info_ingest_address [wf_intros]:
  "wf_info info \<Longrightarrow> ends_with_p2p a \<Longrightarrow> wf_info (snd (ingest_address now a s info))"
  by (auto simp: ingest_address_def wf_info_def intro: keys_intros split: option.split)

lemma wf_info_push_failure [wf_intros]:
  "wf_info info \<Longrightarrow> wf_info (push_failure a f b info)"
  by (auto simp: push_failure_def wf_info_def Let_def intro: keys_intros)

lemma wf_info_remove_address [wf_intros]:
  "wf_info info \<Longrightarrow> wf_info (info\<lparr>pi_addresses := AList.delete a (pi_addresses info)\<rparr>)"
  by (auto simp: wf_info_def intro: keys_intros)

lemma wf_info_filter_addresses [wf_intros]:
  "wf_info info \<Longrightarrow> wf_info (info\<lparr>pi_addresses := filter P (pi_addresses info)\<rparr>)"
  by (auto simp: wf_info_def intro: keys_intros)

lemma wf_info_insert_connection [wf_intros]:
  "wf_info info \<Longrightarrow> ends_with_p2p a \<Longrightarrow>
     wf_info (info\<lparr>pi_connections := AList.update a c (pi_connections info)\<rparr>)"
  by (auto simp: wf_info_def intro: keys_intros)

lemma wf_info_remove_connection [wf_intros]:
  "wf_info info \<Longrightarrow> wf_info (info\<lparr>pi_connections := AList.delete a (pi_connections info)\<rparr>)"
  by (auto simp: wf_info_def intro: keys_intros)

section \<open>Failure rate\<close>

text \<open>The products stay far below \<open>2 ^ 32\<close>, so the word arithmetic is that of the numbers.\<close>

lemma unat_word32_mult_99:
  "unat (w :: 32 word) \<le> 1000000 \<Longrightarrow> unat (w * 99) = unat w * 99"
  by (simp add: unat_word_ariths)

lemma unat_decayed_rate:
  assumes "unat (w :: 32 word) \<le> 1000000"
  shows "unat (w * 99 div 100) = unat w * 99 div 100"
  using assms by (simp add: unat_div unat_word32_mult_99)

lemma unat_failed_rate:
  assumes "unat (w :: 32 word) \<le> 1000000"
  shows "unat (w * 99 div 100 + 10000) = unat w * 99 div 100 + 10000"
proof -
  have "unat w * 99 div 100 + 10000 < 2 ^ 32" using assms by simp
  then show ?thesis using unat_decayed_rate [OF assms]
    by (simp add: unat_word_ariths)
qed

lemma wf_rtt_register_failure: "wf_rtt r \<Longrightarrow> wf_rtt (rtt_register_failure r)"
  by (auto simp: wf_rtt_def rtt_register_failure_def unat_failed_rate)

text \<open>Uninterrupted failures: each raises the rate by a hundredth of what is missing to one million.\<close>

definition fail_step :: "nat \<Rightarrow> nat" where
  "fail_step x = x * 99 div 100 + 10000"

lemma fail_step_mono: "x \<le> y \<Longrightarrow> fail_step x \<le> fail_step y"
  by (simp add: fail_step_def div_le_mono)

lemma fail_step_fixed: "fail_step 999901 = 999901"
  by (simp add: fail_step_def)

lemma fail_step_grows:
  assumes "x < 999901"
  shows "x < fail_step x"
proof -
  have "x * 99 < x * 99 div 100 * 100 + 100"
    using div_mult_mod_eq [of "x * 99" 100] mod_less_divisor [of 100 "x * 99"] by linarith
  with assms show ?thesis unfolding fail_step_def by linarith
qed

lemma fail_step_bound: "x \<le> 999901 \<Longrightarrow> fail_step x \<le> 999901"
  using fail_step_mono [of x 999901] by (simp add: fail_step_fixed)

lemma fail_steps_bound: "(fail_step ^^ n) 0 \<le> 999901"
  by (induction n) (auto intro: fail_step_bound)

lemma fail_steps_grow: "min n 999901 \<le> (fail_step ^^ n) 0"
proof (induction n)
  case 0
  then show ?case by simp
next
  case (Suc n)
  let ?x = "(fail_step ^^ n) 0"
  show ?case
  proof (cases "?x < 999901")
    case True
    then have "?x < fail_step ?x" by (rule fail_step_grows)
    with Suc True show ?thesis by (simp add: min_def split: if_splits)
  next
    case False
    with fail_steps_bound [of n] have "?x = 999901" by simp
    then show ?thesis by (simp add: fail_step_fixed)
  qed
qed

lemma failure_rate_funpow:
  "unat (failure_rate ((rtt_register_failure ^^ n) (rtt_new d))) = (fail_step ^^ n) 0"
proof (induction n)
  case 0
  then show ?case by (simp add: rtt_new_def)
next
  case (Suc n)
  let ?r = "(rtt_register_failure ^^ n) (rtt_new d)"
  have "unat (failure_rate ?r) \<le> 1000000"
    using Suc fail_steps_bound [of n] by simp
  then have "unat (failure_rate (rtt_register_failure ?r)) =
      fail_step (unat (failure_rate ?r))"
    by (simp add: rtt_register_failure_def unat_failed_rate fail_step_def)
  with Suc show ?case by simp
qed

text \<open>(C38) A peer that only ever fails to answer: the failure rate never exceeds 999901 parts per
  million, and from the 999901st failure on it is exactly that.\<close>

theorem failure_rate_limit:
  "unat (failure_rate ((rtt_register_failure ^^ n) (rtt_new d))) \<le> 999901 \<and>
   (999901 \<le> n \<longrightarrow> unat (failure_rate ((rtt_register_failure ^^ n) (rtt_new d))) = 999901)"
  using fail_steps_bound [of n] fail_steps_grow [of n]
  by (auto simp: failure_rate_funpow min_def intro: le_antisym split: if_splits)

theorem failure_rate_limit_witness:
  "unat (failure_rate ((rtt_register_failure ^^ 1000000) (rtt_new 5))) = 999901"
proof -
  have "999901 \<le> (1000000 :: nat)" by simp
  with failure_rate_limit [of 1000000 5] show ?thesis by blast
qed

section \<open>Moving averages\<close>

lemma ewma_between:
  fixes a b x y :: nat
  assumes "a + b = 10"
  shows "x * a div 10 + y * b div 10 \<le> max x y"
    and "min x y \<le> x * a div 10 + y * b div 10 + 1"
proof -
  have "x * a + y * b \<le> max x y * a + max x y * b"
    by (intro add_mono mult_le_mono1) simp_all
  also have "\<dots> = max x y * 10" using assms by (metis distrib_left)
  finally have upper: "x * a + y * b \<le> max x y * 10" .
  have "min x y * 10 = min x y * a + min x y * b" using assms by (metis distrib_left)
  also have "\<dots> \<le> x * a + y * b"
    by (intro add_mono mult_le_mono1) simp_all
  finally have lower: "min x y * 10 \<le> x * a + y * b" .
  from upper show "x * a div 10 + y * b div 10 \<le> max x y" by linarith
  from lower show "min x y \<le> x * a div 10 + y * b div 10 + 1" by linarith
qed

lemma rtt_register_small:
  assumes "decay_3 r * 9 \<le> duration_max" "decay_10 r * 9 \<le> duration_max"
    and "d * 9 \<le> duration_max"
  shows "rtt_register r d =
    Some (r\<lparr>rtt_current := d,
            decay_3 := decay_3 r * 7 div 10 + d * 3 div 10,
            decay_10 := decay_10 r * 9 div 10 + d div 10,
            rtt_failures := 0, failure_rate := failure_rate r * 99 div 100\<rparr>)"
proof -
  have "decay_3 r * 7 div 10 + d * 3 div 10 \<le> duration_max"
    using ewma_between(1) [of 7 3 "decay_3 r" d] assms by simp
  moreover have "decay_10 r * 9 div 10 + d div 10 \<le> duration_max"
    using ewma_between(1) [of 9 1 "decay_10 r" d] assms by simp
  ultimately show ?thesis using assms
    by (simp add: rtt_register_def dur_mul_def dur_div_def dur_add_def)
qed


lemma wf_rtt_new [simp]: "wf_rtt (rtt_new d) \<longleftrightarrow> d * 9 \<le> duration_max"
  by (simp add: wf_rtt_def rtt_new_def)

lemma wf_rtt_register:
  assumes "wf_rtt r" and "d * 9 \<le> duration_max"
  shows "\<exists>r'. rtt_register r d = Some r' \<and> wf_rtt r'"
proof -
  have "(decay_3 r * 7 div 10 + d * 3 div 10) * 9 \<le> duration_max"
    using ewma_between(1) [of 7 3 "decay_3 r" d] assms by (auto simp: wf_rtt_def)
  moreover have "(decay_10 r * 9 div 10 + d div 10) * 9 \<le> duration_max"
    using ewma_between(1) [of 9 1 "decay_10 r" d] assms by (auto simp: wf_rtt_def)
  ultimately show ?thesis using assms
    by (auto simp: rtt_register_small wf_rtt_def unat_decayed_rate)
qed

lemma wf_info_set_rtt:
  assumes "wf_info info" and "\<And>d. rtt = Some d \<Longrightarrow> d * 9 \<le> duration_max"
  shows "\<exists>info'. info_set_rtt rtt info = Some info' \<and> wf_info info'"
  using assms wf_rtt_register
  by (fastforce simp: info_set_rtt_def wf_info_def intro: wf_rtt_register_failure
      split: option.split)

text \<open>
  Samples of at most \<open>hi\<close>, where nine times \<open>hi\<close> is a representable duration, are steps of a
  total system whose invariant bounds both averages by \<open>hi\<close>.
\<close>

interpretation rtt_samples: total_step_system
  "\<lambda>d r. d \<le> hi \<and> hi * 9 \<le> duration_max" "\<lambda>d r. rtt_register r d"
  "\<lambda>r. wf_rtt r \<and> decay_3 r \<le> hi \<and> decay_10 r \<le> hi" for hi
proof (unfold_locales, goal_cases)
  case (1 r d r')
  then have "decay_3 r * 9 \<le> duration_max" "decay_10 r * 9 \<le> duration_max"
    "d * 9 \<le> duration_max" by auto
  with 1 show ?case
    using ewma_between(1) [of 7 3 "decay_3 r" d] ewma_between(1) [of 9 1 "decay_10 r" d]
    using wf_rtt_register [of r d] by (auto simp: rtt_register_small)
next
  case (2 r d)
  then have "decay_3 r * 9 \<le> duration_max" "decay_10 r * 9 \<le> duration_max"
    "d * 9 \<le> duration_max" by auto
  then show ?case by (simp add: rtt_register_small)
qed

lemma good_run_samples:
  "\<forall>d \<in> set ds. d \<le> hi \<Longrightarrow> hi * 9 \<le> duration_max \<Longrightarrow>
     good_run (\<lambda>d r. d \<le> hi \<and> hi * 9 \<le> duration_max) (\<lambda>d r. rtt_register r d) ds r"
  by (induction ds arbitrary: r) (auto split: option.split)

text \<open>Samples of at most \<open>hi\<close>, where nine times \<open>hi\<close> is a representable duration: feeding any
  number of them to a fresh \<open>Rtt\<close> never panics and keeps both averages within \<open>hi\<close>.\<close>

lemma rtt_samples_bounded:
  assumes "d0 \<le> hi" and "\<forall>d \<in> set ds. d \<le> hi" and "hi * 9 \<le> duration_max"
  shows "\<exists>r. run_steps (\<lambda>d r. rtt_register r d) ds (rtt_new d0) = Some r \<and>
    decay_3 r \<le> hi \<and> decay_10 r \<le> hi \<and> wf_rtt r"
proof -
  have "wf_rtt (rtt_new d0) \<and> decay_3 (rtt_new d0) \<le> hi \<and> decay_10 (rtt_new d0) \<le> hi"
    using assms(1,3) by (simp add: rtt_new_def wf_rtt_def)
  from rtt_samples.run_total [OF this good_run_samples [OF assms(2,3)]]
  show ?thesis by blast
qed

text \<open>One sample: the averages move towards it and do not overshoot, up to one nanosecond.\<close>

lemma rtt_register_between:
  assumes "decay_3 r * 9 \<le> duration_max" "decay_10 r * 9 \<le> duration_max"
    and "d * 9 \<le> duration_max"
  shows "\<exists>r'. rtt_register r d = Some r' \<and> rtt_current r' = d \<and> rtt_failures r' = 0 \<and>
    min (decay_3 r) d \<le> decay_3 r' + 1 \<and> decay_3 r' \<le> max (decay_3 r) d \<and>
    min (decay_10 r) d \<le> decay_10 r' + 1 \<and> decay_10 r' \<le> max (decay_10 r) d"
  using ewma_between [of 7 3 "decay_3 r" d] ewma_between [of 9 1 "decay_10 r" d]
  by (simp add: rtt_register_small [OF assms])

section \<open>Learning addresses\<close>

text \<open>
  The abstract view of the address table is a map from addresses to the best source seen.  A
  sighting raises the source to the maximum of the old and the new one; \<open>ingest_address\<close>
  implements it, with the time of the last sighting beside it.
\<close>

definition sources :: "peer_info \<Rightarrow> multiaddr \<Rightarrow> address_source option" where
  "sources info = (\<lambda>a. map_option fst (map_of (pi_addresses info) a))"

fun learn :: "multiaddr \<times> address_source \<Rightarrow> (multiaddr \<Rightarrow> address_source option) \<Rightarrow>
    multiaddr \<Rightarrow> address_source option" where
  "learn (a, s) m = m(a := Some (case m a of None \<Rightarrow> s | Some t \<Rightarrow> max t s))"

lemma map_of_ingest_address [alist_simps]:
  "map_of (pi_addresses (snd (ingest_address now a s info))) =
     (map_of (pi_addresses info))(a \<mapsto>
       (case map_of (pi_addresses info) a of None \<Rightarrow> (s, now) | Some (t, _) \<Rightarrow> (max t s, now)))"
  by (auto simp: ingest_address_def alist_simps max_def split: option.split)

lemma sources_ingest_address:
  "sources (snd (ingest_address now a s info)) = learn (a, s) (sources info)"
  by (auto simp: sources_def fun_eq_iff alist_simps split: option.split)

lemma fst_ingest_address:
  "fst (ingest_address now a s info) \<longleftrightarrow>
     is_to_probe s \<and> (case sources info a of None \<Rightarrow> True | Some t \<Rightarrow> t < s)"
  by (auto simp: ingest_address_def sources_def not_le split: option.split)

lemma learn_commute: "learn x (learn y m) = learn y (learn x m)"
  by (cases x; cases y) (auto simp: fun_eq_iff max.assoc max.commute max.left_commute split: option.split)

lemma learn_idem: "learn x (learn x m) = learn x m"
  by (cases x) (auto simp: fun_eq_iff split: option.split)

interpretation learning: comp_fun_idem learn
  by unfold_locales (auto simp: fun_eq_iff learn_commute learn_idem)

lemma ingest_address_frame [frame_simps]:
  "pi_connections (snd (ingest_address now a s info)) = pi_connections info"
  "pi_failures (snd (ingest_address now a s info)) = pi_failures info"
  "pi_rtt (snd (ingest_address now a s info)) = pi_rtt info"
  "pi_listeners (snd (ingest_address now a s info)) = pi_listeners info"
  by (auto simp: ingest_address_def split: option.split)

text \<open>A sequence of sightings, each with its time.\<close>

fun ingest_all :: "(time \<times> multiaddr \<times> address_source) list \<Rightarrow> peer_info \<Rightarrow> peer_info" where
  "ingest_all [] info = info"
| "ingest_all ((now, a, s) # xs) info = ingest_all xs (snd (ingest_address now a s info))"

lemma sources_ingest_all: "sources (ingest_all xs info) = fold learn (map snd xs) (sources info)"
  by (induction xs info rule: ingest_all.induct)
    (simp_all add: sources_ingest_address del: learn.simps)

text \<open>(C30) \<open>ingest_address\<close> implements the abstract table: the source of the address becomes the
  maximum of the old and the new one, no other address changes, the sighting is stamped with
  the current time, and the answer is whether the address is to be probed because of it.\<close>

theorem ingest_address_refines:
  "sources (snd (ingest_address now a s info)) = learn (a, s) (sources info) \<and>
   (fst (ingest_address now a s info) \<longleftrightarrow>
      is_to_probe s \<and> (case sources info a of None \<Rightarrow> True | Some t \<Rightarrow> t < s)) \<and>
   map_option snd (map_of (pi_addresses (snd (ingest_address now a s info))) a) = Some now"
  by (auto simp: sources_ingest_address fst_ingest_address alist_simps split: option.split)

text \<open>(C29) What is known about the addresses of a peer does not depend on the order in which, nor on
  how often, they were sighted: two sequences with the same sightings leave the same sources.\<close>

theorem ingest_order_irrelevant:
  assumes "set (map snd xs) = set (map snd ys)"
  shows "sources (ingest_all xs info) = sources (ingest_all ys info)"
proof -
  have "fold learn (map snd xs) m = fold learn (map snd ys) m" for m
    using assms learning.fold_set_fold [where xs = "map snd xs" and y = m]
      learning.fold_set_fold [where xs = "map snd ys" and y = m]
    by simp
  then show ?thesis by (simp add: sources_ingest_all)
qed

theorem ingest_order_irrelevant_witness:
  "sources (ingest_all [(1, [Tcp 1, P2p (PeerHash 3)], Kad), (2, [Tcp 1, P2p (PeerHash 3)], Dial)]
     peer_info_default) =
   sources (ingest_all [(5, [Tcp 1, P2p (PeerHash 3)], Dial), (6, [Tcp 1, P2p (PeerHash 3)], Kad),
     (7, [Tcp 1, P2p (PeerHash 3)], Kad)] peer_info_default)"
  by (rule ingest_order_irrelevant) auto

section \<open>Recent failures\<close>

text \<open>(C31) \<open>push_failure\<close>: the newest failure comes first, at most ten are kept and they are the most
  recent ones; the address is forgotten only if the probe of an unconfirmed (or candidate)
  address failed, and every other address stays.\<close>

theorem push_failure_spec:
  assumes "wf_info info"
  shows "pi_failures (push_failure a f b info) = take 10 (f # pi_failures info) \<and>
    (sources (push_failure a f b info) =
       (if b \<and> (case sources info a of None \<Rightarrow> False | Some s \<Rightarrow> is_to_probe s)
        then (sources info)(a := None) else sources info)) \<and>
    pi_connections (push_failure a f b info) = pi_connections info"
proof -
  have len: "length (pi_failures info) \<le> 10" using assms by (simp add: wf_info_def)
  have "(if 9 < length (pi_failures info) then butlast (pi_failures info)
      else pi_failures info) = take 9 (pi_failures info)"
  proof (cases "9 < length (pi_failures info)")
    case True
    with len have "length (pi_failures info) = 10" by simp
    with True show ?thesis by (simp add: butlast_conv_take)
  qed simp
  then show ?thesis
    by (auto simp: push_failure_def Let_def sources_def alist_simps fun_eq_iff split: option.splits)
qed

theorem push_failure_spec_witness:
  "pi_failures (push_failure [] (failure_us 3 [] [] []) True peer_info_default) =
     take 10 [failure_us 3 [] [] []]"
  using push_failure_spec [of peer_info_default "[]" "failure_us 3 [] [] []" True]
  by (simp add: peer_info_default_def wf_info_def)

end
