(* ===== verification/Address_Book.thy ===== *)
theory Address_Book
  imports Peer_Info
begin

text \<open>
  The address book: \<open>AddressBook\<close> of \<open>src/src/net/peers.rs\<close>, every method and every swarm
  event it handles.

  An operation takes the book and returns the new one; \<open>None\<close> is a panic.  What an operation
  reads from outside the book is the record \<open>env\<close>: the clock (\<open>Utc::now()\<close>), the random
  numbers of \<open>redial_delay\<close>, which channel receivers still exist (the outcome of
  \<open>unbounded_send\<close>), the formatting of libp2p errors, and the iteration order of the hash set
  in \<open>set_info\<close>.  Senders of swarm events are channel numbers, and \<open>sent\<close> records every event
  a receiver has been handed, in order.  \<open>listeners\<close>, \<open>peers\<close> and \<open>external\<close> are the values
  behind the \<open>Writer\<close>s of the same names; this book is their only writer.  The prometheus
  gauges the book maintains are the fields \<open>g_\<dots>\<close> and \<open>c_\<dots>\<close>.
\<close>

section \<open>Data\<close>

type_synonym listener_id = nat
type_synonym channel = nat
type_synonym address_record = "multiaddr \<times> nat option"

datatype event =
    NewListener listener_id
  | NewListenAddr listener_id multiaddr
  | ExpiredListenAddr listener_id multiaddr
  | ListenerError listener_id string
  | ListenerClosed listener_id
  | NewExternalAddr multiaddr
  | ExpiredExternalAddr multiaddr
  | Discovered peer_id
  | DialFailure peer_id multiaddr string
  | Unreachable peer_id
  | ConnectionEstablished peer_id connected_point
  | ConnectionClosed peer_id connected_point
  | AddressChanged peer_id connected_point connected_point
  | Connected peer_id
  | Disconnected peer_id
  | Subscribed peer_id string
  | Unsubscribed peer_id string
  | Bootstrapped
  | NewInfo peer_id

record dial_opts =
  opt_peer :: peer_id
  opt_condition :: peer_condition
  opt_addresses :: "multiaddr list"

text \<open>\<open>ToSwarm::Dial { opts, handler }\<close>, the only action the book issues.\<close>

datatype to_swarm = DialAction dial_opts into_address_handler

datatype 'a poll = Ready 'a | Pending

record address_book =
  port_reuse :: bool
  enable_loopback :: bool
  keep_alive :: bool
  local_peer_id :: peer_id
  listeners :: "multiaddr list"
  peers :: "(peer_id, peer_info) hmap"
  external :: "address_record list"
  refresh_external :: bool
  event_stream :: "channel list"
  actions :: "to_swarm list"
  deferred :: "(duration \<times> to_swarm) list"
  sent :: "(channel \<times> event) list"
  g_listeners :: int
  g_listen_addrs :: int
  g_external_addrs :: int
  c_listener_error :: nat

record env =
  now :: time
  rnd :: "nat \<Rightarrow> 32 word"
  alive :: "channel \<Rightarrow> bool"
  fmt :: formatter
  set_order :: "multiaddr list \<Rightarrow> multiaddr list"

record identify_info =
  id_protocol_version :: string
  id_agent_version :: string
  id_listen_addrs :: "multiaddr list"
  id_protocols :: "string list"

datatype from_swarm =
    SwConnectionEstablished peer_id connected_point nat
  | SwConnectionClosed
  | SwAddressChange peer_id connected_point connected_point
  | SwDialFailure "peer_id option" into_address_handler dial_error
  | SwListenFailure
  | SwNewListener listener_id
  | SwNewListenAddr listener_id multiaddr
  | SwExpiredListenAddr listener_id multiaddr
  | SwListenerError listener_id string
  | SwListenerClosed listener_id
  | SwNewExternalAddr multiaddr
  | SwExpiredExternalAddr multiaddr

section \<open>Helpers\<close>

definition SIM_OPEN_RETRIES :: "8 word" where
  "SIM_OPEN_RETRIES = 10"

definition diff_time :: "time \<Rightarrow> time \<Rightarrow> duration" where
  "diff_time former latter = (if latter < former then 0 else nat (latter - former))"

text \<open>
  \<open>Duration::from_secs(1) * rand::random::<u32>() / u32::MAX\<close>, plus a second with port reuse.
\<close>

definition redial_delay :: "bool \<Rightarrow> 32 word \<Rightarrow> duration option" where
  "redial_delay reuse r =
     do { m \<leftarrow> dur_mul (from_secs 1) (unat r);
          d \<leftarrow> dur_div m (2 ^ 32 - 1);
          dur_add d (if reuse then from_secs 1 else 0) }"

fun is_sim_open_net :: "net_error \<Rightarrow> bool" where
  "is_sim_open_net (NetOther (StackA (AuthB (UpgradeApply (NoiseIo (IoError kind _)))))) =
     (kind = InvalidData)"
| "is_sim_open_net _ = False"

fun is_sim_open :: "transport_error \<Rightarrow> bool" where
  "is_sim_open (MultiaddrNotSupported _) = False"
| "is_sim_open (TransportOther (IoError _ (Some (BoxedDns (DnsTransport (IoError _ (Some (BoxedNet e)))))))) =
     is_sim_open_net e"
| "is_sim_open (TransportOther _) = False"

text \<open>\<open>new_handler\<close>: the handler of a connection the book did not dial itself.\<close>

definition new_handler :: "address_book \<Rightarrow> into_address_handler" where
  "new_handler b = IntoAddressHandler None (keep_alive b)"

definition push_action :: "to_swarm \<Rightarrow> address_book \<Rightarrow> address_book" where
  "push_action a b = b\<lparr>actions := actions b @ [a]\<rparr>"

definition peer_entry :: "address_book \<Rightarrow> peer_id \<Rightarrow> peer_info" where
  "peer_entry b p = (case map_of (peers b) p of None \<Rightarrow> peer_info_default | Some info \<Rightarrow> info)"

definition put_peer :: "peer_id \<Rightarrow> peer_info \<Rightarrow> address_book \<Rightarrow> address_book" where
  "put_peer p info b = b\<lparr>peers := AList.update p info (peers b)\<rparr>"

section \<open>Methods\<close>

definition address_book_new ::
  "peer_id \<Rightarrow> bool \<Rightarrow> bool \<Rightarrow> bool \<Rightarrow> address_book" where
  "address_book_new local reuse loopback keep =
     \<lparr>port_reuse = reuse, enable_loopback = loopback, keep_alive = keep, local_peer_id = local,
      listeners = [], peers = [], external = [], refresh_external = True, event_stream = [],
      actions = [], deferred = [], sent = [],
      g_listeners = 0, g_listen_addrs = 0, g_external_addrs = 0, c_listener_error = 0\<rparr>"

definition swarm_events :: "channel \<Rightarrow> address_book \<Rightarrow> address_book" where
  "swarm_events tx b = b\<lparr>event_stream := event_stream b @ [tx]\<rparr>"

definition notify :: "env \<Rightarrow> event \<Rightarrow> address_book \<Rightarrow> address_book" where
  "notify E ev b =
     (let open_tx = filter (alive E) (event_stream b)
      in b\<lparr>event_stream := open_tx, sent := sent b @ map (\<lambda>tx. (tx, ev)) open_tx\<rparr>)"

definition dial :: "peer_id \<Rightarrow> address_book \<Rightarrow> address_book" where
  "dial peer b =
     (if peer = local_peer_id b then b
      else push_action
        (DialAction \<lparr>opt_peer = peer, opt_condition = CondDefault, opt_addresses = []\<rparr>
           (new_handler b)) b)"

definition dial_address :: "peer_id \<Rightarrow> multiaddr \<Rightarrow> address_book \<Rightarrow> address_book" where
  "dial_address peer addr b =
     (if peer = local_peer_id b then b
      else
        let target = normalized addr peer;
            info = peer_entry b peer;
            b = put_peer peer info b
        in if contains_key (pi_connections info) target then b
           else push_action
             (DialAction \<lparr>opt_peer = peer, opt_condition = CondDefault, opt_addresses = [addr]\<rparr>
                (IntoAddressHandler (Some (target, SIM_OPEN_RETRIES + 1)) (keep_alive b))) b)"

definition add_address ::
  "env \<Rightarrow> peer_id \<Rightarrow> multiaddr \<Rightarrow> address_source \<Rightarrow> address_book \<Rightarrow> address_book" where
  "add_address E peer address source b =
     (if peer = local_peer_id b then b
      else if \<not> enable_loopback b \<and> is_loopback address then b
      else
        let discovered =
              (case map_of (peers b) peer of
                 None \<Rightarrow> True
               | Some info \<Rightarrow> confirmed_addresses info = []);
            (addr_full, address) =
              (case normalize_addr_ref address peer of
                 Borrowed a \<Rightarrow> (a, pop_protocol address)
               | Owned a \<Rightarrow> (a, address))
        in if address \<in> set (listeners b) then b
           else
             let (ingested, info) = ingest_address (now E) addr_full source (peer_entry b peer);
                 result = (ingested \<and> \<not> contains_key (pi_connections info) addr_full);
                 b = put_peer peer info b;
                 b = (if result
                      then push_action
                        (DialAction
                           \<lparr>opt_peer = peer, opt_condition = CondAlways, opt_addresses = [address]\<rparr>
                           (IntoAddressHandler (Some (addr_full, SIM_OPEN_RETRIES + 1)) False)) b
                      else b);
                 b = (if discovered \<and> is_confirmed source then notify E (Discovered peer) b else b)
             in notify E (NewInfo peer) b)"

definition remove_address :: "peer_id \<Rightarrow> multiaddr \<Rightarrow> address_book \<Rightarrow> address_book" where
  "remove_address peer address b =
     (case map_of (peers b) peer of
        None \<Rightarrow> b
      | Some info \<Rightarrow>
          put_peer peer
            (info\<lparr>pi_addresses := AList.delete (normalized address peer) (pi_addresses info)\<rparr>) b)"

text \<open>The body of the loop of \<open>prune_peers\<close>: whether it reaches a \<open>continue\<close>.\<close>

definition prune_keeps :: "time \<Rightarrow> duration \<Rightarrow> peer_info \<Rightarrow> bool" where
  "prune_keeps t min_age info =
     (if pi_connections info \<noteq> [] then True
      else if (case pi_failures info of
                 [] \<Rightarrow> False
               | f # _ \<Rightarrow> diff_time (cf_time f) t < min_age) then True
      else list_ex (\<lambda>(a, s, dt). is_confirmed s \<or>
             (is_to_probe s \<and> diff_time dt t < max min_age (from_secs 10))) (pi_addresses info))"

fun prune_remove :: "env \<Rightarrow> peer_id list \<Rightarrow> address_book \<Rightarrow> address_book" where
  "prune_remove E [] b = b"
| "prune_remove E (peer # ps) b =
     prune_remove E ps (notify E (NewInfo peer) (b\<lparr>peers := AList.delete peer (peers b)\<rparr>))"

definition prune_peers :: "env \<Rightarrow> duration \<Rightarrow> address_book \<Rightarrow> address_book" where
  "prune_peers E min_age b =
     prune_remove E
       (map fst (filter (\<lambda>(peer, info). \<not> prune_keeps (now E) min_age info) (peers b))) b"

fun close_reason :: "connection_error option \<Rightarrow> string \<times> bool" where
  "close_reason (Some (ConnHandler (KademliaError e))) = (''Kademlia I/O error: '' @ e, False)"
| "close_reason (Some (ConnHandler (PingFailure e))) = (''Ping failure: '' @ e, False)"
| "close_reason (Some (ConnHandler (IdentifyError e))) = (''Identify I/O error: '' @ e, False)"
| "close_reason (Some (ConnHandler (BitswapError e))) = (''Bitswap error: '' @ e, False)"
| "close_reason (Some (ConnHandler (GossipsubError e))) = (''Gossipsub error: '' @ e, False)"
| "close_reason (Some (ConnHandler (BroadcastError e))) = (''Broadcast error: '' @ e, False)"
| "close_reason (Some (ConnIO e)) = (''connection I/O error: '' @ e, True)"
| "close_reason (Some KeepAliveTimeout) = (''we closed due to missing keepalive'', False)"
| "close_reason None = (''we closed'', False)"

definition connection_closed ::
  "env \<Rightarrow> peer_id \<Rightarrow> connected_point \<Rightarrow> nat \<Rightarrow> connection_error option \<Rightarrow>
     address_book \<Rightarrow> address_book" where
  "connection_closed E peer conn num_established error b =
     (let conn = normalize_connected_point conn (local_peer_id b) peer;
          addr = get_remote_address conn;
          debug = debug_close (fmt E) error;
          (reason, peer_closed) = close_reason error;
          entry = peer_entry b peer;
          entry = entry\<lparr>pi_connections := AList.delete addr (pi_connections entry)\<rparr>;
          addr_no_peer = without_peer_id addr;
          failure = (if peer_closed then failure_them (now E) addr_no_peer reason debug
                     else failure_us (now E) addr_no_peer reason debug);
          b = put_peer peer (push_failure addr failure False entry) b;
          b = notify E (ConnectionClosed peer conn) b;
          b = (if num_established = 0 then notify E (Disconnected peer) b else b)
      in notify E (NewInfo peer) b)"

definition set_rtt :: "env \<Rightarrow> peer_id \<Rightarrow> duration option \<Rightarrow> address_book \<Rightarrow> address_book option" where
  "set_rtt E peer rtt b =
     (case map_of (peers b) peer of
        None \<Rightarrow> Some b
      | Some info \<Rightarrow>
          do { info' \<leftarrow> info_set_rtt rtt info;
               Some (notify E (NewInfo peer) (put_peer peer info' b)) })"


text \<open>
  \<open>set_info\<close>: the ports the peer listens on, the translation of the remote addresses of
  incoming connections to them, and the probing of what results.
\<close>

definition listen_ports :: "peer_id \<Rightarrow> peer_info \<Rightarrow> (ip_addr \<times> port) list" where
  "listen_ports peer info =
     List.map_filter ip_port
       (filter (\<lambda>a. \<not> contains_key (pi_connections info) (normalized a peer)) (pi_listeners info))"

definition translate_address ::
  "(ip_addr \<times> port) list \<Rightarrow> multiaddr \<Rightarrow> multiaddr list option" where
  "translate_address listen_port addr =
     (case ip_port addr of
        None \<Rightarrow> Some []
      | Some (ip, _) \<Rightarrow>
          let lps = filter (\<lambda>(a, _). a = ip) listen_port;
              common_port = remdups (map snd listen_port)
          in if lps \<noteq> []
             then those (map (\<lambda>(_, lp). replace_protocol addr 1 (\<lambda>_. Some (Tcp lp))) lps)
             else if common_port \<noteq> []
             then those (map (\<lambda>cp. replace_protocol addr 1 (\<lambda>_. Some (Tcp cp))) common_port)
             else Some [addr])"

fun translate_all :: "(ip_addr \<times> port) list \<Rightarrow> multiaddr list \<Rightarrow> multiaddr list option" where
  "translate_all lp [] = Some []"
| "translate_all lp (a # as) =
     do { xs \<leftarrow> translate_address lp a; ys \<leftarrow> translate_all lp as; Some (xs @ ys) }"

fun probe_translated ::
  "env \<Rightarrow> peer_id \<Rightarrow> multiaddr list \<Rightarrow> address_book \<Rightarrow> peer_info \<Rightarrow> address_book \<times> peer_info" where
  "probe_translated E peer [] b info = (b, info)"
| "probe_translated E peer (addr # addrs) b info =
     (let tcp = pop_protocol addr
      in if tcp \<in> set (listeners b) then probe_translated E peer addrs b info
         else
           let (ingested, info) = ingest_address (now E) addr Listen info
           in if \<not> ingested then probe_translated E peer addrs b info
              else if port_reuse b \<and> contains_key (pi_connections info) addr
              then probe_translated E peer addrs b (snd (ingest_address (now E) addr Candidate info))
              else probe_translated E peer addrs
                (push_action
                   (DialAction
                      \<lparr>opt_peer = peer, opt_condition = CondAlways, opt_addresses = [tcp]\<rparr>
                      (IntoAddressHandler (Some (addr, 4)) False)) b) info)"

definition store_identify :: "identify_info \<Rightarrow> peer_info \<Rightarrow> peer_info" where
  "store_identify identify info =
     info\<lparr>pi_protocol_version := Some (id_protocol_version identify),
          pi_agent_version := Some (id_agent_version identify),
          pi_protocols := id_protocols identify,
          pi_listeners := id_listen_addrs identify\<rparr>"

definition drop_translated :: "peer_info \<Rightarrow> peer_info" where
  "drop_translated info =
     info\<lparr>pi_addresses := filter (\<lambda>(_, s, _). \<not> is_to_translate s) (pi_addresses info)\<rparr>"

definition listening_addresses :: "bool \<Rightarrow> peer_id \<Rightarrow> peer_info \<Rightarrow> multiaddr list" where
  "listening_addresses loopback peer info =
     map (\<lambda>a. normalized a peer) (filter (\<lambda>a. loopback \<or> \<not> is_loopback a) (pi_listeners info))"

definition set_info ::
  "env \<Rightarrow> peer_id \<Rightarrow> identify_info \<Rightarrow> address_book \<Rightarrow> address_book option" where
  "set_info E peer identify b =
     (case map_of (peers b) peer of
        None \<Rightarrow> Some b
      | Some info \<Rightarrow>
          let info = store_identify identify info
          in do { translated \<leftarrow> translate_all (listen_ports peer info) (addresses_to_translate info);
                  let info = drop_translated info;
                  let translated = remdups
                        (translated @ listening_addresses (enable_loopback b) peer info);
                  let (b, info) = probe_translated E peer (set_order E translated) b info;
                  Some (notify E (NewInfo peer) (put_peer peer info b)) })"

text \<open>
  \<open>dial_failure\<close>: a failed dial of the book's own (a validation dial, which carries its
  address in the handler) and one of somebody else.
\<close>

definition push_deferred :: "nat \<Rightarrow> env \<Rightarrow> to_swarm \<Rightarrow> address_book \<Rightarrow> address_book option" where
  "push_deferred i E action b =
     do { d \<leftarrow> redial_delay (port_reuse b) (rnd E i);
          Some (b\<lparr>deferred := deferred b @ [(d, action)]\<rparr>) }"

fun push_all_deferred :: "nat \<Rightarrow> env \<Rightarrow> to_swarm list \<Rightarrow> address_book \<Rightarrow> address_book option" where
  "push_all_deferred i E [] b = Some b"
| "push_all_deferred i E (a # as) b =
     do { b' \<leftarrow> push_deferred i E a b; push_all_deferred (Suc i) E as b' }"

fun is_transport :: "dial_error \<Rightarrow> bool" where
  "is_transport (Transport _) = True"
| "is_transport _ = False"

fun is_wrong_peer :: "dial_error \<Rightarrow> bool" where
  "is_wrong_peer (WrongPeerId _ _) = True"
| "is_wrong_peer _ = False"

fun is_connection_io :: "dial_error \<Rightarrow> bool" where
  "is_connection_io (ConnectionIo _) = True"
| "is_connection_io _ = False"

definition dial_error_sim_open :: "dial_error \<Rightarrow> bool" where
  "dial_error_sim_open e = (case e of Transport v \<Rightarrow> list_ex (\<lambda>(_, t). is_sim_open t) v | _ \<Rightarrow> False)"

definition own_dial_failure ::
  "env \<Rightarrow> peer_id \<Rightarrow> multiaddr \<Rightarrow> 8 word \<Rightarrow> bool \<Rightarrow> dial_error \<Rightarrow> peer_info \<Rightarrow>
     address_book \<Rightarrow> address_book option" where
  "own_dial_failure E peer addr retries keep error info b =
     (let transport = is_transport error;
          wrong_peer = is_wrong_peer error;
          probe_result = (transport \<or> wrong_peer \<or> is_connection_io error);
          failure = failure_dial (fmt E) (now E) (without_peer_id addr) error;
          info = push_failure addr failure probe_result info;
          info = (if wrong_peer
                  then info\<lparr>pi_addresses := AList.delete addr (pi_addresses info)\<rparr> else info);
          b = put_peer peer info b
      in do { b \<leftarrow> (if dial_error_sim_open error \<and> 0 < retries
                    then push_deferred 0 E
                      (DialAction
                         \<lparr>opt_peer = peer, opt_condition = CondDefault, opt_addresses = [addr]\<rparr>
                         (IntoAddressHandler (Some (addr, retries - 1)) keep)) b
                    else Some b);
              Some (notify E (NewInfo peer)
                     (notify E (DialFailure peer addr (show_dial (fmt E) error)) b)) })"

fun transport_failures ::
  "env \<Rightarrow> peer_id \<Rightarrow> (multiaddr \<times> transport_error) list \<Rightarrow> peer_info \<Rightarrow> peer_info" where
  "transport_failures E peer [] info = info"
| "transport_failures E peer ((addr, error) # v) info =
     transport_failures E peer v
       (push_failure (normalized addr peer)
          (failure_transport (fmt E) (now E) (without_peer_id addr) error) True info)"

definition transport_redials ::
  "peer_id \<Rightarrow> bool \<Rightarrow> (multiaddr \<times> transport_error) list \<Rightarrow> to_swarm list" where
  "transport_redials peer keep v =
     map (\<lambda>(addr, _).
            DialAction \<lparr>opt_peer = peer, opt_condition = CondDefault, opt_addresses = [addr]\<rparr>
              (IntoAddressHandler (Some (addr, SIM_OPEN_RETRIES)) keep))
       (filter (\<lambda>(_, e). is_sim_open e) v)"

fun notify_all :: "env \<Rightarrow> event list \<Rightarrow> address_book \<Rightarrow> address_book" where
  "notify_all E [] b = b"
| "notify_all E (ev # evs) b = notify_all E evs (notify E ev b)"

definition transport_dial_failure ::
  "env \<Rightarrow> peer_id \<Rightarrow> (multiaddr \<times> transport_error) list \<Rightarrow> peer_info \<Rightarrow>
     address_book \<Rightarrow> address_book option" where
  "transport_dial_failure E peer v info b =
     (let events = map (\<lambda>(addr, e). DialFailure peer addr (debug_transport (fmt E) e)) v;
          redials = transport_redials peer (keep_alive b) v;
          b = put_peer peer (transport_failures E peer v info) b;
          b = notify_all E events b;
          b = (if redials = [] then notify E (Unreachable peer) b else b)
      in do { b \<leftarrow> push_all_deferred 0 E redials b;
              Some (notify E (NewInfo peer) b) })"

definition dial_failure ::
  "env \<Rightarrow> into_address_handler \<Rightarrow> peer_id option \<Rightarrow> dial_error \<Rightarrow>
     address_book \<Rightarrow> address_book option" where
  "dial_failure E handler peer error b =
     (case (case handler_peer_id handler of Some p \<Rightarrow> Some p | None \<Rightarrow> peer) of
        None \<Rightarrow> Some b
      | Some peer \<Rightarrow>
          (case map_of (peers b) peer of
             None \<Rightarrow> Some b
           | Some info \<Rightarrow>
               (case (handler, error) of
                  (IntoAddressHandler (Some (addr, retries)) keep, _) \<Rightarrow>
                    own_dial_failure E peer addr retries keep error info b
                | (_, Transport v) \<Rightarrow> transport_dial_failure E peer v info b
                | (_, DialPeerConditionFalse _) \<Rightarrow> Some b
                | (_, Banned) \<Rightarrow> Some b
                | (_, LocalPeerId) \<Rightarrow> Some b
                | _ \<Rightarrow> Some (notify E (Unreachable peer) b))))"

section \<open>Swarm events and polling\<close>

definition connection_source :: "connected_point \<Rightarrow> address_source" where
  "connection_source conn = (if is_dialer conn then Dial else Incoming)"

definition on_connection_established ::
  "env \<Rightarrow> peer_id \<Rightarrow> connected_point \<Rightarrow> nat \<Rightarrow> address_book \<Rightarrow> address_book" where
  "on_connection_established E peer endpoint other_established b =
     (let conn = normalize_connected_point endpoint (local_peer_id b) peer;
          address = get_remote_address conn;
          b = add_address E peer address (connection_source conn) b;
          info = peer_entry b peer;
          b = put_peer peer
                (info\<lparr>pi_connections :=
                   AList.update address (now E, direction_from conn) (pi_connections info)\<rparr>) b;
          b = (if other_established = 0 then notify E (Connected peer) b else b)
      in notify E (ConnectionEstablished peer conn) b)"

definition on_address_change ::
  "env \<Rightarrow> peer_id \<Rightarrow> connected_point \<Rightarrow> connected_point \<Rightarrow> address_book \<Rightarrow> address_book" where
  "on_address_change E peer old new b =
     (let old = normalize_connected_point old (local_peer_id b) peer;
          new = normalize_connected_point new (local_peer_id b) peer;
          b = add_address E peer (get_remote_address new) (connection_source new) b;
          info = peer_entry b peer;
          b = put_peer peer
                (info\<lparr>pi_connections :=
                   AList.update (get_remote_address new) (now E, direction_from new)
                     (AList.delete (get_remote_address old) (pi_connections info))\<rparr>) b
      in notify E (AddressChanged peer old new) b)"

definition on_new_listen_addr :: "env \<Rightarrow> listener_id \<Rightarrow> multiaddr \<Rightarrow> address_book \<Rightarrow> address_book" where
  "on_new_listen_addr E l addr b =
     notify E (NewListenAddr l addr)
       (if addr \<in> set (listeners b) then b
        else b\<lparr>listeners := List.insert addr (listeners b), g_listen_addrs := g_listen_addrs b + 1\<rparr>)"

definition on_expired_listen_addr ::
  "env \<Rightarrow> listener_id \<Rightarrow> multiaddr \<Rightarrow> address_book \<Rightarrow> address_book" where
  "on_expired_listen_addr E l addr b =
     notify E (ExpiredListenAddr l addr)
       (if addr \<in> set (listeners b)
        then b\<lparr>listeners := removeAll addr (listeners b), g_listen_addrs := g_listen_addrs b - 1\<rparr>
        else b)"

fun on_swarm_event :: "env \<Rightarrow> from_swarm \<Rightarrow> address_book \<Rightarrow> address_book option" where
  "on_swarm_event E (SwConnectionEstablished peer endpoint other) b =
     Some (on_connection_established E peer endpoint other b)"
| "on_swarm_event E SwConnectionClosed b = Some b"
| "on_swarm_event E (SwAddressChange peer old new) b = Some (on_address_change E peer old new b)"
| "on_swarm_event E (SwDialFailure peer handler error) b = dial_failure E handler peer error b"
| "on_swarm_event E SwListenFailure b = Some b"
| "on_swarm_event E (SwNewListener l) b =
     Some (notify E (NewListener l) (b\<lparr>g_listeners := g_listeners b + 1\<rparr>))"
| "on_swarm_event E (SwNewListenAddr l addr) b = Some (on_new_listen_addr E l addr b)"
| "on_swarm_event E (SwExpiredListenAddr l addr) b = Some (on_expired_listen_addr E l addr b)"
| "on_swarm_event E (SwListenerError l err) b =
     Some (notify E (ListenerError l err) (b\<lparr>c_listener_error := c_listener_error b + 1\<rparr>))"
| "on_swarm_event E (SwListenerClosed l) b =
     Some (notify E (ListenerClosed l) (b\<lparr>g_listeners := g_listeners b - 1\<rparr>))"
| "on_swarm_event E (SwNewExternalAddr addr) b =
     Some (notify E (NewExternalAddr (normalize_addr addr (local_peer_id b)))
       (b\<lparr>refresh_external := True, g_external_addrs := g_external_addrs b + 1\<rparr>))"
| "on_swarm_event E (SwExpiredExternalAddr addr) b =
     Some (notify E (ExpiredExternalAddr (normalize_addr addr (local_peer_id b)))
       (b\<lparr>refresh_external := True, g_external_addrs := g_external_addrs b - 1\<rparr>))"

text \<open>
  \<open>poll\<close>: \<open>ext\<close> are the external addresses the swarm reports, \<open>elapsed\<close> is the deferred dial
  whose timer the executor found elapsed, if any.
\<close>

definition poll_book ::
  "address_record list \<Rightarrow> nat option \<Rightarrow> address_book \<Rightarrow> to_swarm poll \<times> address_book" where
  "poll_book ext elapsed b =
     (let b = (if refresh_external b then b\<lparr>refresh_external := False, external := ext\<rparr> else b)
      in case actions b of
           action # rest \<Rightarrow> (Ready action, b\<lparr>actions := rest\<rparr>)
         | [] \<Rightarrow>
             (case elapsed of
                Some i \<Rightarrow>
                  if i < length (deferred b)
                  then (Ready (snd (deferred b ! i)),
                        b\<lparr>deferred := take i (deferred b) @ drop (Suc i) (deferred b)\<rparr>)
                  else (Pending, b)
              | None \<Rightarrow> (Pending, b)))"

end
