(* ===== verification/Address_Book_Inv.thy ===== *)
theory Address_Book_Inv
  imports Address_Book
begin

text \<open>
  The invariant of the address book and that every method and every swarm event keeps it
  without panicking.  The locale \<open>book_method\<close> is the contract a method of the book offers to
  the behaviour that calls it; each method is an interpretation of it, and \<open>book_step\<close>
  gathers them into one system.
\<close>

section \<open>The invariant\<close>

fun wf_action :: "peer_id \<Rightarrow> to_swarm \<Rightarrow> bool" where
  "wf_action local (DialAction opts (IntoAddressHandler own keep)) \<longleftrightarrow>
     opt_peer opts \<noteq> local \<and>
     (case own of None \<Rightarrow> True | Some (_, retries) \<Rightarrow> retries \<le> SIM_OPEN_RETRIES + 1)"

definition wf_book :: "address_book \<Rightarrow> bool" where
  "wf_book b \<longleftrightarrow>
     distinct (keys (peers b)) \<and>
     all_values (\<lambda>p info. p \<noteq> local_peer_id b \<and> wf_info info) (peers b) \<and>
     distinct (listeners b) \<and>
     g_listen_addrs b = int (length (listeners b)) \<and>
     list_all (wf_action (local_peer_id b)) (actions b) \<and>
     list_all (\<lambda>(d, a). d \<le> from_secs 2 \<and> wf_action (local_peer_id b) a) (deferred b)"

definition book_config :: "address_book \<Rightarrow> bool \<times> bool \<times> bool \<times> peer_id" where
  "book_config b = (port_reuse b, enable_loopback b, keep_alive b, local_peer_id b)"

section \<open>What the helpers leave alone\<close>

lemma notify_frame [simp]:
  "port_reuse (notify E ev b) = port_reuse b"
  "enable_loopback (notify E ev b) = enable_loopback b"
  "keep_alive (notify E ev b) = keep_alive b"
  "local_peer_id (notify E ev b) = local_peer_id b"
  "listeners (notify E ev b) = listeners b"
  "peers (notify E ev b) = peers b"
  "external (notify E ev b) = external b"
  "refresh_external (notify E ev b) = refresh_external b"
  "actions (notify E ev b) = actions b"
  "deferred (notify E ev b) = deferred b"
  "g_listeners (notify E ev b) = g_listeners b"
  "g_listen_addrs (notify E ev b) = g_listen_addrs b"
  "g_external_addrs (notify E ev b) = g_external_addrs b"
  "c_listener_error (notify E ev b) = c_listener_error b"
  by (simp_all add: notify_def Let_def)

lemma push_action_frame [simp]:
  "port_reuse (push_action a b) = port_reuse b"
  "enable_loopback (push_action a b) = enable_loopback b"
  "keep_alive (push_action a b) = keep_alive b"
  "local_peer_id (push_action a b) = local_peer_id b"
  "listeners (push_action a b) = listeners b"
  "peers (push_action a b) = peers b"
  "event_stream (push_action a b) = event_stream b"
  "deferred (push_action a b) = deferred b"
  "sent (push_action a b) = sent b"
  "g_listen_addrs (push_action a b) = g_listen_addrs b"
  "actions (push_action a b) = actions b @ [a]"
  by (simp_all add: push_action_def)

lemma put_peer_frame [simp]:
  "port_reuse (put_peer p i b) = port_reuse b"
  "enable_loopback (put_peer p i b) = enable_loopback b"
  "keep_alive (put_peer p i b) = keep_alive b"
  "local_peer_id (put_peer p i b) = local_peer_id b"
  "listeners (put_peer p i b) = listeners b"
  "event_stream (put_peer p i b) = event_stream b"
  "actions (put_peer p i b) = actions b"
  "deferred (put_peer p i b) = deferred b"
  "sent (put_peer p i b) = sent b"
  "g_listen_addrs (put_peer p i b) = g_listen_addrs b"
  "peers (put_peer p i b) = AList.update p i (peers b)"
  by (simp_all add: put_peer_def)

lemma wf_book_notify [simp]: "wf_book (notify E ev b) = wf_book b"
  by (simp add: wf_book_def)

lemma wf_book_notify_all [simp]: "wf_book (notify_all E evs b) = wf_book b"
  by (induction evs arbitrary: b) simp_all

lemma wf_book_push_action [wf_intros]:
  "wf_book b \<Longrightarrow> wf_action (local_peer_id b) a \<Longrightarrow> wf_book (push_action a b)"
  by (simp add: wf_book_def)

lemma wf_book_put_peer [wf_intros]:
  "wf_book b \<Longrightarrow> p \<noteq> local_peer_id b \<Longrightarrow> wf_info i \<Longrightarrow> wf_book (put_peer p i b)"
  by (simp add: wf_book_def distinct_keys_update all_values_update)

lemma wf_book_peer:
  "wf_book b \<Longrightarrow> map_of (peers b) p = Some i \<Longrightarrow> wf_info i \<and> p \<noteq> local_peer_id b"
  unfolding wf_book_def using all_valuesD by fastforce

lemma wf_peer_entry [wf_intros]: "wf_book b \<Longrightarrow> wf_info (peer_entry b p)"
  by (auto simp: peer_entry_def dest: wf_book_peer split: option.split)

section \<open>The contract of a method\<close>

definition log_grows :: "address_book \<Rightarrow> address_book \<Rightarrow> bool" where
  "log_grows b b' \<longleftrightarrow> (\<exists>l. sent b' = sent b @ l)"

lemma log_grows_refl [simp]: "log_grows b b"
  by (simp add: log_grows_def)

lemma log_grows_trans: "log_grows a b \<Longrightarrow> log_grows b c \<Longrightarrow> log_grows a c"
  by (auto simp: log_grows_def)

lemma log_grows_same: "sent b' = sent b \<Longrightarrow> log_grows b b'"
  by (simp add: log_grows_def)

lemma log_grows_notify: "log_grows b (notify E ev b)"
  by (simp add: log_grows_def notify_def Let_def)

text \<open>Every operation of the book changes it through these; the book they started from is \<open>b0\<close>.\<close>

definition evolves :: "address_book \<Rightarrow> address_book \<Rightarrow> bool" where
  "evolves b0 b \<longleftrightarrow> book_config b = book_config b0 \<and> log_grows b0 b"

lemma evolves_refl [simp]: "evolves b b"
  by (simp add: evolves_def)

lemma evolves_trans: "evolves a b \<Longrightarrow> evolves b c \<Longrightarrow> evolves a c"
  by (auto simp: evolves_def intro: log_grows_trans)

lemma evolves_notify [simp]: "evolves b0 b \<Longrightarrow> evolves b0 (notify E ev b)"
  by (auto simp: evolves_def book_config_def intro: log_grows_trans log_grows_notify)

lemma evolves_notify_all [simp]: "evolves b0 b \<Longrightarrow> evolves b0 (notify_all E evs b)"
  by (induction evs arbitrary: b) simp_all

lemma evolves_push_action [simp]: "evolves b0 (push_action a b) = evolves b0 b"
  by (simp add: evolves_def book_config_def log_grows_def)

lemma evolves_put_peer [simp]: "evolves b0 (put_peer p i b) = evolves b0 b"
  by (simp add: evolves_def book_config_def log_grows_def)

locale book_method = total_step_system good f wf_book
  for good :: "'x \<Rightarrow> address_book \<Rightarrow> bool" and f :: "'x \<Rightarrow> address_book \<Rightarrow> address_book option" +
  assumes evolving: "f x b = Some b' \<Longrightarrow> evolves b b'"
begin

lemma run_evolves: "run_steps f xs b = Some b' \<Longrightarrow> evolves b b'"
proof (induction xs arbitrary: b)
  case Nil
  then show ?case by simp
next
  case (Cons x xs)
  then obtain c where "f x b = Some c" "run_steps f xs c = Some b'"
    by (auto split: option.splits)
  with Cons.IH show ?case by (auto intro: evolves_trans evolving)
qed

end

section \<open>The methods\<close>

lemma retries_ok: "SIM_OPEN_RETRIES \<le> SIM_OPEN_RETRIES + 1" "(4 :: 8 word) \<le> SIM_OPEN_RETRIES + 1"
  by (simp_all add: SIM_OPEN_RETRIES_def)

interpretation book_notify: book_method "\<lambda>_ _. True" "\<lambda>(E, ev) b. Some (notify E ev b)"
  by unfold_locales auto

interpretation book_swarm_events: book_method "\<lambda>_ _. True" "\<lambda>tx b. Some (swarm_events tx b)"
  by unfold_locales
    (auto simp: swarm_events_def wf_book_def evolves_def book_config_def log_grows_def)

interpretation book_dial: book_method "\<lambda>_ _. True" "\<lambda>p b. Some (dial p b)"
  by unfold_locales (auto simp: dial_def new_handler_def intro!: wf_book_push_action)

lemma wf_book_dial_address [wf_intros]: "wf_book b \<Longrightarrow> wf_book (dial_address p a b)"
  by (auto simp: dial_address_def Let_def intro!: wf_intros)

lemma evolves_dial_address [simp]: "evolves b0 b \<Longrightarrow> evolves b0 (dial_address p a b)"
  by (simp add: dial_address_def Let_def)

interpretation book_dial_address: book_method "\<lambda>_ _. True" "\<lambda>(p, a) b. Some (dial_address p a b)"
  by unfold_locales (auto intro: wf_intros)

text \<open>\<open>add_address\<close> ignores an address or records it; the two cases, the second spelled out.\<close>

definition accepts :: "address_book \<Rightarrow> peer_id \<Rightarrow> multiaddr \<Rightarrow> bool" where
  "accepts b p a \<longleftrightarrow>
     p \<noteq> local_peer_id b \<and> (enable_loopback b \<or> \<not> is_loopback a) \<and>
     without_peer_id a \<notin> set (listeners b)"

definition validation_dial :: "peer_id \<Rightarrow> multiaddr \<Rightarrow> 8 word \<Rightarrow> to_swarm" where
  "validation_dial p a n =
     DialAction \<lparr>opt_peer = p, opt_condition = CondAlways, opt_addresses = [without_peer_id a]\<rparr>
       (IntoAddressHandler (Some (normalized a p, n)) False)"

lemma normalize_addr_ref_cases:
  "(case normalize_addr_ref a p of Borrowed x \<Rightarrow> (x, pop_protocol a) | Owned x \<Rightarrow> (x, a)) =
     (normalized a p, without_peer_id a)"
  by (simp add: normalize_addr_ref_def without_peer_id_def)

lemma discovered_eq:
  "(case map_of (peers b) p of None \<Rightarrow> True | Some info \<Rightarrow> confirmed_addresses info = []) \<longleftrightarrow>
     confirmed_addresses (peer_entry b p) = []"
  by (simp add: peer_entry_def peer_info_default_def confirmed_addresses_def split: option.split)

lemma add_address_ignored: "\<not> accepts b p a \<Longrightarrow> add_address E p a s b = b"
  by (auto simp: add_address_def accepts_def normalize_addr_ref_cases Let_def)

lemma add_address_accepted:
  assumes "accepts b p a"
  shows "add_address E p a s b =
    (let (ingested, info) = ingest_address (now E) (normalized a p) s (peer_entry b p);
         b1 = put_peer p info b;
         b2 = (if ingested \<and> \<not> contains_key (pi_connections info) (normalized a p)
               then push_action (validation_dial p a (SIM_OPEN_RETRIES + 1)) b1 else b1);
         b3 = (if confirmed_addresses (peer_entry b p) = [] \<and> is_confirmed s
               then notify E (Discovered p) b2 else b2)
     in notify E (NewInfo p) b3)"
proof -
  have "p \<noteq> local_peer_id b" "\<not> (\<not> enable_loopback b \<and> is_loopback a)"
    "without_peer_id a \<notin> set (listeners b)"
    using assms by (auto simp: accepts_def)
  then show ?thesis
    by (auto simp: add_address_def normalize_addr_ref_cases discovered_eq validation_dial_def
        Let_def split_beta)
qed

lemma wf_action_validation_dial [simp]:
  "wf_action l (validation_dial p a n) \<longleftrightarrow> p \<noteq> l \<and> n \<le> SIM_OPEN_RETRIES + 1"
  by (simp add: validation_dial_def)

lemma wf_book_add_address [wf_intros]:
  assumes "wf_book b"
  shows "wf_book (add_address E p a s b)"
proof (cases "accepts b p a")
  case True
  let ?info = "snd (ingest_address (now E) (normalized a p) s (peer_entry b p))"
  have "p \<noteq> local_peer_id b" using True by (simp add: accepts_def)
  moreover have "wf_info ?info"
    by (intro wf_intros assms ends_with_p2p_normalized)
  ultimately have "wf_book (put_peer p ?info b)"
    by (rule wf_book_put_peer [OF assms])
  then show ?thesis using \<open>p \<noteq> local_peer_id b\<close>
    by (auto simp: add_address_accepted [OF True] split_beta Let_def intro!: wf_intros)
qed (simp add: add_address_ignored assms)

lemma evolves_add_address [simp]: "evolves b0 b \<Longrightarrow> evolves b0 (add_address E p a s b)"
  by (cases "accepts b p a")
    (auto simp: add_address_accepted add_address_ignored split_beta Let_def)

interpretation book_add_address:
  book_method "\<lambda>_ _. True" "\<lambda>(E, p, a, s) b. Some (add_address E p a s b)"
  by unfold_locales (auto intro: wf_intros)

lemma wf_book_remove_address [wf_intros]: "wf_book b \<Longrightarrow> wf_book (remove_address p a b)"
  by (auto simp: remove_address_def intro!: wf_intros dest: wf_book_peer split: option.split)

lemma evolves_remove_address [simp]: "evolves b0 b \<Longrightarrow> evolves b0 (remove_address p a b)"
  by (simp add: remove_address_def split: option.split)

interpretation book_remove_address:
  book_method "\<lambda>_ _. True" "\<lambda>(p, a) b. Some (remove_address p a b)"
  by unfold_locales (auto intro: wf_intros)

lemma wf_book_delete_peer [wf_intros]:
  "wf_book b \<Longrightarrow> wf_book (b\<lparr>peers := AList.delete p (peers b)\<rparr>)"
  by (simp add: wf_book_def distinct_keys_delete all_values_delete)

lemma wf_book_prune_remove [wf_intros]: "wf_book b \<Longrightarrow> wf_book (prune_remove E ps b)"
  by (induction ps arbitrary: b) (simp_all add: wf_book_delete_peer)

lemma evolves_delete_peer [simp]:
  "evolves b0 (b\<lparr>peers := AList.delete p (peers b)\<rparr>) = evolves b0 b"
  by (simp add: evolves_def book_config_def log_grows_def)

lemma evolves_prune_remove [simp]: "evolves b0 b \<Longrightarrow> evolves b0 (prune_remove E ps b)"
  by (induction ps arbitrary: b) simp_all

interpretation book_prune_peers:
  book_method "\<lambda>_ _. True" "\<lambda>(E, d) b. Some (prune_peers E d b)"
  by unfold_locales (auto simp: prune_peers_def intro: wf_intros)

lemma wf_book_connection_closed [wf_intros]:
  assumes "wf_book b" and "p \<noteq> local_peer_id b"
  shows "wf_book (connection_closed E p c n e b)"
  using assms
  by (auto simp: connection_closed_def Let_def split_beta intro!: wf_intros)

lemma evolves_connection_closed [simp]:
  "evolves b0 b \<Longrightarrow> evolves b0 (connection_closed E p c n e b)"
  by (simp add: connection_closed_def Let_def split_beta)

interpretation book_connection_closed:
  book_method "\<lambda>(E, p, c, n, e) b. p \<noteq> local_peer_id b"
    "\<lambda>(E, p, c, n, e) b. Some (connection_closed E p c n e b)"
  by unfold_locales (auto intro: wf_intros)


lemma set_rtt_wf:
  assumes "wf_book b" and "\<And>d. rtt = Some d \<Longrightarrow> d * 9 \<le> duration_max"
  shows "\<exists>b'. set_rtt E p rtt b = Some b' \<and> wf_book b'"
proof (cases "map_of (peers b) p")
  case (Some info)
  with assms(1) have wf: "wf_info info" "p \<noteq> local_peer_id b"
    by (auto dest: wf_book_peer)
  then obtain info' where "info_set_rtt rtt info = Some info'" "wf_info info'"
    using wf_info_set_rtt assms(2) by blast
  with Some wf assms(1) show ?thesis
    by (auto simp: set_rtt_def intro!: wf_intros)
qed (simp add: set_rtt_def assms)

lemma evolves_set_rtt: "set_rtt E p rtt b = Some b' \<Longrightarrow> evolves b b'"
  by (auto simp: set_rtt_def bind_eq_Some_conv split: option.splits)

interpretation book_set_rtt:
  book_method "\<lambda>(E, p, rtt) b. \<forall>d. rtt = Some d \<longrightarrow> d * 9 \<le> duration_max"
    "\<lambda>(E, p, rtt) b. set_rtt E p rtt b"
proof (unfold_locales, goal_cases)
  case (1 b x b')
  obtain E p rtt where x: "x = (E, p, rtt)" by (cases x)
  from 1 x set_rtt_wf [of b rtt E p] show ?case by auto
next
  case (2 b x)
  obtain E p rtt where x: "x = (E, p, rtt)" by (cases x)
  from 2 x set_rtt_wf [of b rtt E p] show ?case by auto
next
  case (3 x b b')
  then show ?case by (auto intro: evolves_set_rtt split: prod.splits)
qed

text \<open>
  \<open>set_info\<close>.  The unwraps of \<open>Multiaddr::replace\<close> cannot fail: an address is translated only
  if it has a port at the position that is replaced.
\<close>

definition order_ok :: "env \<Rightarrow> bool" where
  "order_ok E \<longleftrightarrow>
     (\<forall>xs. distinct xs \<longrightarrow> distinct (set_order E xs) \<and> set (set_order E xs) = set xs)"

definition retarget :: "multiaddr \<Rightarrow> port \<Rightarrow> multiaddr" where
  "retarget a q = a[1 := Tcp q]"

lemma translate_address_eq:
  "translate_address lp a =
     Some (case ip_port a of
             None \<Rightarrow> []
           | Some (ip, _) \<Rightarrow>
               let lps = filter (\<lambda>(x, _). x = ip) lp; cps = remdups (map snd lp)
               in if lps \<noteq> [] then map (\<lambda>(_, q). retarget a q) lps
                  else if cps \<noteq> [] then map (retarget a) cps else [a])"
proof (cases "ip_port a")
  case (Some ipp)
  then obtain ip p where ip: "ip_port a = Some (ip, p)" by (cases ipp) auto
  have r: "replace_protocol a 1 (\<lambda>_. Some (Tcp q)) = Some (retarget a q)" for q
    using replace_port [OF ip] by (simp add: retarget_def)
  have "those (map (\<lambda>(_, q). replace_protocol a 1 (\<lambda>_. Some (Tcp q))) lps) =
      Some (map (\<lambda>(_, q). retarget a q) lps)" for lps :: "(ip_addr \<times> port) list"
    by (rule those_map_Some) (auto simp: r simp del: One_nat_def)
  moreover have "those (map (\<lambda>q. replace_protocol a 1 (\<lambda>_. Some (Tcp q))) cps) =
      Some (map (retarget a) cps)" for cps
    by (rule those_map_Some) (auto simp: r simp del: One_nat_def)
  ultimately show ?thesis using ip
    by (simp add: translate_address_def Let_def del: One_nat_def)
qed (simp add: translate_address_def)

lemma translate_address_p2p:
  assumes "translate_address lp a = Some ys" and "ends_with_p2p a"
  shows "list_all ends_with_p2p ys"
  using assms ends_with_p2p_replace_port [of a]
  by (auto simp: translate_address_eq Let_def list_all_iff retarget_def split: option.splits if_splits)

lemma translate_all_total:
  "\<exists>ys. translate_all lp as = Some ys \<and> (list_all ends_with_p2p as \<longrightarrow> list_all ends_with_p2p ys)"
proof (induction as)
  case Nil
  then show ?case by simp
next
  case (Cons a as)
  obtain xs where xs: "translate_address lp a = Some xs" by (simp add: translate_address_eq)
  with Cons translate_address_p2p [OF xs] show ?case by auto
qed

lemma probe_translated_frame:
  "listeners (fst (probe_translated E p as b info)) = listeners b"
  "peers (fst (probe_translated E p as b info)) = peers b"
  "local_peer_id (fst (probe_translated E p as b info)) = local_peer_id b"
  "evolves b0 (fst (probe_translated E p as b info)) = evolves b0 b"
  by (induction as arbitrary: b info) (simp_all add: Let_def split_beta)

lemma wf_probe_translated:
  assumes "wf_book b" "wf_info info" "p \<noteq> local_peer_id b" "list_all ends_with_p2p as"
  shows "wf_book (fst (probe_translated E p as b info)) \<and>
    wf_info (snd (probe_translated E p as b info))"
  using assms
proof (induction as arbitrary: b info)
  case (Cons a as)
  let ?i = "snd (ingest_address (now E) a Listen info)"
  have "wf_info ?i" using Cons.prems by (auto intro!: wf_intros)
  moreover have "wf_info (snd (ingest_address (now E) a Candidate ?i))"
    using Cons.prems \<open>wf_info ?i\<close> by (auto intro!: wf_intros)
  moreover have "wf_book (push_action
      (DialAction \<lparr>opt_peer = p, opt_condition = CondAlways, opt_addresses = [pop_protocol a]\<rparr>
         (IntoAddressHandler (Some (a, 4)) False)) b)"
    using Cons.prems by (auto intro!: wf_book_push_action simp: retries_ok)
  ultimately show ?case using Cons by (simp add: Let_def split_beta)
qed simp

lemma addresses_to_translate_p2p:
  "wf_info info \<Longrightarrow> list_all ends_with_p2p (addresses_to_translate info)"
  by (auto simp: addresses_to_translate_def wf_info_def list_all_iff)

lemma wf_info_store_identify [wf_intros]: "wf_info info \<Longrightarrow> wf_info (store_identify idf info)"
  by (simp add: wf_info_def store_identify_def)

lemma wf_info_drop_translated [wf_intros]: "wf_info info \<Longrightarrow> wf_info (drop_translated info)"
  unfolding drop_translated_def by (rule wf_info_filter_addresses)

definition identify_candidates :: "address_book \<Rightarrow> peer_id \<Rightarrow> peer_info \<Rightarrow> multiaddr list" where
  "identify_candidates b p info =
     remdups (the (translate_all (listen_ports p info) (addresses_to_translate info)) @
              listening_addresses (enable_loopback b) p (drop_translated info))"

lemma set_info_eq:
  "set_info E p idf b =
     Some (case map_of (peers b) p of
             None \<Rightarrow> b
           | Some info0 \<Rightarrow>
               let info = store_identify idf info0;
                   (b', info') = probe_translated E p (set_order E (identify_candidates b p info)) b
                     (drop_translated info)
               in notify E (NewInfo p) (put_peer p info' b'))"
proof (cases "map_of (peers b) p")
  case (Some info0)
  let ?info = "store_identify idf info0"
  obtain ys where
    "translate_all (listen_ports p ?info) (addresses_to_translate ?info) = Some ys"
    using translate_all_total by blast
  then show ?thesis using Some
    by (simp add: set_info_def identify_candidates_def Let_def split_beta)
qed (simp add: set_info_def)

lemma identify_candidates_p2p:
  assumes "wf_info info"
  shows "list_all ends_with_p2p (identify_candidates b p info)"
  using translate_all_total [of "listen_ports p info" "addresses_to_translate info"]
    addresses_to_translate_p2p [OF assms]
  by (auto simp: identify_candidates_def listening_addresses_def list_all_iff)

lemma set_info_wf:
  assumes "wf_book b" and "order_ok E" and "set_info E p idf b = Some b'"
  shows "wf_book b'"
proof (cases "map_of (peers b) p")
  case (Some info0)
  let ?info = "store_identify idf info0"
  have p: "p \<noteq> local_peer_id b" and info: "wf_info ?info"
    using wf_book_peer [OF assms(1) Some] by (auto intro: wf_intros)
  have "list_all ends_with_p2p (set_order E (identify_candidates b p ?info))"
    using assms(2) identify_candidates_p2p [OF info, of b p]
    by (simp add: order_ok_def identify_candidates_def list_all_iff)
  from wf_probe_translated [OF assms(1) wf_info_drop_translated [OF info] p this, of E]
  show ?thesis using assms(3) Some p
    by (auto simp: set_info_eq Let_def split_beta probe_translated_frame intro!: wf_book_put_peer)
qed (use assms in \<open>simp add: set_info_eq\<close>)

lemma evolves_set_info: "set_info E p idf b = Some b' \<Longrightarrow> evolves b b'"
  by (auto simp: set_info_eq Let_def split_beta probe_translated_frame split: option.splits)

interpretation book_set_info:
  book_method "\<lambda>(E, p, idf) b. order_ok E" "\<lambda>(E, p, idf) b. set_info E p idf b"
proof (unfold_locales, goal_cases)
  case (1 b x b')
  then show ?case by (auto intro: set_info_wf split: prod.splits)
next
  case (2 b x)
  then show ?case by (auto simp: set_info_eq split: prod.splits)
next
  case (3 x b b')
  then show ?case by (auto intro: evolves_set_info split: prod.splits)
qed


text \<open>\<open>dial_failure\<close>.\<close>

lemma unat_word32_max: "unat (r :: 32 word) \<le> 4294967295"
  using unsigned_less [of r, where ?'a = nat] by simp

lemma redial_fraction: "1000000000 * unat (r :: 32 word) div 4294967295 \<le> 1000000000"
proof -
  have "1000000000 * unat r div 4294967295 \<le> 1000000000 * 4294967295 div 4294967295"
    by (intro div_le_mono mult_le_mono2 unat_word32_max)
  then show ?thesis by simp
qed

lemma redial_delay_eq:
  "redial_delay reuse r =
     Some (1000000000 * unat r div 4294967295 + (if reuse then 1000000000 else 0))"
proof -
  have "unat r \<le> 4294967295" by (rule unat_word32_max)
  with redial_fraction [of r] show ?thesis
    by (simp add: redial_delay_def dur_mul_def dur_div_def dur_add_def from_secs_def duration_max_def)
qed

lemma redial_delay_bounds:
  "\<exists>d. redial_delay reuse r = Some d \<and>
     (if reuse then from_secs 1 else 0) \<le> d \<and> d \<le> (if reuse then from_secs 2 else from_secs 1)"
proof -
  show ?thesis using redial_fraction [of r] by (simp add: redial_delay_eq from_secs_def)
qed

lemma push_deferred_wf:
  assumes "wf_book b" and "wf_action (local_peer_id b) a"
  shows "\<exists>b'. push_deferred i E a b = Some b' \<and> wf_book b'"
proof -
  obtain d where d: "redial_delay (port_reuse b) (rnd E i) = Some d" "d \<le> from_secs 2"
    using redial_delay_bounds [of "port_reuse b" "rnd E i"]
    by (auto simp: from_secs_def split: if_splits)
  then show ?thesis using assms by (auto simp: push_deferred_def wf_book_def)
qed

lemma push_deferred_frame:
  assumes "push_deferred i E a b = Some b'"
  shows "local_peer_id b' = local_peer_id b" and "evolves b0 b' = evolves b0 b"
    and "peers b' = peers b" and "actions b' = actions b"
  using assms
  by (auto simp: push_deferred_def bind_eq_Some_conv evolves_def book_config_def log_grows_def)

lemma push_all_deferred_wf:
  assumes "wf_book b" and "list_all (wf_action (local_peer_id b)) as"
  shows "\<exists>b'. push_all_deferred i E as b = Some b' \<and> wf_book b'"
  using assms
proof (induction as arbitrary: i b)
  case (Cons a as)
  then obtain c where c: "push_deferred i E a b = Some c" "wf_book c"
    using push_deferred_wf [of b a i E] by auto
  have "local_peer_id c = local_peer_id b" using c(1) by (rule push_deferred_frame)
  with Cons c show ?case by auto
qed simp

lemma evolves_push_all_deferred:
  "push_all_deferred i E as b = Some b' \<Longrightarrow> evolves b0 b \<Longrightarrow> evolves b0 b'"
  by (induction as arbitrary: i b) (auto simp: bind_eq_Some_conv push_deferred_frame)

lemma wf_transport_failures [wf_intros]:
  "wf_info info \<Longrightarrow> wf_info (transport_failures E p v info)"
  by (induction E p v info rule: transport_failures.induct) (simp_all add: wf_info_push_failure)

lemma retries_pred: "(0 :: 8 word) < n \<Longrightarrow> n \<le> m \<Longrightarrow> n - 1 \<le> m"
  by unat_arith

lemma own_dial_failure_wf:
  assumes "wf_book b" and "wf_info info" and "p \<noteq> local_peer_id b" and "n \<le> SIM_OPEN_RETRIES + 1"
  shows "\<exists>b'. own_dial_failure E p a n keep e info b = Some b' \<and> wf_book b'"
proof -
  let ?i = "push_failure a (failure_dial (fmt E) (now E) (without_peer_id a) e)
    (is_transport e \<or> is_wrong_peer e \<or> is_connection_io e) info"
  let ?j = "if is_wrong_peer e then ?i\<lparr>pi_addresses := AList.delete a (pi_addresses ?i)\<rparr> else ?i"
  let ?d = "DialAction \<lparr>opt_peer = p, opt_condition = CondDefault, opt_addresses = [a]\<rparr>
    (IntoAddressHandler (Some (a, n - 1)) keep)"
  have wf: "wf_book (put_peer p ?j b)" using assms by (auto intro!: wf_intros)
  moreover have "0 < n \<Longrightarrow> wf_action (local_peer_id (put_peer p ?j b)) ?d"
    using assms retries_pred by simp
  ultimately show ?thesis
    using push_deferred_wf [OF wf, of ?d 0 E]
    by (auto simp: own_dial_failure_def Let_def simp del: put_peer_frame)
qed

lemma wf_transport_redials:
  "p \<noteq> l \<Longrightarrow> list_all (wf_action l) (transport_redials p k v)"
  by (auto simp: transport_redials_def list_all_iff retries_ok)

lemma transport_dial_failure_wf:
  assumes "wf_book b" and "wf_info info" and "p \<noteq> local_peer_id b"
  shows "\<exists>b'. transport_dial_failure E p v info b = Some b' \<and> wf_book b'"
proof -
  let ?r = "transport_redials p (keep_alive b) v"
  let ?b = "notify_all E (map (\<lambda>(addr, e). DialFailure p addr (debug_transport (fmt E) e)) v)
    (put_peer p (transport_failures E p v info) b)"
  let ?c = "if ?r = [] then notify E (Unreachable p) ?b else ?b"
  have "wf_book ?c" using assms by (auto intro!: wf_intros)
  moreover have "local_peer_id (notify_all E evs c) = local_peer_id c" for evs c
    by (induction evs arbitrary: c) simp_all
  then have "list_all (wf_action (local_peer_id ?c)) ?r"
    using assms(3) wf_transport_redials by simp
  ultimately show ?thesis
    using push_all_deferred_wf [of ?c ?r 0 E]
    by (auto simp: transport_dial_failure_def Let_def)
qed

fun handler_ok :: "into_address_handler \<Rightarrow> bool" where
  "handler_ok (IntoAddressHandler own _) \<longleftrightarrow>
     (case own of None \<Rightarrow> True | Some (_, n) \<Rightarrow> n \<le> SIM_OPEN_RETRIES + 1)"

lemma dial_failure_wf:
  assumes "wf_book b" and "handler_ok h"
  shows "\<exists>b'. dial_failure E h peer e b = Some b' \<and> wf_book b'"
proof (cases "case handler_peer_id h of Some p \<Rightarrow> Some p | None \<Rightarrow> peer")
  case None
  then show ?thesis using assms by (simp add: dial_failure_def)
next
  case p: (Some p)
  show ?thesis
  proof (cases "map_of (peers b) p")
    case None
    with p assms show ?thesis by (simp add: dial_failure_def)
  next
    case (Some info)
    with assms have wf: "wf_info info" "p \<noteq> local_peer_id b" by (auto dest: wf_book_peer)
    show ?thesis
    proof (cases h)
      case (IntoAddressHandler own keep)
      with p Some wf assms own_dial_failure_wf [OF assms(1) wf]
        transport_dial_failure_wf [OF assms(1) wf]
      show ?thesis
        by (cases own; cases e) (auto simp: dial_failure_def split del: if_split)
    qed
  qed
qed


lemma evolves_dial_failure: "dial_failure E h peer e b = Some b' \<Longrightarrow> evolves b b'"
proof -
  have own: "own_dial_failure E p a n k e i b = Some b' \<Longrightarrow> evolves b b'" for p a n k e i
    by (auto simp: own_dial_failure_def Let_def bind_eq_Some_conv push_deferred_frame
        split: if_splits)
  have tr: "transport_dial_failure E p v i b = Some b' \<Longrightarrow> evolves b b'" for p v i
    by (auto simp: transport_dial_failure_def Let_def bind_eq_Some_conv
        intro!: evolves_notify intro: evolves_push_all_deferred split: if_splits)
  assume "dial_failure E h peer e b = Some b'"
  then show ?thesis
    by (cases h; cases e)
      (auto simp: dial_failure_def dest: own tr split: option.splits)
qed

interpretation book_dial_failure:
  book_method "\<lambda>(E, h, p, e) b. handler_ok h" "\<lambda>(E, h, p, e) b. dial_failure E h p e b"
proof (unfold_locales, goal_cases)
  case (1 b x b')
  obtain E h p e where x: "x = (E, h, p, e)" by (cases x)
  from 1 x dial_failure_wf [of b h E p e] show ?case by auto
next
  case (2 b x)
  obtain E h p e where x: "x = (E, h, p, e)" by (cases x)
  from 2 x dial_failure_wf [of b h E p e] show ?case by auto
next
  case (3 x b b')
  then show ?case by (auto intro: evolves_dial_failure split: prod.splits)
qed

text \<open>Swarm events.\<close>

lemma local_add_address [simp]: "local_peer_id (add_address E p a s b) = local_peer_id b"
  using evolves_add_address [of b b E p a s] by (simp add: evolves_def book_config_def)

lemma wf_on_connection_established [wf_intros]:
  "wf_book b \<Longrightarrow> p \<noteq> local_peer_id b \<Longrightarrow> wf_book (on_connection_established E p c n b)"
  by (auto simp: on_connection_established_def Let_def intro!: wf_intros)

lemma wf_info_move_connection [wf_intros]:
  "wf_info i \<Longrightarrow> ends_with_p2p a \<Longrightarrow>
     wf_info (i\<lparr>pi_connections := AList.update a c (AList.delete a' (pi_connections i))\<rparr>)"
  by (auto simp: wf_info_def intro: keys_intros)

lemma wf_on_address_change [wf_intros]:
  "wf_book b \<Longrightarrow> p \<noteq> local_peer_id b \<Longrightarrow> wf_book (on_address_change E p old new b)"
  by (auto simp: on_address_change_def Let_def intro!: wf_intros)

lemma wf_on_new_listen_addr [wf_intros]: "wf_book b \<Longrightarrow> wf_book (on_new_listen_addr E l a b)"
  by (simp add: on_new_listen_addr_def wf_book_def)

lemma length_removeAll_member:
  assumes "distinct xs" and "x \<in> set xs"
  shows "int (length (removeAll x xs)) = int (length xs) - 1"
proof -
  have "length (removeAll x xs) = length xs - 1"
    using assms by (simp add: distinct_remove1_removeAll [symmetric] length_remove1)
  moreover have "0 < length xs" using assms(2) by (rule length_pos_if_in_set)
  ultimately show ?thesis by (simp add: of_nat_diff Suc_leI)
qed

lemma wf_on_expired_listen_addr [wf_intros]:
  "wf_book b \<Longrightarrow> wf_book (on_expired_listen_addr E l a b)"
  by (simp add: on_expired_listen_addr_def wf_book_def distinct_removeAll length_removeAll_member)

lemma evolves_fields [simp]:
  "evolves b0 (b\<lparr>g_listeners := x\<rparr>) = evolves b0 b"
  "evolves b0 (b\<lparr>c_listener_error := y\<rparr>) = evolves b0 b"
  "evolves b0 (b\<lparr>refresh_external := r, g_external_addrs := z\<rparr>) = evolves b0 b"
  "evolves b0 (b\<lparr>listeners := ls, g_listen_addrs := n\<rparr>) = evolves b0 b"
  by (simp_all add: evolves_def book_config_def log_grows_def)

lemma wf_book_fields [simp]:
  "wf_book (b\<lparr>g_listeners := x\<rparr>) = wf_book b"
  "wf_book (b\<lparr>c_listener_error := y\<rparr>) = wf_book b"
  "wf_book (b\<lparr>refresh_external := r, g_external_addrs := z\<rparr>) = wf_book b"
  by (simp_all add: wf_book_def)

lemma evolves_on_events [simp]:
  "evolves b0 b \<Longrightarrow> evolves b0 (on_connection_established E p c n b)"
  "evolves b0 b \<Longrightarrow> evolves b0 (on_address_change E p old new b)"
  "evolves b0 b \<Longrightarrow> evolves b0 (on_new_listen_addr E l a b)"
  "evolves b0 b \<Longrightarrow> evolves b0 (on_expired_listen_addr E l a b)"
  by (simp_all add: on_connection_established_def on_address_change_def on_new_listen_addr_def
      on_expired_listen_addr_def Let_def)

fun swarm_event_ok :: "from_swarm \<Rightarrow> address_book \<Rightarrow> bool" where
  "swarm_event_ok (SwConnectionEstablished p _ _) b \<longleftrightarrow> p \<noteq> local_peer_id b"
| "swarm_event_ok (SwAddressChange p _ _) b \<longleftrightarrow> p \<noteq> local_peer_id b"
| "swarm_event_ok (SwDialFailure _ h _) b \<longleftrightarrow> handler_ok h"
| "swarm_event_ok _ b \<longleftrightarrow> True"

lemma on_swarm_event_wf:
  assumes "wf_book b" and "swarm_event_ok ev b"
  shows "\<exists>b'. on_swarm_event E ev b = Some b' \<and> wf_book b'"
  using assms dial_failure_wf [OF assms(1)]
  by (cases ev) (auto intro: wf_intros)

lemma evolves_on_swarm_event: "on_swarm_event E ev b = Some b' \<Longrightarrow> evolves b b'"
  by (cases ev) (auto intro: evolves_dial_failure)

interpretation book_on_swarm_event:
  book_method "\<lambda>(E, ev) b. swarm_event_ok ev b" "\<lambda>(E, ev) b. on_swarm_event E ev b"
proof (unfold_locales, goal_cases)
  case (1 b x b')
  obtain E ev where x: "x = (E, ev)" by (cases x)
  from 1 x on_swarm_event_wf [of b ev E] show ?case by auto
next
  case (2 b x)
  obtain E ev where x: "x = (E, ev)" by (cases x)
  from 2 x on_swarm_event_wf [of b ev E] show ?case by auto
next
  case (3 x b b')
  then show ?case by (auto intro: evolves_on_swarm_event split: prod.splits)
qed

text \<open>Polling.\<close>

lemma wf_poll_book [wf_intros]: "wf_book b \<Longrightarrow> wf_book (snd (poll_book ext el b))"
  by (auto simp: poll_book_def wf_book_def Let_def list_all_iff
      dest: in_set_takeD in_set_dropD split: list.split option.split)

lemma poll_book_action:
  "wf_book b \<Longrightarrow> fst (poll_book ext el b) = Ready a \<Longrightarrow> wf_action (local_peer_id b) a"
  by (auto simp: poll_book_def wf_book_def Let_def list_all_iff dest!: nth_mem
      split: list.splits option.splits if_splits)

lemma evolves_poll_book: "evolves b (snd (poll_book ext el b))"
  by (simp add: poll_book_def Let_def evolves_def book_config_def log_grows_def
      split: list.split option.split)

interpretation book_poll:
  book_method "\<lambda>_ _. True" "\<lambda>(ext, el) b. Some (snd (poll_book ext el b))"
  by unfold_locales (auto intro: wf_poll_book evolves_poll_book)

section \<open>All calls\<close>

text \<open>The calls that reach the book: its public methods, the swarm's events and its polls.\<close>

datatype book_op =
    OpNotify event
  | OpSwarmEvents channel
  | OpDial peer_id
  | OpDialAddress peer_id multiaddr
  | OpAddAddress peer_id multiaddr address_source
  | OpRemoveAddress peer_id multiaddr
  | OpPrunePeers duration
  | OpConnectionClosed peer_id connected_point nat "connection_error option"
  | OpSetRtt peer_id "duration option"
  | OpSetInfo peer_id identify_info
  | OpSwarmEvent from_swarm
  | OpPoll "address_record list" "nat option"

fun book_step :: "env \<times> book_op \<Rightarrow> address_book \<Rightarrow> address_book option" where
  "book_step (E, OpNotify ev) b = Some (notify E ev b)"
| "book_step (E, OpSwarmEvents tx) b = Some (swarm_events tx b)"
| "book_step (E, OpDial p) b = Some (dial p b)"
| "book_step (E, OpDialAddress p a) b = Some (dial_address p a b)"
| "book_step (E, OpAddAddress p a s) b = Some (add_address E p a s b)"
| "book_step (E, OpRemoveAddress p a) b = Some (remove_address p a b)"
| "book_step (E, OpPrunePeers d) b = Some (prune_peers E d b)"
| "book_step (E, OpConnectionClosed p c n e) b = Some (connection_closed E p c n e b)"
| "book_step (E, OpSetRtt p r) b = set_rtt E p r b"
| "book_step (E, OpSetInfo p idf) b = set_info E p idf b"
| "book_step (E, OpSwarmEvent ev) b = on_swarm_event E ev b"
| "book_step (E, OpPoll ext el) b = Some (snd (poll_book ext el b))"

text \<open>
  What the environment guarantees: libp2p reports no connection to the local peer, hands back
  the dial handlers it was given, measures round trips below \<open>duration_max / 9\<close> (more than
  sixty billion years), and a hash set iterates over its elements once each.
\<close>

fun op_ok :: "env \<times> book_op \<Rightarrow> address_book \<Rightarrow> bool" where
  "op_ok (E, OpConnectionClosed p c n e) b \<longleftrightarrow> p \<noteq> local_peer_id b"
| "op_ok (E, OpSetRtt p r) b \<longleftrightarrow> (case r of None \<Rightarrow> True | Some d \<Rightarrow> d * 9 \<le> duration_max)"
| "op_ok (E, OpSetInfo p idf) b \<longleftrightarrow> order_ok E"
| "op_ok (E, OpSwarmEvent ev) b \<longleftrightarrow> swarm_event_ok ev b"
| "op_ok _ b \<longleftrightarrow> True"

lemma book_step_wf:
  assumes "wf_book b" and "op_ok (E, op) b"
  shows "\<exists>b'. book_step (E, op) b = Some b' \<and> wf_book b'"
proof (cases op)
  case (OpSwarmEvents tx)
  then show ?thesis using assms book_swarm_events.step_inv [of b tx] by simp
next
  case (OpDial p)
  then show ?thesis using assms book_dial.step_inv [of b p] by simp
next
  case (OpPrunePeers d)
  then show ?thesis using assms book_prune_peers.step_inv [of b "(E, d)"] by simp
next
  case (OpSetRtt p r)
  then show ?thesis using assms set_rtt_wf [of b r E p] by (cases r) simp_all
next
  case (OpSetInfo p idf)
  then show ?thesis using assms set_info_wf [of b E p idf] by (simp add: set_info_eq)
next
  case (OpSwarmEvent ev)
  then show ?thesis using assms on_swarm_event_wf [of b ev E] by simp
qed (use assms in \<open>simp_all add: wf_book_dial_address wf_book_add_address wf_book_remove_address
  wf_book_connection_closed wf_poll_book\<close>)

lemma evolves_book_step: "book_step (E, op) b = Some b' \<Longrightarrow> evolves b b'"
  using book_swarm_events.evolving [of _ b] book_dial.evolving [of _ b]
    book_prune_peers.evolving [of "(E, _)" b]
  by (cases op) (auto intro: evolves_set_rtt evolves_set_info evolves_on_swarm_event evolves_poll_book)

interpretation book: book_method op_ok book_step
proof (unfold_locales, goal_cases)
  case (1 b x b')
  then show ?case using book_step_wf [of b "fst x" "snd x"] by auto
next
  case (2 b x)
  then show ?case using book_step_wf [of b "fst x" "snd x"] by auto
next
  case (3 x b b')
  then show ?case using evolves_book_step [of "fst x" "snd x" b b'] by simp
qed

end
