(* ===== verification/Address_Book_Props.thy ===== *)
theory Address_Book_Props
  imports Address_Book_Inv
begin

text \<open>
  What the address book does: the theorems about whole runs of the system \<open>book_step\<close>, and
  the behaviour of the single methods.
\<close>

section \<open>Runs\<close>

lemma wf_book_new [simp]: "wf_book (address_book_new l r lo k)"
  by (simp add: wf_book_def address_book_new_def)


text \<open>An environment and a run for the witnesses: a connection is made, the peer identifies itself.\<close>

definition sample_env :: env where
  "sample_env =
     \<lparr>now = 5, rnd = (\<lambda>_. 7), alive = (\<lambda>c. c < 3),
      fmt = \<lparr>show_io = (\<lambda>_. ''io''), show_transport = (\<lambda>_. ''t''), show_source = (\<lambda>_. None),
        debug_transport = (\<lambda>_. ''T''), show_dial = (\<lambda>_. ''d''), debug_dial = (\<lambda>_. ''D''),
        debug_close = (\<lambda>_. ''c''), show_addr = (\<lambda>_. ''a'')\<rparr>,
      set_order = (\<lambda>xs. xs)\<rparr>"

definition sample_addr :: multiaddr where
  "sample_addr = [Ip4 167772162, Tcp 4001]"

definition sample_ops :: "(env \<times> book_op) list" where
  "sample_ops =
     [(sample_env, OpSwarmEvents 1),
      (sample_env, OpSwarmEvent (SwNewListenAddr 0 [Ip4 167772161, Tcp 4001])),
      (sample_env, OpSwarmEvent (SwConnectionEstablished 2 (Dialer sample_addr EndpointDialer) 0)),
      (sample_env, OpAddAddress 3 sample_addr Kad)]"

lemma sample_order_ok: "order_ok sample_env"
  by (simp add: order_ok_def sample_env_def)

lemma sample_run: "good_run op_ok book_step sample_ops (address_book_new 1 True True False)"
  by (simp add: sample_ops_def address_book_new_def swarm_events_def on_new_listen_addr_def
      notify_def Let_def split: option.split)


text \<open>(C12) Whatever happened before, an action the book hands to the swarm is a dial of a peer other
  than the local one, and a dial of its own carries at most eleven retries.\<close>

theorem book_never_dials_self:
  assumes "good_run op_ok book_step ops (address_book_new l reuse loopback keep)"
    and "run_steps book_step ops (address_book_new l reuse loopback keep) = Some b"
    and "fst (poll_book ext elapsed b) = Ready (DialAction opts (IntoAddressHandler own k))"
  shows "opt_peer opts \<noteq> l \<and> (case own of None \<Rightarrow> True | Some (_, n) \<Rightarrow> n \<le> 11)"
proof -
  have "wf_book b" by (rule book.run_inv [OF wf_book_new assms(1,2)])
  from poll_book_action [OF this assms(3)]
  have "opt_peer opts \<noteq> local_peer_id b \<and>
      (case own of None \<Rightarrow> True | Some (_, n) \<Rightarrow> n \<le> SIM_OPEN_RETRIES + 1)"
    by simp
  moreover have "local_peer_id b = l"
    using book.run_evolves [OF assms(2)]
    by (simp add: evolves_def book_config_def address_book_new_def)
  ultimately show ?thesis by (auto simp: SIM_OPEN_RETRIES_def split: option.splits)
qed

theorem book_never_dials_self_witness:
  "fst (poll_book [] None (dial 3 (address_book_new 1 True True False))) =
     Ready (DialAction \<lparr>opt_peer = 3, opt_condition = CondDefault, opt_addresses = []\<rparr>
       (IntoAddressHandler None False)) \<and>
   opt_peer \<lparr>opt_peer = 3, opt_condition = CondDefault, opt_addresses = []\<rparr> \<noteq> 1"
proof -
  have "good_run op_ok book_step [(sample_env, OpDial 3)] (address_book_new 1 True True False)"
    by simp
  moreover have "run_steps book_step [(sample_env, OpDial 3)] (address_book_new 1 True True False) =
      Some (dial 3 (address_book_new 1 True True False))"
    by simp
  moreover have poll: "fst (poll_book [] None (dial 3 (address_book_new 1 True True False))) =
      Ready (DialAction \<lparr>opt_peer = 3, opt_condition = CondDefault, opt_addresses = []\<rparr>
        (IntoAddressHandler None False))"
    by (simp add: dial_def address_book_new_def new_handler_def push_action_def poll_book_def)
  ultimately show ?thesis using book_never_dials_self poll by blast
qed

section \<open>Listen addresses and connections\<close>

text \<open>
  The view of the book that its users rely on: the listen addresses and the connections, by
  peer and remote address.  \<open>book_effect\<close> is what a call does to the view: only the swarm's own
  reports change it.
\<close>

definition conns :: "address_book \<Rightarrow> (peer_id \<times> multiaddr) set" where
  "conns b = {(p, a). contains_key (pi_connections (peer_entry b p)) a}"

type_synonym book_view = "peer_id \<times> multiaddr set \<times> (peer_id \<times> multiaddr) set"

definition view :: "address_book \<Rightarrow> book_view" where
  "view b = (local_peer_id b, set (listeners b), conns b)"

definition remote :: "peer_id \<Rightarrow> peer_id \<Rightarrow> connected_point \<Rightarrow> multiaddr" where
  "remote l p c = get_remote_address (normalize_connected_point c l p)"

fun book_effect :: "env \<times> book_op \<Rightarrow> book_view \<Rightarrow> book_view" where
  "book_effect (_, OpSwarmEvent (SwNewListenAddr _ a)) (l, L, C) = (l, insert a L, C)"
| "book_effect (_, OpSwarmEvent (SwExpiredListenAddr _ a)) (l, L, C) = (l, L - {a}, C)"
| "book_effect (_, OpSwarmEvent (SwConnectionEstablished p c _)) (l, L, C) =
     (l, L, insert (p, remote l p c) C)"
| "book_effect (_, OpSwarmEvent (SwAddressChange p old new)) (l, L, C) =
     (l, L, insert (p, remote l p new) (C - {(p, remote l p old)}))"
| "book_effect (_, OpConnectionClosed p c _ _) (l, L, C) = (l, L, C - {(p, remote l p c)})"
| "book_effect _ v = v"

lemma peer_entry_frame [simp]:
  "peer_entry (notify E ev b) = peer_entry b"
  "peer_entry (push_action a b) = peer_entry b"
  "peer_entry (put_peer p i b) = (peer_entry b)(p := i)"
  "peer_entry (b\<lparr>deferred := d\<rparr>) = peer_entry b"
  by (auto simp: fun_eq_iff peer_entry_def alist_simps)

lemma view_frame [simp]:
  "view (notify E ev b) = view b"
  "view (push_action a b) = view b"
  "pi_connections i = pi_connections (peer_entry b p) \<Longrightarrow> view (put_peer p i b) = view b"
  by (auto simp: view_def conns_def split: if_splits)

lemma view_fields [simp]:
  "view (b\<lparr>event_stream := x\<rparr>) = view b"
  "view (b\<lparr>g_listeners := g\<rparr>) = view b"
  "view (b\<lparr>c_listener_error := y\<rparr>) = view b"
  "view (b\<lparr>refresh_external := r, g_external_addrs := z\<rparr>) = view b"
  "view (b\<lparr>deferred := d\<rparr>) = view b"
  by (simp_all add: view_def conns_def peer_entry_def)

lemma view_add_address [simp]: "view (add_address E p a s b) = view b"
  by (cases "accepts b p a")
    (auto simp: add_address_accepted add_address_ignored split_beta Let_def frame_simps)

lemma view_dial_address [simp]: "view (dial_address p a b) = view b"
  by (simp add: dial_address_def Let_def)

lemma peer_entry_Some: "map_of (peers b) p = Some info \<Longrightarrow> peer_entry b p = info"
  by (simp add: peer_entry_def)

lemma view_remove_address [simp]: "view (remove_address p a b) = view b"
  by (simp add: remove_address_def peer_entry_Some split: option.split)

lemma pi_connections_set_rtt:
  "info_set_rtt r info = Some info' \<Longrightarrow> pi_connections info' = pi_connections info"
  by (auto simp: info_set_rtt_def split: option.splits)

lemma view_set_rtt: "set_rtt E p r b = Some b' \<Longrightarrow> view b' = view b"
  by (auto simp: set_rtt_def bind_eq_Some_conv peer_entry_Some pi_connections_set_rtt
      split: option.splits)

lemma probe_translated_view:
  "view (fst (probe_translated E p as b info)) = view b \<and>
   peer_entry (fst (probe_translated E p as b info)) = peer_entry b \<and>
   pi_connections (snd (probe_translated E p as b info)) = pi_connections info"
  by (induction as arbitrary: b info) (simp_all add: Let_def split_beta frame_simps)

lemma view_set_info: "set_info E p idf b = Some b' \<Longrightarrow> view b' = view b"
  by (auto simp: set_info_eq Let_def split_beta probe_translated_view peer_entry_Some
      store_identify_def drop_translated_def split: option.splits)

lemma view_push_deferred: "push_deferred i E a b = Some b' \<Longrightarrow> view b' = view b"
  by (auto simp: push_deferred_def bind_eq_Some_conv)

lemma view_push_all_deferred: "push_all_deferred i E as b = Some b' \<Longrightarrow> view b' = view b"
  by (induction as arbitrary: i b) (auto simp: bind_eq_Some_conv view_push_deferred)

lemma view_notify_all [simp]: "view (notify_all E evs b) = view b"
  by (induction evs arbitrary: b) simp_all

lemma pi_connections_push_failure [simp]:
  "pi_connections (push_failure a f r info) = pi_connections info"
  by (simp add: push_failure_def Let_def)

lemma pi_connections_transport_failures [simp]:
  "pi_connections (transport_failures E p v info) = pi_connections info"
  by (induction E p v info rule: transport_failures.induct) simp_all

lemma view_dial_failure: "dial_failure E h peer e b = Some b' \<Longrightarrow> view b' = view b"
proof -
  have own: "map_of (peers b) p = Some i \<Longrightarrow> own_dial_failure E p a n k e i b = Some b' \<Longrightarrow>
      view b' = view b" for p a n k e i
    by (auto simp: own_dial_failure_def Let_def bind_eq_Some_conv peer_entry_Some
        dest!: view_push_deferred split: if_splits)
  have tr: "map_of (peers b) p = Some i \<Longrightarrow> transport_dial_failure E p v i b = Some b' \<Longrightarrow>
      view b' = view b" for p v i
    by (auto simp: transport_dial_failure_def Let_def bind_eq_Some_conv peer_entry_Some
        dest!: view_push_all_deferred split: if_splits)
  assume "dial_failure E h peer e b = Some b'"
  then show ?thesis
    by (cases h; cases e) (auto simp: dial_failure_def dest: own tr split: option.splits)
qed

lemma peers_prune_remove: "peers (prune_remove E ps b) = filter (\<lambda>(q, _). q \<notin> set ps) (peers b)"
proof (induction ps arbitrary: b)
  case (Cons p ps)
  then show ?case by (auto simp: AList.delete_eq filter_filter intro: filter_cong)
qed simp

lemma prune_remove_frame:
  "listeners (prune_remove E ps b) = listeners b"
  "local_peer_id (prune_remove E ps b) = local_peer_id b"
  by (induction ps arbitrary: b) simp_all

lemma map_of_filter_keys:
  "map_of (filter (\<lambda>(q, _). q \<notin> S) m) k = (if k \<in> S then None else map_of m k)"
  by (induction m) auto

lemma map_of_prune_peers:
  assumes "wf_book b"
  shows "map_of (peers (prune_peers E d b)) p =
    (case map_of (peers b) p of
       None \<Rightarrow> None
     | Some info \<Rightarrow> if prune_keeps (now E) d info then Some info else None)"
proof -
  let ?gone = "map fst (filter (\<lambda>(q, i). \<not> prune_keeps (now E) d i) (peers b))"
  have d: "distinct (keys (peers b))" using assms by (simp add: wf_book_def)
  have "p \<in> set ?gone \<longleftrightarrow>
      (\<exists>i. map_of (peers b) p = Some i \<and> \<not> prune_keeps (now E) d i)"
    using d by (force simp: map_of_eq_Some_iff)
  then show ?thesis
    by (auto simp: prune_peers_def peers_prune_remove map_of_filter_keys simp del: set_map set_filter
        split: option.splits)
qed

lemma view_prune_peers: "wf_book b \<Longrightarrow> view (prune_peers E d b) = view b"
proof -
  assume wf: "wf_book b"
  have "pi_connections (peer_entry (prune_peers E d b) p) = pi_connections (peer_entry b p)" for p
    by (auto simp: peer_entry_def map_of_prune_peers [OF wf] prune_keeps_def peer_info_default_def
        split: option.splits if_splits)
  then show ?thesis
    by (simp add: view_def conns_def) (simp add: prune_peers_def prune_remove_frame)
qed

lemma view_poll [simp]: "view (snd (poll_book ext el b)) = view b"
  by (simp add: poll_book_def view_def conns_def peer_entry_def Let_def
      split: list.split option.split)

lemma conns_put_peer:
  "conns (put_peer p i b) =
     {(q, a). if q = p then contains_key (pi_connections i) a else (q, a) \<in> conns b}"
  by (auto simp: conns_def)

lemma conns_notify [simp]: "conns (notify E ev b) = conns b"
  by (simp add: conns_def)

lemma conns_add_address [simp]: "conns (add_address E p a s b) = conns b"
  using view_add_address [of E p a s b] by (simp add: view_def)

lemma listeners_add_address [simp]: "set (listeners (add_address E p a s b)) = set (listeners b)"
  using view_add_address [of E p a s b] by (simp add: view_def)

lemma pi_connections_conns: "map_of (pi_connections (peer_entry b p)) a = None \<longleftrightarrow> (p, a) \<notin> conns b"
  by (simp add: conns_def del: not_None_eq)

lemma conns_fields [simp]: "conns (b\<lparr>listeners := x, g_listen_addrs := n\<rparr>) = conns b"
  by (simp add: conns_def peer_entry_def)

lemmas conns_change = conns_put_peer alist_simps pi_connections_conns

lemma view_on_connection_established:
  "view (on_connection_established E p c n b) =
     book_effect (E, OpSwarmEvent (SwConnectionEstablished p c n)) (view b)"
  by (auto simp: on_connection_established_def Let_def view_def remote_def conns_change
      simp del: not_None_eq split: if_splits)

lemma view_on_address_change:
  "view (on_address_change E p old new b) =
     book_effect (E, OpSwarmEvent (SwAddressChange p old new)) (view b)"
  by (auto simp: on_address_change_def Let_def view_def remote_def conns_change
      simp del: not_None_eq split: if_splits)

lemma view_connection_closed:
  "view (connection_closed E p c n e b) = book_effect (E, OpConnectionClosed p c n e) (view b)"
  by (auto simp: connection_closed_def Let_def split_beta view_def remote_def conns_change
      simp del: not_None_eq split: if_splits)

lemma view_listen_addrs:
  "view (on_new_listen_addr E i a b) = book_effect (E, OpSwarmEvent (SwNewListenAddr i a)) (view b)"
  "view (on_expired_listen_addr E i a b) =
     book_effect (E, OpSwarmEvent (SwExpiredListenAddr i a)) (view b)"
  by (auto simp: on_new_listen_addr_def on_expired_listen_addr_def view_def)

lemmas view_swarm_events = view_on_connection_established view_on_address_change
  view_connection_closed view_listen_addrs

lemma view_on_swarm_event:
  "on_swarm_event E ev b = Some b' \<Longrightarrow> view b' = book_effect (E, OpSwarmEvent ev) (view b)"
  by (cases ev; cases "view b")
    (auto simp: view_swarm_events view_dial_failure simp del: book_effect.simps(1-5))

interpretation book_refines: refined_step_system op_ok book_step wf_book view book_effect
proof (unfold_locales, goal_cases)
  case (1 b x b')
  obtain E op where x: "x = (E, op)" by (cases x)
  obtain l L C where v: "view b = (l, L, C)" by (cases "view b")
  show ?case
  proof (cases op)
    case (OpConnectionClosed p c n e)
    with 1 x show ?thesis by (auto simp: view_connection_closed)
  next
    case (OpSwarmEvent ev)
    with 1 x show ?thesis by (auto intro: view_on_swarm_event)
  next
    case (OpPrunePeers d)
    with 1 x v show ?thesis by (auto simp: view_prune_peers)
  qed (use 1 x v in \<open>auto simp: view_set_rtt view_set_info swarm_events_def dial_def\<close>)
qed

lemma view_new: "view (address_book_new l r lo k) = (l, {}, {})"
  by (simp add: view_def conns_def address_book_new_def peer_entry_def peer_info_default_def)



section \<open>Addresses that were dialled or entered by the user\<close>

text \<open>
  An address is durable if it was dialled successfully or entered by the user.  The calls that
  may take it away are the removal of that address and a dial of it that reached another peer.
\<close>

definition held :: "peer_info \<Rightarrow> multiaddr \<Rightarrow> bool" where
  "held info a \<longleftrightarrow> (case sources info a of None \<Rightarrow> False | Some s \<Rightarrow> User \<le> s)"

definition durable :: "peer_id \<Rightarrow> multiaddr \<Rightarrow> address_book \<Rightarrow> bool" where
  "durable p a b \<longleftrightarrow> held (peer_entry b p) a"

fun forgets :: "peer_id \<Rightarrow> multiaddr \<Rightarrow> book_op \<Rightarrow> bool" where
  "forgets p a (OpRemoveAddress q x) \<longleftrightarrow> q = p \<and> normalized x q = a"
| "forgets p a (OpSwarmEvent (SwDialFailure _ (IntoAddressHandler (Some (x, _)) _) (WrongPeerId _ _))) \<longleftrightarrow>
     x = a"
| "forgets p a _ \<longleftrightarrow> False"

lemma user_le: "User \<le> s \<longleftrightarrow> s = User \<or> s = Dial"
  by (cases s) (simp_all add: less_eq_address_source_def)

lemma held_cases:
  "held info a \<longleftrightarrow> (\<exists>s t. map_of (pi_addresses info) a = Some (s, t) \<and> (s = User \<or> s = Dial))"
  by (auto simp: held_def sources_def user_le split: option.splits)

lemma held_ingest: "held info a \<Longrightarrow> held (snd (ingest_address t x s info)) a"
  by (auto simp: held_def sources_ingest_address user_le max_def less_eq_address_source_def
      split: option.splits)

lemma held_push_failure [simp]: "held info a \<Longrightarrow> held (push_failure x f r info) a"
  by (auto simp: held_cases push_failure_def Let_def alist_simps split: option.splits)

lemma held_delete [simp]:
  "x \<noteq> a \<Longrightarrow> held (info\<lparr>pi_addresses := AList.delete x (pi_addresses info)\<rparr>) a = held info a"
  by (simp add: held_cases alist_simps)

lemma held_transport_failures: "held info a \<Longrightarrow> held (transport_failures E p v info) a"
  by (induction E p v info rule: transport_failures.induct) simp_all

lemma held_same_addresses: "pi_addresses i = pi_addresses j \<Longrightarrow> held i a = held j a"
  by (simp add: held_cases)

lemma held_set_rtt: "info_set_rtt r info = Some info' \<Longrightarrow> held info' a = held info a"
  by (rule held_same_addresses) (auto simp: info_set_rtt_def split: option.splits)

lemma held_drop_translated:
  "wf_info info \<Longrightarrow> held info a \<Longrightarrow> held (drop_translated (store_identify idf info)) a"
  by (auto simp: held_cases drop_translated_def store_identify_def map_of_filter_distinct wf_info_def)

lemma held_probe_translated:
  "held info a \<Longrightarrow> held (snd (probe_translated E p as b info)) a"
  by (induction as arbitrary: b info) (auto simp: Let_def split_beta intro: held_ingest)

lemma held_kept: "held info a \<Longrightarrow> prune_keeps t d info"
proof -
  assume "held info a"
  then obtain s u where "(a, s, u) \<in> set (pi_addresses info)" "is_confirmed s"
    by (auto simp: held_cases dest: map_of_SomeD)
  then have "list_ex (\<lambda>(a, s, dt). is_confirmed s \<or>
      (is_to_probe s \<and> diff_time dt t < max d (from_secs 10))) (pi_addresses info)"
    by (auto simp: list_ex_iff intro!: bexI [of _ "(a, s, u)"])
  then show ?thesis by (simp add: prune_keeps_def)
qed

lemma durable_frame [simp]:
  "durable p a (notify E ev b) = durable p a b"
  "durable p a (push_action x b) = durable p a b"
  "durable p a (put_peer q i b) = (if q = p then held i a else durable p a b)"
  by (simp_all add: durable_def)

lemma durable_fields [simp]:
  "durable p a (b\<lparr>event_stream := x\<rparr>) = durable p a b"
  "durable p a (b\<lparr>g_listeners := g\<rparr>) = durable p a b"
  "durable p a (b\<lparr>c_listener_error := y\<rparr>) = durable p a b"
  "durable p a (b\<lparr>refresh_external := r, g_external_addrs := z\<rparr>) = durable p a b"
  "durable p a (b\<lparr>deferred := d\<rparr>) = durable p a b"
  "durable p a (b\<lparr>listeners := ls, g_listen_addrs := n\<rparr>) = durable p a b"
  by (simp_all add: durable_def peer_entry_def)

lemma durable_notify_all [simp]: "durable p a (notify_all E evs b) = durable p a b"
  by (induction evs arbitrary: b) simp_all

lemma durable_push_deferred: "push_deferred i E x b = Some b' \<Longrightarrow> durable p a b' = durable p a b"
  by (auto simp: push_deferred_def bind_eq_Some_conv)

lemma durable_push_all_deferred:
  "push_all_deferred i E xs b = Some b' \<Longrightarrow> durable p a b' = durable p a b"
proof (induction xs arbitrary: i b)
  case (Cons x xs)
  then obtain c where "push_deferred i E x b = Some c" "push_all_deferred (Suc i) E xs c = Some b'"
    by (auto simp: bind_eq_Some_conv)
  with Cons.IH durable_push_deferred show ?case by blast
qed simp

lemma held_peer_entry: "durable p a b \<Longrightarrow> held (peer_entry b p) a"
  by (simp add: durable_def)

lemma durable_add_address: "durable p a b \<Longrightarrow> durable p a (add_address E q x s b)"
  by (cases "accepts b q x")
    (auto simp: add_address_accepted add_address_ignored split_beta Let_def
      intro: held_ingest held_peer_entry)

lemma durable_dial_failure:
  assumes "dial_failure E h peer e b = Some b'" and "durable p a b"
    and "\<not> forgets p a (OpSwarmEvent (SwDialFailure peer h e))"
  shows "durable p a b'"
proof -
  have own: "durable p a b'"
    if "map_of (peers b) q = Some i" "own_dial_failure E q x n k e i b = Some b'"
      "\<not> (is_wrong_peer e \<and> x = a)" for q x n k i
  proof -
    let ?i = "push_failure x (failure_dial (fmt E) (now E) (without_peer_id x) e)
      (is_transport e \<or> is_wrong_peer e \<or> is_connection_io e) i"
    have "q = p \<Longrightarrow> held i a" using that(1) assms(2) by (simp add: durable_def peer_entry_Some)
    then have "q = p \<Longrightarrow> held ?i a" by simp
    with that assms(2) show ?thesis
      by (auto simp: own_dial_failure_def Let_def bind_eq_Some_conv
          dest!: durable_push_deferred [where p = p and a = a] split: if_splits)
  qed
  have tr: "durable p a b'"
    if "map_of (peers b) q = Some i" "transport_dial_failure E q v i b = Some b'" for q v i
  proof -
    have "q = p \<Longrightarrow> held i a" using that(1) assms(2) by (simp add: durable_def peer_entry_Some)
    with that assms(2) show ?thesis
      by (auto simp: transport_dial_failure_def Let_def bind_eq_Some_conv held_transport_failures
          dest!: durable_push_all_deferred [where p = p and a = a] split: if_splits)
  qed
  show ?thesis
    using assms by (cases h; cases e)
      (auto simp: dial_failure_def dest: own tr split: option.splits)
qed

lemma durable_prune_peers:
  assumes "wf_book b" and "durable p a b"
  shows "durable p a (prune_peers E d b)"
proof -
  have "held (peer_entry b p) a" using assms(2) by (rule held_peer_entry)
  moreover have "\<not> held peer_info_default a" by (simp add: held_cases peer_info_default_def)
  ultimately obtain i where i: "map_of (peers b) p = Some i" "held i a"
    by (auto simp: peer_entry_def split: option.splits)
  with held_kept [OF i(2)] show ?thesis
    by (simp add: durable_def peer_entry_def map_of_prune_peers [OF assms(1)])
qed

lemma durable_step:
  assumes "wf_book b" and "durable p a b" and "\<not> forgets p a op" and "book_step (E, op) b = Some b'"
  shows "durable p a b'"
proof (cases op)
  case (OpRemoveAddress q x)
  with assms show ?thesis
    by (auto simp: remove_address_def durable_def peer_entry_Some split: option.splits)
next
  case (OpPrunePeers d)
  with assms show ?thesis by (auto intro: durable_prune_peers)
next
  case (OpConnectionClosed q c n e)
  have "held (i\<lparr>pi_connections := x\<rparr>) a = held i a" for i x by (rule held_same_addresses) simp
  with OpConnectionClosed assms show ?thesis
    by (auto simp: connection_closed_def Let_def split_beta held_peer_entry)
next
  case (OpSetRtt q r)
  with assms show ?thesis
    by (auto simp: set_rtt_def bind_eq_Some_conv held_set_rtt durable_def peer_entry_Some
        split: option.splits)
next
  case (OpSetInfo q idf)
  have "peer_entry (fst (probe_translated E q as b i)) = peer_entry b" for as i
    using probe_translated_view by blast
  with OpSetInfo assms show ?thesis
    by (auto simp: set_info_eq Let_def split_beta durable_def peer_entry_Some dest: wf_book_peer
        intro!: held_probe_translated held_drop_translated split: option.splits)
next
  case (OpSwarmEvent ev)
  have "held (i\<lparr>pi_connections := x\<rparr>) a = held i a" for i x by (rule held_same_addresses) simp
  with OpSwarmEvent assms show ?thesis
    by (cases ev) (auto simp: on_connection_established_def on_address_change_def Let_def
        on_new_listen_addr_def on_expired_listen_addr_def durable_add_address held_peer_entry
        intro: durable_dial_failure)
next
  case (OpPoll ext el)
  have "peer_entry (snd (poll_book ext el b)) = peer_entry b"
    by (simp add: poll_book_def Let_def peer_entry_def fun_eq_iff split: list.split option.split)
  with OpPoll assms show ?thesis by (auto simp: durable_def)
qed (use assms in \<open>auto simp: swarm_events_def dial_def dial_address_def Let_def
  durable_add_address held_peer_entry\<close>)

interpretation durable_address:
  total_step_system "\<lambda>x b. op_ok x b \<and> \<not> forgets p a (snd x)" book_step
    "\<lambda>b. wf_book b \<and> durable p a b" for p a
proof (unfold_locales, goal_cases)
  case (1 b x b')
  then show ?case using durable_step [of b p a "snd x" "fst x" b'] book.step_inv [of b x b'] by simp
next
  case (2 b x)
  then show ?case using book.progress [of b x] by simp
qed

text \<open>(C6) An address that was dialled successfully or entered by the user stays in the book, through
  any calls, failures, disconnects, identify messages and pruning, unless it is removed or a
  dial of it reaches a different peer.\<close>

theorem durable_survives:
  assumes "wf_book b" and "held (peer_entry b p) a"
    and "good_run (\<lambda>x b. op_ok x b \<and> \<not> forgets p a (snd x)) book_step ops b"
  shows "\<exists>b'. run_steps book_step ops b = Some b' \<and> held (peer_entry b' p) a"
proof -
  have "wf_book b \<and> durable p a b" using assms by (simp add: durable_def)
  from durable_address.run_total [OF this assms(3)] show ?thesis by (auto simp: durable_def)
qed

theorem durable_survives_witness:
  "\<exists>b'. run_steps book_step
      [(sample_env, OpPrunePeers 0),
       (sample_env, OpSwarmEvent (SwDialFailure (Some 2) (IntoAddressHandler
          (Some (normalized sample_addr 2, 3)) False) (Transport [])))]
      (add_address sample_env 2 sample_addr User (address_book_new 1 True True False)) = Some b' \<and>
    held (peer_entry b' 2) (normalized sample_addr 2)"
proof (rule durable_survives)
  let ?b = "add_address sample_env 2 sample_addr User (address_book_new 1 True True False)"
  show "wf_book ?b" by (intro wf_intros) simp
  have "accepts (address_book_new 1 True True False) 2 sample_addr"
    by (simp add: accepts_def address_book_new_def)
  then show "held (peer_entry ?b 2) (normalized sample_addr 2)"
    by (simp add: add_address_accepted Let_def split_beta held_def sources_ingest_address)
      (simp add: sources_def peer_entry_def address_book_new_def peer_info_default_def)
  show "good_run (\<lambda>x b. op_ok x b \<and> \<not> forgets 2 (normalized sample_addr 2) (snd x)) book_step
      [(sample_env, OpPrunePeers 0),
       (sample_env, OpSwarmEvent (SwDialFailure (Some 2) (IntoAddressHandler
          (Some (normalized sample_addr 2, 3)) False) (Transport [])))] ?b"
    by (simp add: SIM_OPEN_RETRIES_def split: option.split)
qed

section \<open>Pruning\<close>



section \<open>Failed dials\<close>

lemma own_dial_failure_eq:
  "own_dial_failure E p a n keep e info b =
     Some (let info1 = push_failure a (failure_dial (fmt E) (now E) (without_peer_id a) e)
                 (is_transport e \<or> is_wrong_peer e \<or> is_connection_io e) info;
               info2 = (if is_wrong_peer e
                        then info1\<lparr>pi_addresses := AList.delete a (pi_addresses info1)\<rparr> else info1);
               b1 = put_peer p info2 b;
               b2 = (if dial_error_sim_open e \<and> 0 < n
                     then b1\<lparr>deferred := deferred b1 @
                       [(the (redial_delay (port_reuse b) (rnd E 0)),
                         DialAction \<lparr>opt_peer = p, opt_condition = CondDefault, opt_addresses = [a]\<rparr>
                           (IntoAddressHandler (Some (a, n - 1)) keep))]\<rparr>
                     else b1)
           in notify E (NewInfo p) (notify E (DialFailure p a (show_dial (fmt E) e)) b2))"
  by (simp add: own_dial_failure_def Let_def push_deferred_def redial_delay_eq)

lemma own_dial_failure_deferred:
  assumes "own_dial_failure E p a n keep e info b = Some b'"
  shows "contains_key (peers b') p \<and>
    (\<exists>d. deferred b' = deferred b @
       (if dial_error_sim_open e \<and> 0 < n
        then [(d, DialAction \<lparr>opt_peer = p, opt_condition = CondDefault, opt_addresses = [a]\<rparr>
                    (IntoAddressHandler (Some (a, n - 1)) keep))]
        else []))"
  using assms by (auto simp: own_dial_failure_eq Let_def alist_simps)

text \<open>
  A dial of the book's own that keeps failing: every failure is reported with the handler of the
  redial the book scheduled for the one before, until it schedules none.  The number of redials
  is returned beside the book.
\<close>

fun redial_chain ::
  "peer_id \<Rightarrow> (env \<times> dial_error) list \<Rightarrow> into_address_handler \<Rightarrow> address_book \<Rightarrow>
     (nat \<times> address_book) option" where
  "redial_chain p [] h b = Some (0, b)"
| "redial_chain p ((E, e) # fs) h b =
     do { b' \<leftarrow> dial_failure E h (Some p) e b;
          if length (deferred b') = length (deferred b) then Some (0, b')
          else case last (deferred b') of
                 (_, DialAction _ h') \<Rightarrow> map_option (map_prod Suc id) (redial_chain p fs h' b') }"

lemma dial_failure_own:
  assumes "multiaddr_peer_id a = Some p" and "map_of (peers b) p = Some info"
  shows "dial_failure E (IntoAddressHandler (Some (a, n)) keep) q e b =
    own_dial_failure E p a n keep e info b"
  using assms by (simp add: dial_failure_def multiaddr_peer_id_def)

text \<open>(C13) Retries after simultaneous opens end: a dial of the book's own with \<open>n\<close> retries left that
  keeps failing that way is redialled exactly \<open>min k n\<close> times in \<open>k\<close> failures, so a validation
  dial (eleven retries) is redialled at most eleven times, and reporting the failures never
  panics.\<close>

theorem sim_open_retries_end:
  assumes "multiaddr_peer_id a = Some p" and "contains_key (peers b) p"
    and "list_all (\<lambda>(_, e). dial_error_sim_open e) fs"
  shows "\<exists>b'. redial_chain p fs (IntoAddressHandler (Some (a, n)) keep) b =
    Some (min (length fs) (unat n), b')"
  using assms
proof (induction fs arbitrary: b n)
  case (Cons f fs)
  obtain E e where f: "f = (E, e)" by (cases f)
  obtain info where info: "map_of (peers b) p = Some info" using Cons.prems by auto
  obtain c where c: "own_dial_failure E p a n keep e info b = Some c"
    by (simp add: own_dial_failure_eq)
  note fail = dial_failure_own [OF Cons.prems(1) info, of E n keep "Some p" e] c
    own_dial_failure_deferred [OF c]
  show ?case
  proof (cases "0 < n")
    case False
    then have "n = 0" by (simp add: word_gt_0)
    with f fail show ?thesis by auto
  next
    case True
    from Cons fail obtain b' where "redial_chain p fs (IntoAddressHandler (Some (a, n - 1)) keep) c =
        Some (min (length fs) (unat (n - 1)), b')"
      by auto
    moreover have "unat n = Suc (unat (n - 1))" using True by unat_arith
    ultimately show ?thesis using f fail True Cons.prems by auto
  qed
qed simp

definition sim_open_error :: dial_error where
  "sim_open_error = Transport [([], TransportOther (IoError (OtherKind 0) (Some (BoxedDns
     (DnsTransport (IoError (OtherKind 0) (Some (BoxedNet (NetOther (StackA (AuthB
       (UpgradeApply (NoiseIo (IoError InvalidData None))))))))))))))]"

theorem sim_open_retries_end_witness:
  "\<exists>b'. redial_chain 2 (replicate 15 (sample_env, sim_open_error))
      (IntoAddressHandler (Some ([Tcp 1, P2p (PeerHash 2)], SIM_OPEN_RETRIES + 1)) False)
      (dial_address 2 sample_addr (address_book_new 1 True True False)) = Some (11, b')"
proof -
  have "multiaddr_peer_id [Tcp 1, P2p (PeerHash 2)] = Some 2"
    by (simp add: multiaddr_peer_id_def last_protocol_def)
  moreover have "contains_key (peers (dial_address 2 sample_addr
      (address_book_new 1 True True False))) 2"
    by (simp add: dial_address_def Let_def address_book_new_def alist_simps)
  moreover have "list_all (\<lambda>(_, e). dial_error_sim_open e) (replicate 15 (sample_env, sim_open_error))"
    by (simp add: list_all_iff dial_error_sim_open_def sim_open_error_def)
  ultimately show ?thesis
    using sim_open_retries_end [of "[Tcp 1, P2p (PeerHash 2)]" 2
        "dial_address 2 sample_addr (address_book_new 1 True True False)"
        "replicate 15 (sample_env, sim_open_error)" "SIM_OPEN_RETRIES + 1" False]
    by (simp add: SIM_OPEN_RETRIES_def)
qed

lemma sent_notify: "sent (notify E ev b) = sent b @ map (\<lambda>c. (c, ev)) (filter (alive E) (event_stream b))"
  and event_stream_notify: "event_stream (notify E ev b) = filter (alive E) (event_stream b)"
  by (simp_all add: notify_def Let_def)

lemma sources_push_failure:
  "sources (push_failure a f r info) =
     (if r \<and> (case sources info a of None \<Rightarrow> False | Some s \<Rightarrow> is_to_probe s)
      then (sources info)(a := None) else sources info)"
  by (auto simp: push_failure_def Let_def sources_def alist_simps fun_eq_iff split: option.splits)

lemma sources_delete:
  "sources (info\<lparr>pi_addresses := AList.delete a (pi_addresses info)\<rparr>) = (sources info)(a := None)"
  by (auto simp: sources_def alist_simps fun_eq_iff)

text \<open>(C24) A failed dial of the book's own never panics.  It makes the book forget the address if the
  dial reached a different peer, or if it failed in transport and the address was not known to
  work; other addresses and other peers are untouched, nothing is dialled at once, and every
  subscriber whose channel is open is told of the failure and then of the new information.\<close>

theorem own_dial_failure_spec:
  assumes "multiaddr_peer_id a = Some p" and "map_of (peers b) p = Some info"
  shows "\<exists>b'. dial_failure E (IntoAddressHandler (Some (a, n)) keep) q e b = Some b' \<and>
    sources (peer_entry b' p) =
      (if is_wrong_peer e \<or>
          (is_transport e \<or> is_connection_io e) \<and>
          (case sources info a of None \<Rightarrow> False | Some s \<Rightarrow> is_to_probe s)
       then (sources info)(a := None) else sources info) \<and>
    (map_of (peers b'))(p := None) = (map_of (peers b))(p := None) \<and> actions b' = actions b \<and>
    sent b' = sent b @
      [(c, ev). ev \<leftarrow> [DialFailure p a (show_dial (fmt E) e), NewInfo p],
                c \<leftarrow> filter (alive E) (event_stream b)]"
  by (cases "is_wrong_peer e")
    (auto simp: dial_failure_own [OF assms] own_dial_failure_eq Let_def sources_push_failure
      sources_delete alist_simps sent_notify event_stream_notify)

theorem own_dial_failure_spec_witness:
  "\<exists>b'. dial_failure sample_env (IntoAddressHandler (Some ([Tcp 1, P2p (PeerHash 2)], 3)) False)
      None (WrongPeerId 4 (Dialer [] EndpointDialer))
      (dial_address 2 sample_addr (address_book_new 1 True True False)) = Some b'"
proof -
  have "multiaddr_peer_id [Tcp 1, P2p (PeerHash 2)] = Some 2"
    by (simp add: multiaddr_peer_id_def last_protocol_def)
  moreover have "map_of (peers (dial_address 2 sample_addr
      (address_book_new 1 True True False))) 2 = Some peer_info_default"
    by (simp add: dial_address_def Let_def address_book_new_def alist_simps peer_entry_def
        peer_info_default_def)
  ultimately show ?thesis using own_dial_failure_spec by blast
qed

section \<open>Adding an address\<close>

text \<open>(C23) \<open>add_address\<close> ignores the local peer, loopback addresses unless enabled, and addresses the
  node itself listens on.  Otherwise the address's source becomes the maximum of what was known
  and what is reported, a validation dial is queued exactly when the report makes the address
  one to be probed and there is no connection over it, and open subscribers are told: that the
  peer is discovered exactly when it had no confirmed address and this one is, and that there is
  new information.\<close>

theorem add_address_spec:
  "let b' = add_address E p a s b; full = normalized a p; info = peer_entry b p;
       ok = (p \<noteq> local_peer_id b \<and> \<not> (is_loopback a \<and> \<not> enable_loopback b) \<and>
             without_peer_id a \<notin> set (listeners b));
       probe = (is_to_probe s \<and> (case sources info full of None \<Rightarrow> True | Some t \<Rightarrow> t < s) \<and>
                (p, full) \<notin> conns b)
   in if ok
      then sources (peer_entry b' p) = learn (full, s) (sources info) \<and>
           actions b' = actions b @ (if probe then [validation_dial p a 11] else []) \<and>
           sent b' = sent b @
             [(c, ev). ev \<leftarrow> (if confirmed_addresses info = [] \<and> is_confirmed s
                               then [Discovered p] else []) @ [NewInfo p],
                       c \<leftarrow> filter (alive E) (event_stream b)]
      else b' = b"
proof (cases "accepts b p a")
  case True
  have "fst (ingest_address (now E) (normalized a p) s (peer_entry b p)) \<and>
      \<not> contains_key (pi_connections (snd (ingest_address (now E) (normalized a p) s (peer_entry b p))))
        (normalized a p) \<longleftrightarrow>
      is_to_probe s \<and>
      (case sources (peer_entry b p) (normalized a p) of None \<Rightarrow> True | Some t \<Rightarrow> t < s) \<and>
      (p, normalized a p) \<notin> conns b"
    by (simp add: fst_ingest_address frame_simps pi_connections_conns del: not_None_eq)
  with True show ?thesis
    by (auto simp: add_address_accepted Let_def split_beta sources_ingest_address accepts_def
        sent_notify event_stream_notify SIM_OPEN_RETRIES_def simp del: learn.simps not_None_eq)
qed (auto simp: add_address_ignored accepts_def Let_def)

section \<open>Polling\<close>

fun poll_times :: "nat \<Rightarrow> address_record list \<Rightarrow> address_book \<Rightarrow> to_swarm poll list \<times> address_book" where
  "poll_times 0 ext b = ([], b)"
| "poll_times (Suc n) ext b =
     (let (r, b') = poll_book ext None b; (rs, b'') = poll_times n ext b' in (r # rs, b''))"

lemma poll_times_actions:
  "actions b = as \<Longrightarrow> fst (poll_times (length as) ext b) = map Ready as \<and>
     actions (snd (poll_times (length as) ext b)) = [] \<and>
     deferred (snd (poll_times (length as) ext b)) = deferred b"
proof (induction as arbitrary: b)
  case (Cons a as)
  have "fst (poll_book ext None b) = Ready a" "actions (snd (poll_book ext None b)) = as"
    "deferred (snd (poll_book ext None b)) = deferred b"
    using Cons.prems by (simp_all add: poll_book_def Let_def)
  with Cons.IH [of "snd (poll_book ext None b)"] show ?case
    by (simp add: split_beta Let_def)
qed simp

text \<open>Queued actions reach the swarm first in first out and exactly once, before any deferred
  dial: as many polls as there are actions return them in order and empty the queue; the next
  poll returns the deferred dial whose timer has elapsed and removes it, or is pending.\<close>

lemma poll_fifo:
  "let (rs, b') = poll_times (length (actions b)) ext b;
       (r, b'') = poll_book ext elapsed b'
   in rs = map Ready (actions b) \<and> actions b' = [] \<and> deferred b' = deferred b \<and>
      (case elapsed of
         None \<Rightarrow> r = Pending \<and> deferred b'' = deferred b
       | Some i \<Rightarrow>
           if i < length (deferred b)
           then r = Ready (snd (deferred b ! i)) \<and>
                deferred b'' = take i (deferred b) @ drop (Suc i) (deferred b)
           else r = Pending)"
  using poll_times_actions [OF refl, of b ext]
  by (auto simp: split_beta Let_def poll_book_def split: option.split)

section \<open>Translated addresses\<close>

text \<open>(C28) What an identified peer's incoming address is translated to: the address with its port
  replaced, over the same IP address.  The ports are those the peer listens on at that IP
  address; if there are none, all ports it listens on; if it reports none at all, the address
  stays as it is.  Replacing the port never panics.\<close>

theorem translate_address_spec:
  assumes "ip_port a = Some (ip, q)"
  shows "\<exists>ys. translate_address lp a = Some ys \<and>
    ip_port ` set ys = (\<lambda>p. Some (ip, p)) `
      (if \<exists>p. (ip, p) \<in> set lp then {p. (ip, p) \<in> set lp}
       else if lp \<noteq> [] then snd ` set lp else {q}) \<and>
    (\<forall>y \<in> set ys. \<exists>p. y = a[1 := Tcp p])"
proof -
  have port: "ip_port (a[Suc 0 := Tcp p]) = Some (ip, p)" for p
    using ip_port_replace_port [OF assms] by simp
  have same: "a = a[1 := Tcp q]" using ip_port_shape [OF assms] by auto
  have none: "filter (\<lambda>(x, _). x = ip) lp = [] \<longleftrightarrow> \<not> (\<exists>p. (ip, p) \<in> set lp)"
    by (auto simp: filter_empty_conv)
  show ?thesis
  proof (cases "\<exists>p. (ip, p) \<in> set lp")
    case True
    then show ?thesis using assms none
      by (auto simp: translate_address_eq port image_iff retarget_def)
  next
    case False
    then show ?thesis using assms none same
      by (auto simp: translate_address_eq port image_image retarget_def)
  qed
qed

theorem translate_address_spec_witness:
  "\<exists>ys. translate_address [(V4 1, 4001)] [Ip4 1, Tcp 50000] = Some ys \<and>
     ip_port ` set ys = {Some (V4 1, 4001)}"
  using translate_address_spec [of "[Ip4 1, Tcp 50000]" "V4 1" 50000 "[(V4 1, 4001)]"]
  by (auto simp: ip_port_def)

end
