(* ===== verification/Address_Types.thy ===== *)
theory Address_Types
  imports Address_Book_Props
begin

text \<open>
  Whose addresses are in the book.  An address may end in the id of a peer; the book files it
  under the peer it was told about without comparing the two.  As long as nobody names one peer
  in an address of another, every address and connection filed under a peer names that peer, and
  so does every dial.  A peer that lists such an address in its identify message has its failed
  dials counted against the other peer.
\<close>

section \<open>Addresses that name a peer\<close>

definition names :: "peer_id \<Rightarrow> multiaddr \<Rightarrow> bool" where
  "names p a \<longleftrightarrow> multiaddr_peer_id a = Some p"

text \<open>What a peer may be said to be reachable at, and what a dial of it may carry.\<close>

definition told :: "peer_id \<Rightarrow> multiaddr \<Rightarrow> bool" where
  "told p a \<longleftrightarrow> (if ends_with_p2p a then names p a else True)"

lemma names_normalized: "told p a \<Longrightarrow> names p (normalized a p)"
  using norm_ref.attach_same [of a p] norm_ref.attach_names [of a p]
  by (auto simp: told_def names_def split: if_splits)

lemma told_normalized [simp]: "told p a \<Longrightarrow> told p (normalized a p)"
  by (simp add: told_def names_normalized)

lemma names_told: "names p a \<Longrightarrow> told p a"
  by (simp add: told_def)

lemma names_retarget:
  assumes "names p a" and "ip_port a = Some (ip, q)"
  shows "names p (retarget a r)"
proof -
  obtain h t where a: "a = h # Tcp q # t" using ip_port_shape [OF assms(2)] by blast
  moreover have "t \<noteq> []"
    using assms(1) a by (auto simp: names_def multiaddr_peer_id_def last_protocol_def)
  ultimately show ?thesis
    using assms(1) by (simp add: names_def multiaddr_peer_id_def last_protocol_def retarget_def)
qed

fun own_dials :: "to_swarm \<Rightarrow> bool" where
  "own_dials (DialAction opts (IntoAddressHandler own keep)) \<longleftrightarrow>
     (case own of None \<Rightarrow> True | Some (a, _) \<Rightarrow> multiaddr_peer_id a \<in> {None, Some (opt_peer opts)})"

definition typed_info :: "peer_id \<Rightarrow> peer_info \<Rightarrow> bool" where
  "typed_info p info \<longleftrightarrow>
     list_all (names p) (keys (pi_addresses info)) \<and> list_all (names p) (keys (pi_connections info))"

definition typed_book :: "address_book \<Rightarrow> bool" where
  "typed_book b \<longleftrightarrow>
     all_values typed_info (peers b) \<and> list_all own_dials (actions b) \<and>
     list_all (\<lambda>(_, a). own_dials a) (deferred b)"

section \<open>The type is kept\<close>

lemma typed_frame [simp]:
  "typed_book (notify E ev b) = typed_book b"
  "typed_book (push_action a b) \<longleftrightarrow> typed_book b \<and> own_dials a"
  by (auto simp: typed_book_def notify_def push_action_def Let_def)

lemma typed_notify_all [simp]: "typed_book (notify_all E evs b) = typed_book b"
  by (induction evs arbitrary: b) simp_all

lemma typed_fields [simp]:
  "typed_book (b\<lparr>event_stream := x\<rparr>) = typed_book b"
  "typed_book (b\<lparr>g_listeners := g\<rparr>) = typed_book b"
  "typed_book (b\<lparr>c_listener_error := y\<rparr>) = typed_book b"
  "typed_book (b\<lparr>refresh_external := r, g_external_addrs := z\<rparr>) = typed_book b"
  "typed_book (b\<lparr>listeners := ls, g_listen_addrs := n\<rparr>) = typed_book b"
  by (simp_all add: typed_book_def)

lemma typed_put_peer: "typed_book b \<Longrightarrow> typed_info p i \<Longrightarrow> typed_book (put_peer p i b)"
  by (simp add: typed_book_def put_peer_def all_values_update)

lemma typed_entry: "typed_book b \<Longrightarrow> typed_info p (peer_entry b p)"
  unfolding typed_book_def peer_entry_def
  by (auto simp: typed_info_def peer_info_default_def dest: all_valuesD split: option.split)

lemma typed_peer: "typed_book b \<Longrightarrow> map_of (peers b) p = Some i \<Longrightarrow> typed_info p i"
  using typed_entry [of b p] by (simp add: peer_entry_Some)

lemma typed_ingest: "typed_info p i \<Longrightarrow> names p a \<Longrightarrow> typed_info p (snd (ingest_address t a s i))"
  by (auto simp: ingest_address_def typed_info_def intro: keys_intros split: option.split)

lemma typed_push_failure: "typed_info p i \<Longrightarrow> typed_info p (push_failure a f r i)"
  by (auto simp: push_failure_def typed_info_def Let_def intro: keys_intros)

lemma typed_delete: "typed_info p i \<Longrightarrow> typed_info p (i\<lparr>pi_addresses := AList.delete a (pi_addresses i)\<rparr>)"
  by (auto simp: typed_info_def intro: keys_intros)

lemma typed_connect:
  "typed_info p i \<Longrightarrow> names p a \<Longrightarrow>
     typed_info p (i\<lparr>pi_connections := AList.update a v (pi_connections i)\<rparr>)"
  by (auto simp: typed_info_def intro: keys_intros)

lemma typed_disconnect:
  "typed_info p i \<Longrightarrow> typed_info p (i\<lparr>pi_connections := AList.delete a (pi_connections i)\<rparr>)"
  by (auto simp: typed_info_def intro: keys_intros)

lemma typed_reconnect:
  "typed_info p i \<Longrightarrow> names p a \<Longrightarrow>
     typed_info p (i\<lparr>pi_connections := AList.update a v (AList.delete c (pi_connections i))\<rparr>)"
  by (auto simp: typed_info_def intro: keys_intros)

lemma typed_transport_failures: "typed_info p i \<Longrightarrow> typed_info p (transport_failures E q v i)"
  by (induction E q v i rule: transport_failures.induct) (simp_all add: typed_push_failure)

lemma typed_rtt: "info_set_rtt r i = Some i' \<Longrightarrow> typed_info p i' = typed_info p i"
  by (auto simp: info_set_rtt_def typed_info_def split: option.splits)

lemma own_dials_validation: "told p a \<Longrightarrow> own_dials (validation_dial p a n)"
  using names_normalized [of p a] by (simp add: validation_dial_def names_def)

lemma typed_add_address:
  assumes "typed_book b" and "told p a"
  shows "typed_book (add_address E p a s b)"
proof (cases "accepts b p a")
  case True
  have "typed_info p (snd (ingest_address (now E) (normalized a p) s (peer_entry b p)))"
    using assms by (intro typed_ingest typed_entry names_normalized)
  with assms show ?thesis
    by (auto simp: add_address_accepted [OF True] split_beta Let_def
        intro!: typed_put_peer own_dials_validation)
qed (simp add: add_address_ignored assms)

lemma typed_prune_remove: "typed_book b \<Longrightarrow> typed_book (prune_remove E ps b)"
  by (induction ps arbitrary: b) (simp_all add: typed_book_def all_values_delete notify_def Let_def)

lemma typed_push_deferred:
  "push_deferred i E x b = Some b' \<Longrightarrow> typed_book b' \<longleftrightarrow> typed_book b \<and> own_dials x"
  by (auto simp: push_deferred_def bind_eq_Some_conv typed_book_def)

lemma typed_push_all_deferred:
  "push_all_deferred i E xs b = Some b' \<Longrightarrow> typed_book b' \<longleftrightarrow> typed_book b \<and> list_all own_dials xs"
proof (induction xs arbitrary: i b)
  case (Cons x xs)
  then obtain c where "push_deferred i E x b = Some c" "push_all_deferred (Suc i) E xs c = Some b'"
    by (auto simp: bind_eq_Some_conv)
  with Cons.IH typed_push_deferred show ?case by fastforce
qed simp

lemma typed_dial_failure:
  assumes "dial_failure E h peer e b = Some b'" and "typed_book b"
    and "\<And>p v. peer = Some p \<Longrightarrow> e = Transport v \<Longrightarrow> list_all (\<lambda>(a, _). told p a) v"
  shows "typed_book b'"
proof -
  have own: "typed_book b'"
    if "map_of (peers b) q = Some i" "own_dial_failure E q x n k e i b = Some b'"
      "multiaddr_peer_id x \<in> {None, Some q}" for q x n k i
  proof -
    have "typed_info q i" using that(1) assms(2) by (auto intro: typed_peer)
    with that assms(2) show ?thesis
      by (auto simp: own_dial_failure_def Let_def bind_eq_Some_conv typed_push_deferred
          split: if_splits intro!: typed_put_peer typed_push_failure typed_delete)
  qed
  have tr: "typed_book b'"
    if "map_of (peers b) q = Some i" "transport_dial_failure E q v i b = Some b'"
      "list_all (\<lambda>(a, _). told q a) v" for q v i
  proof -
    have "typed_info q i" using that(1) assms(2) by (auto intro: typed_peer)
    moreover have "list_all own_dials (transport_redials q k v)" for k
      using that(3)
      by (auto simp: transport_redials_def list_all_iff told_def names_def multiaddr_peer_id_def
          ends_with_p2p_def split: option.splits protocol.splits if_splits)
    ultimately show ?thesis using that assms(2)
      by (auto simp: transport_dial_failure_def Let_def bind_eq_Some_conv typed_push_all_deferred
          split: if_splits intro!: typed_put_peer typed_transport_failures)
  qed
  show ?thesis
  proof (cases "\<exists>x n k. h = IntoAddressHandler (Some (x, n)) k")
    case True
    then obtain x n k where h: "h = IntoAddressHandler (Some (x, n)) k" by blast
    show ?thesis
    proof (cases "case multiaddr_peer_id x of Some p \<Rightarrow> Some p | None \<Rightarrow> peer")
      case (Some q)
      then have "multiaddr_peer_id x \<in> {None, Some q}" by (auto split: option.splits)
      with Some h assms(1,2) own show ?thesis
        by (simp add: dial_failure_def handler_peer_id_eq del: handler_peer_id.simps split: option.splits)
    qed (use h assms in \<open>simp add: dial_failure_def handler_peer_id_eq del: handler_peer_id.simps\<close>)
  next
    case False
    then obtain k where h: "h = IntoAddressHandler None k" by (cases h rule: handler_peer_id.cases) auto
    show ?thesis
    proof (cases "\<exists>q i v. peer = Some q \<and> map_of (peers b) q = Some i \<and> e = Transport v")
      case True
      then obtain q i v where q: "peer = Some q" "map_of (peers b) q = Some i" "e = Transport v" by blast
      with h assms(1) have "transport_dial_failure E q v i b = Some b'" by (simp add: dial_failure_def)
      with q show ?thesis using tr assms(3) by blast
    next
      case False
      with h assms(1) have "b' = b \<or> (\<exists>ev. b' = notify E ev b)"
        by (cases e) (auto simp: dial_failure_def split: option.splits)
      then show ?thesis using assms(2) by auto
    qed
  qed
qed

lemma names_translate_address:
  assumes "names p a" and "translate_address lp a = Some xs"
  shows "list_all (names p) xs"
proof (cases "ip_port a")
  case (Some x)
  then have "names p (retarget a q)" for q using names_retarget [OF assms(1)] by (cases x) auto
  with Some assms show ?thesis
    by (cases x) (auto simp: translate_address_eq Let_def list_all_iff split: if_splits)
qed (use assms in \<open>simp add: translate_address_eq\<close>)

lemma names_translated:
  "translate_all lp as = Some ys \<Longrightarrow> list_all (names p) as \<Longrightarrow> list_all (names p) ys"
proof (induction as arbitrary: ys)
  case (Cons a as)
  then obtain xs zs where "translate_address lp a = Some xs" "translate_all lp as = Some zs" "ys = xs @ zs"
    by (auto simp: bind_eq_Some_conv)
  with Cons names_translate_address [of p a lp xs] show ?case by simp
qed simp

lemma names_candidates:
  assumes "typed_info p info" and "list_all (told p) (pi_listeners info)"
  shows "list_all (names p) (identify_candidates b p info)"
proof -
  obtain ys where ys: "translate_all (listen_ports p info) (addresses_to_translate info) = Some ys"
    using translate_all_total by blast
  have "list_all (names p) (addresses_to_translate info)"
    using assms(1) by (auto simp: addresses_to_translate_def typed_info_def list_all_iff)
  with ys names_translated have "list_all (names p) ys" by blast
  with ys assms(2) show ?thesis
    by (auto simp: identify_candidates_def listening_addresses_def drop_translated_def list_all_iff
        names_normalized)
qed

lemma typed_probe_translated:
  assumes "typed_book b" "typed_info p info" "list_all (names p) as"
  shows "typed_book (fst (probe_translated E p as b info)) \<and>
    typed_info p (snd (probe_translated E p as b info))"
  using assms
proof (induction as arbitrary: b info)
  case (Cons a as)
  let ?i = "snd (ingest_address (now E) a Listen info)"
  have i: "typed_info p ?i" "typed_info p (snd (ingest_address (now E) a Candidate ?i))"
    using Cons.prems by (auto intro!: typed_ingest)
  moreover have "multiaddr_peer_id a = Some p" using Cons.prems by (simp add: names_def)
  ultimately show ?case using Cons by (simp add: Let_def split_beta)
qed simp

lemma typed_set_info:
  assumes "set_info E p idf b = Some b'" and "typed_book b" and "order_ok E"
    and "list_all (told p) (id_listen_addrs idf)"
  shows "typed_book b'"
proof (cases "map_of (peers b) p")
  case (Some info0)
  let ?info = "store_identify idf info0"
  have info: "typed_info p ?info" "typed_info p (drop_translated ?info)"
    using typed_peer [OF assms(2) Some]
    by (auto simp: typed_info_def store_identify_def drop_translated_def intro: keys_intros)
  have "list_all (told p) (pi_listeners ?info)" using assms(4) by (simp add: store_identify_def)
  from names_candidates [OF info(1) this, of b]
  have "list_all (names p) (set_order E (identify_candidates b p ?info))"
    using assms(3) by (simp add: order_ok_def identify_candidates_def list_all_iff)
  from typed_probe_translated [OF assms(2) info(2) this, of E] show ?thesis
    using assms(1) Some by (auto simp: set_info_eq Let_def split_beta intro!: typed_put_peer)
qed (use assms in \<open>simp add: set_info_eq\<close>)

section \<open>Runs\<close>

text \<open>
  Nobody names one peer in an address of another: neither the user, nor the remote side of a
  connection, nor a peer that lists its own addresses, nor the swarm when a dial fails.
\<close>

fun tells_own :: "book_op \<Rightarrow> bool" where
  "tells_own (OpDialAddress p a) \<longleftrightarrow> told p a"
| "tells_own (OpAddAddress p a s) \<longleftrightarrow> told p a"
| "tells_own (OpSetInfo p idf) \<longleftrightarrow> list_all (told p) (id_listen_addrs idf)"
| "tells_own (OpSwarmEvent (SwConnectionEstablished p c n)) \<longleftrightarrow> told p (get_remote_address c)"
| "tells_own (OpSwarmEvent (SwAddressChange p old new)) \<longleftrightarrow> told p (get_remote_address new)"
| "tells_own (OpSwarmEvent (SwDialFailure (Some p) h (Transport v))) \<longleftrightarrow> list_all (\<lambda>(a, _). told p a) v"
| "tells_own _ \<longleftrightarrow> True"

lemma typed_swarm_event:
  assumes "typed_book b" and "tells_own (OpSwarmEvent ev)" and "on_swarm_event E ev b = Some b'"
  shows "typed_book b'"
proof (cases ev)
  case (SwDialFailure peer h e)
  with assms(3) have "dial_failure E h peer e b = Some b'" by simp
  then show ?thesis
    by (rule typed_dial_failure) (use SwDialFailure assms in auto)
next
  case (SwConnectionEstablished p c n)
  then have "b' = on_connection_established E p c n b" "told p (get_remote_address c)"
    using assms by simp_all
  with assms(1) show ?thesis
    by (simp add: on_connection_established_def Let_def typed_put_peer typed_connect typed_entry
        typed_add_address names_normalized)
next
  case (SwAddressChange p old new)
  then have "b' = on_address_change E p old new b" "told p (get_remote_address new)"
    using assms by simp_all
  with assms(1) show ?thesis
    by (simp add: on_address_change_def Let_def typed_put_peer typed_reconnect typed_entry
        typed_add_address names_normalized)
qed (use assms in \<open>auto simp: on_new_listen_addr_def on_expired_listen_addr_def\<close>)

lemma typed_set_rtt:
  assumes "set_rtt E p r b = Some b'" and "typed_book b"
  shows "typed_book b'"
proof (cases "map_of (peers b) p")
  case (Some i)
  then obtain i' where "info_set_rtt r i = Some i'" "b' = notify E (NewInfo p) (put_peer p i' b)"
    using assms(1) by (auto simp: set_rtt_def bind_eq_Some_conv)
  with typed_peer [OF assms(2) Some] show ?thesis
    using assms(2) by (simp add: typed_put_peer typed_rtt)
qed (use assms in \<open>simp add: set_rtt_def\<close>)

lemma typed_poll: "typed_book b \<Longrightarrow> typed_book (snd (poll_book ext el b))"
  by (auto simp: poll_book_def typed_book_def Let_def list_all_iff
      dest: in_set_takeD in_set_dropD split: list.split option.split)

lemma typed_step:
  assumes "typed_book b" and "op_ok (E, op) b" and "tells_own op" and "book_step (E, op) b = Some b'"
  shows "typed_book b'"
proof (cases op)
  case (OpConnectionClosed p c n e)
  with assms show ?thesis
    by (auto simp: connection_closed_def Let_def split_beta typed_put_peer typed_push_failure
        typed_disconnect typed_entry)
next
  case (OpSetRtt p r)
  with assms typed_set_rtt [of E p r b b'] show ?thesis by simp
next
  case (OpSetInfo p idf)
  with assms typed_set_info [of E p idf b b'] show ?thesis by simp
next
  case (OpSwarmEvent ev)
  with assms typed_swarm_event [of b ev E b'] show ?thesis by simp
next
  case (OpDialAddress p a)
  have "multiaddr_peer_id (normalized a p) = Some p"
    using OpDialAddress assms names_normalized [of p a] by (simp add: names_def)
  with OpDialAddress assms show ?thesis
    by (auto simp: dial_address_def Let_def typed_put_peer typed_entry)
next
  case (OpRemoveAddress p a)
  with assms show ?thesis
    using typed_peer [OF assms(1), of p]
    by (auto simp: remove_address_def split: option.splits intro!: typed_put_peer typed_delete)
next
  case (OpPoll ext el)
  with assms show ?thesis
    by (auto simp: typed_poll)
next
  case (OpAddAddress p a s)
  with assms show ?thesis by (auto simp: typed_add_address)
next
  case (OpPrunePeers d)
  with assms(4) have "b' = prune_peers E d b" by simp
  with assms(1) show ?thesis by (simp add: prune_peers_def typed_prune_remove)
next
  case (OpNotify ev)
  with assms(4) have "b' = notify E ev b" by simp
  with assms(1) show ?thesis by simp
next
  case (OpSwarmEvents tx)
  with assms(4) have "b' = swarm_events tx b" by simp
  with assms(1) show ?thesis by (simp add: swarm_events_def)
next
  case (OpDial p)
  with assms(4) have "b' = dial p b" by simp
  with assms(1) show ?thesis by (simp add: dial_def new_handler_def)
qed


interpretation typed_addresses:
  total_step_system "\<lambda>x b. op_ok x b \<and> tells_own (snd x)" book_step "\<lambda>b. wf_book b \<and> typed_book b"
proof (unfold_locales, goal_cases)
  case (1 b x b')
  then show ?case using typed_step [of b "fst x" "snd x" b'] book.step_inv [of b x b'] by simp
next
  case (2 b x)
  then show ?case using book.progress [of b x] by simp
qed

lemma typed_poll_action:
  "typed_book b \<Longrightarrow> fst (poll_book ext el b) = Ready a \<Longrightarrow> own_dials a"
  by (auto simp: poll_book_def typed_book_def Let_def list_all_iff dest!: nth_mem
      split: list.splits option.splits if_splits)

text \<open>(C21) As long as nobody names one peer in an address of another, the book is well-typed: every
  address and every connection filed under a peer ends in the id of that peer, and the address a
  dial carries along never names a peer other than the one that is dialled.\<close>

theorem addresses_name_their_peer:
  assumes "good_run (\<lambda>x b. op_ok x b \<and> tells_own (snd x)) book_step ops (address_book_new l reuse loopback keep)"
  shows "\<exists>b. run_steps book_step ops (address_book_new l reuse loopback keep) = Some b \<and>
    (\<forall>p a. contains_key (pi_addresses (peer_entry b p)) a \<or> contains_key (pi_connections (peer_entry b p)) a
       \<longrightarrow> multiaddr_peer_id a = Some p) \<and>
    (\<forall>ext el opts a n k. fst (poll_book ext el b) = Ready (DialAction opts (IntoAddressHandler (Some (a, n)) k))
       \<longrightarrow> multiaddr_peer_id a \<in> {None, Some (opt_peer opts)})"
proof -
  have "typed_book (address_book_new l reuse loopback keep)"
    by (simp add: typed_book_def address_book_new_def)
  then obtain b where b: "run_steps book_step ops (address_book_new l reuse loopback keep) = Some b" "typed_book b"
    using typed_addresses.run_total [OF _ assms] wf_book_new by blast
  have "multiaddr_peer_id a = Some p"
    if "contains_key (pi_addresses (peer_entry b p)) a \<or> contains_key (pi_connections (peer_entry b p)) a" for p a
    using typed_entry [OF b(2), of p] that
    by (auto simp: typed_info_def list_all_iff names_def dest!: map_of_SomeD)
  moreover have "multiaddr_peer_id a \<in> {None, Some (opt_peer opts)}"
    if "fst (poll_book ext el b) = Ready (DialAction opts (IntoAddressHandler (Some (a, n)) k))" for ext el opts a n k
    using typed_poll_action [OF b(2) that] by simp
  ultimately show ?thesis using b(1) by blast
qed

theorem addresses_name_their_peer_witness:
  "\<exists>b. run_steps book_step sample_ops (address_book_new 1 True True False) = Some b \<and>
    (\<forall>p a. contains_key (pi_addresses (peer_entry b p)) a \<or> contains_key (pi_connections (peer_entry b p)) a
       \<longrightarrow> multiaddr_peer_id a = Some p)"
proof -
  have "good_run (\<lambda>x b. op_ok x b \<and> tells_own (snd x)) book_step sample_ops (address_book_new 1 True True False)"
    by (simp add: sample_ops_def sample_addr_def address_book_new_def swarm_events_def on_new_listen_addr_def
        notify_def Let_def told_def ends_with_p2p_def last_protocol_def split: option.split)
  from addresses_name_their_peer [OF this] show ?thesis by blast
qed

section \<open>An address of somebody else\<close>

lemma set_order_single: "order_ok E \<Longrightarrow> set_order E [a] = [a]"
proof -
  assume "order_ok E"
  then have "distinct (set_order E [a])" "set (set_order E [a]) = {a}" by (simp_all add: order_ok_def)
  then show ?thesis by (cases "set_order E [a]"; cases "tl (set_order E [a])") auto
qed

lemma identify_only_foreign:
  assumes "addresses_to_translate i = []" and "id_listen_addrs idf = [a]" and "ends_with_p2p a"
    and "enable_loopback b \<or> \<not> is_loopback a"
  shows "identify_candidates b p (store_identify idf i) = [a]"
  using assms norm_ref.attach_same [of a p]
  by (auto simp: identify_candidates_def listening_addresses_def addresses_to_translate_def
      store_identify_def drop_translated_def)

lemma blamed_failure:
  assumes "map_of (peers b) v = Some j" and "multiaddr_peer_id a = Some v" and "p \<noteq> v"
  shows "\<exists>b'. dial_failure F (IntoAddressHandler (Some (a, n)) k) (Some p) err b = Some b' \<and>
    peer_entry b' p = peer_entry b p \<and>
    hd (pi_failures (peer_entry b' v)) = failure_dial (fmt F) (now F) (without_peer_id a) err"
proof -
  obtain d where d: "redial_delay (port_reuse b) (rnd F 0) = Some d"
    using redial_delay_bounds by blast
  have "dial_failure F (IntoAddressHandler (Some (a, n)) k) (Some p) err b = own_dial_failure F v a n k err j b"
    using assms by (simp add: dial_failure_def handler_peer_id_eq del: handler_peer_id.simps)
  with d assms(3) show ?thesis
    by (simp add: own_dial_failure_def push_deferred_def Let_def push_failure_def)
qed

text \<open>(C22) A peer can have its failed dials counted against another: if its identify message lists an address
  that ends in the id of a peer \<open>v\<close>, the address is filed under the sender and dialled, but when
  that dial fails, however it does, the failure goes to the entry of \<open>v\<close> and the sender's entry,
  with the address in it, stays as it was.\<close>

theorem foreign_address_blames_other:
  assumes "map_of (peers b) p = Some i" and "map_of (peers b) v = Some j" and "p \<noteq> v"
    and "a = push_protocol x (peer_protocol v)" and "id_listen_addrs idf = [a]"
    and "accepts b p a" and "addresses_to_translate i = []" and "order_ok E"
    and "\<not> contains_key (pi_addresses i) a" and "\<not> contains_key (pi_connections i) a"
  shows "\<exists>b1. set_info E p idf b = Some b1 \<and>
    map_of (pi_addresses (peer_entry b1 p)) a = Some (Listen, now E) \<and>
    last (actions b1) =
      DialAction \<lparr>opt_peer = p, opt_condition = CondAlways, opt_addresses = [x]\<rparr>
        (IntoAddressHandler (Some (a, 4)) False) \<and>
    (\<forall>F err. \<exists>b2.
       on_swarm_event F (SwDialFailure (Some p) (IntoAddressHandler (Some (a, 4)) False) err) b1 = Some b2 \<and>
       peer_entry b2 p = peer_entry b1 p \<and>
       hd (pi_failures (peer_entry b2 v)) = failure_dial (fmt F) (now F) x err)"
proof -
  have a: "ends_with_p2p a" "multiaddr_peer_id a = Some v" "without_peer_id a = x" "pop_protocol a = x"
    using assms(4) by (simp_all add: without_peer_id_def)
  have acc: "enable_loopback b \<or> \<not> is_loopback a" "x \<notin> set (listeners b)"
    using assms(6) a by (simp_all add: accepts_def)
  let ?i = "drop_translated (store_identify idf i)"
  let ?dial = "DialAction \<lparr>opt_peer = p, opt_condition = CondAlways, opt_addresses = [x]\<rparr>
    (IntoAddressHandler (Some (a, 4)) False)"
  let ?info = "?i\<lparr>pi_addresses := AList.update a (Listen, now E) (pi_addresses ?i)\<rparr>"
  let ?b1 = "notify E (NewInfo p) (put_peer p ?info (push_action ?dial b))"
  have i: "map_of (pi_addresses ?i) a = None" "pi_connections ?i = pi_connections i"
    using assms(9) by (auto simp: drop_translated_def store_identify_def map_of_eq_None_iff)
  have "probe_translated E p [a] b ?i = (push_action ?dial b, ?info)"
    using i a acc assms(10) by (simp add: ingest_address_def Let_def)
  then have "set_info E p idf b = Some ?b1"
    using assms(1) set_order_single [OF assms(8)] identify_only_foreign [OF assms(7,5) a(1) acc(1)]
    by (simp add: set_info_eq Let_def)
  moreover have "map_of (peers ?b1) v = Some j"
    using assms(2,3) by (simp add: put_peer_def push_action_def alist_simps)
  then have "\<exists>b2. on_swarm_event F (SwDialFailure (Some p) (IntoAddressHandler (Some (a, 4)) False) err) ?b1 = Some b2 \<and>
      peer_entry b2 p = peer_entry ?b1 p \<and> hd (pi_failures (peer_entry b2 v)) = failure_dial (fmt F) (now F) x err"
    for F err
    unfolding on_swarm_event.simps a(3) [symmetric] using a(2) assms(3) by (rule blamed_failure)
  moreover have "map_of (pi_addresses (peer_entry ?b1 p)) a = Some (Listen, now E)" "last (actions ?b1) = ?dial"
    by (simp_all add: alist_simps put_peer_def push_action_def peer_entry_def notify_def Let_def)
  ultimately show ?thesis by blast
qed

theorem foreign_address_blames_other_witness:
  "\<exists>b1. set_info sample_env 2
      \<lparr>id_protocol_version = ''p'', id_agent_version = ''a'',
       id_listen_addrs = [push_protocol sample_addr (peer_protocol 3)], id_protocols = []\<rparr>
      ((address_book_new 1 True True False)\<lparr>peers := [(2, peer_info_default), (3, peer_info_default)]\<rparr>) = Some b1 \<and>
    (\<exists>b2. on_swarm_event sample_env (SwDialFailure (Some 2)
         (IntoAddressHandler (Some (push_protocol sample_addr (peer_protocol 3), 4)) False) Banned) b1 = Some b2 \<and>
       hd (pi_failures (peer_entry b2 3)) = failure_dial (fmt sample_env) (now sample_env) sample_addr Banned)"
proof -
  let ?a = "push_protocol sample_addr (peer_protocol 3)"
  let ?idf = "\<lparr>id_protocol_version = ''p'', id_agent_version = ''a'', id_listen_addrs = [?a], id_protocols = []\<rparr>"
  let ?b = "(address_book_new 1 True True False)\<lparr>peers := [(2, peer_info_default), (3, peer_info_default)]\<rparr>"
  have m: "map_of (peers ?b) 2 = Some peer_info_default" "map_of (peers ?b) 3 = Some peer_info_default"
    "(2 :: nat) \<noteq> 3" by simp_all
  have "id_listen_addrs ?idf = [?a]" "accepts ?b 2 ?a" "addresses_to_translate peer_info_default = []"
    "\<not> contains_key (pi_addresses peer_info_default) ?a" "\<not> contains_key (pi_connections peer_info_default) ?a"
    by (simp_all add: accepts_def address_book_new_def addresses_to_translate_def peer_info_default_def)
  from foreign_address_blames_other [OF m refl this(1-3) sample_order_ok this(4,5)] show ?thesis by blast
qed

end
