(* ===== verification/Rust_Text.thy ===== *)
theory Rust_Text
  imports Prelude
begin

text \<open>
  What the program uses of Rust's strings.  A \<open>str\<close> is its sequence of UTF-8 bytes, here
  characters: \<open>from_utf8\<close>, \<open>split_whitespace\<close>, \<open>join(" ")\<close>, decimal and hexadecimal numbers.
\<close>

section \<open>UTF-8\<close>

text \<open>\<open>std::str::from_utf8\<close>: well-formed UTF-8 by the table of the Unicode standard.\<close>

definition continuation :: "nat \<Rightarrow> bool" where
  "continuation b \<longleftrightarrow> 0x80 \<le> b \<and> b \<le> 0xBF"

fun utf8_valid :: "nat list \<Rightarrow> bool" where
  "utf8_valid [] = True"
| "utf8_valid (a # bs) =
     (if a \<le> 0x7F then utf8_valid bs
      else if 0xC2 \<le> a \<and> a \<le> 0xDF then
        (case bs of b # r \<Rightarrow> continuation b \<and> utf8_valid r | _ \<Rightarrow> False)
      else if 0xE0 \<le> a \<and> a \<le> 0xEF then
        (case bs of
           b # c # r \<Rightarrow>
             continuation b \<and> (a = 0xE0 \<longrightarrow> 0xA0 \<le> b) \<and> (a = 0xED \<longrightarrow> b \<le> 0x9F) \<and>
             continuation c \<and> utf8_valid r
         | _ \<Rightarrow> False)
      else if 0xF0 \<le> a \<and> a \<le> 0xF4 then
        (case bs of
           b # c # d # r \<Rightarrow>
             continuation b \<and> (a = 0xF0 \<longrightarrow> 0x90 \<le> b) \<and> (a = 0xF4 \<longrightarrow> b \<le> 0x8F) \<and>
             continuation c \<and> continuation d \<and> utf8_valid r
         | _ \<Rightarrow> False)
      else False)"

definition from_utf8 :: "string \<Rightarrow> string option" where
  "from_utf8 bs = (if utf8_valid (map of_char bs) then Some bs else None)"

section \<open>Words\<close>

text \<open>
  The length in bytes of the white space character a string begins with, \<open>0\<close> if it begins with
  none: the code points with the Unicode property \<open>White_Space\<close>, encoded in one, two or three
  bytes.
\<close>

definition wide_space :: "nat \<Rightarrow> nat \<Rightarrow> nat \<Rightarrow> bool" where
  "wide_space a b c \<longleftrightarrow>
     a = 0xE1 \<and> b = 0x9A \<and> c = 0x80 \<or>
     a = 0xE2 \<and> b = 0x80 \<and> (0x80 \<le> c \<and> c \<le> 0x8A \<or> c = 0xA8 \<or> c = 0xA9 \<or> c = 0xAF) \<or>
     a = 0xE2 \<and> b = 0x81 \<and> c = 0x9F \<or>
     a = 0xE3 \<and> b = 0x80 \<and> c = 0x80"

fun space_len :: "string \<Rightarrow> nat" where
  "space_len [] = 0"
| "space_len (a # s) =
     (let a = of_char a :: nat
      in if 9 \<le> a \<and> a \<le> 13 \<or> a = 32 then 1
         else case s of
                [] \<Rightarrow> 0
              | b # s \<Rightarrow>
                  let b = of_char b :: nat
                  in if a = 0xC2 \<and> (b = 0x85 \<or> b = 0xA0) then 2
                     else case s of
                            [] \<Rightarrow> 0
                          | c # _ \<Rightarrow> if wide_space a b (of_char c) then 3 else 0)"

text \<open>\<open>split_whitespace\<close>: the words, where \<open>w\<close> is what of the current one has been read.\<close>

definition emit :: "string \<Rightarrow> string list" where
  "emit w = (if w = [] then [] else [w])"

function split_from :: "string \<Rightarrow> string \<Rightarrow> string list" where
  "split_from w [] = emit w"
| "split_from w (c # s) =
     (if space_len (c # s) = 0 then split_from (w @ [c]) s
      else emit w @ split_from [] (drop (space_len (c # s) - 1) s))"
  by pat_completeness auto
termination by (relation "measure (\<lambda>(_, s). length s)") auto

definition split_whitespace :: "string \<Rightarrow> string list" where
  "split_whitespace s = split_from [] s"

text \<open>\<open>join(" ")\<close>.\<close>

fun join :: "string list \<Rightarrow> string" where
  "join [] = []"
| "join [w] = w"
| "join (w # ws) = w @ '' '' @ join ws"

fun has_space :: "string \<Rightarrow> bool" where
  "has_space [] = False"
| "has_space (c # s) = (space_len (c # s) \<noteq> 0 \<or> has_space s)"

text \<open>A word: not empty and free of white space.\<close>

definition is_word :: "string \<Rightarrow> bool" where
  "is_word w \<longleftrightarrow> w \<noteq> [] \<and> \<not> has_space w"

lemma space_len_append:
  assumes "space_len (a # s) = 0" and "t = [] \<or> of_char (hd t) < (0x80 :: nat)"
  shows "space_len (a # s @ t) = 0"
proof (cases s)
  case Nil
  with assms show ?thesis by (cases t) (auto simp: Let_def wide_space_def split: list.splits)
next
  case (Cons b s')
  then show ?thesis
  proof (cases s')
    case Nil
    with Cons assms show ?thesis
      by (cases t) (auto simp: Let_def wide_space_def split: list.splits if_splits)
  next
    case (Cons c s'')
    with \<open>s = b # s'\<close> assms show ?thesis by (auto simp: Let_def split: if_splits)
  qed
qed

lemma split_from_word:
  assumes "\<not> has_space w" and "t = [] \<or> of_char (hd t) < (0x80 :: nat)"
  shows "split_from v (w @ t) = split_from (v @ w) t"
  using assms(1)
proof (induction w arbitrary: v)
  case (Cons c w)
  then have "space_len (c # w @ t) = 0" using space_len_append [OF _ assms(2)] by simp
  with Cons show ?case by (simp del: space_len.simps)
qed simp

lemma split_word [simp]: "is_word w \<Longrightarrow> split_whitespace w = [w]"
  using split_from_word [of w "[]" "[]"]
  by (simp add: split_whitespace_def is_word_def emit_def)

text \<open>Words are cut off at a blank.\<close>

lemma split_blank:
  "\<not> has_space w \<Longrightarrow> split_whitespace (w @ '' '' @ s) = emit w @ split_whitespace s"
  using split_from_word [of w "'' '' @ s" "[]"]
  by (simp add: split_whitespace_def)

lemma split_word_blank [simp]: "is_word w \<Longrightarrow> split_whitespace (w @ CHR '' '' # s) = w # split_whitespace s"
  using split_blank [of w s] by (simp add: is_word_def emit_def)

lemma split_Nil [simp]: "split_whitespace [] = []"
  by (simp add: split_whitespace_def emit_def)

lemma split_join: "list_all is_word ws \<Longrightarrow> split_whitespace (join ws) = ws"
  by (induction ws rule: join.induct) simp_all

text \<open>Every word that comes out is one, so joining words and splitting again changes nothing.\<close>

lemma space_len_prefix: "space_len v \<noteq> 0 \<Longrightarrow> space_len (v @ t) = space_len v"
  by (cases v) (auto simp: Let_def split: list.splits if_splits)

lemma no_space_if_clean:
  "(\<And>u v. w = u @ v \<Longrightarrow> v \<noteq> [] \<Longrightarrow> space_len (v @ t) = 0) \<Longrightarrow> \<not> has_space w"
proof (induction w)
  case (Cons c w)
  have "space_len (c # w) = 0"
    using Cons.prems [of "[]" "c # w"] space_len_prefix [of "c # w" t] by (cases "space_len (c # w) = 0") simp_all
  moreover have "\<not> has_space w"
    by (rule Cons.IH) (use Cons.prems in \<open>metis append_Cons\<close>)
  ultimately show ?case by (simp del: space_len.simps)
qed simp

lemma split_from_words:
  "(\<And>u v. w = u @ v \<Longrightarrow> v \<noteq> [] \<Longrightarrow> space_len (v @ s) = 0) \<Longrightarrow> list_all is_word (split_from w s)"
proof (induction w s rule: split_from.induct)
  case (1 w)
  from no_space_if_clean [OF 1] show ?case by (simp add: emit_def is_word_def)
next
  case (2 w c s)
  show ?case
  proof (cases "space_len (c # s) = 0")
    case True
    have "space_len (v @ s) = 0" if split: "w @ [c] = u @ v" and "v \<noteq> []" for u v
    proof -
      obtain v' where v: "v = v' @ [c]" "w = u @ v'"
        using split \<open>v \<noteq> []\<close> by (cases v rule: rev_cases) auto
      with True 2(3) [of u v'] show ?thesis by (cases "v' = []") (simp_all del: space_len.simps)
    qed
    with True 2(1) show ?thesis by (simp del: space_len.simps)
  next
    case False
    from no_space_if_clean [OF 2(3)] False 2(2) show ?thesis
      by (simp add: emit_def is_word_def del: space_len.simps)
  qed
qed

lemma split_words [simp]: "list_all is_word (split_whitespace s)"
  unfolding split_whitespace_def by (rule split_from_words) simp

definition normal_space :: "string \<Rightarrow> string" where
  "normal_space s = join (split_whitespace s)"

lemma normal_space_idem [simp]: "normal_space (normal_space s) = normal_space s"
  by (simp add: normal_space_def split_join)

lemma normal_space_word [simp]: "is_word w \<Longrightarrow> normal_space w = w"
  by (simp add: normal_space_def)

text \<open>White space at the end of a line, such as the newline \<open>read_line\<close> keeps, is no word.\<close>

definition line_end :: "string \<Rightarrow> bool" where
  "line_end t \<longleftrightarrow> (\<forall>c \<in> set t. space_len [c] = 1)"

lemma line_end_ascii: "line_end (c # t) \<Longrightarrow> of_char c < (0x80 :: nat) \<and> space_len (c # s) = 1"
  by (auto simp: line_end_def Let_def split: if_splits)

lemma split_line_end: "line_end t \<Longrightarrow> split_from w t = emit w"
proof (induction t arbitrary: w)
  case (Cons c t)
  then have "line_end t" by (simp add: line_end_def)
  with Cons.IH [of "[]"] line_end_ascii [OF Cons.prems, of t] show ?case
    by (simp add: emit_def del: space_len.simps)
qed simp

lemma space_len_le: "space_len s \<le> length s"
  by (cases s) (auto simp: Let_def split: list.split)

lemma split_from_line_end: "line_end t \<Longrightarrow> split_from w (s @ t) = split_from w s"
proof (induction w s rule: split_from.induct)
  case (1 w)
  then show ?case by (simp add: split_line_end)
next
  case (2 w c s)
  have t: "t = [] \<or> of_char (hd t) < (0x80 :: nat)"
    using 2(3) line_end_ascii by (cases t) auto
  show ?case
  proof (cases "space_len (c # s) = 0")
    case True
    with 2 space_len_append [OF True t] show ?thesis by (simp del: space_len.simps)
  next
    case False
    have "drop (space_len (c # s) - 1) (s @ t) = drop (space_len (c # s) - 1) s @ t"
      using space_len_le [of "c # s"] by simp
    with False 2 space_len_prefix [OF False, of t] show ?thesis by (simp del: space_len.simps)
  qed
qed

lemma split_end [simp]: "line_end t \<Longrightarrow> split_whitespace (s @ t) = split_whitespace s"
  by (simp add: split_whitespace_def split_from_line_end)

section \<open>Numbers\<close>

text \<open>\<open>to_string\<close> of an unsigned number.\<close>

fun show_nat :: "nat \<Rightarrow> string" where
  "show_nat n =
     (if n < 10 then [char_of (48 + n)] else show_nat (n div 10) @ [char_of (48 + n mod 10)])"

declare show_nat.simps [simp del]

lemma digit_inj: "m < 10 \<Longrightarrow> n < 10 \<Longrightarrow> char_of (48 + m) = (char_of (48 + n) :: char) \<Longrightarrow> m = (n :: nat)"
  by (drule arg_cong [of _ _ "of_char :: char \<Rightarrow> nat"]) simp

lemma show_nat_inj: "show_nat m = show_nat n \<Longrightarrow> m = n"
proof (induction m arbitrary: n rule: show_nat.induct)
  case (1 m)
  have ne: "show_nat k \<noteq> []" "[] \<noteq> show_nat k" for k by (subst show_nat.simps, simp)+
  show ?case
  proof (cases "m < 10"; cases "n < 10")
    assume "\<not> m < 10" "\<not> n < 10"
    with 1(2) have "show_nat (m div 10) = show_nat (n div 10)"
      and "char_of (48 + m mod 10) = (char_of (48 + n mod 10) :: char)"
      by (simp_all add: show_nat.simps [of m] show_nat.simps [of n])
    with 1(1) \<open>\<not> m < 10\<close> digit_inj have "m div 10 = n div 10" "m mod 10 = n mod 10" by simp_all
    then show "m = n" by (metis div_mult_mod_eq)
  qed (use 1(2) ne digit_inj [of m n] in \<open>auto simp: show_nat.simps [of m] show_nat.simps [of n]\<close>)
qed

text \<open>\<open>format!("{:02x}", byte)\<close>.\<close>

definition hex_digit :: "nat \<Rightarrow> char" where
  "hex_digit n = (if n < 10 then char_of (48 + n) else char_of (87 + n))"

definition hex_byte :: "8 word \<Rightarrow> string" where
  "hex_byte b = [hex_digit (unat b div 16), hex_digit (unat b mod 16)]"

definition hex_bytes :: "8 word list \<Rightarrow> string" where
  "hex_bytes bs = concat (map hex_byte bs)"

text \<open>\<open>char::to_digit(16)\<close> and \<open>u8::from_str_radix(s, 16)\<close>, which admits a leading plus sign.\<close>

definition to_digit :: "char \<Rightarrow> nat option" where
  "to_digit c =
     (let n = of_char c :: nat
      in if 48 \<le> n \<and> n \<le> 57 then Some (n - 48)
         else if 97 \<le> n \<and> n \<le> 102 then Some (n - 87)
         else if 65 \<le> n \<and> n \<le> 70 then Some (n - 55)
         else None)"

fun hex_value :: "nat \<Rightarrow> string \<Rightarrow> nat option" where
  "hex_value acc [] = Some acc"
| "hex_value acc (c # s) =
     (case to_digit c of
        None \<Rightarrow> None
      | Some d \<Rightarrow> if 16 * acc + d < 256 then hex_value (16 * acc + d) s else None)"

definition u8_from_hex :: "string \<Rightarrow> 8 word option" where
  "u8_from_hex s =
     (if s = [] \<or> s = ''+'' \<or> s = ''-'' then None
      else map_option of_nat (hex_value 0 (if hd s = CHR ''+'' then tl s else s)))"

text \<open>\<open>as_bytes().chunks(2)\<close>, each chunk a number.\<close>

fun parse_hex :: "string \<Rightarrow> 8 word list option" where
  "parse_hex [] = Some []"
| "parse_hex [c] =
     (case from_utf8 [c] of None \<Rightarrow> None | Some s \<Rightarrow> map_option (\<lambda>b. [b]) (u8_from_hex s))"
| "parse_hex (c # d # r) =
     (case from_utf8 [c, d] of
        None \<Rightarrow> None
      | Some s \<Rightarrow>
          (case u8_from_hex s of
             None \<Rightarrow> None
           | Some b \<Rightarrow> map_option (\<lambda>bs. b # bs) (parse_hex r)))"

lemma hex_digit_props:
  assumes "n < 16"
  shows "to_digit (hex_digit n) = Some n" "of_char (hex_digit n) < (0x80 :: nat)"
    "hex_digit n \<noteq> CHR ''+''" "space_len (hex_digit n # s) = 0"
proof -
  have n: "of_char (hex_digit n) = (if n < 10 then 48 + n else 87 + n)"
    using assms by (simp add: hex_digit_def)
  have d: "to_digit (hex_digit n) = Some n" using assms by (simp add: to_digit_def n)
  moreover have "hex_digit n \<noteq> CHR ''+''" using d by (auto simp: to_digit_def)
  moreover have "space_len (hex_digit n # s) = 0"
    using assms by (auto simp: n wide_space_def Let_def split: list.split)
  ultimately show "to_digit (hex_digit n) = Some n" "of_char (hex_digit n) < (0x80 :: nat)"
    "hex_digit n \<noteq> CHR ''+''" "space_len (hex_digit n # s) = 0"
    using assms by (simp_all add: n)
qed

lemma unat_byte: "unat (b :: 8 word) < 256"
  using unsigned_less [of b, where ?'a = nat] by simp

lemma u8_from_hex_byte [simp]: "u8_from_hex (hex_byte b) = Some b"
  using unat_byte [of b]
  by (simp add: u8_from_hex_def hex_byte_def hex_digit_props)

lemma from_utf8_hex_byte [simp]: "from_utf8 (hex_byte b) = Some (hex_byte b)"
proof -
  have "unat b div 16 < 16" "unat b mod 16 < 16" using unat_byte [of b] by simp_all
  then have "of_char (hex_digit (unat b div 16)) \<le> (0x7F :: nat)" "of_char (hex_digit (unat b mod 16)) \<le> (0x7F :: nat)"
    using hex_digit_props(2) [of "unat b div 16"] hex_digit_props(2) [of "unat b mod 16"] by simp_all
  then show ?thesis by (simp add: from_utf8_def hex_byte_def)
qed

lemma parse_hex_bytes [simp]: "parse_hex (hex_bytes bs) = Some bs"
proof (induction bs)
  case (Cons b bs)
  have "parse_hex (hex_byte b @ s) =
      (case from_utf8 (hex_byte b) of
         None \<Rightarrow> None
       | Some x \<Rightarrow> (case u8_from_hex x of None \<Rightarrow> None | Some c \<Rightarrow> map_option (\<lambda>bs. c # bs) (parse_hex s)))" for s
    by (simp add: hex_byte_def)
  with Cons show ?case by (simp add: hex_bytes_def)
qed (simp add: hex_bytes_def)

lemma hex_bytes_no_space: "\<not> has_space (hex_bytes bs)"
proof (induction bs)
  case (Cons b bs)
  have "unat b div 16 < 16" "unat b mod 16 < 16" using unat_byte [of b] by simp_all
  with Cons show ?case
    by (simp add: hex_bytes_def hex_byte_def hex_digit_props(4) del: space_len.simps)
qed (simp add: hex_bytes_def)

lemma hex_bytes_word: "bs \<noteq> [] \<Longrightarrow> is_word (hex_bytes bs)"
  by (cases bs) (simp_all add: is_word_def hex_bytes_no_space, simp add: hex_bytes_def hex_byte_def)

end
