(* ===== verification/Behaviour.thy ===== *)
theory Behaviour
  imports Address_Book_Inv Rust_Text
begin

text \<open>
  The composed behaviour: \<open>NetworkBackendBehaviour\<close> of \<open>src/src/net/behaviour.rs\<close>, with the
  tables that \<open>poll_swarm\<close> of \<open>src/src/net/mod.rs\<close> owns and lends to it.

  The record \<open>net\<close> holds the address book, which sub-protocols are enabled, the table of running
  queries, the gossip subscriptions and the bootstrap flag.  Kademlia, bitswap, gossipsub and
  broadcast are not under \<open>src/\<close>: what they are asked to do is appended to \<open>calls\<close>, and what
  they answer at once (a query id, an error) is the record \<open>ext\<close>, an argument.  Answers sent
  over channels are appended to \<open>replies\<close> and \<open>gossip_sent\<close>; the \<open>.ok()\<close> after a send ignores a
  receiver that is gone, so a reply is recorded whether or not somebody still listens.  A sender
  that goes out of scope unused is recorded in \<open>dropped\<close>: its receiver sees a cancellation.
\<close>

section \<open>Data\<close>

type_synonym key = string
type_synonym kad_record = nat
type_synonym peer_record = nat

datatype query_id = BitswapId nat | KadId nat

datatype publish_error = InsufficientPeers | OtherPublishError nat

datatype bh_error =
    DisabledProtocol string
  | NotBootstrapped
  | NoKnownPeers
  | KadStoreError nat
  | KadBootstrapError nat
  | KadGetClosestPeersError nat
  | KadGetProvidersError nat
  | KadAddProviderError nat
  | KadGetRecordError nat
  | KadPutRecordError nat
  | GossipsubPublishError publish_error
  | SubscriptionError nat
  | BitswapQueryError nat
  | BlockNotFound cid
  | MdnsNewError nat
  | GossipsubNewError nat

text \<open>\<open>QueryChannel\<close>; the last component is the sender.\<close>

datatype query_channel =
    QGet channel
  | QSync channel
  | QBootstrap channel
  | QGetClosestPeers channel
  | QGetProviders "peer_id list" channel
  | QStartProviding channel
  | QGetRecord nat "peer_record list" channel
  | QPutRecord channel

datatype gossip_event =
    GossipSubscribed peer_id
  | GossipMessage peer_id string
  | GossipUnsubscribed peer_id

datatype sync_event = Progress nat | Complete "bh_error + unit"

datatype reply =
    ReplyUnit "bh_error + unit"
  | ReplyPeers "bh_error + peer_id list"
  | ReplyProviders "bh_error + peer_id list"
  | ReplyRecords "bh_error + peer_record list"
  | ReplySync sync_event
  | ReplySubscription "bh_error + channel"
  | ReplyGetQuery query_id channel
  | ReplySyncQuery query_id channel
  | ReplySwarmEvents channel

datatype quorum = QuorumOne | QuorumMajority | QuorumAll | QuorumN nat

datatype call =
    KadAddAddress peer_id multiaddr
  | KadRemoveAddress peer_id multiaddr
  | KadBootstrap
  | KadStartProviding key
  | KadStopProviding key
  | KadGetProviders key
  | KadGetRecord key
  | KadPutRecord kad_record quorum
  | KadRemoveRecord key
  | KadFinish nat
  | GossipSubscribe string
  | GossipUnsubscribe string
  | GossipPublish string string
  | BroadcastSubscribe string
  | BroadcastUnsubscribe string
  | BroadcastSend string string
  | BitswapGet cid "peer_id list"
  | BitswapSync cid "peer_id list" "cid list"
  | BitswapCancel nat
  | SwarmListenOn multiaddr
  | SwarmAddExternalAddress multiaddr
  | SwarmBan peer_id
  | SwarmUnban peer_id

datatype listener_event =
    ListenNewAddr multiaddr
  | ListenExpiredAddr multiaddr
  | ListenFailed multiaddr string

record net =
  book :: address_book
  kad_on :: bool
  mdns_on :: bool
  ping_on :: bool
  identify_on :: bool
  bitswap_on :: bool
  gossipsub_on :: bool
  broadcast_on :: bool
  bootstrapped :: bool
  queries :: "(query_id, query_channel) hmap"
  subscriptions :: "(string, channel list) hmap"
  replies :: "(channel \<times> reply) list"
  dropped :: "channel list"
  gossip_sent :: "(channel \<times> gossip_event) list"
  listen_sent :: "(channel \<times> listener_event) list"
  forwarders :: "(listener_id \<times> channel \<times> channel) list"
  calls :: "call list"

record ext =
  book_env :: env
  kad_bootstrap :: "bh_error + nat"
  kad_start_providing :: "nat + nat"
  kad_get_providers :: nat
  kad_get_record :: nat
  kad_put_record :: "nat + nat"
  gossip_subscribe :: "nat option"
  gossip_publish :: "publish_error option"
  bitswap_get :: nat
  bitswap_sync :: nat
  swarm_listen_on :: "string + listener_id"
  topic_hash :: "string \<Rightarrow> string"
  k_value :: nat
  new_channel :: channel

section \<open>Channels and tables\<close>

fun chan_of :: "query_channel \<Rightarrow> channel" where
  "chan_of (QGet c) = c"
| "chan_of (QSync c) = c"
| "chan_of (QBootstrap c) = c"
| "chan_of (QGetClosestPeers c) = c"
| "chan_of (QGetProviders _ c) = c"
| "chan_of (QStartProviding c) = c"
| "chan_of (QGetRecord _ _ c) = c"
| "chan_of (QPutRecord c) = c"

definition send :: "channel \<Rightarrow> reply \<Rightarrow> net \<Rightarrow> net" where
  "send c r n = n\<lparr>replies := replies n @ [(c, r)]\<rparr>"

definition drop_channel :: "channel \<Rightarrow> net \<Rightarrow> net" where
  "drop_channel c n = n\<lparr>dropped := dropped n @ [c]\<rparr>"

definition call_out :: "call \<Rightarrow> net \<Rightarrow> net" where
  "call_out c n = n\<lparr>calls := calls n @ [c]\<rparr>"

definition map_book :: "(address_book \<Rightarrow> address_book) \<Rightarrow> net \<Rightarrow> net" where
  "map_book f n = n\<lparr>book := f (book n)\<rparr>"

text \<open>\<open>queries.insert(id, ch)\<close>: a channel that was there is dropped.\<close>

definition insert_query :: "query_id \<Rightarrow> query_channel \<Rightarrow> net \<Rightarrow> net" where
  "insert_query i q n =
     (case map_of (queries n) i of
        None \<Rightarrow> n\<lparr>queries := AList.update i q (queries n)\<rparr>
      | Some old \<Rightarrow>
          drop_channel (chan_of old) (n\<lparr>queries := AList.update i q (queries n)\<rparr>))"

text \<open>
  \<open>if let Some(Pattern(.., ch)) = queries.remove(&id) { ch.send(reply).ok(); }\<close>: \<open>pat\<close> is the
  pattern with what it sends; a channel that does not match the pattern is removed and dropped.
\<close>

definition answer :: "query_id \<Rightarrow> (query_channel \<Rightarrow> reply option) \<Rightarrow> net \<Rightarrow> net" where
  "answer i pat n =
     (case map_of (queries n) i of
        None \<Rightarrow> n
      | Some q \<Rightarrow>
          let n = n\<lparr>queries := AList.delete i (queries n)\<rparr>
          in case pat q of
               Some r \<Rightarrow> send (chan_of q) r n
             | None \<Rightarrow> drop_channel (chan_of q) n)"

section \<open>Addresses\<close>

definition net_add_address ::
  "env \<Rightarrow> peer_id \<Rightarrow> multiaddr \<Rightarrow> address_source \<Rightarrow> net \<Rightarrow> net" where
  "net_add_address E peer addr source n =
     (let n = (if kad_on n then call_out (KadAddAddress peer addr) n else n)
      in map_book (add_address E peer addr source) n)"

definition net_remove_address :: "peer_id \<Rightarrow> multiaddr \<Rightarrow> net \<Rightarrow> net" where
  "net_remove_address peer addr n =
     (let n = map_book (remove_address peer addr) n
      in if kad_on n then call_out (KadRemoveAddress peer addr) n else n)"

definition net_prune_peers :: "env \<Rightarrow> duration \<Rightarrow> net \<Rightarrow> net" where
  "net_prune_peers E min_age n = map_book (prune_peers E min_age) n"

definition net_dial :: "peer_id \<Rightarrow> net \<Rightarrow> net" where
  "net_dial peer n = map_book (dial peer) n"

definition net_dial_address :: "peer_id \<Rightarrow> multiaddr \<Rightarrow> net \<Rightarrow> net" where
  "net_dial_address peer addr n = map_book (dial_address peer addr) n"

definition net_connection_closed ::
  "env \<Rightarrow> peer_id \<Rightarrow> connected_point \<Rightarrow> nat \<Rightarrow> connection_error option \<Rightarrow> net \<Rightarrow> net" where
  "net_connection_closed E peer cp num_established error n =
     map_book (connection_closed E peer cp num_established error) n"

definition net_swarm_events :: "channel \<Rightarrow> net \<Rightarrow> net" where
  "net_swarm_events tx n = map_book (swarm_events tx) n"

section \<open>Events of the sub-protocols\<close>

datatype mdns_event = MdnsDiscovered "(peer_id \<times> multiaddr) list" | MdnsExpired

fun inject_mdns_event :: "env \<Rightarrow> mdns_event \<Rightarrow> net \<Rightarrow> net" where
  "inject_mdns_event E (MdnsDiscovered list) n =
     fold (\<lambda>(peer, addr). net_add_address E peer addr Mdns) list n"
| "inject_mdns_event E MdnsExpired n = n"

datatype get_providers_ok = FoundProviders "peer_id list" | NoAdditionalProviders
datatype get_record_ok = FoundRecord peer_record | NoAdditionalRecord

datatype query_result =
    BootstrapResult "nat + nat"
  | GetClosestPeersResult "nat + peer_id list"
  | GetProvidersResult "nat + get_providers_ok"
  | StartProvidingResult "nat + unit"
  | RepublishProviderResult "nat + unit"
  | GetRecordResult "nat + get_record_ok"
  | PutRecordResult "nat + unit"
  | RepublishRecordResult "nat + unit"

datatype kad_event = OutboundQueryProgressed nat query_result bool | OtherKadEvent

fun bootstrap_reply :: "bh_error + unit \<Rightarrow> query_channel \<Rightarrow> reply option" where
  "bootstrap_reply r (QBootstrap _) = Some (ReplyUnit r)"
| "bootstrap_reply r _ = None"

fun closest_reply :: "bh_error + peer_id list \<Rightarrow> query_channel \<Rightarrow> reply option" where
  "closest_reply r (QGetClosestPeers _) = Some (ReplyPeers r)"
| "closest_reply r _ = None"

fun providers_reply :: "query_channel \<Rightarrow> reply option" where
  "providers_reply (QGetProviders ps _) = Some (ReplyProviders (Inr ps))"
| "providers_reply _ = None"

fun providers_error :: "bh_error \<Rightarrow> query_channel \<Rightarrow> reply option" where
  "providers_error e (QGetProviders _ _) = Some (ReplyProviders (Inl e))"
| "providers_error e _ = None"

fun providing_reply :: "bh_error + unit \<Rightarrow> query_channel \<Rightarrow> reply option" where
  "providing_reply r (QStartProviding _) = Some (ReplyUnit r)"
| "providing_reply r _ = None"

fun records_reply :: "query_channel \<Rightarrow> reply option" where
  "records_reply (QGetRecord _ rs _) = Some (ReplyRecords (Inr rs))"
| "records_reply _ = None"

fun records_error :: "bh_error \<Rightarrow> query_channel \<Rightarrow> reply option" where
  "records_error e (QGetRecord _ _ _) = Some (ReplyRecords (Inl e))"
| "records_error e _ = None"

fun put_reply :: "bh_error + unit \<Rightarrow> query_channel \<Rightarrow> reply option" where
  "put_reply r (QPutRecord _) = Some (ReplyUnit r)"
| "put_reply r _ = None"

fun kad_bootstrap_result :: "env \<Rightarrow> query_id \<Rightarrow> nat + nat \<Rightarrow> net \<Rightarrow> net" where
  "kad_bootstrap_result E i (Inr num_remaining) n =
     (if num_remaining = 0
      then map_book (notify E Bootstrapped)
             (answer i (bootstrap_reply (Inr ())) (n\<lparr>bootstrapped := True\<rparr>))
      else n)"
| "kad_bootstrap_result E i (Inl err) n = answer i (bootstrap_reply (Inl (KadBootstrapError err))) n"

fun kad_providers_result :: "query_id \<Rightarrow> nat + get_providers_ok \<Rightarrow> bool \<Rightarrow> net \<Rightarrow> net" where
  "kad_providers_result i (Inr res) is_last n =
     (case map_of (queries n) i of
        Some (QGetProviders ps ch) \<Rightarrow>
          let ps = (case res of FoundProviders new \<Rightarrow> fold List.insert new ps
                               | NoAdditionalProviders \<Rightarrow> ps);
              n = n\<lparr>queries := AList.update i (QGetProviders ps ch) (queries n)\<rparr>
          in if is_last then answer i providers_reply n else n
      | _ \<Rightarrow> n)"
| "kad_providers_result i (Inl err) is_last n = answer i (providers_error (KadGetProvidersError err)) n"

fun kad_record_result :: "nat \<Rightarrow> nat + get_record_ok \<Rightarrow> bool \<Rightarrow> net \<Rightarrow> net" where
  "kad_record_result k (Inr res) is_last n =
     (case map_of (queries n) (KadId k) of
        Some (QGetRecord quorum rs ch) \<Rightarrow>
          let rs = (case res of FoundRecord r \<Rightarrow> rs @ [r] | NoAdditionalRecord \<Rightarrow> rs);
              n = n\<lparr>queries := AList.update (KadId k) (QGetRecord quorum rs ch) (queries n)\<rparr>
          in if is_last \<or> quorum \<le> length rs
             then answer (KadId k) records_reply (if kad_on n then call_out (KadFinish k) n else n)
             else n
      | _ \<Rightarrow> n)"
| "kad_record_result k (Inl err) is_last n = answer (KadId k) (records_error (KadGetRecordError err)) n"

fun unit_result :: "(nat \<Rightarrow> bh_error) \<Rightarrow> nat + unit \<Rightarrow> bh_error + unit" where
  "unit_result f (Inl e) = Inl (f e)"
| "unit_result f (Inr _) = Inr ()"

fun inject_kad_event :: "env \<Rightarrow> kad_event \<Rightarrow> net \<Rightarrow> net" where
  "inject_kad_event E (OutboundQueryProgressed k result is_last) n =
     (case result of
        BootstrapResult res \<Rightarrow> kad_bootstrap_result E (KadId k) res n
      | GetClosestPeersResult (Inr ps) \<Rightarrow> answer (KadId k) (closest_reply (Inr ps)) n
      | GetClosestPeersResult (Inl err) \<Rightarrow>
          answer (KadId k) (closest_reply (Inl (KadGetClosestPeersError err))) n
      | GetProvidersResult res \<Rightarrow> kad_providers_result (KadId k) res is_last n
      | StartProvidingResult res \<Rightarrow>
          answer (KadId k) (providing_reply (unit_result KadAddProviderError res)) n
      | RepublishProviderResult _ \<Rightarrow> n
      | GetRecordResult res \<Rightarrow> kad_record_result k res is_last n
      | PutRecordResult res \<Rightarrow> answer (KadId k) (put_reply (unit_result KadPutRecordError res)) n
      | RepublishRecordResult _ \<Rightarrow> n)"
| "inject_kad_event E OtherKadEvent n = n"

datatype bitswap_event = BitswapProgress nat nat | BitswapComplete nat "bh_error + unit"

fun bitswap_reply :: "bh_error + unit \<Rightarrow> query_channel \<Rightarrow> reply option" where
  "bitswap_reply r (QGet _) = Some (ReplyUnit r)"
| "bitswap_reply r (QSync _) = Some (ReplySync (Complete r))"
| "bitswap_reply r _ = None"

fun inject_bitswap_event :: "bitswap_event \<Rightarrow> net \<Rightarrow> net" where
  "inject_bitswap_event (BitswapProgress b missing) n =
     (case map_of (queries n) (BitswapId b) of
        Some (QSync ch) \<Rightarrow> send ch (ReplySync (Progress missing)) n
      | _ \<Rightarrow> n)"
| "inject_bitswap_event (BitswapComplete b result) n = answer (BitswapId b) (bitswap_reply result) n"

datatype ping_result = PingOk duration | PingTimeout | PingOther string | PingUnsupported

definition map_book_option :: "(address_book \<Rightarrow> address_book option) \<Rightarrow> net \<Rightarrow> net option" where
  "map_book_option f n = map_option (\<lambda>b. n\<lparr>book := b\<rparr>) (f (book n))"

fun inject_ping_event :: "env \<Rightarrow> peer_id \<Rightarrow> ping_result \<Rightarrow> net \<Rightarrow> net option" where
  "inject_ping_event E peer (PingOk d) n = map_book_option (set_rtt E peer (Some d)) n"
| "inject_ping_event E peer PingTimeout n = map_book_option (set_rtt E peer None) n"
| "inject_ping_event E peer (PingOther _) n = map_book_option (set_rtt E peer None) n"
| "inject_ping_event E peer PingUnsupported n = Some n"

datatype identify_event = IdentifyReceived peer_id identify_info | IdentifyOther

fun inject_id_event :: "env \<Rightarrow> identify_event \<Rightarrow> net \<Rightarrow> net option" where
  "inject_id_event E (IdentifyReceived peer info) n = map_book_option (set_info E peer info) n"
| "inject_id_event E IdentifyOther n = Some n"

section \<open>Gossip\<close>

definition unsubscribe :: "ext \<Rightarrow> string \<Rightarrow> net \<Rightarrow> net" where
  "unsubscribe X topic n =
     (let n = (if gossipsub_on n then call_out (GossipUnsubscribe topic) n else n)
      in if broadcast_on n then call_out (BroadcastUnsubscribe (topic_hash X topic)) n else n)"

definition notify_subscribers :: "ext \<Rightarrow> string \<Rightarrow> gossip_event \<Rightarrow> net \<Rightarrow> net" where
  "notify_subscribers X topic ev n =
     (case map_of (subscriptions n) topic of
        None \<Rightarrow> n
      | Some subscribers \<Rightarrow>
          let open_tx = filter (alive (book_env X)) subscribers;
              n = n\<lparr>gossip_sent := gossip_sent n @ map (\<lambda>tx. (tx, ev)) open_tx,
                    subscriptions := AList.update topic open_tx (subscriptions n)\<rparr>
          in if open_tx = []
             then let n = unsubscribe X topic n
                  in n\<lparr>subscriptions := AList.delete topic (subscriptions n)\<rparr>
             else n)"

datatype gossipsub_event =
    GossipsubMessage "peer_id option" peer_id string string
  | GossipsubSubscribed peer_id string
  | GossipsubUnsubscribed peer_id string
  | GossipsubNotSupported

text \<open>A message carries its source, the peer it came from, its topic and its data.\<close>

fun inject_gossip_event :: "ext \<Rightarrow> gossipsub_event \<Rightarrow> net \<Rightarrow> net" where
  "inject_gossip_event X (GossipsubMessage source propagation_source topic data) n =
     notify_subscribers X topic
       (GossipMessage (case source of Some p \<Rightarrow> p | None \<Rightarrow> propagation_source) data) n"
| "inject_gossip_event X (GossipsubSubscribed peer topic) n =
     notify_subscribers X topic (GossipSubscribed peer)
       (map_book (notify (book_env X) (Subscribed peer topic)) n)"
| "inject_gossip_event X (GossipsubUnsubscribed peer topic) n =
     notify_subscribers X topic (GossipUnsubscribed peer)
       (map_book (notify (book_env X) (Unsubscribed peer topic)) n)"
| "inject_gossip_event X GossipsubNotSupported n = n"

datatype broadcast_event =
    BroadcastReceived peer_id string string
  | BroadcastSubscribed peer_id string
  | BroadcastUnsubscribed peer_id string

fun inject_broadcast_event :: "ext \<Rightarrow> broadcast_event \<Rightarrow> net \<Rightarrow> net option" where
  "inject_broadcast_event X (BroadcastReceived peer topic data) n =
     map_option (\<lambda>topic. notify_subscribers X topic (GossipMessage peer data) n) (from_utf8 topic)"
| "inject_broadcast_event X (BroadcastSubscribed peer topic) n =
     Some (case from_utf8 topic of
             Some topic \<Rightarrow>
               notify_subscribers X topic (GossipSubscribed peer)
                 (map_book (notify (book_env X) (Subscribed peer topic)) n)
           | None \<Rightarrow> n)"
| "inject_broadcast_event X (BroadcastUnsubscribed peer topic) n =
     Some (case from_utf8 topic of
             Some topic \<Rightarrow>
               notify_subscribers X topic (GossipUnsubscribed peer)
                 (map_book (notify (book_env X) (Unsubscribed peer topic)) n)
           | None \<Rightarrow> n)"

text \<open>
  \<open>subscribe\<close>: the receiving end of the channel made here (\<open>new_channel\<close>), or an error.  The
  subscription is entered before gossipsub is asked and stays if gossipsub refuses.
\<close>

definition subscribe :: "ext \<Rightarrow> string \<Rightarrow> net \<Rightarrow> (bh_error + channel) \<times> net" where
  "subscribe X topic n =
     (if \<not> gossipsub_on n \<and> \<not> broadcast_on n
      then (Inl (DisabledProtocol ''gossipsub and broadcast''), n)
      else
        let tx = new_channel X
        in case map_of (subscriptions n) topic of
             Some subscribers \<Rightarrow>
               (Inr tx,
                n\<lparr>subscriptions := AList.update topic (subscribers @ [tx]) (subscriptions n)\<rparr>)
           | None \<Rightarrow>
               let hash = topic_hash X topic;
                   n = n\<lparr>subscriptions := AList.update hash [tx] (subscriptions n)\<rparr>;
                   n = (if gossipsub_on n then call_out (GossipSubscribe topic) n else n)
               in case (if gossipsub_on n then gossip_subscribe X else None) of
                    Some err \<Rightarrow> (Inl (SubscriptionError err), n)
                  | None \<Rightarrow>
                      (Inr tx,
                       if broadcast_on n then call_out (BroadcastSubscribe hash) n else n))"

definition publish :: "ext \<Rightarrow> string \<Rightarrow> string \<Rightarrow> net \<Rightarrow> (bh_error + unit) \<times> net" where
  "publish X topic msg n =
     (if gossipsub_on n
      then (case gossip_publish X of
              None \<Rightarrow> Inr ()
            | Some InsufficientPeers \<Rightarrow> Inr ()
            | Some err \<Rightarrow> Inl (GossipsubPublishError err),
            call_out (GossipPublish topic msg) n)
      else (Inl (DisabledProtocol ''gossipsub''), n))"

definition broadcast :: "ext \<Rightarrow> string \<Rightarrow> string \<Rightarrow> net \<Rightarrow> (bh_error + unit) \<times> net" where
  "broadcast X topic msg n =
     (if broadcast_on n
      then (Inr (), call_out (BroadcastSend (topic_hash X topic) msg) n)
      else (Inl (DisabledProtocol ''broadcast''), n))"

section \<open>Queries\<close>

definition net_bootstrap :: "ext \<Rightarrow> channel \<Rightarrow> net \<Rightarrow> net" where
  "net_bootstrap X tx n =
     (if kad_on n
      then let n = call_out KadBootstrap n
           in case kad_bootstrap X of
                Inr i \<Rightarrow> insert_query (KadId i) (QBootstrap tx) n
              | Inl err \<Rightarrow> send tx (ReplyUnit (Inl err)) n
      else send tx (ReplyUnit (Inl NotBootstrapped)) n)"

definition provide :: "ext \<Rightarrow> key \<Rightarrow> channel \<Rightarrow> net \<Rightarrow> net" where
  "provide X k tx n =
     (if bootstrapped n
      then if kad_on n
           then let n = call_out (KadStartProviding k) n
                in case kad_start_providing X of
                     Inr i \<Rightarrow> insert_query (KadId i) (QStartProviding tx) n
                   | Inl err \<Rightarrow> send tx (ReplyUnit (Inl (KadStoreError err))) n
           else drop_channel tx n
      else send tx (ReplyUnit (Inl NotBootstrapped)) n)"

definition unprovide :: "key \<Rightarrow> net \<Rightarrow> net" where
  "unprovide k n = (if kad_on n then call_out (KadStopProviding k) n else n)"

definition providers :: "ext \<Rightarrow> key \<Rightarrow> channel \<Rightarrow> net \<Rightarrow> net" where
  "providers X k tx n =
     (if bootstrapped n
      then if kad_on n
           then insert_query (KadId (kad_get_providers X)) (QGetProviders [] tx)
                  (call_out (KadGetProviders k) n)
           else drop_channel tx n
      else send tx (ReplyProviders (Inl NotBootstrapped)) n)"

fun quorum_count :: "nat \<Rightarrow> quorum \<Rightarrow> nat" where
  "quorum_count K_VALUE QuorumOne = 1"
| "quorum_count K_VALUE QuorumMajority = K_VALUE div 2 + 1"
| "quorum_count K_VALUE QuorumAll = K_VALUE"
| "quorum_count K_VALUE (QuorumN k) = k"

definition get_record :: "ext \<Rightarrow> key \<Rightarrow> quorum \<Rightarrow> channel \<Rightarrow> net \<Rightarrow> net" where
  "get_record X k q tx n =
     (if bootstrapped n
      then if kad_on n
           then insert_query (KadId (kad_get_record X)) (QGetRecord (quorum_count (k_value X) q) [] tx)
                  (call_out (KadGetRecord k) n)
           else drop_channel tx n
      else send tx (ReplyRecords (Inl NotBootstrapped)) n)"

definition put_record :: "ext \<Rightarrow> kad_record \<Rightarrow> quorum \<Rightarrow> channel \<Rightarrow> net \<Rightarrow> net" where
  "put_record X r q tx n =
     (if bootstrapped n
      then if kad_on n
           then let n = call_out (KadPutRecord r q) n
                in case kad_put_record X of
                     Inr i \<Rightarrow> insert_query (KadId i) (QPutRecord tx) n
                   | Inl err \<Rightarrow> send tx (ReplyUnit (Inl (KadStoreError err))) n
           else drop_channel tx n
      else send tx (ReplyUnit (Inl NotBootstrapped)) n)"

definition remove_record :: "key \<Rightarrow> net \<Rightarrow> net" where
  "remove_record k n = (if kad_on n then call_out (KadRemoveRecord k) n else n)"

text \<open>\<open>get\<close> and \<open>sync\<close>: \<open>None\<close> is the panic of \<open>expect\<close>; the channel is made here.\<close>

definition bh_get ::
  "ext \<Rightarrow> cid \<Rightarrow> peer_id list \<Rightarrow> net \<Rightarrow> ((channel \<times> query_id) \<times> net) option" where
  "bh_get X c provs n =
     (if bitswap_on n
      then let i = BitswapId (bitswap_get X)
           in Some ((new_channel X, i),
                    insert_query i (QGet (new_channel X)) (call_out (BitswapGet c provs) n))
      else None)"

definition bh_sync ::
  "ext \<Rightarrow> cid \<Rightarrow> peer_id list \<Rightarrow> cid list \<Rightarrow> net \<Rightarrow> ((channel \<times> query_id) \<times> net) option" where
  "bh_sync X c provs missing n =
     (if bitswap_on n
      then let i = BitswapId (bitswap_sync X)
           in Some ((new_channel X, i),
                    insert_query i (QSync (new_channel X)) (call_out (BitswapSync c provs missing) n))
      else None)"

definition remove_query :: "query_id \<Rightarrow> net \<Rightarrow> net" where
  "remove_query i n = answer i (\<lambda>_. None) n"

fun cancel :: "query_id \<Rightarrow> net \<Rightarrow> net option" where
  "cancel (BitswapId b) n =
     (let n = remove_query (BitswapId b) n
      in if bitswap_on n then Some (call_out (BitswapCancel b) n) else None)"
| "cancel (KadId k) n = Some (remove_query (KadId k) n)"

section \<open>Configuration\<close>

text \<open>
  \<open>NetworkConfig\<close>.  The configurations of the sub-protocols are opaque, except that of identify,
  whose agent version and key the behaviour overwrites.
\<close>

record identify_config =
  ic_protocol_version :: string
  ic_local_public_key :: nat
  ic_agent_version :: string

datatype dns_config = DnsCustom nat nat | SystemWithFallback nat nat

record network_config =
  nc_enable_loopback :: bool
  nc_port_reuse :: bool
  nc_node_name :: string
  nc_node_key :: nat
  nc_psk :: "nat option"
  nc_dns :: "dns_config option"
  nc_mdns :: "nat option"
  nc_kad :: "nat option"
  nc_ping :: "nat option"
  nc_identify :: "identify_config option"
  nc_gossipsub :: "nat option"
  nc_broadcast :: "nat option"
  nc_bitswap :: "nat option"
  nc_keep_alive :: bool

text \<open>
  \<open>NetworkConfig::new\<close>; the generated name, the public key of a key pair and the defaults of the
  sub-protocols (\<open>0\<close>) come from other crates, as does identify's default agent version.
\<close>

definition network_config_new ::
  "string \<Rightarrow> string \<Rightarrow> (nat \<Rightarrow> nat) \<Rightarrow> nat \<Rightarrow> network_config" where
  "network_config_new generated_name default_agent public_key node_key =
     \<lparr>nc_enable_loopback = True, nc_port_reuse = True, nc_node_name = generated_name,
      nc_node_key = node_key, nc_psk = None, nc_dns = None, nc_mdns = Some 0, nc_kad = Some 0,
      nc_ping = None,
      nc_identify = Some \<lparr>ic_protocol_version = ''/ipfs-embed/1.0'',
        ic_local_public_key = public_key node_key, ic_agent_version = default_agent\<rparr>,
      nc_gossipsub = Some 0, nc_broadcast = Some 0, nc_bitswap = Some 0, nc_keep_alive = False\<rparr>"

text \<open>
  \<open>NetworkBackendBehaviour::new\<close>: the sub-protocol configurations are taken out of the
  configuration.  \<open>mdns_new\<close> and \<open>gossipsub_new\<close> are the outcomes of the constructors that may
  fail; the configuration identify is started with is returned beside the behaviour.
\<close>

definition behaviour_new ::
  "(nat \<Rightarrow> nat) \<Rightarrow> (nat \<Rightarrow> peer_id) \<Rightarrow> bh_error option \<Rightarrow> bh_error option \<Rightarrow> network_config \<Rightarrow>
     bh_error + net \<times> identify_config option \<times> network_config" where
  "behaviour_new public_key to_peer_id mdns_new gossipsub_new config =
     (let key = public_key (nc_node_key config);
          peer_id = to_peer_id key;
          ident = map_option (\<lambda>c. c\<lparr>ic_local_public_key := key, ic_agent_version := nc_node_name config\<rparr>)
                    (nc_identify config)
      in case (if nc_mdns config \<noteq> None then mdns_new else None) of
           Some err \<Rightarrow> Inl err
         | None \<Rightarrow>
             (case (if nc_gossipsub config \<noteq> None then gossipsub_new else None) of
                Some err \<Rightarrow> Inl err
              | None \<Rightarrow>
                  Inr (\<lparr>book = address_book_new peer_id (nc_port_reuse config)
                          (nc_enable_loopback config) (nc_keep_alive config),
                        kad_on = nc_kad config \<noteq> None, mdns_on = nc_mdns config \<noteq> None,
                        ping_on = nc_ping config \<noteq> None, identify_on = nc_identify config \<noteq> None,
                        bitswap_on = nc_bitswap config \<noteq> None,
                        gossipsub_on = nc_gossipsub config \<noteq> None,
                        broadcast_on = nc_broadcast config \<noteq> None,
                        bootstrapped = False, queries = [], subscriptions = [], replies = [],
                        dropped = [], gossip_sent = [], listen_sent = [], forwarders = [], calls = []\<rparr>,
                       ident,
                       config\<lparr>nc_mdns := None, nc_kad := None, nc_ping := None, nc_identify := None,
                         nc_gossipsub := None, nc_broadcast := None, nc_bitswap := None\<rparr>)))"

end
