(* ===== verification/Network.thy ===== *)
theory Network
  imports Behaviour
begin

text \<open>
  The network service: \<open>src/src/net/mod.rs\<close>.

  \<open>net_step\<close> is one turn of the loop of \<open>poll_swarm\<close>, \<open>poll_swarm\<close> the loop itself over the
  inputs that \<open>future::select\<close> delivers.  What the swarm does to the address book while it is
  polled (the behaviour's \<open>on_swarm_event\<close> and \<open>poll\<close>) is an input as well.  The methods of
  \<open>NetworkService\<close> put a command on the queue; \<open>try_send\<close> is the outcome of the bounded channel.
  \<open>GetQuery\<close> and \<open>SyncQuery\<close> are the receiving ends of queries.
\<close>

section \<open>Commands and events\<close>

datatype network_command =
    ListenOn multiaddr channel
  | AddExternalAddress multiaddr
  | AddAddress peer_id multiaddr
  | AddAddresses "(peer_id \<times> multiaddr) list"
  | RemoveAddress peer_id multiaddr
  | PrunePeers duration
  | DialPeer peer_id
  | DialAddress peer_id multiaddr
  | Ban peer_id
  | Unban peer_id
  | Bootstrap "(peer_id \<times> multiaddr) list" channel
  | Providers key channel
  | Provide key channel
  | Unprovide key
  | GetRecord key quorum channel
  | PutRecord kad_record quorum channel
  | RemoveRecord key
  | Subscribe string channel
  | Publish string string channel
  | CmdBroadcast string string channel
  | Get cid "peer_id list" channel
  | Sync cid "peer_id list" "cid list" channel
  | SwarmEvents channel
  | CancelQuery query_id

datatype behaviour_event =
    EvKad kad_event
  | EvMdns mdns_event
  | EvPing peer_id ping_result
  | EvIdentify identify_event
  | EvBitswap bitswap_event
  | EvGossipsub gossipsub_event
  | EvBroadcast broadcast_event

datatype swarm_event =
    SwarmConnectionClosed peer_id connected_point nat "connection_error option"
  | SwarmBehaviour behaviour_event
  | SwarmOther

datatype input =
    SwarmEnded
  | SwarmItem swarm_event
  | CommandsEnded
  | Command network_command
  | BookEvent from_swarm
  | BookPoll "address_record list" "nat option"

section \<open>The loop of \<open>poll_swarm\<close>\<close>

fun behaviour_event_step :: "ext \<Rightarrow> behaviour_event \<Rightarrow> net \<Rightarrow> net option" where
  "behaviour_event_step X (EvKad e) n = Some (inject_kad_event (book_env X) e n)"
| "behaviour_event_step X (EvMdns e) n = Some (inject_mdns_event (book_env X) e n)"
| "behaviour_event_step X (EvPing p r) n = inject_ping_event (book_env X) p r n"
| "behaviour_event_step X (EvIdentify e) n = inject_id_event (book_env X) e n"
| "behaviour_event_step X (EvBitswap e) n = Some (inject_bitswap_event e n)"
| "behaviour_event_step X (EvGossipsub e) n = Some (inject_gossip_event X e n)"
| "behaviour_event_step X (EvBroadcast e) n = inject_broadcast_event X e n"

fun swarm_event_step :: "ext \<Rightarrow> swarm_event \<Rightarrow> net \<Rightarrow> net option" where
  "swarm_event_step X (SwarmConnectionClosed peer endpoint num_established cause) n =
     Some (net_connection_closed (book_env X) peer endpoint num_established cause n)"
| "swarm_event_step X (SwarmBehaviour e) n = behaviour_event_step X e n"
| "swarm_event_step X SwarmOther n = Some n"

text \<open>
  \<open>ListenOn\<close>: the forwarder reads the book's events from the channel made here (\<open>new_channel\<close>).
\<close>

definition listen_on_step :: "ext \<Rightarrow> multiaddr \<Rightarrow> channel \<Rightarrow> net \<Rightarrow> net" where
  "listen_on_step X addr response n =
     (let n = call_out (SwarmListenOn addr) (net_swarm_events (new_channel X) n)
      in case swarm_listen_on X of
           Inr listener \<Rightarrow>
             n\<lparr>forwarders := forwarders n @ [(listener, response, new_channel X)]\<rparr>
         | Inl error \<Rightarrow> n\<lparr>listen_sent := listen_sent n @ [(response, ListenFailed addr error)]\<rparr>)"

fun command_step :: "ext \<Rightarrow> network_command \<Rightarrow> net \<Rightarrow> net option" where
  "command_step X (ListenOn addr response) n = Some (listen_on_step X addr response n)"
| "command_step X (AddExternalAddress addr) n = Some (call_out (SwarmAddExternalAddress addr) n)"
| "command_step X (AddAddress peer addr) n = Some (net_add_address (book_env X) peer addr User n)"
| "command_step X (AddAddresses addresses) n =
     Some (fold (\<lambda>(peer, addr). net_add_address (book_env X) peer addr User) addresses n)"
| "command_step X (RemoveAddress peer addr) n = Some (net_remove_address peer addr n)"
| "command_step X (PrunePeers min_age) n = Some (net_prune_peers (book_env X) min_age n)"
| "command_step X (DialPeer peer) n = Some (net_dial peer n)"
| "command_step X (DialAddress peer addr) n = Some (net_dial_address peer addr n)"
| "command_step X (Ban peer) n = Some (call_out (SwarmBan peer) n)"
| "command_step X (Unban peer) n = Some (call_out (SwarmUnban peer) n)"
| "command_step X (Bootstrap initial tx) n =
     Some (net_bootstrap X tx
       (fold (\<lambda>(peer, addr) n. net_dial peer (net_add_address (book_env X) peer addr User n)) initial n))"
| "command_step X (Providers k tx) n = Some (providers X k tx n)"
| "command_step X (Provide k tx) n = Some (provide X k tx n)"
| "command_step X (Unprovide k) n = Some (unprovide k n)"
| "command_step X (GetRecord k q tx) n = Some (get_record X k q tx n)"
| "command_step X (PutRecord r q tx) n = Some (put_record X r q tx n)"
| "command_step X (RemoveRecord k) n = Some (remove_record k n)"
| "command_step X (Subscribe topic tx) n =
     (let (res, n) = subscribe X topic n in Some (send tx (ReplySubscription res) n))"
| "command_step X (Publish topic msg tx) n =
     (let (res, n) = publish X topic msg n in Some (send tx (ReplyUnit res) n))"
| "command_step X (CmdBroadcast topic msg tx) n =
     (let (res, n) = broadcast X topic msg n in Some (send tx (ReplyUnit res) n))"
| "command_step X (Get c provs tx) n =
     do { ((rx, i), n) \<leftarrow> bh_get X c provs n; Some (send tx (ReplyGetQuery i rx) n) }"
| "command_step X (Sync c provs missing tx) n =
     do { ((rx, i), n) \<leftarrow> bh_sync X c provs missing n; Some (send tx (ReplySyncQuery i rx) n) }"
| "command_step X (SwarmEvents tx) n =
     Some (send tx (ReplySwarmEvents (new_channel X)) (net_swarm_events (new_channel X) n))"
| "command_step X (CancelQuery i) n = cancel i n"

fun net_step :: "ext \<times> input \<Rightarrow> net \<Rightarrow> net option" where
  "net_step (X, SwarmItem e) n = swarm_event_step X e n"
| "net_step (X, Command c) n = command_step X c n"
| "net_step (X, BookEvent e) n = map_book_option (on_swarm_event (book_env X) e) n"
| "net_step (X, BookPoll ext el) n = Some (map_book (\<lambda>b. snd (poll_book ext el b)) n)"
| "net_step (X, SwarmEnded) n = Some n"
| "net_step (X, CommandsEnded) n = Some n"

text \<open>The loop returns when the swarm's stream ends or all command senders are gone.\<close>

fun poll_swarm :: "(ext \<times> input) list \<Rightarrow> net \<Rightarrow> net option" where
  "poll_swarm [] n = Some n"
| "poll_swarm ((X, SwarmEnded) # inputs) n = Some n"
| "poll_swarm ((X, CommandsEnded) # inputs) n = Some n"
| "poll_swarm (i # inputs) n =
     (case net_step i n of None \<Rightarrow> None | Some n' \<Rightarrow> poll_swarm inputs n')"

end
