(* ===== verification/Network_Inv.thy ===== *)
theory Network_Inv
  imports Network "HOL-Library.Multiset"
begin

text \<open>
  The invariant of the swarm task and the ledger of its reply channels.

  The ledger counts every channel handed to the task: as the channel of a running query, as
  answered, or as dropped unanswered.  Each method of the behaviour adds to it exactly the
  channels it is handed, and moving a channel from one column to another is all that the events
  of the sub-protocols do.
\<close>

section \<open>The ledger\<close>

fun is_final :: "reply \<Rightarrow> bool" where
  "is_final (ReplySync (Progress _)) = False"
| "is_final _ = True"

definition pending :: "net \<Rightarrow> channel multiset" where
  "pending n = mset (map (chan_of \<circ> snd) (queries n))"

definition answered :: "net \<Rightarrow> channel multiset" where
  "answered n = mset (map fst (filter (is_final \<circ> snd) (replies n)))"

definition ledger :: "net \<Rightarrow> channel multiset" where
  "ledger n = pending n + answered n + mset (dropped n)"

fun issued :: "ext \<times> input \<Rightarrow> channel multiset" where
  "issued (X, Command (Bootstrap _ tx)) = {#tx#}"
| "issued (X, Command (Providers _ tx)) = {#tx#}"
| "issued (X, Command (Provide _ tx)) = {#tx#}"
| "issued (X, Command (GetRecord _ _ tx)) = {#tx#}"
| "issued (X, Command (PutRecord _ _ tx)) = {#tx#}"
| "issued (X, Command (Subscribe _ tx)) = {#tx#}"
| "issued (X, Command (Publish _ _ tx)) = {#tx#}"
| "issued (X, Command (CmdBroadcast _ _ tx)) = {#tx#}"
| "issued (X, Command (Get _ _ tx)) = {#tx, new_channel X#}"
| "issued (X, Command (Sync _ _ _ tx)) = {#tx, new_channel X#}"
| "issued (X, Command (SwarmEvents tx)) = {#tx#}"
| "issued _ = {#}"

definition wf_queries :: "net \<Rightarrow> bool" where
  "wf_queries n \<longleftrightarrow> distinct (keys (queries n))"

section \<open>Tables as multisets\<close>

lemma mset_delete:
  assumes "distinct (keys m)" and "map_of m i = Some q"
  shows "mset (map (f \<circ> snd) m) = add_mset (f q) (mset (map (f \<circ> snd) (AList.delete i m)))"
  using assms
proof (induction m)
  case (Cons x m)
  obtain k v where x: "x = (k, v)" by (cases x)
  show ?case
  proof (cases "k = i")
    case True
    with Cons.prems x have "i \<notin> fst ` set m" by auto
    then have "AList.delete i m = m" by simp
    with True x Cons.prems show ?thesis by simp
  next
    case False
    with x Cons show ?thesis by simp
  qed
qed simp

lemma mset_update_new:
  "map_of m i = None \<Longrightarrow> mset (map (f \<circ> snd) (AList.update i q m)) = add_mset (f q) (mset (map (f \<circ> snd) m))"
  by (induction m) (auto split: if_splits)

lemma mset_update_old:
  assumes "distinct (keys m)" and "map_of m i = Some old"
  shows "add_mset (f old) (mset (map (f \<circ> snd) (AList.update i q m))) =
    add_mset (f q) (mset (map (f \<circ> snd) m))"
  using assms by (induction m) (auto split: if_splits)

lemma pending_delete:
  "wf_queries n \<Longrightarrow> map_of (queries n) i = Some q \<Longrightarrow>
     pending n = add_mset (chan_of q) (pending (n\<lparr>queries := AList.delete i (queries n)\<rparr>))"
  using mset_delete [of "queries n" i q chan_of] by (simp add: pending_def wf_queries_def)

section \<open>Primitives\<close>

lemma ledger_frame [simp]:
  "ledger (call_out c n) = ledger n"
  "ledger (map_book f n) = ledger n"
  "ledger (n\<lparr>book := b\<rparr>) = ledger n"
  "ledger (n\<lparr>bootstrapped := x\<rparr>) = ledger n"
  "ledger (n\<lparr>subscriptions := s\<rparr>) = ledger n"
  "ledger (n\<lparr>gossip_sent := g\<rparr>) = ledger n"
  "ledger (n\<lparr>forwarders := fs\<rparr>) = ledger n"
  "ledger (n\<lparr>listen_sent := ls\<rparr>) = ledger n"
  by (simp_all add: ledger_def pending_def answered_def call_out_def map_book_def)

lemma wf_queries_frame [simp]:
  "wf_queries (send c r n) = wf_queries n"
  "wf_queries (drop_channel c n) = wf_queries n"
  "wf_queries (call_out k n) = wf_queries n"
  "wf_queries (map_book f n) = wf_queries n"
  "wf_queries (n\<lparr>book := b\<rparr>) = wf_queries n"
  "wf_queries (n\<lparr>bootstrapped := x\<rparr>) = wf_queries n"
  "wf_queries (n\<lparr>subscriptions := s\<rparr>) = wf_queries n"
  "wf_queries (n\<lparr>gossip_sent := g\<rparr>) = wf_queries n"
  "wf_queries (n\<lparr>forwarders := fs\<rparr>) = wf_queries n"
  "wf_queries (n\<lparr>listen_sent := ls\<rparr>) = wf_queries n"
  by (simp_all add: wf_queries_def send_def drop_channel_def call_out_def map_book_def)

lemma ledger_send [ledger_simps]: "is_final r \<Longrightarrow> ledger (send c r n) = add_mset c (ledger n)"
  by (simp add: ledger_def pending_def answered_def send_def)

lemma ledger_progress [ledger_simps]: "ledger (send c (ReplySync (Progress m)) n) = ledger n"
  by (simp add: ledger_def pending_def answered_def send_def)

lemma ledger_drop_channel [ledger_simps]: "ledger (drop_channel c n) = add_mset c (ledger n)"
  by (simp add: ledger_def pending_def answered_def drop_channel_def)

lemma ledger_insert_query [ledger_simps]:
  assumes "wf_queries n"
  shows "ledger (insert_query i q n) = add_mset (chan_of q) (ledger n)"
proof (cases "map_of (queries n) i")
  case None
  then show ?thesis
    using mset_update_new [OF None, of chan_of q]
    by (simp add: insert_query_def ledger_def pending_def answered_def)
next
  case (Some old)
  then show ?thesis
    using mset_update_old [OF _ Some, of chan_of q] assms
    by (simp add: insert_query_def ledger_drop_channel)
      (simp add: ledger_def pending_def answered_def wf_queries_def union_mset_add_mset_left [symmetric]
        del: union_mset_add_mset_left)
qed

lemma wf_insert_query [simp]: "wf_queries n \<Longrightarrow> wf_queries (insert_query i q n)"
  by (simp add: insert_query_def wf_queries_def drop_channel_def distinct_keys_update split: option.split)

lemma ledger_answer [ledger_simps]:
  assumes "wf_queries n" and "\<And>q r. pat q = Some r \<Longrightarrow> is_final r"
  shows "ledger (answer i pat n) = ledger n"
proof (cases "map_of (queries n) i")
  case (Some q)
  have "ledger n = add_mset (chan_of q) (ledger (n\<lparr>queries := AList.delete i (queries n)\<rparr>))"
    using pending_delete [OF assms(1) Some] by (simp add: ledger_def answered_def)
  with Some assms(2) show ?thesis
    by (cases "pat q") (simp_all add: answer_def Let_def ledger_simps)
qed (simp add: answer_def)

lemma wf_answer [simp]: "wf_queries n \<Longrightarrow> wf_queries (answer i pat n)"
  by (simp add: answer_def wf_queries_def Let_def send_def drop_channel_def distinct_keys_delete
      split: option.split)

text \<open>A query that is changed in place keeps its channel.\<close>

lemma ledger_update [ledger_simps]:
  assumes "wf_queries n" and "map_of (queries n) i = Some old" and "chan_of q = chan_of old"
  shows "ledger (n\<lparr>queries := AList.update i q (queries n)\<rparr>) = ledger n"
  using mset_update_old [OF _ assms(2), of chan_of q] assms(1,3)
  by (simp add: ledger_def pending_def answered_def wf_queries_def)

lemma wf_update [simp]: "wf_queries n \<Longrightarrow> wf_queries (n\<lparr>queries := AList.update i q (queries n)\<rparr>)"
  by (simp add: wf_queries_def distinct_keys_update)

section \<open>The behaviour's methods\<close>

lemma final_replies [simp]:
  "bootstrap_reply x q = Some r \<Longrightarrow> is_final r"
  "closest_reply y q = Some r \<Longrightarrow> is_final r"
  "providers_reply q = Some r \<Longrightarrow> is_final r"
  "providers_error e q = Some r \<Longrightarrow> is_final r"
  "providing_reply x q = Some r \<Longrightarrow> is_final r"
  "records_reply q = Some r \<Longrightarrow> is_final r"
  "records_error e q = Some r \<Longrightarrow> is_final r"
  "put_reply x q = Some r \<Longrightarrow> is_final r"
  "bitswap_reply x q = Some r \<Longrightarrow> is_final r"
  by (cases q; auto)+

lemma ledger_kad_bootstrap_result:
  "wf_queries n \<Longrightarrow> ledger (kad_bootstrap_result E i res n) = ledger n \<and>
     wf_queries (kad_bootstrap_result E i res n)"
  by (cases res) (simp_all add: ledger_simps)

lemma ledger_kad_providers_result:
  "wf_queries n \<Longrightarrow> ledger (kad_providers_result i res l n) = ledger n \<and>
     wf_queries (kad_providers_result i res l n)"
  by (cases res) (auto simp: ledger_simps Let_def split: option.split query_channel.split)

lemma ledger_kad_record_result:
  "wf_queries n \<Longrightarrow> ledger (kad_record_result k res l n) = ledger n \<and>
     wf_queries (kad_record_result k res l n)"
  by (cases res) (auto simp: ledger_simps Let_def split: option.split query_channel.split)

lemma ledger_inject_kad_event:
  "wf_queries n \<Longrightarrow> ledger (inject_kad_event E e n) = ledger n \<and> wf_queries (inject_kad_event E e n)"
  by (cases e) (auto simp: ledger_simps ledger_kad_bootstrap_result ledger_kad_providers_result
      ledger_kad_record_result split: query_result.split sum.split)

lemma ledger_inject_bitswap_event:
  "wf_queries n \<Longrightarrow> ledger (inject_bitswap_event e n) = ledger n \<and> wf_queries (inject_bitswap_event e n)"
  by (cases e) (auto simp: ledger_simps split: option.split query_channel.split)

lemma ledger_net_add_address [simp]:
  "ledger (net_add_address E p a s n) = ledger n"
  "wf_queries (net_add_address E p a s n) = wf_queries n"
  by (simp_all add: net_add_address_def Let_def)

lemma ledger_net_dial [simp]:
  "ledger (net_dial p n) = ledger n" "wf_queries (net_dial p n) = wf_queries n"
  by (simp_all add: net_dial_def)

lemma ledger_fold:
  assumes "\<And>x n. ledger (f x n) = ledger n" and "\<And>x n. wf_queries (f x n) = wf_queries n"
  shows "ledger (fold f xs n) = ledger n \<and> wf_queries (fold f xs n) = wf_queries n"
  by (induction xs arbitrary: n) (simp_all add: assms)

lemma ledger_add_addresses [simp]:
  "ledger (fold (\<lambda>(p, a). net_add_address E p a s) xs n) = ledger n"
  "wf_queries (fold (\<lambda>(p, a). net_add_address E p a s) xs n) = wf_queries n"
  "ledger (fold (\<lambda>(p, a) n. net_dial p (net_add_address E p a s n)) xs n) = ledger n"
  "wf_queries (fold (\<lambda>(p, a) n. net_dial p (net_add_address E p a s n)) xs n) = wf_queries n"
  using ledger_fold [of "\<lambda>(p, a). net_add_address E p a s" xs n]
    ledger_fold [of "\<lambda>(p, a) n. net_dial p (net_add_address E p a s n)" xs n]
  by auto

lemma ledger_inject_mdns_event [simp]:
  "ledger (inject_mdns_event E e n) = ledger n"
  "wf_queries (inject_mdns_event E e n) = wf_queries n"
  by (cases e; simp)+

lemma ledger_unsubscribe [simp]:
  "ledger (unsubscribe X t n) = ledger n" "wf_queries (unsubscribe X t n) = wf_queries n"
  by (simp_all add: unsubscribe_def Let_def)

lemma ledger_notify_subscribers [simp]:
  "ledger (notify_subscribers X t ev n) = ledger n"
  "wf_queries (notify_subscribers X t ev n) = wf_queries n"
  by (simp_all add: notify_subscribers_def Let_def split: option.split)

lemma ledger_inject_gossip_event [simp]:
  "ledger (inject_gossip_event X e n) = ledger n"
  "wf_queries (inject_gossip_event X e n) = wf_queries n"
  by (cases e; simp)+

lemma ledger_book_option:
  "map_book_option f n = Some n' \<Longrightarrow> ledger n' = ledger n \<and> wf_queries n' = wf_queries n"
  by (auto simp: map_book_option_def)

lemma ledger_inject_broadcast_event:
  "inject_broadcast_event X e n = Some n' \<Longrightarrow> ledger n' = ledger n \<and> wf_queries n' = wf_queries n"
  by (cases e) (auto split: option.splits)

lemma ledger_inject_ping_event:
  "inject_ping_event E p r n = Some n' \<Longrightarrow> ledger n' = ledger n \<and> wf_queries n' = wf_queries n"
  by (cases r) (auto dest: ledger_book_option)

lemma ledger_inject_id_event:
  "inject_id_event E e n = Some n' \<Longrightarrow> ledger n' = ledger n \<and> wf_queries n' = wf_queries n"
  by (cases e) (auto dest: ledger_book_option)

lemma ledger_subscribe:
  "subscribe X t n = (r, n') \<Longrightarrow> ledger n' = ledger n \<and> wf_queries n' = wf_queries n"
  by (auto simp: subscribe_def Let_def split: if_splits option.splits)

lemma ledger_publish:
  "publish X t m n = (r, n') \<Longrightarrow> ledger n' = ledger n \<and> wf_queries n' = wf_queries n"
  "broadcast X t m n = (r, n') \<Longrightarrow> ledger n' = ledger n \<and> wf_queries n' = wf_queries n"
  by (auto simp: publish_def broadcast_def split: if_splits)

lemma ledger_requests [ledger_simps]:
  assumes "wf_queries n"
  shows "ledger (net_bootstrap X tx n) = add_mset tx (ledger n)"
    and "ledger (provide X k tx n) = add_mset tx (ledger n)"
    and "ledger (providers X k tx n) = add_mset tx (ledger n)"
    and "ledger (get_record X k q tx n) = add_mset tx (ledger n)"
    and "ledger (put_record X r q tx n) = add_mset tx (ledger n)"
  using assms
  by (auto simp: net_bootstrap_def provide_def providers_def get_record_def put_record_def
      ledger_simps Let_def split: sum.split)

lemma wf_requests [simp]:
  assumes "wf_queries n"
  shows "wf_queries (net_bootstrap X tx n)" and "wf_queries (provide X k tx n)"
    and "wf_queries (providers X k tx n)" and "wf_queries (get_record X k q tx n)"
    and "wf_queries (put_record X r q tx n)"
  using assms
  by (auto simp: net_bootstrap_def provide_def providers_def get_record_def put_record_def
      Let_def split: sum.split)

lemma ledger_bh_get:
  assumes "wf_queries n"
  shows "bh_get X c ps n = Some ((rx, i), n') \<Longrightarrow>
      ledger n' = add_mset (new_channel X) (ledger n) \<and> wf_queries n'"
    and "bh_sync X c ps ms n = Some ((rx, i), n') \<Longrightarrow>
      ledger n' = add_mset (new_channel X) (ledger n) \<and> wf_queries n'"
  using assms by (auto simp: bh_get_def bh_sync_def Let_def ledger_simps split: if_splits)

lemma ledger_remove_query [simp]:
  "wf_queries n \<Longrightarrow> ledger (remove_query i n) = ledger n"
  "wf_queries n \<Longrightarrow> wf_queries (remove_query i n)"
  by (auto simp: remove_query_def intro!: ledger_answer)

lemma ledger_cancel:
  "wf_queries n \<Longrightarrow> cancel i n = Some n' \<Longrightarrow> ledger n' = ledger n \<and> wf_queries n'"
  by (cases i) (auto simp: Let_def split: if_splits)

lemma ledger_listen_on_step [simp]:
  "ledger (listen_on_step X a c n) = ledger n"
  "wf_queries (listen_on_step X a c n) = wf_queries n"
  by (simp_all add: listen_on_step_def net_swarm_events_def Let_def split: sum.split)

lemma ledger_address_commands [simp]:
  "ledger (net_remove_address p a n) = ledger n" "wf_queries (net_remove_address p a n) = wf_queries n"
  "ledger (net_prune_peers E d n) = ledger n" "wf_queries (net_prune_peers E d n) = wf_queries n"
  "ledger (net_dial_address p a n) = ledger n" "wf_queries (net_dial_address p a n) = wf_queries n"
  "ledger (unprovide k n) = ledger n" "wf_queries (unprovide k n) = wf_queries n"
  "ledger (remove_record k n) = ledger n" "wf_queries (remove_record k n) = wf_queries n"
  "ledger (net_swarm_events c n) = ledger n" "wf_queries (net_swarm_events c n) = wf_queries n"
  by (simp_all add: net_remove_address_def net_prune_peers_def net_dial_address_def unprovide_def
      remove_record_def net_swarm_events_def Let_def)

lemma ledger_command_step:
  assumes wf: "wf_queries n" and step: "command_step X c n = Some n'"
  shows "ledger n' = ledger n + issued (X, Command c) \<and> wf_queries n'"
proof (cases c)
  case (Subscribe t tx)
  obtain r m where m: "subscribe X t n = (r, m)" by (cases "subscribe X t n")
  with Subscribe step wf ledger_subscribe [OF m] show ?thesis by (auto simp: ledger_simps)
next
  case (Publish t d tx)
  obtain r m where m: "publish X t d n = (r, m)" by (cases "publish X t d n")
  with Publish step wf ledger_publish(1) [OF m] show ?thesis by (auto simp: ledger_simps)
next
  case (CmdBroadcast t d tx)
  obtain r m where m: "broadcast X t d n = (r, m)" by (cases "broadcast X t d n")
  with CmdBroadcast step wf ledger_publish(2) [OF m] show ?thesis by (auto simp: ledger_simps)
next
  case (Get c ps tx)
  with step obtain rx i m where m: "bh_get X c ps n = Some ((rx, i), m)"
    "n' = send tx (ReplyGetQuery i rx) m" by (auto simp: bind_eq_Some_conv)
  with Get ledger_bh_get(1) [OF wf m(1)] show ?thesis by (auto simp: ledger_simps)
next
  case (Sync c ps ms tx)
  with step obtain rx i m where m: "bh_sync X c ps ms n = Some ((rx, i), m)"
    "n' = send tx (ReplySyncQuery i rx) m" by (auto simp: bind_eq_Some_conv)
  with Sync ledger_bh_get(2) [OF wf m(1)] show ?thesis by (auto simp: ledger_simps)
next
  case (CancelQuery i)
  with step ledger_cancel [OF wf, of i n'] show ?thesis by simp
qed (use wf step in \<open>auto simp: ledger_simps\<close>)

lemma ledger_swarm_event_step:
  assumes "wf_queries n" and "swarm_event_step X e n = Some n'"
  shows "ledger n' = ledger n \<and> wf_queries n'"
proof (cases e)
  case (SwarmBehaviour ev)
  with assms show ?thesis
    by (cases ev) (auto dest: ledger_inject_ping_event ledger_inject_id_event
        ledger_inject_broadcast_event simp: ledger_inject_kad_event ledger_inject_bitswap_event)
qed (use assms in \<open>auto simp: net_connection_closed_def\<close>)

lemma ledger_net_step:
  assumes "wf_queries n" and "net_step i n = Some n'"
  shows "ledger n' = ledger n + issued i \<and> wf_queries n'"
proof -
  obtain X inp where i: "i = (X, inp)" by (cases i)
  with assms show ?thesis
    by (cases inp) (auto dest: ledger_command_step ledger_swarm_event_step ledger_book_option)
qed

interpretation ledger_steps:
  refined_step_system "\<lambda>_ _. True" net_step wf_queries ledger "\<lambda>i l. l + issued i"
  by unfold_locales (auto dest: ledger_net_step)

section \<open>The invariant\<close>

definition wf_subs :: "net \<Rightarrow> bool" where
  "wf_subs n \<longleftrightarrow>
     distinct (keys (subscriptions n)) \<and> all_values (\<lambda>_ txs. txs \<noteq> []) (subscriptions n)"

definition wf_net :: "net \<Rightarrow> bool" where
  "wf_net n \<longleftrightarrow> wf_book (book n) \<and> wf_queries n \<and> wf_subs n"

text \<open>The protocols that are enabled.\<close>

definition protocols :: "net \<Rightarrow> bool list" where
  "protocols n =
     [kad_on n, mdns_on n, ping_on n, identify_on n, bitswap_on n, gossipsub_on n, broadcast_on n]"

text \<open>
  What the swarm task relies on: what the address book does, that topics in broadcast messages
  are UTF-8, and that bitswap is enabled when a block is asked for or a bitswap query cancelled.
\<close>

fun input_ok :: "ext \<times> input \<Rightarrow> net \<Rightarrow> bool" where
  "input_ok (X, SwarmItem (SwarmConnectionClosed p _ _ _)) n \<longleftrightarrow> p \<noteq> local_peer_id (book n)"
| "input_ok (X, SwarmItem (SwarmBehaviour (EvPing _ (PingOk d)))) n \<longleftrightarrow> d * 9 \<le> duration_max"
| "input_ok (X, SwarmItem (SwarmBehaviour (EvIdentify _))) n \<longleftrightarrow> order_ok (book_env X)"
| "input_ok (X, SwarmItem (SwarmBehaviour (EvBroadcast (BroadcastReceived _ t _)))) n \<longleftrightarrow>
     from_utf8 t \<noteq> None"
| "input_ok (X, Command (Get _ _ _)) n \<longleftrightarrow> bitswap_on n"
| "input_ok (X, Command (Sync _ _ _ _)) n \<longleftrightarrow> bitswap_on n"
| "input_ok (X, Command (CancelQuery (BitswapId _))) n \<longleftrightarrow> bitswap_on n"
| "input_ok (X, BookEvent ev) n \<longleftrightarrow> swarm_event_ok ev (book n)"
| "input_ok _ n \<longleftrightarrow> True"

lemma net_frame [simp]:
  "book (send c r n) = book n" "subscriptions (send c r n) = subscriptions n"
  "book (drop_channel c n) = book n" "subscriptions (drop_channel c n) = subscriptions n"
  "book (call_out k n) = book n" "subscriptions (call_out k n) = subscriptions n"
  "book (map_book f n) = f (book n)" "subscriptions (map_book f n) = subscriptions n"
  "book (insert_query i q n) = book n" "subscriptions (insert_query i q n) = subscriptions n"
  "book (answer i pat n) = book n" "subscriptions (answer i pat n) = subscriptions n"
  "book (remove_query i n) = book n" "subscriptions (remove_query i n) = subscriptions n"
  by (simp_all add: send_def drop_channel_def call_out_def map_book_def insert_query_def answer_def
      remove_query_def Let_def split: option.split)

lemma protocols_frame [simp]:
  "protocols (send c r n) = protocols n"
  "protocols (drop_channel c n) = protocols n"
  "protocols (call_out k n) = protocols n"
  "protocols (map_book f n) = protocols n"
  "protocols (insert_query i q n) = protocols n"
  "protocols (answer i pat n) = protocols n"
  "protocols (remove_query i n) = protocols n"
  "protocols (n\<lparr>book := b\<rparr>) = protocols n"
  "protocols (n\<lparr>bootstrapped := x\<rparr>) = protocols n"
  "protocols (n\<lparr>queries := qs\<rparr>) = protocols n"
  "protocols (n\<lparr>subscriptions := s\<rparr>) = protocols n"
  "protocols (n\<lparr>gossip_sent := g\<rparr>) = protocols n"
  "protocols (n\<lparr>forwarders := fs\<rparr>) = protocols n"
  "protocols (n\<lparr>listen_sent := ls\<rparr>) = protocols n"
  by (simp_all add: protocols_def send_def drop_channel_def call_out_def map_book_def
      insert_query_def answer_def remove_query_def Let_def split: option.split)

lemma wf_subs_frame [simp]:
  "wf_subs (send c r n) = wf_subs n"
  "wf_subs (drop_channel c n) = wf_subs n"
  "wf_subs (call_out k n) = wf_subs n"
  "wf_subs (map_book f n) = wf_subs n"
  "wf_subs (insert_query i q n) = wf_subs n"
  "wf_subs (answer i pat n) = wf_subs n"
  "wf_subs (remove_query i n) = wf_subs n"
  "wf_subs (n\<lparr>book := b\<rparr>) = wf_subs n"
  "wf_subs (n\<lparr>bootstrapped := x\<rparr>) = wf_subs n"
  "wf_subs (n\<lparr>queries := qs\<rparr>) = wf_subs n"
  "wf_subs (n\<lparr>gossip_sent := g\<rparr>) = wf_subs n"
  "wf_subs (n\<lparr>forwarders := fs\<rparr>) = wf_subs n"
  "wf_subs (n\<lparr>listen_sent := ls\<rparr>) = wf_subs n"
  by (simp_all add: wf_subs_def)

text \<open>
  What an operation may do to the state besides the queries: keep the enabled protocols and the
  invariant of the subscriptions, and change the book only well.
\<close>

definition tame :: "net \<Rightarrow> net \<Rightarrow> bool" where
  "tame n n' \<longleftrightarrow>
     protocols n' = protocols n \<and> (wf_subs n \<longrightarrow> wf_subs n') \<and>
     (wf_book (book n) \<longrightarrow> wf_book (book n'))"

lemma tame_refl [simp]: "tame n n"
  by (simp add: tame_def)

lemma tame_trans: "tame a b \<Longrightarrow> tame b c \<Longrightarrow> tame a c"
  by (auto simp: tame_def)

lemma tame_map_book: "(\<And>b. wf_book b \<Longrightarrow> wf_book (f b)) \<Longrightarrow> tame n (map_book f n)"
  by (simp add: tame_def)

lemma tame_net_add_address: "tame n (net_add_address E p a s n)"
  by (simp add: tame_def net_add_address_def Let_def wf_book_add_address)

lemma wf_book_simple:
  "wf_book b \<Longrightarrow> wf_book (dial p b)"
  "wf_book b \<Longrightarrow> wf_book (swarm_events c b)"
  "wf_book b \<Longrightarrow> wf_book (prune_peers E d b)"
  using book_dial.step_inv [of b p "dial p b"] book_swarm_events.step_inv [of b c "swarm_events c b"]
    book_prune_peers.step_inv [of b "(E, d)" "prune_peers E d b"]
  by auto

lemma tame_net_dial: "tame n (net_dial p n)"
  unfolding net_dial_def by (rule tame_map_book) (rule wf_book_simple)

lemma tame_fold:
  assumes "\<And>x n. tame n (f x n)"
  shows "tame n (fold f xs n)"
proof (induction xs arbitrary: n)
  case (Cons x xs)
  show ?case using tame_trans [OF assms Cons.IH] by simp
qed simp

lemma tame_address_commands:
  "tame n (net_remove_address p a n)" "tame n (net_prune_peers E d n)"
  "tame n (net_dial_address p a n)" "tame n (unprovide k n)" "tame n (remove_record k n)"
  "tame n (net_swarm_events c n)" "tame n (listen_on_step X l c n)"
  by (simp_all add: tame_def net_remove_address_def net_prune_peers_def net_dial_address_def
      unprovide_def remove_record_def net_swarm_events_def listen_on_step_def Let_def
      wf_book_remove_address wf_book_dial_address wf_book_simple split: sum.split)

lemma tame_answer [simp]: "tame n (answer i pat m) = tame n m"
  by (simp add: tame_def)

lemma tame_queries [simp]: "tame n (m\<lparr>queries := qs\<rparr>) = tame n m"
  by (simp add: tame_def)

lemma tame_call_out [simp]: "tame n (call_out c m) = tame n m"
  by (simp add: tame_def)

lemma tame_send [simp]: "tame n (send c r m) = tame n m"
  by (simp add: tame_def)

lemma tame_insert_query [simp]: "tame n (insert_query i q m) = tame n m"
  by (simp add: tame_def)

lemma tame_drop_channel [simp]: "tame n (drop_channel c m) = tame n m"
  by (simp add: tame_def)

lemma tame_requests:
  "tame n (net_bootstrap X tx n)" "tame n (provide X k tx n)" "tame n (providers X k tx n)"
  "tame n (get_record X k q tx n)" "tame n (put_record X r q tx n)"
  by (simp_all add: net_bootstrap_def provide_def providers_def get_record_def put_record_def
      Let_def split: sum.split)

lemma tame_kad_providers_result: "tame n (kad_providers_result i res l n)"
  by (cases "(i, res, l, n)" rule: kad_providers_result.cases)
    (simp_all add: Let_def split: option.split query_channel.split)

lemma tame_kad_record_result: "tame n (kad_record_result k res l n)"
  by (cases "(k, res, l, n)" rule: kad_record_result.cases)
    (simp_all add: Let_def split: option.split query_channel.split)

lemma tame_kad_bootstrap_result: "tame n (kad_bootstrap_result E i res n)"
  by (cases res) (simp_all add: tame_def)

lemma tame_inject_kad_event: "tame n (inject_kad_event E e n)"
  by (cases e) (simp_all add: tame_kad_providers_result tame_kad_record_result
      tame_kad_bootstrap_result split: query_result.split sum.split)

lemma tame_inject_bitswap_event: "tame n (inject_bitswap_event e n)"
  by (cases e) (simp_all split: option.split query_channel.split)

lemma wf_subs_notify_subscribers:
  assumes "wf_subs n"
  shows "wf_subs (notify_subscribers X t ev n)"
proof (cases "map_of (subscriptions n) t")
  case (Some txs)
  then show ?thesis using assms
    by (simp add: wf_subs_def notify_subscribers_def unsubscribe_def Let_def delete_update_same
        distinct_keys_delete distinct_keys_update all_values_delete all_values_update)
qed (simp add: notify_subscribers_def assms)

lemma tame_notify_subscribers: "tame n (notify_subscribers X t ev n)"
proof (cases "map_of (subscriptions n) t")
  case (Some txs)
  have "protocols (notify_subscribers X t ev n) = protocols n"
    "book (notify_subscribers X t ev n) = book n"
    using Some by (simp_all add: notify_subscribers_def unsubscribe_def Let_def)
  then show ?thesis by (simp add: tame_def wf_subs_notify_subscribers)
qed (simp add: notify_subscribers_def)

lemma tame_gossip:
  "tame n (notify_subscribers X t ev (map_book (notify E e) n))"
  by (rule tame_trans [OF tame_map_book tame_notify_subscribers]) simp

lemma tame_inject_gossip_event: "tame n (inject_gossip_event X e n)"
  by (cases e) (auto simp: tame_notify_subscribers tame_gossip)

lemma tame_inject_broadcast_event: "inject_broadcast_event X e n = Some n' \<Longrightarrow> tame n n'"
  by (cases e) (auto simp: tame_notify_subscribers tame_gossip split: option.splits)

lemma tame_subscribe: "tame n (snd (subscribe X t n))"
proof -
  have "tame n (n\<lparr>subscriptions := AList.update h txs (subscriptions n)\<rparr>)" if "txs \<noteq> []" for h txs
    using that by (simp add: tame_def wf_subs_def distinct_keys_update all_values_update)
  then show ?thesis by (simp add: subscribe_def Let_def split: option.split)
qed

lemma tame_publish: "tame n (snd (publish X t m n))" "tame n (snd (broadcast X t m n))"
  by (simp_all add: publish_def broadcast_def)

lemma tame_bh_get:
  "bh_get X c ps n = Some (r, n') \<Longrightarrow> tame n n'" "bh_sync X c ps ms n = Some (r, n') \<Longrightarrow> tame n n'"
  by (auto simp: bh_get_def bh_sync_def Let_def split: if_splits)

lemma tame_remove_query [simp]: "tame n (remove_query i m) = tame n m"
  by (simp add: tame_def)

lemma tame_cancel: "cancel i n = Some n' \<Longrightarrow> tame n n'"
  by (cases i) (auto simp: Let_def split: if_splits)

lemma tame_command_step:
  assumes "command_step X c n = Some n'"
  shows "tame n n'"
proof (cases c)
  case (AddAddresses xs)
  with assms show ?thesis by (auto intro!: tame_fold tame_net_add_address)
next
  case (Bootstrap xs tx)
  have "tame n (fold (\<lambda>(p, a) n. net_dial p (net_add_address (book_env X) p a User n)) xs n)"
    by (rule tame_fold) (simp add: split_beta tame_trans [OF tame_net_add_address tame_net_dial])
  from Bootstrap assms tame_trans [OF this tame_requests(1)] show ?thesis by auto
next
  case (Subscribe t tx)
  with assms tame_subscribe [of n X t] show ?thesis by (auto simp: split_beta Let_def)
next
  case (Publish t d tx)
  with assms tame_publish(1) [of n X t d] show ?thesis by (auto simp: split_beta Let_def)
next
  case (CmdBroadcast t d tx)
  with assms tame_publish(2) [of n X t d] show ?thesis by (auto simp: split_beta Let_def)
next
  case (Get c ps tx)
  with assms show ?thesis by (auto simp: bind_eq_Some_conv dest: tame_bh_get)
next
  case (Sync c ps ms tx)
  with assms show ?thesis by (auto simp: bind_eq_Some_conv dest: tame_bh_get)
next
  case (CancelQuery i)
  with assms show ?thesis by (auto intro: tame_cancel)
next
  case (SwarmEvents tx)
  with assms tame_address_commands(6) [of n "new_channel X"] show ?thesis by auto
qed (use assms in \<open>auto simp: tame_net_add_address tame_net_dial tame_address_commands tame_requests\<close>)

lemma command_step_total: "input_ok (X, Command c) n \<Longrightarrow> command_step X c n \<noteq> None"
proof (cases c)
  case (CancelQuery i)
  have "bitswap_on (remove_query i n) = bitswap_on n"
    using protocols_frame(7) [of i n] by (simp add: protocols_def)
  with CancelQuery show "input_ok (X, Command c) n \<Longrightarrow> ?thesis" by (cases i) (auto simp: Let_def)
qed (auto simp: bh_get_def bh_sync_def Let_def split_beta)

lemma book_option_wf:
  assumes "\<exists>b'. f (book n) = Some b' \<and> wf_book b'" and "wf_net n"
  shows "\<exists>n'. map_book_option f n = Some n' \<and> wf_net n' \<and> protocols n' = protocols n"
  using assms by (auto simp: map_book_option_def wf_net_def)

lemma tame_wf:
  "wf_net n \<Longrightarrow> wf_queries n' \<Longrightarrow> tame n n' \<Longrightarrow> wf_net n' \<and> protocols n' = protocols n"
  by (auto simp: wf_net_def tame_def)

lemma set_rtt_option_wf:
  assumes "wf_net n" and "case r of None \<Rightarrow> True | Some d \<Rightarrow> d * 9 \<le> duration_max"
  shows "\<exists>n'. map_book_option (set_rtt E p r) n = Some n' \<and> wf_net n' \<and> protocols n' = protocols n"
proof -
  have "\<exists>b'. set_rtt E p r (book n) = Some b' \<and> wf_book b'"
    using assms by (intro set_rtt_wf) (simp_all add: wf_net_def)
  from book_option_wf [of "set_rtt E p r", OF this assms(1)] show ?thesis .
qed

lemma set_info_option_wf:
  assumes "wf_net n" and "order_ok E"
  shows "\<exists>n'. map_book_option (set_info E p idf) n = Some n' \<and> wf_net n' \<and> protocols n' = protocols n"
proof -
  obtain b' where b': "set_info E p idf (book n) = Some b'" by (simp add: set_info_eq)
  with assms set_info_wf [of "book n" E p idf b'] have "wf_book b'" by (simp add: wf_net_def)
  with b' have "\<exists>b'. set_info E p idf (book n) = Some b' \<and> wf_book b'" by blast
  from book_option_wf [of "set_info E p idf", OF this assms(1)] show ?thesis .
qed

lemma behaviour_event_wf:
  assumes wf: "wf_net n" and ok: "input_ok (X, SwarmItem (SwarmBehaviour ev)) n"
  shows "\<exists>n'. behaviour_event_step X ev n = Some n' \<and> wf_net n' \<and> protocols n' = protocols n"
proof (cases ev)
  case (EvPing p r)
  then show ?thesis using wf ok by (cases r) (simp_all add: set_rtt_option_wf)
next
  case (EvIdentify e)
  then show ?thesis using wf ok by (cases e) (simp_all add: set_info_option_wf)
next
  case (EvBroadcast e)
  obtain n' where n': "inject_broadcast_event X e n = Some n'"
    using ok EvBroadcast by (cases e) auto
  have "wf_queries n'" using ledger_inject_broadcast_event [OF n'] wf by (simp add: wf_net_def)
  from tame_wf [OF wf this tame_inject_broadcast_event [OF n']] n' EvBroadcast show ?thesis by simp
next
  case (EvMdns e)
  have "tame n (inject_mdns_event (book_env X) e n)"
    by (cases e) (auto intro!: tame_fold tame_net_add_address)
  from tame_wf [OF wf _ this] wf EvMdns show ?thesis by (simp add: wf_net_def)
next
  case (EvKad e)
  with wf tame_wf [OF wf _ tame_inject_kad_event] show ?thesis
    by (simp add: ledger_inject_kad_event wf_net_def)
next
  case (EvBitswap e)
  with wf tame_wf [OF wf _ tame_inject_bitswap_event] show ?thesis
    by (simp add: ledger_inject_bitswap_event wf_net_def)
next
  case (EvGossipsub e)
  with wf tame_wf [OF wf _ tame_inject_gossip_event] show ?thesis by (simp add: wf_net_def)
qed

lemma net_step_wf:
  assumes wf: "wf_net n" and ok: "input_ok (X, inp) n"
  shows "\<exists>n'. net_step (X, inp) n = Some n' \<and> wf_net n' \<and> protocols n' = protocols n"
proof (cases inp)
  case (SwarmItem e)
  show ?thesis
  proof (cases e)
    case (SwarmConnectionClosed p c k err)
    with SwarmItem wf ok show ?thesis
      by (auto simp: net_connection_closed_def wf_net_def intro: wf_book_connection_closed)
  next
    case (SwarmBehaviour ev)
    with SwarmItem behaviour_event_wf [OF wf] ok show ?thesis by simp
  qed (use SwarmItem wf in simp)
next
  case (Command c)
  then obtain n' where n': "command_step X c n = Some n'" using command_step_total ok by blast
  moreover have "wf_queries n'" using ledger_command_step [OF _ n'] wf by (simp add: wf_net_def)
  ultimately show ?thesis using Command tame_wf [OF wf _ tame_command_step [OF n']] by simp
next
  case (BookEvent ev)
  with ok wf have "\<exists>b'. on_swarm_event (book_env X) ev (book n) = Some b' \<and> wf_book b'"
    by (intro on_swarm_event_wf) (simp_all add: wf_net_def)
  from book_option_wf [of "on_swarm_event (book_env X) ev", OF this wf] BookEvent
  show ?thesis by simp
next
  case (BookPoll ext el)
  with wf show ?thesis by (auto simp: wf_net_def intro: wf_poll_book)
qed (use wf in simp_all)

interpretation net_system: total_step_system input_ok net_step wf_net
proof (unfold_locales, goal_cases)
  case (1 n i n')
  then show ?case using net_step_wf [of n "fst i" "snd i"] by auto
next
  case (2 n i)
  then show ?case using net_step_wf [of n "fst i" "snd i"] by auto
qed

end
