(* ===== verification/Service.thy ===== *)
theory Service
  imports Network
begin

text \<open>
  The client's side of \<open>src/src/net/mod.rs\<close>: \<open>NetworkService\<close>, the task that forwards listener
  events, and the futures \<open>GetQuery\<close> and \<open>SyncQuery\<close>.

  A method of the service creates a channel (an argument here), puts a command on the bounded
  queue and returns a future.  \<open>AwaitReply\<close> is the future that waits for the channel,
  \<open>ReadyError\<close> the one that is ready with the reason the queue gave.
\<close>

section \<open>The command queue\<close>

datatype try_send = TrySent | TryFull | TryDisconnected

record service =
  svc_public_key :: nat
  svc_peer_id :: peer_id
  svc_node_name :: string
  cmd_queue :: "network_command list"

definition handle_send_result :: "try_send \<Rightarrow> network_command \<Rightarrow> (network_command \<times> string) option" where
  "handle_send_result res msg =
     (case res of
        TrySent \<Rightarrow> None
      | TryDisconnected \<Rightarrow> Some (msg, ''receiver went away'')
      | TryFull \<Rightarrow> Some (msg, ''channel is full''))"

definition svc_cmd ::
  "try_send \<Rightarrow> network_command \<Rightarrow> service \<Rightarrow> (network_command \<times> string) option \<times> service" where
  "svc_cmd res msg s =
     (handle_send_result res msg,
      if res = TrySent then s\<lparr>cmd_queue := cmd_queue s @ [msg]\<rparr> else s)"

datatype 'a response = ReadyError string | ReadyValue 'a | AwaitReply channel

text \<open>The shape shared by the methods that wait for an answer.\<close>

definition request ::
  "try_send \<Rightarrow> network_command \<Rightarrow> channel \<Rightarrow> service \<Rightarrow> 'a response \<times> service" where
  "request res msg tx s =
     (let (failed, s) = svc_cmd res msg s
      in (case failed of Some (_, err) \<Rightarrow> ReadyError err | None \<Rightarrow> AwaitReply tx, s))"

text \<open>\<open>listen_on\<close>: what the returned stream already holds.\<close>

definition svc_listen_on ::
  "try_send \<Rightarrow> multiaddr \<Rightarrow> channel \<Rightarrow> service \<Rightarrow> listener_event list \<times> service" where
  "svc_listen_on res addr tx s =
     (let (failed, s) = svc_cmd res (ListenOn addr tx) s
      in (case failed of
            Some (ListenOn addr _, reason) \<Rightarrow>
              [ListenFailed addr (''cannot send to Swarm: '' @ reason)]
          | _ \<Rightarrow> [], s))"

definition svc_add_external_address :: "try_send \<Rightarrow> multiaddr \<Rightarrow> service \<Rightarrow> service" where
  "svc_add_external_address res addr s =
     snd (svc_cmd res (AddExternalAddress (normalize_addr addr (svc_peer_id s))) s)"

definition svc_add_address :: "try_send \<Rightarrow> peer_id \<Rightarrow> multiaddr \<Rightarrow> service \<Rightarrow> service" where
  "svc_add_address res peer addr s = snd (svc_cmd res (AddAddress peer addr) s)"

definition svc_add_addresses :: "try_send \<Rightarrow> (peer_id \<times> multiaddr) list \<Rightarrow> service \<Rightarrow> service" where
  "svc_add_addresses res addresses s = snd (svc_cmd res (AddAddresses addresses) s)"

definition svc_remove_address :: "try_send \<Rightarrow> peer_id \<Rightarrow> multiaddr \<Rightarrow> service \<Rightarrow> service" where
  "svc_remove_address res peer addr s = snd (svc_cmd res (RemoveAddress peer addr) s)"

definition svc_prune_peers :: "try_send \<Rightarrow> duration \<Rightarrow> service \<Rightarrow> service" where
  "svc_prune_peers res min_age s = snd (svc_cmd res (PrunePeers min_age) s)"

definition svc_dial :: "try_send \<Rightarrow> peer_id \<Rightarrow> service \<Rightarrow> service" where
  "svc_dial res peer s = snd (svc_cmd res (DialPeer peer) s)"

definition svc_dial_address :: "try_send \<Rightarrow> peer_id \<Rightarrow> multiaddr \<Rightarrow> service \<Rightarrow> service" where
  "svc_dial_address res peer addr s = snd (svc_cmd res (DialAddress peer addr) s)"

definition svc_ban :: "try_send \<Rightarrow> peer_id \<Rightarrow> service \<Rightarrow> service" where
  "svc_ban res peer s = snd (svc_cmd res (Ban peer) s)"

definition svc_unban :: "try_send \<Rightarrow> peer_id \<Rightarrow> service \<Rightarrow> service" where
  "svc_unban res peer s = snd (svc_cmd res (Unban peer) s)"

section \<open>Starting the service\<close>

text \<open>The TCP transport below the DNS resolver: what of the configuration goes into it.\<close>

record transport =
  tr_port_reuse :: bool
  tr_psk :: "nat option"
  tr_timeout :: duration

definition tcp_transport :: "network_config \<Rightarrow> transport" where
  "tcp_transport config =
     \<lparr>tr_port_reuse = nc_port_reuse config, tr_psk = nc_psk config, tr_timeout = 5 * 10 ^ 9\<rparr>"

datatype dns_resolver = DnsSystem | DnsWith nat nat

text \<open>The resolver: \<open>system_conf\<close> is what \<open>read_system_conf\<close> returns.\<close>

definition choose_dns :: "(nat \<times> nat) option \<Rightarrow> dns_config option \<Rightarrow> dns_resolver" where
  "choose_dns system_conf dns =
     (case dns of
        None \<Rightarrow> DnsSystem
      | Some (DnsCustom config opts) \<Rightarrow> DnsWith config opts
      | Some (SystemWithFallback config opts) \<Rightarrow>
          (case system_conf of Some (c, o') \<Rightarrow> DnsWith c o' | None \<Rightarrow> DnsWith config opts))"

datatype service_error = BehaviourFailed bh_error | DnsFailed nat

text \<open>
  \<open>NetworkService::new\<close>; \<open>dns_new\<close> is the outcome of building a resolver.  The result is the
  service, the transport, and the state the swarm task starts from.
\<close>

definition network_service_new ::
  "(nat \<Rightarrow> nat) \<Rightarrow> (nat \<Rightarrow> peer_id) \<Rightarrow> bh_error option \<Rightarrow> bh_error option \<Rightarrow>
     (nat \<times> nat) option \<Rightarrow> (dns_resolver \<Rightarrow> nat option) \<Rightarrow> network_config \<Rightarrow>
     service_error + service \<times> transport \<times> net \<times> identify_config option" where
  "network_service_new public_key to_peer_id mdns_new gossipsub_new system_conf dns_new config =
     (let key = public_key (nc_node_key config)
      in case behaviour_new public_key to_peer_id mdns_new gossipsub_new config of
           Inl err \<Rightarrow> Inl (BehaviourFailed err)
         | Inr (n, ident, config') \<Rightarrow>
             (case dns_new (choose_dns system_conf (nc_dns config')) of
                Some err \<Rightarrow> Inl (DnsFailed err)
              | None \<Rightarrow>
                  Inr (\<lparr>svc_public_key = key, svc_peer_id = to_peer_id key,
                        svc_node_name = nc_node_name config, cmd_queue = []\<rparr>,
                       tcp_transport config', n, ident)))"

section \<open>What a client reads\<close>

text \<open>The readers share the book's values.\<close>

definition svc_listeners :: "address_book \<Rightarrow> multiaddr list" where
  "svc_listeners b = listeners b"

definition svc_external_addresses :: "address_book \<Rightarrow> address_record list" where
  "svc_external_addresses b = external b"

definition svc_peers :: "address_book \<Rightarrow> peer_id list" where
  "svc_peers b = keys (peers b)"

definition svc_connections ::
  "address_book \<Rightarrow> (peer_id \<times> multiaddr \<times> time \<times> direction) list" where
  "svc_connections b =
     concat (map (\<lambda>(peer, info). map (\<lambda>(a, t, d). (peer, a, t, d)) (pi_connections info)) (peers b))"

definition is_connected :: "peer_id \<Rightarrow> address_book \<Rightarrow> bool" where
  "is_connected peer b \<longleftrightarrow>
     peer = local_peer_id b \<or>
     (case map_of (peers b) peer of Some info \<Rightarrow> pi_connections info \<noteq> [] | None \<Rightarrow> False)"

definition svc_peer_info :: "peer_id \<Rightarrow> address_book \<Rightarrow> peer_info option" where
  "svc_peer_info peer b = map_of (peers b) peer"

section \<open>Requests\<close>

definition svc_bootstrap ::
  "try_send \<Rightarrow> (peer_id \<times> multiaddr) list \<Rightarrow> channel \<Rightarrow> service \<Rightarrow> unit response \<times> service" where
  "svc_bootstrap res ps tx s = request res (Bootstrap ps tx) tx s"

definition svc_providers ::
  "try_send \<Rightarrow> key \<Rightarrow> channel \<Rightarrow> service \<Rightarrow> peer_id list response \<times> service" where
  "svc_providers res k tx s = request res (Providers k tx) tx s"

definition svc_provide :: "try_send \<Rightarrow> key \<Rightarrow> channel \<Rightarrow> service \<Rightarrow> unit response \<times> service" where
  "svc_provide res k tx s = request res (Provide k tx) tx s"

definition svc_unprovide :: "try_send \<Rightarrow> key \<Rightarrow> service \<Rightarrow> (string + unit) \<times> service" where
  "svc_unprovide res k s =
     (let (failed, s) = svc_cmd res (Unprovide k) s
      in (case failed of Some (_, err) \<Rightarrow> Inl err | None \<Rightarrow> Inr (), s))"

definition svc_get_record ::
  "try_send \<Rightarrow> key \<Rightarrow> quorum \<Rightarrow> channel \<Rightarrow> service \<Rightarrow> peer_record list response \<times> service" where
  "svc_get_record res k q tx s = request res (GetRecord k q tx) tx s"

definition svc_put_record ::
  "try_send \<Rightarrow> kad_record \<Rightarrow> quorum \<Rightarrow> channel \<Rightarrow> service \<Rightarrow> unit response \<times> service" where
  "svc_put_record res r q tx s = request res (PutRecord r q tx) tx s"

definition svc_remove_record :: "try_send \<Rightarrow> key \<Rightarrow> service \<Rightarrow> (string + unit) \<times> service" where
  "svc_remove_record res k s =
     (let (failed, s) = svc_cmd res (RemoveRecord k) s
      in (case failed of Some (_, err) \<Rightarrow> Inl err | None \<Rightarrow> Inr (), s))"

definition svc_subscribe ::
  "try_send \<Rightarrow> string \<Rightarrow> channel \<Rightarrow> service \<Rightarrow> channel response \<times> service" where
  "svc_subscribe res topic tx s = request res (Subscribe topic tx) tx s"

definition svc_publish ::
  "try_send \<Rightarrow> string \<Rightarrow> string \<Rightarrow> channel \<Rightarrow> service \<Rightarrow> unit response \<times> service" where
  "svc_publish res topic msg tx s = request res (Publish topic msg tx) tx s"

definition svc_broadcast ::
  "try_send \<Rightarrow> string \<Rightarrow> string \<Rightarrow> channel \<Rightarrow> service \<Rightarrow> unit response \<times> service" where
  "svc_broadcast res topic msg tx s = request res (CmdBroadcast topic msg tx) tx s"

definition svc_swarm_events :: "try_send \<Rightarrow> channel \<Rightarrow> service \<Rightarrow> channel response \<times> service" where
  "svc_swarm_events res tx s = request res (SwarmEvents tx) tx s"

definition svc_get ::
  "try_send \<Rightarrow> cid \<Rightarrow> peer_id list \<Rightarrow> channel \<Rightarrow> service \<Rightarrow> 'a response \<times> service" where
  "svc_get res c provs tx s = request res (Get c provs tx) tx s"

section \<open>Forwarding listener events\<close>

text \<open>
  \<open>forward_listener_events\<close>: the events read from the book's channel, each with whether the
  client still listens (the outcome of \<open>unbounded_send\<close>); what the client is sent.
\<close>

fun forward_listener_events :: "listener_id \<Rightarrow> (event \<times> bool) list \<Rightarrow> listener_event list" where
  "forward_listener_events l [] = []"
| "forward_listener_events l ((ev, ok) # evs) =
     (case ev of
        ListenerClosed i \<Rightarrow> if i = l then [] else forward_listener_events l evs
      | NewListenAddr i addr \<Rightarrow>
          if i = l
          then if ok then ListenNewAddr addr # forward_listener_events l evs else []
          else forward_listener_events l evs
      | ExpiredListenAddr i addr \<Rightarrow>
          if i = l
          then if ok then ListenExpiredAddr addr # forward_listener_events l evs else []
          else forward_listener_events l evs
      | _ \<Rightarrow> forward_listener_events l evs)"

section \<open>Queries\<close>

datatype 'a oneshot = OneshotEmpty | OneshotValue 'a | OneshotCanceled

record get_query =
  gq_id :: query_id
  gq_rx :: "(bh_error + unit) oneshot"

datatype query_error = QueryFailed bh_error | Canceled

definition get_query_poll :: "get_query \<Rightarrow> (query_error + unit) poll" where
  "get_query_poll q =
     (case gq_rx q of
        OneshotValue (Inr x) \<Rightarrow> Ready (Inr x)
      | OneshotValue (Inl err) \<Rightarrow> Ready (Inl (QueryFailed err))
      | OneshotCanceled \<Rightarrow> Ready (Inl Canceled)
      | OneshotEmpty \<Rightarrow> Pending)"

definition get_query_drop :: "try_send \<Rightarrow> get_query \<Rightarrow> network_command list" where
  "get_query_drop res q = (if res = TrySent then [CancelQuery (gq_id q)] else [])"

text \<open>The receiving end of an unbounded channel: what is queued, and whether all senders are gone.\<close>

record sync_channel =
  rx_queue :: "sync_event list"
  rx_closed :: bool

text \<open>\<open>sq_swarm\<close> says whether the query holds a sender of commands.\<close>

record sync_query =
  sq_swarm :: bool
  sq_id :: "query_id option"
  sq_rx :: sync_channel

definition sync_query_ready :: "bh_error + unit \<Rightarrow> sync_query" where
  "sync_query_ready res =
     \<lparr>sq_swarm = False, sq_id = None, sq_rx = \<lparr>rx_queue = [Complete res], rx_closed = True\<rparr>\<rparr>"

text \<open>
  \<open>SyncQuery::poll\<close> is a loop: progress is skipped, and so is the end of the stream.  Fuel bounds
  the turns; running out of it for every amount is not returning.
\<close>

fun sync_query_poll :: "nat \<Rightarrow> sync_channel \<Rightarrow> ((bh_error + unit) poll \<times> sync_channel) option" where
  "sync_query_poll 0 rx = None"
| "sync_query_poll (Suc fuel) rx =
     (case rx_queue rx of
        Complete result # q \<Rightarrow> Some (Ready result, rx\<lparr>rx_queue := q\<rparr>)
      | Progress _ # q \<Rightarrow> sync_query_poll fuel (rx\<lparr>rx_queue := q\<rparr>)
      | [] \<Rightarrow> if rx_closed rx then sync_query_poll fuel rx else Some (Pending, rx))"

definition sync_query_poll_next :: "sync_channel \<Rightarrow> sync_event option poll \<times> sync_channel" where
  "sync_query_poll_next rx =
     (case rx_queue rx of
        e # q \<Rightarrow> (Ready (Some e), rx\<lparr>rx_queue := q\<rparr>)
      | [] \<Rightarrow> (if rx_closed rx then Ready None else Pending, rx))"

definition sync_query_drop :: "try_send \<Rightarrow> sync_query \<Rightarrow> network_command list" where
  "sync_query_drop res q =
     (case sq_id q of
        Some i \<Rightarrow> if sq_swarm q \<and> res = TrySent then [CancelQuery i] else []
      | None \<Rightarrow> [])"

definition svc_sync ::
  "try_send \<Rightarrow> cid \<Rightarrow> peer_id list \<Rightarrow> cid list \<Rightarrow> channel \<Rightarrow> service \<Rightarrow>
     sync_query response \<times> service" where
  "svc_sync res c provs missing tx s =
     (if missing = [] then (ReadyValue (sync_query_ready (Inr ())), s)
      else if provs = []
      then (ReadyValue (sync_query_ready (Inl (BlockNotFound (hd missing)))), s)
      else request res (Sync c provs missing tx) tx s)"

section \<open>Properties\<close>

fun is_progress :: "sync_event \<Rightarrow> bool" where
  "is_progress (Progress _) = True"
| "is_progress (Complete _) = False"

lemma sync_query_poll_complete:
  "dropWhile is_progress xs = Complete r # q \<Longrightarrow> length xs \<le> fuel \<Longrightarrow>
     sync_query_poll fuel (rx\<lparr>rx_queue := xs\<rparr>) = Some (Ready r, rx\<lparr>rx_queue := q\<rparr>)"
proof (induction xs arbitrary: fuel)
  case (Cons e xs)
  then obtain f where f: "fuel = Suc f" "length xs \<le> f" by (cases fuel) auto
  with Cons show ?case by (cases e) auto
qed simp

lemma sync_query_poll_open:
  "list_all is_progress xs \<Longrightarrow> length xs < fuel \<Longrightarrow> \<not> rx_closed rx \<Longrightarrow>
     sync_query_poll fuel (rx\<lparr>rx_queue := xs\<rparr>) = Some (Pending, rx\<lparr>rx_queue := []\<rparr>)"
proof (induction xs arbitrary: fuel)
  case Nil
  then show ?case by (cases fuel) auto
next
  case (Cons e xs)
  then obtain f where f: "fuel = Suc f" "length xs < f" by (cases fuel) auto
  with Cons show ?case by (cases e) auto
qed

lemma sync_query_poll_closed:
  "list_all is_progress xs \<Longrightarrow> rx_closed rx \<Longrightarrow> sync_query_poll fuel (rx\<lparr>rx_queue := xs\<rparr>) = None"
proof (induction fuel arbitrary: xs)
  case (Suc fuel)
  show ?case
  proof (cases xs)
    case Nil
    with Suc.IH [of "[]"] Suc.prems show ?thesis by simp
  next
    case (Cons e es)
    with Suc.prems obtain m where "e = Progress m" by (cases e) auto
    with Cons Suc.IH [of es] Suc.prems show ?thesis by simp
  qed
qed simp

lemma dropWhile_progress_cases:
  "(\<exists>r q. dropWhile is_progress xs = Complete r # q) \<or>
     dropWhile is_progress xs = [] \<and> list_all is_progress xs"
proof (induction xs)
  case (Cons e xs)
  then show ?case by (cases e) auto
qed simp

text \<open>(C26) Polling a sync query returns the first completion in its channel, leaving what follows it,
  and is pending with the progress consumed if there is none and the sender still exists.  If
  the sender is gone without a completion, as when the swarm task ends, the poll never returns:
  no number of turns is enough.\<close>

theorem sync_query_poll_spec:
  "case dropWhile is_progress (rx_queue rx) of
     Complete r # q \<Rightarrow>
       \<forall>fuel \<ge> length (rx_queue rx). sync_query_poll fuel rx = Some (Ready r, rx\<lparr>rx_queue := q\<rparr>)
   | _ \<Rightarrow>
       if rx_closed rx then \<forall>fuel. sync_query_poll fuel rx = None
       else \<forall>fuel > length (rx_queue rx). sync_query_poll fuel rx = Some (Pending, rx\<lparr>rx_queue := []\<rparr>)"
proof -
  have rx: "rx\<lparr>rx_queue := rx_queue rx\<rparr> = rx" by simp
  consider (complete) r q where "dropWhile is_progress (rx_queue rx) = Complete r # q"
    | (more) "dropWhile is_progress (rx_queue rx) = []" "list_all is_progress (rx_queue rx)"
    using dropWhile_progress_cases by blast
  then show ?thesis
  proof cases
    case complete
    with sync_query_poll_complete [OF complete, of _ rx] rx show ?thesis by simp
  next
    case more
    show ?thesis unfolding more(1)
      using sync_query_poll_open [OF more(2), of _ rx] sync_query_poll_closed [OF more(2), of rx] rx
      by simp
  qed
qed

theorem sync_query_poll_spec_witness:
  "sync_query_poll 3 \<lparr>rx_queue = [Progress 2, Complete (Inr ()), Progress 9], rx_closed = True\<rparr> =
     Some (Ready (Inr ()), \<lparr>rx_queue = [Progress 9], rx_closed = True\<rparr>) \<and>
   sync_query_poll 1000 \<lparr>rx_queue = [Progress 2], rx_closed = True\<rparr> = None"
  using sync_query_poll_spec [of "\<lparr>rx_queue = [Progress 2, Complete (Inr ()), Progress 9], rx_closed = True\<rparr>"]
    sync_query_poll_spec [of "\<lparr>rx_queue = [Progress 2], rx_closed = True\<rparr>"]
  by simp

text \<open>A sync with nothing missing succeeds at once and one without providers fails at once with
  the first missing block, whatever the state of the command queue: no command is sent, the
  future is ready when polled, and dropping it cancels nothing.\<close>

lemma svc_sync_immediate:
  assumes "missing = [] \<or> provs = []"
  shows "\<exists>q. svc_sync res c provs missing tx s = (ReadyValue q, s) \<and>
    sync_query_poll 1 (sq_rx q) =
      Some (Ready (if missing = [] then Inr () else Inl (BlockNotFound (hd missing))),
            \<lparr>rx_queue = [], rx_closed = True\<rparr>) \<and>
    sync_query_drop res q = []"
  using assms by (auto simp: svc_sync_def sync_query_ready_def sync_query_drop_def)

text \<open>What a client of a listener is told about, event by event.\<close>

fun listener_event_of :: "listener_id \<Rightarrow> event \<Rightarrow> listener_event option" where
  "listener_event_of l (NewListenAddr i addr) = (if i = l then Some (ListenNewAddr addr) else None)"
| "listener_event_of l (ExpiredListenAddr i addr) =
     (if i = l then Some (ListenExpiredAddr addr) else None)"
| "listener_event_of l _ = None"

text \<open>(C36) The forwarder tells the client of exactly its own listener's new and expired addresses, in
  order, until the listener is closed or the client is gone; events of other listeners and
  other events neither reach it nor end it.\<close>

theorem forward_listener_spec:
  "forward_listener_events l evs =
     List.map_filter (\<lambda>(ev, _). listener_event_of l ev)
       (takeWhile (\<lambda>(ev, ok). ev \<noteq> ListenerClosed l \<and> (ok \<or> listener_event_of l ev = None)) evs)"
proof (induction evs)
  case (Cons x evs)
  obtain ev ok where x: "x = (ev, ok)" by (cases x)
  with Cons show ?case by (cases ev) (auto simp: List.map_filter_simps)
qed (simp add: List.map_filter_simps)


end
