(* ===== verification/Network_Props.thy ===== *)
theory Network_Props
  imports Network_Inv Service Address_Book_Props
begin

text \<open>
  What the swarm task promises its clients: it does not panic, every request is accounted for and
  answered at most once, queries return what was found, topics are joined while somebody listens,
  and nothing is asked of Kademlia before the bootstrap.
\<close>

section \<open>A state and an environment for the witnesses\<close>

definition sample_config :: network_config where
  "sample_config = network_config_new ''node'' ''agent'' (\<lambda>k. k + 100) 7"

definition sample_net :: net where
  "sample_net =
     (case behaviour_new (\<lambda>k. k + 100) (\<lambda>k. k) None None sample_config of
        Inr (n, _, _) \<Rightarrow> n)"

definition sample_ext :: ext where
  "sample_ext =
     \<lparr>book_env = sample_env, kad_bootstrap = Inr 1, kad_start_providing = Inr 2,
      kad_get_providers = 3, kad_get_record = 4, kad_put_record = Inr 5, gossip_subscribe = None,
      gossip_publish = None, bitswap_get = 6, bitswap_sync = 7, swarm_listen_on = Inr 0,
      topic_hash = (\<lambda>t. t), k_value = 20, new_channel = 50\<rparr>"

lemma sample_net_new:
  "behaviour_new (\<lambda>k. k + 100) (\<lambda>k. k) None None sample_config =
     Inr (sample_net, Some \<lparr>ic_protocol_version = ''/ipfs-embed/1.0'', ic_local_public_key = 107,
       ic_agent_version = ''node''\<rparr>,
       sample_config\<lparr>nc_mdns := None, nc_kad := None, nc_ping := None, nc_identify := None,
         nc_gossipsub := None, nc_broadcast := None, nc_bitswap := None\<rparr>)"
  by (simp add: sample_net_def behaviour_new_def sample_config_def network_config_new_def Let_def)

lemma sample_net_fields:
  "bitswap_on sample_net" "kad_on sample_net" "gossipsub_on sample_net" "broadcast_on sample_net"
  "local_peer_id (book sample_net) = 107" "queries sample_net = []" "\<not> bootstrapped sample_net"
  "subscriptions sample_net = []" "dropped sample_net = []" "replies sample_net = []"
  "calls sample_net = []"
  by (simp_all add: sample_net_def behaviour_new_def sample_config_def network_config_new_def Let_def
      address_book_new_def)

section \<open>The initial state\<close>

lemma behaviour_new_init:
  assumes "behaviour_new pk tp m g config = Inr (n, ident, config')"
  shows "wf_net n" and "ledger n = {#}" and "dropped n = []" and "replies n = []"
    and "subscriptions n = []" and "calls n = []" and "\<not> bootstrapped n"
    and "kad_on n \<longleftrightarrow> nc_kad config \<noteq> None"
    and "gossipsub_on n \<longleftrightarrow> nc_gossipsub config \<noteq> None"
    and "broadcast_on n \<longleftrightarrow> nc_broadcast config \<noteq> None"
  using assms
  by (auto simp: behaviour_new_def Let_def wf_net_def wf_queries_def wf_subs_def ledger_def
      pending_def answered_def split: option.splits if_splits)

section \<open>No panic\<close>

text \<open>The inputs up to the one that ends the loop.\<close>

fun ends :: "ext \<times> input \<Rightarrow> bool" where
  "ends (X, SwarmEnded) = True"
| "ends (X, CommandsEnded) = True"
| "ends _ = False"

lemma poll_swarm_run:
  "poll_swarm inputs n = run_steps net_step (takeWhile (\<lambda>i. \<not> ends i) inputs) n"
proof (induction inputs arbitrary: n)
  case (Cons i inputs)
  obtain X inp where i: "i = (X, inp)" by (cases i)
  with Cons show ?case by (cases inp) (auto split: option.splits)
qed simp

lemma good_run_takeWhile: "good_run good step xs s \<Longrightarrow> good_run good step (takeWhile P xs) s"
  by (induction xs arbitrary: s) (auto split: option.splits)

text \<open>(C4) The swarm task does not panic: from the state a configuration gives, over any sequence of
  swarm events, commands and polls within its assumptions (topics of broadcast messages are
  UTF-8 and blocks are asked for only with bitswap enabled, besides those of the address book),
  the loop runs to its end and keeps the invariant.\<close>

theorem poll_swarm_runs:
  assumes "behaviour_new pk tp m g config = Inr (n0, ident, config')"
    and "good_run input_ok net_step inputs n0"
  shows "\<exists>n. poll_swarm inputs n0 = Some n \<and> wf_net n"
  using net_system.run_total [OF behaviour_new_init(1) [OF assms(1)]
      good_run_takeWhile [OF assms(2)]]
  by (simp add: poll_swarm_run)

theorem poll_swarm_runs_witness:
  "\<exists>n. poll_swarm
      [(sample_ext, Command (Get 3 [9] 51)),
       (sample_ext, SwarmItem (SwarmBehaviour (EvBroadcast (BroadcastReceived 9 ''topic'' ''data'')))),
       (sample_ext, CommandsEnded)] sample_net = Some n \<and> wf_net n"
proof (rule poll_swarm_runs [OF sample_net_new])
  show "good_run input_ok net_step
      [(sample_ext, Command (Get 3 [9] 51)),
       (sample_ext, SwarmItem (SwarmBehaviour (EvBroadcast (BroadcastReceived 9 ''topic'' ''data'')))),
       (sample_ext, CommandsEnded)] sample_net"
    by (simp add: sample_net_fields from_utf8_def split: option.split)
qed

section \<open>Requests\<close>

lemma fold_issued: "fold (\<lambda>i l. l + issued i) inputs l = l + sum_list (map issued inputs)"
  by (induction inputs arbitrary: l) (simp_all add: ac_simps)

lemma ledger_run:
  assumes "behaviour_new pk tp m g config = Inr (n0, ident, config')"
    and "run_steps net_step inputs n0 = Some n"
  shows "ledger n = sum_list (map issued inputs)"
proof -
  have wf: "wf_queries n0" using behaviour_new_init(1) [OF assms(1)] by (simp add: wf_net_def)
  have "good_run (\<lambda>_ _. True) net_step inputs n0"
    by (induction inputs arbitrary: n0) (auto split: option.split)
  from ledger_steps.run_view [OF wf this assms(2)] show ?thesis
    by (simp add: fold_issued behaviour_new_init(2) [OF assms(1)])
qed

text \<open>(C1) Every reply channel a client hands in is accounted for: it belongs to a running query, or has
  been given its final answer, or was dropped, and to exactly one of these exactly as often as
  it was handed in.  So no request is answered twice and none disappears.\<close>

theorem requests_accounted:
  assumes "behaviour_new pk tp m g config = Inr (n0, ident, config')"
    and "run_steps net_step inputs n0 = Some n"
  shows "pending n + answered n + mset (dropped n) = sum_list (map issued inputs)"
  using ledger_run [OF assms] by (simp add: ledger_def)

theorem requests_accounted_witness:
  "\<exists>n. run_steps net_step [(sample_ext, Command (Provide ''k'' 51)),
        (sample_ext, Command (Bootstrap [] 52))] sample_net = Some n \<and>
     pending n + answered n + mset (dropped n) = {#51, 52#}"
proof -
  obtain n where n: "run_steps net_step [(sample_ext, Command (Provide ''k'' 51)),
      (sample_ext, Command (Bootstrap [] 52))] sample_net = Some n" by simp
  from requests_accounted [OF sample_net_new n] n show ?thesis by auto
qed

text \<open>
  When no request is dropped: Kademlia is enabled, it and bitswap number their queries afresh and
  report on a query with a result of its kind, and nobody cancels.
\<close>

fun kad_matches :: "query_result \<Rightarrow> query_channel \<Rightarrow> bool" where
  "kad_matches (BootstrapResult _) (QBootstrap _) = True"
| "kad_matches (GetClosestPeersResult _) (QGetClosestPeers _) = True"
| "kad_matches (GetProvidersResult _) (QGetProviders _ _) = True"
| "kad_matches (StartProvidingResult _) (QStartProviding _) = True"
| "kad_matches (RepublishProviderResult _) _ = True"
| "kad_matches (GetRecordResult _) (QGetRecord _ _ _) = True"
| "kad_matches (PutRecordResult _) (QPutRecord _) = True"
| "kad_matches (RepublishRecordResult _) _ = True"
| "kad_matches _ _ = False"

fun bitswap_matches :: "query_channel \<Rightarrow> bool" where
  "bitswap_matches (QGet _) = True"
| "bitswap_matches (QSync _) = True"
| "bitswap_matches _ = False"

abbreviation fresh_query :: "query_id \<Rightarrow> net \<Rightarrow> bool" where
  "fresh_query i n \<equiv> map_of (queries n) i = None"

fun settled_ok :: "ext \<times> input \<Rightarrow> net \<Rightarrow> bool" where
  "settled_ok (X, SwarmItem (SwarmBehaviour (EvKad (OutboundQueryProgressed k res _)))) n \<longleftrightarrow>
     (case map_of (queries n) (KadId k) of None \<Rightarrow> True | Some q \<Rightarrow> kad_matches res q)"
| "settled_ok (X, SwarmItem (SwarmBehaviour (EvBitswap (BitswapComplete b _)))) n \<longleftrightarrow>
     (case map_of (queries n) (BitswapId b) of None \<Rightarrow> True | Some q \<Rightarrow> bitswap_matches q)"
| "settled_ok (X, Command (Bootstrap _ _)) n \<longleftrightarrow>
     (case kad_bootstrap X of Inl _ \<Rightarrow> True | Inr i \<Rightarrow> fresh_query (KadId i) n)"
| "settled_ok (X, Command (Provide _ _)) n \<longleftrightarrow>
     (case kad_start_providing X of Inl _ \<Rightarrow> True | Inr i \<Rightarrow> fresh_query (KadId i) n)"
| "settled_ok (X, Command (Providers _ _)) n \<longleftrightarrow> fresh_query (KadId (kad_get_providers X)) n"
| "settled_ok (X, Command (GetRecord _ _ _)) n \<longleftrightarrow> fresh_query (KadId (kad_get_record X)) n"
| "settled_ok (X, Command (PutRecord _ _ _)) n \<longleftrightarrow>
     (case kad_put_record X of Inl _ \<Rightarrow> True | Inr i \<Rightarrow> fresh_query (KadId i) n)"
| "settled_ok (X, Command (Get _ _ _)) n \<longleftrightarrow> fresh_query (BitswapId (bitswap_get X)) n"
| "settled_ok (X, Command (Sync _ _ _ _)) n \<longleftrightarrow> fresh_query (BitswapId (bitswap_sync X)) n"
| "settled_ok (X, Command (CancelQuery _)) n \<longleftrightarrow> False"
| "settled_ok _ n \<longleftrightarrow> True"

lemma dropped_frame [simp]:
  "dropped (send c r n) = dropped n" "dropped (call_out k n) = dropped n"
  "dropped (map_book f n) = dropped n"
  "fresh_query i n \<Longrightarrow> dropped (insert_query i q n) = dropped n"
  by (simp_all add: send_def call_out_def map_book_def insert_query_def)

lemma queries_frame [simp]:
  "queries (send c r n) = queries n" "queries (call_out k n) = queries n"
  "queries (map_book f n) = queries n" "queries (drop_channel c n) = queries n"
  by (simp_all add: send_def call_out_def map_book_def drop_channel_def)

lemma kad_on_frame [simp]:
  "kad_on (call_out k n) = kad_on n" "kad_on (map_book f n) = kad_on n"
  by (simp_all add: call_out_def map_book_def)

lemma dropped_answer:
  "(case map_of (queries n) i of None \<Rightarrow> True | Some q \<Rightarrow> pat q \<noteq> None) \<Longrightarrow>
     dropped (answer i pat n) = dropped n"
  by (auto simp: answer_def Let_def split: option.splits)

lemma dropped_kad_results:
  assumes "case map_of (queries n) (KadId k) of None \<Rightarrow> True | Some q \<Rightarrow> kad_matches res q"
  shows "res = BootstrapResult r \<Longrightarrow> dropped (kad_bootstrap_result E (KadId k) r n) = dropped n"
    and "res = GetProvidersResult p \<Longrightarrow> dropped (kad_providers_result (KadId k) p l n) = dropped n"
    and "res = GetRecordResult t \<Longrightarrow> dropped (kad_record_result k t l n) = dropped n"
proof -
  show "dropped (kad_bootstrap_result E (KadId k) r n) = dropped n" if "res = BootstrapResult r"
    using that assms
    by (cases r) (auto simp: dropped_answer split: option.splits elim: kad_matches.elims)
  show "dropped (kad_providers_result (KadId k) p l n) = dropped n" if "res = GetProvidersResult p"
    using that assms
    by (cases p) (auto simp: dropped_answer alist_simps Let_def
        split: option.splits query_channel.splits elim: kad_matches.elims)
  show "dropped (kad_record_result k t l n) = dropped n" if "res = GetRecordResult t"
    using that assms
    by (cases t) (auto simp: dropped_answer alist_simps Let_def
        split: option.splits query_channel.splits elim: kad_matches.elims)
qed

lemma dropped_inject_kad_event:
  assumes "settled_ok (X, SwarmItem (SwarmBehaviour (EvKad e))) n"
  shows "dropped (inject_kad_event E e n) = dropped n"
proof (cases e)
  case (OutboundQueryProgressed k res l)
  with assms have "case map_of (queries n) (KadId k) of None \<Rightarrow> True | Some q \<Rightarrow> kad_matches res q"
    by simp
  with dropped_kad_results [OF this] OutboundQueryProgressed show ?thesis
    by (cases res) (auto simp: dropped_answer split: option.splits sum.splits elim: kad_matches.elims)
qed simp

lemma dropped_inject_bitswap_event:
  "settled_ok (X, SwarmItem (SwarmBehaviour (EvBitswap e))) n \<Longrightarrow>
     dropped (inject_bitswap_event e n) = dropped n"
  by (cases e) (auto simp: dropped_answer split: option.splits query_channel.splits
      elim!: bitswap_matches.elims)

text \<open>
  The part of the state that requests live in, and the inputs that leave it alone: everything but
  the requests and the events of Kademlia and bitswap.
\<close>

definition core where
  "core n = (dropped n, queries n, replies n, bootstrapped n)"

fun quiet :: "input \<Rightarrow> bool" where
  "quiet (SwarmItem (SwarmBehaviour (EvKad _))) = False"
| "quiet (SwarmItem (SwarmBehaviour (EvBitswap _))) = False"
| "quiet (Command c) =
     (case c of
        Bootstrap _ _ \<Rightarrow> False | Providers _ _ \<Rightarrow> False | Provide _ _ \<Rightarrow> False
      | GetRecord _ _ _ \<Rightarrow> False | PutRecord _ _ _ \<Rightarrow> False | Subscribe _ _ \<Rightarrow> False
      | Publish _ _ _ \<Rightarrow> False | CmdBroadcast _ _ _ \<Rightarrow> False | Get _ _ _ \<Rightarrow> False
      | Sync _ _ _ _ \<Rightarrow> False | SwarmEvents _ \<Rightarrow> False | CancelQuery _ \<Rightarrow> False | _ \<Rightarrow> True)"
| "quiet _ = True"

lemma core_frame [simp]:
  "core (call_out k n) = core n" "core (map_book f n) = core n" "core (n\<lparr>book := b\<rparr>) = core n"
  "core (n\<lparr>subscriptions := s\<rparr>) = core n" "core (n\<lparr>gossip_sent := g\<rparr>) = core n"
  "core (n\<lparr>forwarders := fs\<rparr>) = core n" "core (n\<lparr>listen_sent := ls\<rparr>) = core n"
  by (simp_all add: core_def call_out_def map_book_def)

lemma core_fold: "(\<And>x n. core (f x n) = core n) \<Longrightarrow> core (fold f xs n) = core n"
  by (induction xs arbitrary: n) simp_all

lemma core_net_add_address [simp]: "core (net_add_address E p a s n) = core n"
  by (simp add: net_add_address_def Let_def)

lemma core_net_dial [simp]: "core (net_dial p n) = core n"
  by (simp add: net_dial_def)

lemma core_add_addresses [simp]:
  "core (fold (\<lambda>(p, a). net_add_address E p a s) xs n) = core n"
  "core (fold (\<lambda>(p, a) n. net_dial p (net_add_address E p a s n)) xs n) = core n"
  by (rule core_fold; simp add: split_beta)+

lemma core_notify_subscribers [simp]: "core (notify_subscribers X t ev n) = core n"
  by (simp add: notify_subscribers_def unsubscribe_def Let_def split: option.split)

lemma core_book_option: "map_book_option f n = Some n' \<Longrightarrow> core n' = core n"
  by (auto simp: map_book_option_def)

lemma core_gossip:
  "core (snd (subscribe X t n)) = core n" "core (snd (publish X t m n)) = core n"
  "core (snd (broadcast X t m n)) = core n"
  by (simp_all add: subscribe_def publish_def broadcast_def Let_def split: option.split)

lemma core_behaviour_event:
  "behaviour_event_step X ev n = Some n' \<Longrightarrow> quiet (SwarmItem (SwarmBehaviour ev)) \<Longrightarrow> core n' = core n"
proof (induction X ev n rule: behaviour_event_step.induct)
  case (2 X e n)
  then show ?case by (cases e) auto
next
  case (3 X p r n)
  then show ?case by (cases r) (auto dest: core_book_option)
next
  case (4 X e n)
  then show ?case by (cases e) (auto dest: core_book_option)
next
  case (6 X e n)
  then show ?case by (cases e) auto
next
  case (7 X e n)
  then show ?case by (cases e) (auto split: option.splits)
qed simp_all

lemma core_quiet_command:
  "command_step X c n = Some n' \<Longrightarrow> quiet (Command c) \<Longrightarrow> core n' = core n"
  by (cases c) (auto simp: listen_on_step_def net_swarm_events_def net_remove_address_def
      net_prune_peers_def net_dial_address_def unprovide_def remove_record_def Let_def
      split: sum.splits)

lemma core_quiet:
  assumes "net_step (X, inp) n = Some n'" and "quiet inp"
  shows "core n' = core n"
proof (cases inp)
  case (SwarmItem e)
  with assms core_behaviour_event [of X _ n n'] show ?thesis
    by (cases e) (auto simp: net_connection_closed_def)
next
  case (Command c)
  with assms core_quiet_command show ?thesis by simp
next
  case (BookEvent e)
  with assms core_book_option show ?thesis by simp
qed (use assms in auto)

lemma protocols_net_step: "net_step i n = Some n' \<Longrightarrow> protocols n' = protocols n"
proof -
  assume step: "net_step i n = Some n'"
  obtain X inp where i: "i = (X, inp)" by (cases i)
  have opt: "map_book_option f n = Some n' \<Longrightarrow> protocols n' = protocols n" for f
    by (auto simp: map_book_option_def)
  have beh: "protocols n' = protocols n" if "behaviour_event_step X ev n = Some n'" for ev
  proof (cases ev)
    case (EvMdns e)
    have "tame n (inject_mdns_event (book_env X) e n)"
      by (cases e) (auto intro!: tame_fold tame_net_add_address)
    with that EvMdns show ?thesis by (simp add: tame_def)
  next
    case (EvPing p r)
    with that opt show ?thesis by (cases r) auto
  next
    case (EvIdentify e)
    with that opt show ?thesis by (cases e) auto
  next
    case (EvBroadcast e)
    with that tame_inject_broadcast_event show ?thesis by (simp add: tame_def)
  qed (use that tame_inject_kad_event [of n] tame_inject_bitswap_event [of n]
    tame_inject_gossip_event [of n] in \<open>auto simp: tame_def\<close>)
  have swarm: "swarm_event_step X e n = Some n' \<Longrightarrow> protocols n' = protocols n" for e
    using beh by (cases e) (auto simp: net_connection_closed_def)
  have cmd: "command_step X c n = Some n' \<Longrightarrow> protocols n' = protocols n" for c
    using tame_command_step [of X c n n'] by (simp add: tame_def)
  show ?thesis using step i opt swarm cmd by (cases inp) auto
qed

lemma dropped_core: "core n' = core n \<Longrightarrow> dropped n' = dropped n"
  by (simp add: core_def)

lemma dropped_requests:
  assumes "kad_on n"
  shows "settled_ok (X, Command (Bootstrap xs tx)) n \<Longrightarrow> dropped (net_bootstrap X tx n) = dropped n"
    and "settled_ok (X, Command (Provide k tx)) n \<Longrightarrow> dropped (provide X k tx n) = dropped n"
    and "settled_ok (X, Command (Providers k tx)) n \<Longrightarrow> dropped (providers X k tx n) = dropped n"
    and "settled_ok (X, Command (GetRecord k q tx)) n \<Longrightarrow> dropped (get_record X k q tx n) = dropped n"
    and "settled_ok (X, Command (PutRecord r q tx)) n \<Longrightarrow> dropped (put_record X r q tx n) = dropped n"
  using assms
  by (auto simp: net_bootstrap_def provide_def providers_def get_record_def put_record_def Let_def
      split: sum.splits)

lemma settled_bootstrap_core:
  "core m = core n \<Longrightarrow> settled_ok (X, Command (Bootstrap xs tx)) m = settled_ok (X, Command (Bootstrap xs tx)) n"
  by (simp add: core_def split: sum.split)

lemma dropped_command_step:
  assumes kad: "kad_on n" and ok: "settled_ok (X, Command c) n"
    and step: "command_step X c n = Some n'"
  shows "dropped n' = dropped n"
proof (cases "quiet (Command c)")
  case True
  with step show ?thesis by (blast intro: dropped_core core_quiet_command)
next
  case False
  show ?thesis
  proof (cases c)
    case (Bootstrap xs tx)
    let ?m = "fold (\<lambda>(p, a) n. net_dial p (net_add_address (book_env X) p a User n)) xs n"
    have "core ?m = core n" by simp
    moreover have "kad_on ?m"
    proof -
      have "tame n ?m"
        by (rule tame_fold) (simp add: split_beta tame_trans [OF tame_net_add_address tame_net_dial])
      with kad show ?thesis by (simp add: tame_def protocols_def)
    qed
    ultimately have "dropped (net_bootstrap X tx ?m) = dropped ?m"
      using ok Bootstrap dropped_requests(1) settled_bootstrap_core by blast
    with \<open>core ?m = core n\<close> Bootstrap step show ?thesis by (auto simp: core_def)
  next
    case (Subscribe t tx)
    with step core_gossip(1) [of X t n] show ?thesis by (auto simp: split_beta Let_def core_def)
  next
    case (Publish t d tx)
    with step core_gossip(2) [of X t d n] show ?thesis by (auto simp: split_beta Let_def core_def)
  next
    case (CmdBroadcast t d tx)
    with step core_gossip(3) [of X t d n] show ?thesis by (auto simp: split_beta Let_def core_def)
  next
    case (SwarmEvents tx)
    with step show ?thesis by (auto simp: net_swarm_events_def)
  next
    case (Get c ps tx)
    with step ok show ?thesis by (auto simp: bh_get_def Let_def split: if_splits)
  next
    case (Sync c ps ms tx)
    with step ok show ?thesis by (auto simp: bh_sync_def Let_def split: if_splits)
  qed (use step ok kad False dropped_requests in auto)
qed

lemma dropped_net_step:
  assumes "kad_on n" and "settled_ok (X, inp) n" and "net_step (X, inp) n = Some n'"
  shows "dropped n' = dropped n"
proof (cases "quiet inp")
  case True
  with assms show ?thesis by (blast intro: dropped_core core_quiet)
next
  case False
  then consider e where "inp = SwarmItem (SwarmBehaviour (EvKad e))"
    | e where "inp = SwarmItem (SwarmBehaviour (EvBitswap e))" | c where "inp = Command c"
    by (cases inp rule: quiet.cases) auto
  then show ?thesis
    using assms by cases (auto simp: dropped_inject_kad_event dropped_inject_bitswap_event
        intro: dropped_command_step)
qed

interpretation settled: step_system settled_ok net_step "\<lambda>n. kad_on n \<and> dropped n = []"
proof (unfold_locales, goal_cases)
  case (1 n i n')
  then have "kad_on n'" using protocols_net_step [of i n n'] by (simp add: protocols_def)
  with 1 dropped_net_step [of n "fst i" "snd i" n'] show ?case by simp
qed



section \<open>Bootstrapping\<close>

text \<open>The input that ends a bootstrap: Kademlia reports that nothing remains.\<close>

fun bootstrap_done :: "ext \<times> input \<Rightarrow> bool" where
  "bootstrap_done (_, SwarmItem (SwarmBehaviour (EvKad
     (OutboundQueryProgressed _ (BootstrapResult (Inr remaining)) _)))) \<longleftrightarrow> remaining = 0"
| "bootstrap_done _ \<longleftrightarrow> False"

lemma bootstrapped_frame [simp]:
  "bootstrapped (send c r n) = bootstrapped n" "bootstrapped (call_out k n) = bootstrapped n"
  "bootstrapped (map_book f n) = bootstrapped n" "bootstrapped (drop_channel c n) = bootstrapped n"
  "bootstrapped (insert_query i q n) = bootstrapped n" "bootstrapped (answer i pat n) = bootstrapped n"
  "bootstrapped (remove_query i n) = bootstrapped n"
  by (simp_all add: send_def call_out_def map_book_def drop_channel_def insert_query_def answer_def
      remove_query_def Let_def split: option.split)

lemma bootstrapped_kad_event:
  "bootstrapped (inject_kad_event E e n) \<longleftrightarrow>
     bootstrapped n \<or> bootstrap_done (X, SwarmItem (SwarmBehaviour (EvKad e)))"
proof (cases e)
  case (OutboundQueryProgressed k res l)
  have boot: "bootstrapped (kad_bootstrap_result E i r n) \<longleftrightarrow> bootstrapped n \<or> r = Inr 0" for i r
    by (cases r) auto
  have prov: "bootstrapped (kad_providers_result i p l n) = bootstrapped n" for i p
    by (cases p) (auto simp: Let_def split: option.split query_channel.split)
  have rec: "bootstrapped (kad_record_result k t l n) = bootstrapped n" for t
    by (cases t) (auto simp: Let_def split: option.split query_channel.split)
  show ?thesis
  proof (cases res)
    case (BootstrapResult r)
    with OutboundQueryProgressed boot show ?thesis by (cases r) auto
  qed (use OutboundQueryProgressed prov rec in \<open>auto split: sum.split\<close>)
qed simp

lemma bootstrapped_core: "core n' = core n \<Longrightarrow> bootstrapped n' = bootstrapped n"
  by (simp add: core_def)

lemma bootstrapped_command_step:
  assumes "command_step X c n = Some n'"
  shows "bootstrapped n' = bootstrapped n"
proof (cases "quiet (Command c)")
  case True
  from bootstrapped_core [OF core_quiet_command [OF assms True]] show ?thesis .
next
  case False
  have req: "bootstrapped (net_bootstrap X tx m) = bootstrapped m"
    "bootstrapped (provide X k tx m) = bootstrapped m" "bootstrapped (providers X k tx m) = bootstrapped m"
    "bootstrapped (get_record X k q tx m) = bootstrapped m"
    "bootstrapped (put_record X r q tx m) = bootstrapped m" for tx k q r m
    by (simp_all add: net_bootstrap_def provide_def providers_def get_record_def put_record_def Let_def
        split: sum.split)
  show ?thesis
  proof (cases c)
    case (Bootstrap xs tx)
    with assms req(1) bootstrapped_core [OF core_add_addresses(2)] show ?thesis by auto
  next
    case (CancelQuery i)
    with assms show ?thesis by (cases i) (auto simp: Let_def split: if_splits)
  next
    case (Get c ps tx)
    with assms show ?thesis by (auto simp: bh_get_def Let_def split: if_splits)
  next
    case (Sync c ps ms tx)
    with assms show ?thesis by (auto simp: bh_sync_def Let_def split: if_splits)
  qed (use assms False req core_gossip in
    \<open>auto simp: split_beta Let_def net_swarm_events_def core_def\<close>)
qed

lemma bootstrapped_net_step:
  assumes "net_step i n = Some n'"
  shows "bootstrapped n' \<longleftrightarrow> bootstrapped n \<or> bootstrap_done i"
proof -
  obtain X inp where i: "i = (X, inp)" by (cases i)
  show ?thesis
  proof (cases "quiet inp")
    case True
    then have "\<not> bootstrap_done i" using i by (cases i rule: bootstrap_done.cases) auto
    with True assms i show ?thesis by (auto dest: bootstrapped_core [OF core_quiet])
  next
    case False
    then consider e where "inp = SwarmItem (SwarmBehaviour (EvKad e))"
      | e where "inp = SwarmItem (SwarmBehaviour (EvBitswap e))" | c where "inp = Command c"
      by (cases inp rule: quiet.cases) auto
    then show ?thesis
    proof cases
      case 1
      with assms i bootstrapped_kad_event show ?thesis by auto
    next
      case (2 e)
      with assms i show ?thesis
        by (cases e) (auto split: option.splits query_channel.splits)
    next
      case 3
      with assms i bootstrapped_command_step show ?thesis by auto
    qed
  qed
qed

interpretation bootstrap: refined_step_system "\<lambda>_ _. True" net_step "\<lambda>_. True" bootstrapped
    "\<lambda>i b. b \<or> bootstrap_done i"
  by unfold_locales (auto dest: bootstrapped_net_step)

lemma bootstrapped_run:
  "run_steps net_step inputs n0 = Some n \<Longrightarrow>
     bootstrapped n \<longleftrightarrow> bootstrapped n0 \<or> (\<exists>i \<in> set inputs. bootstrap_done i)"
proof -
  assume run: "run_steps net_step inputs n0 = Some n"
  have "good_run (\<lambda>_ _. True) net_step inputs n0"
    by (induction inputs arbitrary: n0) (auto split: option.split)
  from bootstrap.run_view [OF TrueI this run]
  have "bootstrapped n = fold (\<lambda>i b. b \<or> bootstrap_done i) inputs (bootstrapped n0)" .
  moreover have "fold (\<lambda>i b. b \<or> bootstrap_done i) inputs b \<longleftrightarrow> b \<or> (\<exists>i \<in> set inputs. bootstrap_done i)" for b
    by (induction inputs arbitrary: b) auto
  ultimately show ?thesis by simp
qed

text \<open>(C14) The node counts as bootstrapped exactly if Kademlia has reported the end of a bootstrap at some
  time.  Until then every request that needs the routing table is refused at once with
  \<open>NotBootstrapped\<close>, and nothing else happens.\<close>

theorem queries_need_bootstrap:
  assumes "behaviour_new pk tp m g config = Inr (n0, ident, config')"
    and "run_steps net_step inputs n0 = Some n"
  shows "(bootstrapped n \<longleftrightarrow> (\<exists>i \<in> set inputs. bootstrap_done i)) \<and>
    (if bootstrapped n then True
     else command_step X (Provide k tx) n = Some (send tx (ReplyUnit (Inl NotBootstrapped)) n) \<and>
          command_step X (Providers k tx) n = Some (send tx (ReplyProviders (Inl NotBootstrapped)) n) \<and>
          command_step X (GetRecord k q tx) n = Some (send tx (ReplyRecords (Inl NotBootstrapped)) n) \<and>
          command_step X (PutRecord r q tx) n = Some (send tx (ReplyUnit (Inl NotBootstrapped)) n))"
  using bootstrapped_run [OF assms(2)] behaviour_new_init(7) [OF assms(1)]
  by (simp add: provide_def providers_def get_record_def put_record_def)

theorem queries_need_bootstrap_witness:
  "\<exists>n. run_steps net_step [(sample_ext, Command (Bootstrap [] 51))] sample_net = Some n \<and>
     command_step sample_ext (Provide ''k'' 52) n = Some (send 52 (ReplyUnit (Inl NotBootstrapped)) n)"
proof -
  obtain n where n: "run_steps net_step [(sample_ext, Command (Bootstrap [] 51))] sample_net = Some n"
    by simp
  then have "\<not> bootstrapped n"
    using queries_need_bootstrap [OF sample_net_new n, of sample_ext] by simp
  with n queries_need_bootstrap [OF sample_net_new n, of sample_ext "''k''" 52] show ?thesis
    by (simp del: run_steps.simps command_step.simps)
qed

section \<open>What queries return\<close>

abbreviation found_record :: "env \<Rightarrow> nat \<Rightarrow> peer_record \<Rightarrow> net \<Rightarrow> net" where
  "found_record E k r \<equiv>
     inject_kad_event E (OutboundQueryProgressed k (GetRecordResult (Inr (FoundRecord r))) False)"

lemma replies_frame [simp]:
  "replies (call_out k n) = replies n" "replies (map_book f n) = replies n"
  "replies (send c r n) = replies n @ [(c, r)]"
  by (simp_all add: call_out_def map_book_def send_def)

lemma answer_Some:
  "map_of (queries n) i = Some q \<Longrightarrow> pat q = Some r \<Longrightarrow>
     replies (answer i pat n) = replies n @ [(chan_of q, r)] \<and>
     queries (answer i pat n) = AList.delete i (queries n)"
  by (simp add: answer_def Let_def)

lemma found_record_step:
  assumes "map_of (queries n) (KadId k) = Some (QGetRecord q acc c)"
  shows "if Suc (length acc) < q
    then map_of (queries (found_record E k r n)) (KadId k) = Some (QGetRecord q (acc @ [r]) c) \<and>
         replies (found_record E k r n) = replies n
    else map_of (queries (found_record E k r n)) (KadId k) = None \<and>
         replies (found_record E k r n) = replies n @ [(c, ReplyRecords (Inr (acc @ [r])))]"
  using assms by (auto simp: Let_def alist_simps answer_def)

lemma found_record_none:
  "map_of (queries n) (KadId k) = None \<Longrightarrow> found_record E k r n = n"
  by simp

lemma found_records:
  assumes "map_of (queries n) (KadId k) = Some (QGetRecord q acc c)" and "length acc < q"
  shows "let n' = fold (found_record E k) rs n
    in if length acc + length rs < q
       then map_of (queries n') (KadId k) = Some (QGetRecord q (acc @ rs) c) \<and> replies n' = replies n
       else map_of (queries n') (KadId k) = None \<and>
            replies n' = replies n @ [(c, ReplyRecords (Inr (take q (acc @ rs))))]"
  using assms
proof (induction rs arbitrary: n acc)
  case (Cons r rs)
  let ?m = "found_record E k r n"
  have none: "fold (found_record E k) rs m = m" if "map_of (queries m) (KadId k) = None" for m
    using that by (induction rs) (simp_all add: found_record_none del: inject_kad_event.simps)
  show ?case
  proof (cases "Suc (length acc) < q")
    case True
    with found_record_step [OF Cons.prems(1), of E r] Cons.IH [of ?m "acc @ [r]"] show ?thesis
      by (simp add: Let_def del: inject_kad_event.simps)
  next
    case False
    with Cons.prems have "q = length (acc @ [r])" by simp
    then have "take q (acc @ r # rs) = acc @ [r]" by simp
    with False found_record_step [OF Cons.prems(1), of E r] none [of ?m] show ?thesis
      by (simp add: Let_def del: inject_kad_event.simps)
  qed
qed simp

text \<open>(C15) A record query collects what Kademlia finds and answers as soon as the quorum is reached, with
  exactly the first records that make it up, once; what is found later changes nothing, and
  before that the query keeps running with everything found so far.\<close>

theorem get_record_quorum:
  assumes "map_of (queries n) (KadId k) = Some (QGetRecord q [] c)" and "0 < q"
  shows "let n' = fold (found_record E k) rs n
    in if length rs < q
       then map_of (queries n') (KadId k) = Some (QGetRecord q rs c) \<and> replies n' = replies n
       else map_of (queries n') (KadId k) = None \<and>
            replies n' = replies n @ [(c, ReplyRecords (Inr (take q rs)))]"
  using found_records [OF assms(1), of E rs] assms(2)
  by (simp add: Let_def del: inject_kad_event.simps)

theorem get_record_quorum_witness:
  "let n = sample_net\<lparr>queries := [(KadId 4, QGetRecord 2 [] 60)]\<rparr>;
       n' = fold (found_record sample_env 4) [11, 12, 13] n
   in map_of (queries n') (KadId 4) = None \<and>
      replies n' = replies n @ [(60, ReplyRecords (Inr [11, 12]))]"
  using get_record_quorum [of "sample_net\<lparr>queries := [(KadId 4, QGetRecord 2 [] 60)]\<rparr>" 4 2 60
      sample_env "[11, 12, 13]"]
  by (simp add: Let_def numeral_2_eq_2 del: inject_kad_event.simps)

end
