(* ===== verification/Topics.thy ===== *)
theory Topics
  imports Network_Props
begin

text \<open>
  Gossip topics: the topics the node has joined at gossipsub and at broadcast, as the calls it has
  made there say, against its table of subscriptions.
\<close>

section \<open>Joined topics\<close>

fun gossip_call :: "call \<Rightarrow> string set \<Rightarrow> string set" where
  "gossip_call (GossipSubscribe t) S = insert t S"
| "gossip_call (GossipUnsubscribe t) S = S - {t}"
| "gossip_call _ S = S"

fun broadcast_call :: "call \<Rightarrow> string set \<Rightarrow> string set" where
  "broadcast_call (BroadcastSubscribe t) S = insert t S"
| "broadcast_call (BroadcastUnsubscribe t) S = S - {t}"
| "broadcast_call _ S = S"

definition gossip_topics :: "net \<Rightarrow> string set" where
  "gossip_topics n = fold gossip_call (calls n) {}"

definition broadcast_topics :: "net \<Rightarrow> string set" where
  "broadcast_topics n = fold broadcast_call (calls n) {}"

definition subscribed :: "net \<Rightarrow> string set" where
  "subscribed n = {t. contains_key (subscriptions n) t}"

definition topics where
  "topics n = (gossipsub_on n, broadcast_on n, gossip_topics n, broadcast_topics n, subscribed n)"

definition topics_agree :: "net \<Rightarrow> bool" where
  "topics_agree n \<longleftrightarrow>
     (if gossipsub_on n then gossip_topics n = subscribed n else True) \<and>
     (if broadcast_on n then broadcast_topics n = subscribed n else True)"

lemma topics_agree_cong: "topics n' = topics n \<Longrightarrow> topics_agree n' = topics_agree n"
  by (simp add: topics_def topics_agree_def)

lemma joined_call_out [simp]:
  "gossip_topics (call_out c n) = gossip_call c (gossip_topics n)"
  "broadcast_topics (call_out c n) = broadcast_call c (broadcast_topics n)"
  "subscribed (call_out c n) = subscribed n"
  "gossipsub_on (call_out c n) = gossipsub_on n" "broadcast_on (call_out c n) = broadcast_on n"
  by (simp_all add: gossip_topics_def broadcast_topics_def subscribed_def call_out_def)

text \<open>What is not about topics leaves them alone.\<close>

lemma topics_call_out:
  "gossip_call c (gossip_topics n) = gossip_topics n \<Longrightarrow>
   broadcast_call c (broadcast_topics n) = broadcast_topics n \<Longrightarrow> topics (call_out c n) = topics n"
  by (simp add: topics_def)

lemma topics_fields [simp]:
  "topics (n\<lparr>book := b\<rparr>) = topics n" "topics (n\<lparr>queries := q\<rparr>) = topics n"
  "topics (n\<lparr>bootstrapped := x\<rparr>) = topics n" "topics (n\<lparr>gossip_sent := g\<rparr>) = topics n"
  "topics (n\<lparr>forwarders := fs\<rparr>) = topics n" "topics (n\<lparr>listen_sent := ls\<rparr>) = topics n"
  "topics (n\<lparr>replies := rs\<rparr>) = topics n" "topics (n\<lparr>dropped := ds\<rparr>) = topics n"
  by (simp_all add: topics_def gossip_topics_def broadcast_topics_def subscribed_def)

lemma topics_frame [simp]:
  "topics (send c r n) = topics n" "topics (drop_channel c n) = topics n"
  "topics (map_book f n) = topics n" "topics (insert_query i q n) = topics n"
  "topics (answer i pat n) = topics n"
  by (simp_all add: send_def drop_channel_def map_book_def insert_query_def answer_def Let_def
      split: option.split)

lemma topics_fold: "(\<And>x n. topics (f x n) = topics n) \<Longrightarrow> topics (fold f xs n) = topics n"
  by (induction xs arbitrary: n) simp_all

lemma topics_book_ops [simp]:
  "topics (net_add_address E p a s n) = topics n" "topics (net_remove_address p a n) = topics n"
  "topics (net_prune_peers E d n) = topics n" "topics (net_dial p n) = topics n"
  "topics (net_dial_address p a n) = topics n"
  "topics (net_connection_closed E p c k e n) = topics n" "topics (net_swarm_events ch n) = topics n"
  by (simp_all add: net_add_address_def net_remove_address_def net_prune_peers_def net_dial_def
      net_dial_address_def net_connection_closed_def net_swarm_events_def topics_call_out Let_def)

lemma topics_add_addresses [simp]:
  "topics (fold (\<lambda>(p, a). net_add_address E p a s) xs n) = topics n"
  "topics (fold (\<lambda>(p, a) n. net_dial p (net_add_address E p a s n)) xs n) = topics n"
  by (rule topics_fold; simp add: split_beta)+

lemma topics_book_option: "map_book_option f n = Some n' \<Longrightarrow> topics n' = topics n"
  by (auto simp: map_book_option_def)

lemma topics_kad [simp]: "topics (inject_kad_event E e n) = topics n"
proof (cases e)
  case (OutboundQueryProgressed k r l)
  have "topics (kad_bootstrap_result E i res n) = topics n" for i res
    by (cases res) auto
  moreover have "topics (kad_providers_result i res l n) = topics n" for i res
    by (cases res) (auto simp: Let_def split: option.split query_channel.split)
  moreover have "topics (kad_record_result k res l n) = topics n" for res
    by (cases res) (auto simp: Let_def topics_call_out split: option.split query_channel.split)
  ultimately show ?thesis
    using OutboundQueryProgressed by (auto split: query_result.split sum.split)
qed simp

lemma topics_bitswap [simp]: "topics (inject_bitswap_event e n) = topics n"
  by (cases e) (auto split: option.split query_channel.split)

lemma topics_requests [simp]:
  "topics (net_bootstrap X tx n) = topics n" "topics (provide X k tx n) = topics n"
  "topics (unprovide k n) = topics n" "topics (providers X k tx n) = topics n"
  "topics (get_record X k q tx n) = topics n" "topics (put_record X r q tx n) = topics n"
  "topics (remove_record k n) = topics n" "topics (snd (publish X t m n)) = topics n"
  "topics (snd (broadcast X t m n)) = topics n" "topics (listen_on_step X a tx n) = topics n"
  by (simp_all add: net_bootstrap_def provide_def unprovide_def providers_def get_record_def put_record_def
      remove_record_def publish_def broadcast_def listen_on_step_def topics_call_out Let_def split: sum.split)

section \<open>Subscribing and unsubscribing\<close>

lemma topics_field_simps [simp]:
  "gossip_topics (n\<lparr>subscriptions := s\<rparr>) = gossip_topics n"
  "broadcast_topics (n\<lparr>subscriptions := s\<rparr>) = broadcast_topics n"
  "gossip_topics (n\<lparr>gossip_sent := g\<rparr>) = gossip_topics n"
  "broadcast_topics (n\<lparr>gossip_sent := g\<rparr>) = broadcast_topics n"
  "subscribed (n\<lparr>subscriptions := s\<rparr>) = {t. contains_key s t}"
  "subscribed (n\<lparr>gossip_sent := g\<rparr>) = subscribed n"
  by (simp_all add: gossip_topics_def broadcast_topics_def subscribed_def)

lemma agree_notify_subscribers:
  assumes "topics_agree n" and "\<And>t. topic_hash X t = t"
  shows "topics_agree (notify_subscribers X t ev n)"
proof (cases "map_of (subscriptions n) t")
  case (Some subs)
  show ?thesis
    using assms Some
    by (auto simp: notify_subscribers_def unsubscribe_def topics_agree_def subscribed_def alist_simps Let_def
        simp del: not_None_eq)
qed (use assms in \<open>simp add: notify_subscribers_def\<close>)

lemma agree_subscribe:
  assumes "topics_agree n" and "\<And>t. topic_hash X t = t" and "gossip_subscribe X = None"
  shows "topics_agree (snd (subscribe X t n))"
  using assms
  by (auto simp: subscribe_def topics_agree_def subscribed_def alist_simps Let_def simp del: not_None_eq
      split: option.split)

text \<open>
  \<open>IdentTopic\<close> hashes a topic to itself; gossipsub accepts the subscriptions it is asked for.
\<close>

fun topic_ok :: "ext \<times> input \<Rightarrow> bool" where
  "topic_ok (X, inp) \<longleftrightarrow>
     (\<forall>t. topic_hash X t = t) \<and>
     (case inp of Command (Subscribe _ _) \<Rightarrow> gossip_subscribe X = None | _ \<Rightarrow> True)"

lemma agree_behaviour_event:
  assumes "behaviour_event_step X ev n = Some n'" and "topics_agree n" and "\<And>t. topic_hash X t = t"
  shows "topics_agree n'"
proof -
  note notify = agree_notify_subscribers [OF _ assms(3)]
  have book: "topics_agree (map_book f n)" for f
    using assms(2) topics_agree_cong [of "map_book f n" n] by simp
  show ?thesis
  proof (cases ev)
    case (EvKad e)
    with assms topics_agree_cong [of n' n] show ?thesis by auto
  next
    case (EvMdns e)
    have "topics n' = topics n" using EvMdns assms(1) by (cases e) auto
    with assms(2) topics_agree_cong show ?thesis by blast
  next
    case (EvPing p r)
    have "topics n' = topics n" using EvPing assms(1) by (cases r) (auto dest: topics_book_option)
    with assms(2) topics_agree_cong show ?thesis by blast
  next
    case (EvIdentify e)
    have "topics n' = topics n" using EvIdentify assms(1) by (cases e) (auto dest: topics_book_option)
    with assms(2) topics_agree_cong show ?thesis by blast
  next
    case (EvBitswap e)
    with assms topics_agree_cong [of n' n] show ?thesis by auto
  next
    case (EvGossipsub e)
    with assms(1,2) book show ?thesis by (cases e) (auto intro: notify)
  next
    case (EvBroadcast e)
    with assms(1,2) book show ?thesis by (cases e) (auto intro: notify split: option.splits)
  qed
qed

lemma agree_command:
  assumes "command_step X c n = Some n'" and "topics_agree n" and "topic_ok (X, Command c)"
  shows "topics_agree n'"
proof (cases "\<exists>t tx. c = Subscribe t tx")
  case True
  then obtain t tx where "n' = send tx (ReplySubscription (fst (subscribe X t n))) (snd (subscribe X t n))"
    "gossip_subscribe X = None"
    using assms(1,3) by (auto simp: split_beta)
  with assms(2,3) agree_subscribe [of n X t] topics_agree_cong [of n' "snd (subscribe X t n)"] show ?thesis
    by simp
next
  case False
  have "topics n' = topics n"
  proof (cases c)
    case (CancelQuery i)
    with assms(1) show ?thesis
      by (cases i) (auto simp: remove_query_def topics_call_out Let_def split: if_splits)
  next
    case (Get x y z)
    with assms(1) show ?thesis by (auto simp: bh_get_def topics_call_out Let_def split: if_splits)
  next
    case (Sync x y z w)
    with assms(1) show ?thesis by (auto simp: bh_sync_def topics_call_out Let_def split: if_splits)
  qed (use assms(1) False in \<open>auto simp: topics_call_out split_beta\<close>)
  with assms(2) topics_agree_cong show ?thesis by blast
qed

lemma agree_net_step:
  assumes "topics_agree n" and "topic_ok i" and "net_step i n = Some n'"
  shows "topics_agree n'"
proof -
  obtain X inp where i: "i = (X, inp)" by (cases i)
  have hash: "topic_hash X t = t" for t using assms(2) i by simp
  show ?thesis
  proof (cases inp)
    case (SwarmItem e)
    show ?thesis
    proof (cases e)
      case (SwarmBehaviour ev)
      with assms SwarmItem i hash show ?thesis by (auto intro: agree_behaviour_event)
    qed (use assms SwarmItem i topics_agree_cong [of n' n] in auto)
  next
    case (Command c)
    with assms i show ?thesis by (auto intro: agree_command)
  next
    case (BookEvent e)
    with assms i topics_agree_cong [of n' n] show ?thesis by (auto dest: topics_book_option)
  qed (use assms i topics_agree_cong [of n' n] in auto)
qed

interpretation joined: step_system "\<lambda>i _. topic_ok i" net_step topics_agree
  by unfold_locales (rule agree_net_step)

text \<open>(C7) The node has joined a topic at gossipsub, and at broadcast, exactly as long as it has a subscription
  for it: the first subscriber joins, the last one that goes away leaves, whatever happens in
  between; provided gossipsub accepts the subscriptions it is asked for.\<close>

theorem topics_joined:
  assumes "behaviour_new pk tp m g config = Inr (n0, ident, config')"
    and "run_steps net_step inputs n0 = Some n" and "\<forall>i \<in> set inputs. topic_ok i"
  shows "(if gossipsub_on n then gossip_topics n = {t. contains_key (subscriptions n) t} else True) \<and>
    (if broadcast_on n then broadcast_topics n = {t. contains_key (subscriptions n) t} else True)"
proof -
  have "topics_agree n0"
    using assms(1) by (auto simp: behaviour_new_def topics_agree_def gossip_topics_def broadcast_topics_def
        subscribed_def Let_def split: option.splits if_splits)
  moreover have "good_run (\<lambda>i _. topic_ok i) net_step inputs n0" for n0
    using assms(3) by (induction inputs arbitrary: n0) (auto split: option.split)
  ultimately have "topics_agree n" using joined.run_inv assms(2) by blast
  then show ?thesis by (simp add: topics_agree_def subscribed_def)
qed

theorem topics_joined_witness:
  "\<exists>n. run_steps net_step [(sample_ext, Command (Subscribe ''t'' 51))] sample_net = Some n \<and>
     gossip_topics n = {t. contains_key (subscriptions n) t} \<and> gossip_topics n = {''t''}"
proof -
  obtain n where n: "run_steps net_step [(sample_ext, Command (Subscribe ''t'' 51))] sample_net = Some n"
    "gossipsub_on n" "gossip_topics n = {''t''}"
    by (simp add: subscribe_def split_beta Let_def sample_net_fields sample_ext_def send_def call_out_def
        gossip_topics_def)
  have "\<forall>i \<in> set [(sample_ext, Command (Subscribe ''t'' 51))]. topic_ok i"
    by (simp add: sample_ext_def)
  from topics_joined [OF sample_net_new n(1) this] n show ?thesis by auto
qed

text \<open>(C34) If gossipsub refuses the first subscription to a topic, the caller gets the error but the entry stays:
  the next subscription to the topic succeeds without asking gossipsub again, so its subscriber
  waits for messages of a topic that was never joined.\<close>

theorem failed_subscribe_sticks:
  assumes "gossipsub_on n" and "map_of (subscriptions n) t = None" and "topic_hash X t = t"
    and "gossip_subscribe X = Some err"
  shows "let (res, n1) = subscribe X t n; (res', n2) = subscribe Y t n1
    in res = Inl (SubscriptionError err) \<and> res' = Inr (new_channel Y) \<and> calls n2 = calls n @ [GossipSubscribe t]"
  using assms by (simp add: subscribe_def call_out_def alist_simps Let_def)

theorem failed_subscribe_sticks_witness:
  "let (res, n1) = subscribe (sample_ext\<lparr>gossip_subscribe := Some 4\<rparr>) ''t'' sample_net;
       (res', n2) = subscribe sample_ext ''t'' n1
   in res = Inl (SubscriptionError 4) \<and> (\<exists>c. res' = Inr c)"
  using failed_subscribe_sticks [of sample_net "''t''" "sample_ext\<lparr>gossip_subscribe := Some 4\<rparr>" 4 sample_ext]
  by (simp add: sample_net_fields sample_ext_def split_beta Let_def)

end
