(* ===== verification/Cli.thy ===== *)
theory Cli
  imports Peer_Info Rust_Text
begin

text \<open>
  The line protocol of the command line tool: \<open>src/cli/src/lib.rs\<close>.

  A controlling process writes commands to the tool's standard input and reads events from its
  standard output, one per line.  \<open>show_command\<close> and \<open>show_event\<close> are the \<open>Display\<close>
  implementations, \<open>parse_command\<close> and \<open>parse_event\<close> the \<open>FromStr\<close> ones.  How peer ids,
  addresses and cids are printed and parsed, JSON, and the check that a block's data has its hash
  belong to other crates and are the record \<open>codec\<close>.  The outer option of a parser's result is a
  panic (\<open>unwrap\<close> of a missing word), the sum an \<open>anyhow\<close> error.
\<close>

section \<open>Configuration\<close>

record cli_config =
  cc_path :: "string option"
  cc_node_name :: "string option"
  cc_keypair :: "64 word"
  cc_enable_mdns :: bool
  cc_listen_on :: "multiaddr list"
  cc_bootstrap :: "multiaddr list"
  cc_external :: "multiaddr list"
  cc_disable_port_reuse :: bool

text \<open>The address \<open>/ip4/0.0.0.0/tcp/30000\<close>.\<close>

definition listen_any :: multiaddr where
  "listen_any = [Ip4 0, Tcp 30000]"

definition cli_config_new :: "64 word \<Rightarrow> cli_config" where
  "cli_config_new keypair =
     \<lparr>cc_path = None, cc_node_name = None, cc_keypair = keypair, cc_enable_mdns = False,
      cc_listen_on = [listen_any], cc_bootstrap = [], cc_external = [],
      cc_disable_port_reuse = False\<rparr>"

text \<open>The command line a configuration is turned into.\<close>

definition config_args :: "(multiaddr \<Rightarrow> string) \<Rightarrow> cli_config \<Rightarrow> string list" where
  "config_args addr_str config =
     (case cc_path config of None \<Rightarrow> [] | Some path \<Rightarrow> [''--path'', path]) @
     (case cc_node_name config of None \<Rightarrow> [] | Some name \<Rightarrow> [''--node-name'', name]) @
     [''--keypair'', show_nat (unat (cc_keypair config))] @
     concat (map (\<lambda>a. [''--listen-on'', addr_str a]) (cc_listen_on config)) @
     concat (map (\<lambda>a. [''--bootstrap'', addr_str a]) (cc_bootstrap config)) @
     concat (map (\<lambda>a. [''--external'', addr_str a]) (cc_external config)) @
     (if cc_enable_mdns config then [''--enable-mdns''] else []) @
     (if cc_disable_port_reuse config then [''--disable-port-reuse''] else [])"

text \<open>\<open>keypair\<close>: the secret key of node number \<open>i\<close>, its number big-endian and zeros.\<close>

definition to_be_bytes :: "64 word \<Rightarrow> 8 word list" where
  "to_be_bytes i = map (\<lambda>k. ucast (drop_bit (8 * k) i)) [7, 6, 5, 4, 3, 2, 1, 0]"

definition secret :: "64 word \<Rightarrow> 8 word list" where
  "secret i = to_be_bytes i @ replicate 24 0"

section \<open>Commands and events\<close>

datatype command =
    CliAddAddress peer_id multiaddr
  | CliDial peer_id
  | CliPrunePeers
  | CliGet cid
  | CliInsert block
  | CliAlias string "cid option"
  | CliFlush
  | CliSync cid

text \<open>\<open>PeerInfoIo\<close>; \<open>io_addresses\<close> is a hash map.\<close>

record peer_info_io =
  io_protocol_version :: "string option"
  io_agent_version :: "string option"
  io_protocols :: "string list"
  io_listeners :: "multiaddr list"
  io_addresses :: "(multiaddr, string) hmap"
  io_connections :: "multiaddr list"
  io_failures :: "string list"

datatype cli_event =
    CliNewListener
  | CliNewListenAddr multiaddr
  | CliExpiredListenAddr multiaddr
  | CliListenerClosed
  | CliNewExternalAddr multiaddr
  | CliExpiredExternalAddr multiaddr
  | CliDiscovered peer_id
  | CliUnreachable peer_id
  | CliConnected peer_id
  | CliDisconnected peer_id
  | CliSubscribed peer_id string
  | CliUnsubscribed peer_id string
  | CliBlock block
  | CliFlushed
  | CliSynced
  | CliBootstrapped
  | CliPeerInfo peer_id peer_info_io
  | CliPeerRemoved peer_id
  | CliDialFailure peer_id multiaddr string
  | CliConnectionEstablished peer_id multiaddr
  | CliConnectionClosed peer_id multiaddr

text \<open>\<open>format!("{:?}", source)\<close>, derived.\<close>

fun debug_source :: "address_source \<Rightarrow> string" where
  "debug_source Incoming = ''Incoming''"
| "debug_source Listen = ''Listen''"
| "debug_source Kad = ''Kad''"
| "debug_source Mdns = ''Mdns''"
| "debug_source Candidate = ''Candidate''"
| "debug_source User = ''User''"
| "debug_source Dial = ''Dial''"

definition peer_info_io_from :: "(connection_failure \<Rightarrow> string) \<Rightarrow> peer_info \<Rightarrow> peer_info_io" where
  "peer_info_io_from debug_failure info =
     \<lparr>io_protocol_version = pi_protocol_version info,
      io_agent_version = pi_agent_version info,
      io_protocols = pi_protocols info,
      io_listeners = pi_listeners info,
      io_addresses = map (\<lambda>(a, s, _). (a, debug_source s)) (pi_addresses info),
      io_connections = map fst (pi_connections info),
      io_failures = map debug_failure (pi_failures info)\<rparr>"

record codec =
  peer_str :: "peer_id \<Rightarrow> string"
  peer_of_str :: "string \<Rightarrow> string + peer_id"
  addr_str :: "multiaddr \<Rightarrow> string"
  addr_of_str :: "string \<Rightarrow> string + multiaddr"
  cid_str :: "cid \<Rightarrow> string"
  cid_of_str :: "string \<Rightarrow> string + cid"
  block_new :: "cid \<Rightarrow> 8 word list \<Rightarrow> string + block"
  info_str :: "peer_info_io \<Rightarrow> string"
  info_of_str :: "string \<Rightarrow> string + peer_info_io"

section \<open>Printing\<close>

fun show_command :: "codec \<Rightarrow> command \<Rightarrow> string" where
  "show_command C (CliAddAddress peer addr) = ''>add-address '' @ peer_str C peer @ '' '' @ addr_str C addr"
| "show_command C (CliDial peer) = ''>dial '' @ peer_str C peer"
| "show_command C CliPrunePeers = ''>prune-peers''"
| "show_command C (CliGet cid) = ''>get '' @ cid_str C cid"
| "show_command C (CliInsert (cid, data)) = ''>insert '' @ cid_str C cid @ '' '' @ hex_bytes data"
| "show_command C (CliAlias alias cid) =
     ''>alias '' @ alias @ (case cid of None \<Rightarrow> [] | Some cid \<Rightarrow> '' '' @ cid_str C cid)"
| "show_command C CliFlush = ''>flush''"
| "show_command C (CliSync cid) = ''>sync '' @ cid_str C cid"

fun show_event :: "codec \<Rightarrow> cli_event \<Rightarrow> string" where
  "show_event C CliNewListener = ''<new-listener''"
| "show_event C (CliNewListenAddr addr) = ''<new-listen-addr '' @ addr_str C addr"
| "show_event C (CliExpiredListenAddr addr) = ''<expired-listen-addr '' @ addr_str C addr"
| "show_event C CliListenerClosed = ''<listener-closed''"
| "show_event C (CliNewExternalAddr addr) = ''<new-external-addr '' @ addr_str C addr"
| "show_event C (CliExpiredExternalAddr addr) = ''<expired-external-addr '' @ addr_str C addr"
| "show_event C (CliDiscovered peer) = ''<discovered '' @ peer_str C peer"
| "show_event C (CliUnreachable peer) = ''<unreachable '' @ peer_str C peer"
| "show_event C (CliConnected peer) = ''<connected '' @ peer_str C peer"
| "show_event C (CliDisconnected peer) = ''<disconnected '' @ peer_str C peer"
| "show_event C (CliSubscribed peer topic) = ''<subscribed '' @ peer_str C peer @ '' '' @ topic"
| "show_event C (CliUnsubscribed peer topic) = ''<unsubscribed '' @ peer_str C peer @ '' '' @ topic"
| "show_event C (CliBlock (cid, data)) = ''<block '' @ cid_str C cid @ '' '' @ hex_bytes data"
| "show_event C CliFlushed = ''<flushed''"
| "show_event C CliSynced = ''<synced''"
| "show_event C CliBootstrapped = ''<bootstrapped''"
| "show_event C (CliPeerInfo p i) = ''<peer-info '' @ peer_str C p @ '' '' @ info_str C i"
| "show_event C (CliPeerRemoved p) = ''<peer-removed '' @ peer_str C p"
| "show_event C (CliDialFailure p a e) =
     ''<dial-failure '' @ peer_str C p @ '' '' @ addr_str C a @ '' '' @ e"
| "show_event C (CliConnectionEstablished p a) =
     ''<connection-established '' @ peer_str C p @ '' '' @ addr_str C a"
| "show_event C (CliConnectionClosed p a) =
     ''<connection-closed '' @ peer_str C p @ '' '' @ addr_str C a"

section \<open>Parsing\<close>

type_synonym 'a parsed = "(string + 'a) option"

definition and_then :: "'a parsed \<Rightarrow> ('a \<Rightarrow> 'b parsed) \<Rightarrow> 'b parsed" where
  "and_then r f = (case r of None \<Rightarrow> None | Some (Inl e) \<Rightarrow> Some (Inl e) | Some (Inr x) \<Rightarrow> f x)"

text \<open>\<open>parts.next().unwrap()\<close> and \<open>.parse()?\<close> on it.\<close>

definition word :: "string list \<Rightarrow> (string \<times> string list) parsed" where
  "word parts = (case parts of [] \<Rightarrow> None | w # parts \<Rightarrow> Some (Inr (w, parts)))"

definition arg :: "(string \<Rightarrow> string + 'a) \<Rightarrow> string list \<Rightarrow> ('a \<times> string list) parsed" where
  "arg parse parts =
     and_then (word parts) (\<lambda>(w, parts).
       Some (case parse w of Inl e \<Rightarrow> Inl e | Inr x \<Rightarrow> Inr (x, parts)))"

text \<open>The cid and the data of a block, whose hash is checked.\<close>

definition block_arg :: "codec \<Rightarrow> string list \<Rightarrow> block parsed" where
  "block_arg C parts =
     and_then (arg (cid_of_str C) parts) (\<lambda>(cid, parts).
     and_then (word parts) (\<lambda>(str_data, parts).
       case parse_hex str_data of
         None \<Rightarrow> Some (Inl ''invalid digit'')
       | Some data \<Rightarrow> Some (block_new C cid data)))"

definition one :: "('a \<Rightarrow> 'b) \<Rightarrow> ('a \<times> string list) parsed \<Rightarrow> 'b parsed" where
  "one f r = and_then r (\<lambda>(x, _). Some (Inr (f x)))"

definition parse_command :: "codec \<Rightarrow> string \<Rightarrow> command parsed" where
  "parse_command C s =
     (case split_whitespace s of
        [] \<Rightarrow> Some (Inl (''invalid command `'' @ s @ ''`''))
      | kw # parts \<Rightarrow>
          if kw = ''>add-address'' then
            and_then (arg (peer_of_str C) parts) (\<lambda>(peer, parts).
              one (CliAddAddress peer) (arg (addr_of_str C) parts))
          else if kw = ''>dial'' then one CliDial (arg (peer_of_str C) parts)
          else if kw = ''>prune-peers'' then Some (Inr CliPrunePeers)
          else if kw = ''>get'' then one CliGet (arg (cid_of_str C) parts)
          else if kw = ''>insert'' then
            and_then (block_arg C parts) (\<lambda>block. Some (Inr (CliInsert block)))
          else if kw = ''>alias'' then
            and_then (word parts) (\<lambda>(alias, parts).
              case parts of
                [] \<Rightarrow> Some (Inr (CliAlias alias None))
              | w # _ \<Rightarrow>
                  Some (case cid_of_str C w of
                          Inl e \<Rightarrow> Inl e
                        | Inr cid \<Rightarrow> Inr (CliAlias alias (Some cid))))
          else if kw = ''>flush'' then Some (Inr CliFlush)
          else if kw = ''>sync'' then one CliSync (arg (cid_of_str C) parts)
          else Some (Inl (''invalid command `'' @ s @ ''`'')))"

definition parse_event :: "codec \<Rightarrow> string \<Rightarrow> cli_event parsed" where
  "parse_event C s =
     (case split_whitespace s of
        [] \<Rightarrow> Some (Inl (''invalid event `'' @ s @ ''`''))
      | kw # parts \<Rightarrow>
          if kw = ''<new-listener'' then Some (Inr CliNewListener)
          else if kw = ''<new-listen-addr'' then one CliNewListenAddr (arg (addr_of_str C) parts)
          else if kw = ''<expired-listen-addr'' then one CliExpiredListenAddr (arg (addr_of_str C) parts)
          else if kw = ''<listener-closed'' then Some (Inr CliListenerClosed)
          else if kw = ''<new-external-addr'' then one CliNewExternalAddr (arg (addr_of_str C) parts)
          else if kw = ''<expired-external-addr'' then one CliExpiredExternalAddr (arg (addr_of_str C) parts)
          else if kw = ''<discovered'' then one CliDiscovered (arg (peer_of_str C) parts)
          else if kw = ''<unreachable'' then one CliUnreachable (arg (peer_of_str C) parts)
          else if kw = ''<connected'' then one CliConnected (arg (peer_of_str C) parts)
          else if kw = ''<disconnected'' then one CliDisconnected (arg (peer_of_str C) parts)
          else if kw = ''<subscribed'' then
            and_then (arg (peer_of_str C) parts) (\<lambda>(peer, parts). one (CliSubscribed peer) (word parts))
          else if kw = ''<unsubscribed'' then
            and_then (arg (peer_of_str C) parts) (\<lambda>(peer, parts). one (CliUnsubscribed peer) (word parts))
          else if kw = ''<block'' then and_then (block_arg C parts) (\<lambda>block. Some (Inr (CliBlock block)))
          else if kw = ''<flushed'' then Some (Inr CliFlushed)
          else if kw = ''<synced'' then Some (Inr CliSynced)
          else if kw = ''<bootstrapped'' then Some (Inr CliBootstrapped)
          else if kw = ''<peer-info'' then
            and_then (arg (peer_of_str C) parts) (\<lambda>(id, parts).
              Some (case info_of_str C (join parts) of
                      Inl e \<Rightarrow> Inl e
                    | Inr info \<Rightarrow> Inr (CliPeerInfo id info)))
          else if kw = ''<peer-removed'' then one CliPeerRemoved (arg (peer_of_str C) parts)
          else if kw = ''<dial-failure'' then
            and_then (arg (peer_of_str C) parts) (\<lambda>(id, parts).
            and_then (arg (addr_of_str C) parts) (\<lambda>(addr, parts).
              Some (Inr (CliDialFailure id addr (join parts)))))
          else if kw = ''<connection-established'' then
            and_then (arg (peer_of_str C) parts) (\<lambda>(id, parts).
              one (CliConnectionEstablished id) (arg (addr_of_str C) parts))
          else if kw = ''<connection-closed'' then
            and_then (arg (peer_of_str C) parts) (\<lambda>(id, parts).
              one (CliConnectionClosed id) (arg (addr_of_str C) parts))
          else Some (Inl (''invalid event `'' @ s @ ''`'')))"

section \<open>Round trips\<close>

text \<open>
  A value survives the line protocol if its text is one word and parses back to it.  Alias and
  topic are sent as they are and must be words; a block needs data, as an empty word is none.
\<close>

definition survives :: "('a \<Rightarrow> string) \<Rightarrow> (string \<Rightarrow> string + 'a) \<Rightarrow> 'a \<Rightarrow> bool" where
  "survives show parse x \<longleftrightarrow> is_word (show x) \<and> parse (show x) = Inr x"

abbreviation "peer_ok C \<equiv> survives (peer_str C) (peer_of_str C)"
abbreviation "addr_ok C \<equiv> survives (addr_str C) (addr_of_str C)"
abbreviation "cid_ok C \<equiv> survives (cid_str C) (cid_of_str C)"

fun block_ok :: "codec \<Rightarrow> block \<Rightarrow> bool" where
  "block_ok C (cid, data) \<longleftrightarrow> cid_ok C cid \<and> data \<noteq> [] \<and> block_new C cid data = Inr (cid, data)"

fun command_ok :: "codec \<Rightarrow> command \<Rightarrow> bool" where
  "command_ok C (CliAddAddress p a) \<longleftrightarrow> peer_ok C p \<and> addr_ok C a"
| "command_ok C (CliDial p) \<longleftrightarrow> peer_ok C p"
| "command_ok C CliPrunePeers \<longleftrightarrow> True"
| "command_ok C (CliGet c) \<longleftrightarrow> cid_ok C c"
| "command_ok C (CliInsert b) \<longleftrightarrow> block_ok C b"
| "command_ok C (CliAlias x c) \<longleftrightarrow> is_word x \<and> pred_option (cid_ok C) c"
| "command_ok C CliFlush \<longleftrightarrow> True"
| "command_ok C (CliSync c) \<longleftrightarrow> cid_ok C c"

lemma survivesD:
  "peer_ok C p \<Longrightarrow> is_word (peer_str C p)" "peer_ok C p \<Longrightarrow> peer_of_str C (peer_str C p) = Inr p"
  "addr_ok C a \<Longrightarrow> is_word (addr_str C a)" "addr_ok C a \<Longrightarrow> addr_of_str C (addr_str C a) = Inr a"
  "cid_ok C c \<Longrightarrow> is_word (cid_str C c)" "cid_ok C c \<Longrightarrow> cid_of_str C (cid_str C c) = Inr c"
  by (simp_all add: survives_def)

lemma arg_ok [simp]: "survives show parse x \<Longrightarrow> arg parse (show x # parts) = Some (Inr (x, parts))"
  by (simp add: arg_def word_def and_then_def survives_def)

lemma one_ok [simp]: "one f (Some (Inr (x, parts))) = Some (Inr (f x))"
  by (simp add: one_def and_then_def)

lemma and_then_ok [simp]: "and_then (Some (Inr x)) f = f x"
  by (simp add: and_then_def)

lemma word_ok [simp]: "word (w # parts) = Some (Inr (w, parts))"
  by (simp add: word_def)

lemma block_arg_ok [simp]:
  "block_ok C (cid, data) \<Longrightarrow>
     block_arg C (cid_str C cid # hex_bytes data # parts) = Some (Inr (cid, data))"
  by (simp add: block_arg_def)

text \<open>The keyword of a line is its first word.\<close>

lemma command_keywords:
  "split_whitespace (''>add-address '' @ s) = ''>add-address'' # split_whitespace s"
  "split_whitespace (''>dial '' @ s) = ''>dial'' # split_whitespace s"
  "split_whitespace (''>get '' @ s) = ''>get'' # split_whitespace s"
  "split_whitespace (''>insert '' @ s) = ''>insert'' # split_whitespace s"
  "split_whitespace (''>alias '' @ s) = ''>alias'' # split_whitespace s"
  "split_whitespace (''>sync '' @ s) = ''>sync'' # split_whitespace s"
  "split_whitespace ''>prune-peers'' = [''>prune-peers'']"
  "split_whitespace ''>flush'' = [''>flush'']"
  by (simp_all add: split_whitespace_def wide_space_def emit_def split: list.split)

lemma event_keywords:
  "split_whitespace (''<new-listen-addr '' @ s) = ''<new-listen-addr'' # split_whitespace s"
  "split_whitespace (''<expired-listen-addr '' @ s) = ''<expired-listen-addr'' # split_whitespace s"
  "split_whitespace (''<new-external-addr '' @ s) = ''<new-external-addr'' # split_whitespace s"
  "split_whitespace (''<expired-external-addr '' @ s) = ''<expired-external-addr'' # split_whitespace s"
  "split_whitespace (''<discovered '' @ s) = ''<discovered'' # split_whitespace s"
  "split_whitespace (''<unreachable '' @ s) = ''<unreachable'' # split_whitespace s"
  "split_whitespace (''<connected '' @ s) = ''<connected'' # split_whitespace s"
  "split_whitespace (''<disconnected '' @ s) = ''<disconnected'' # split_whitespace s"
  "split_whitespace (''<subscribed '' @ s) = ''<subscribed'' # split_whitespace s"
  "split_whitespace (''<unsubscribed '' @ s) = ''<unsubscribed'' # split_whitespace s"
  "split_whitespace (''<block '' @ s) = ''<block'' # split_whitespace s"
  "split_whitespace (''<peer-info '' @ s) = ''<peer-info'' # split_whitespace s"
  "split_whitespace (''<peer-removed '' @ s) = ''<peer-removed'' # split_whitespace s"
  "split_whitespace (''<dial-failure '' @ s) = ''<dial-failure'' # split_whitespace s"
  "split_whitespace (''<connection-established '' @ s) = ''<connection-established'' # split_whitespace s"
  "split_whitespace (''<connection-closed '' @ s) = ''<connection-closed'' # split_whitespace s"
  "split_whitespace ''<new-listener'' = [''<new-listener'']"
  "split_whitespace ''<listener-closed'' = [''<listener-closed'']"
  "split_whitespace ''<flushed'' = [''<flushed'']"
  "split_whitespace ''<synced'' = [''<synced'']"
  "split_whitespace ''<bootstrapped'' = [''<bootstrapped'']"
  by (simp_all add: split_whitespace_def wide_space_def emit_def split: list.split)

lemmas command_words = command_keywords [unfolded append_Cons append_Nil]
lemmas event_words = event_keywords [unfolded append_Cons append_Nil]

lemma parse_command_show:
  assumes "command_ok C c"
  shows "parse_command C (show_command C c) = Some (Inr c)"
proof (cases c)
  case (CliInsert b)
  with assms show ?thesis
    by (cases b) (simp add: parse_command_def command_words survivesD hex_bytes_word)
next
  case (CliAlias x y)
  with assms show ?thesis
    by (cases y) (simp_all add: parse_command_def command_words survivesD)
qed (use assms in \<open>simp_all add: parse_command_def command_words survivesD\<close>)

lemma parse_command_end:
  "parse_command C s = Some (Inr c) \<Longrightarrow> line_end t \<Longrightarrow> parse_command C (s @ t) = Some (Inr c)"
  by (simp add: parse_command_def split: list.splits if_splits)

text \<open>(C16) What one process prints as a command, the other reads as the same command, also with the newline
  that ends the line; this for every command whose alias is a word and whose block is not empty,
  given that the parsers of peer ids, addresses and cids invert their printers.\<close>

theorem command_round_trip:
  assumes "command_ok C c" and "line_end t"
  shows "parse_command C (show_command C c @ t) = Some (Inr c)"
  using assms by (intro parse_command_end parse_command_show)

definition sample_codec :: codec where
  "sample_codec =
     \<lparr>peer_str = (\<lambda>p. CHR ''Q'' # hex_byte (of_nat p)),
      peer_of_str = (\<lambda>s. case parse_hex (tl s) of Some [b] \<Rightarrow> Inr (unat b) | _ \<Rightarrow> Inl ''peer''),
      addr_str = (\<lambda>a. if a = listen_any then ''/ip4/0.0.0.0/tcp/30000'' else ''/''),
      addr_of_str = (\<lambda>s. if s = ''/'' then Inr [] else Inr listen_any),
      cid_str = (\<lambda>c. CHR ''b'' # hex_byte (of_nat c)),
      cid_of_str = (\<lambda>s. case parse_hex (tl s) of Some [b] \<Rightarrow> Inr (unat b) | _ \<Rightarrow> Inl ''cid''),
      block_new = (\<lambda>c d. if c = length d then Inr (c, d) else Inl ''hash mismatch''),
      info_str = (\<lambda>i. ''{}''),
      info_of_str = (\<lambda>s. Inl ''json'')\<rparr>"

theorem command_round_trip_witness:
  "parse_command sample_codec (show_command sample_codec (CliInsert (3, [1, 2, 255])) @ [CHR 0x0A]) =
     Some (Inr (CliInsert (3, [1, 2, 255])))"
proof -
  have "command_ok sample_codec (CliInsert (3, [1, 2, 255]))" by code_simp
  moreover have "line_end [CHR 0x0A]" by (simp add: line_end_def)
  ultimately show ?thesis by (rule command_round_trip)
qed

text \<open>The printed JSON is sent as it is; the parser joins the words of the rest of the line.\<close>

definition info_ok :: "codec \<Rightarrow> peer_info_io \<Rightarrow> bool" where
  "info_ok C i \<longleftrightarrow> normal_space (info_str C i) = info_str C i \<and> info_of_str C (info_str C i) = Inr i"

fun event_ok :: "codec \<Rightarrow> cli_event \<Rightarrow> bool" where
  "event_ok C (CliNewListenAddr a) \<longleftrightarrow> addr_ok C a"
| "event_ok C (CliExpiredListenAddr a) \<longleftrightarrow> addr_ok C a"
| "event_ok C (CliNewExternalAddr a) \<longleftrightarrow> addr_ok C a"
| "event_ok C (CliExpiredExternalAddr a) \<longleftrightarrow> addr_ok C a"
| "event_ok C (CliDiscovered p) \<longleftrightarrow> peer_ok C p"
| "event_ok C (CliUnreachable p) \<longleftrightarrow> peer_ok C p"
| "event_ok C (CliConnected p) \<longleftrightarrow> peer_ok C p"
| "event_ok C (CliDisconnected p) \<longleftrightarrow> peer_ok C p"
| "event_ok C (CliSubscribed p x) \<longleftrightarrow> peer_ok C p \<and> is_word x"
| "event_ok C (CliUnsubscribed p x) \<longleftrightarrow> peer_ok C p \<and> is_word x"
| "event_ok C (CliBlock b) \<longleftrightarrow> block_ok C b"
| "event_ok C (CliPeerInfo p i) \<longleftrightarrow> peer_ok C p \<and> info_ok C i"
| "event_ok C (CliPeerRemoved p) \<longleftrightarrow> peer_ok C p"
| "event_ok C (CliDialFailure p a e) \<longleftrightarrow> peer_ok C p \<and> addr_ok C a"
| "event_ok C (CliConnectionEstablished p a) \<longleftrightarrow> peer_ok C p \<and> addr_ok C a"
| "event_ok C (CliConnectionClosed p a) \<longleftrightarrow> peer_ok C p \<and> addr_ok C a"
| "event_ok C _ \<longleftrightarrow> True"

fun event_normal :: "cli_event \<Rightarrow> cli_event" where
  "event_normal (CliDialFailure p a e) = CliDialFailure p a (normal_space e)"
| "event_normal e = e"

lemma parse_event_show:
  assumes "event_ok C e"
  shows "parse_event C (show_event C e) = Some (Inr (event_normal e))"
proof (cases e)
  case (CliBlock b)
  with assms show ?thesis
    by (cases b) (simp add: parse_event_def event_words survivesD hex_bytes_word)
next
  case (CliPeerInfo p i)
  with assms show ?thesis
    by (simp add: parse_event_def event_words survivesD info_ok_def flip: normal_space_def)
next
  case (CliDialFailure p a x)
  with assms show ?thesis
    by (simp add: parse_event_def event_words survivesD normal_space_def)
qed (use assms in \<open>simp_all add: parse_event_def event_words survivesD\<close>)

lemma parse_event_end:
  "parse_event C s = Some (Inr e) \<Longrightarrow> line_end t \<Longrightarrow> parse_event C (s @ t) = Some (Inr e)"
  by (simp add: parse_event_def split: list.splits if_splits)



section \<open>Incomplete lines\<close>

fun arity :: "string \<Rightarrow> nat" where
  "arity kw =
     (if kw = ''>add-address'' \<or> kw = ''>insert'' then 2
      else if kw = ''>dial'' \<or> kw = ''>get'' \<or> kw = ''>alias'' \<or> kw = ''>sync'' then 1
      else 0)"

lemma and_then_None: "and_then r f = None \<longleftrightarrow> r = None \<or> (\<exists>x. r = Some (Inr x) \<and> f x = None)"
  by (auto simp: and_then_def split: option.splits sum.splits)

lemma word_cases: "word parts = None \<longleftrightarrow> parts = []" "word parts = Some (Inr x) \<longleftrightarrow> parts = fst x # snd x"
  by (cases x; cases parts; auto simp: word_def)+

lemma arg_cases:
  "arg parse parts = None \<longleftrightarrow> parts = []"
  "arg parse parts = Some (Inr x) \<longleftrightarrow> (\<exists>w. parts = w # snd x \<and> parse w = Inr (fst x))"
  by (cases x; cases parts; auto simp: arg_def word_def and_then_def split: sum.splits)+

lemma one_None: "one f r = None \<longleftrightarrow> r = None"
  by (auto simp: one_def and_then_None)

text \<open>(C33) A line makes the parser panic exactly if it lacks an argument of its command and those before it
  parse; every other line, whatever it holds, gives a command or an error.\<close>

theorem parse_command_panics:
  "parse_command C s = None \<longleftrightarrow>
     (case split_whitespace s of
        [] \<Rightarrow> False
      | kw # parts \<Rightarrow>
          length parts < arity kw \<and>
          (case parts of
             [] \<Rightarrow> True
           | w # _ \<Rightarrow> if kw = ''>insert'' then \<exists>c. cid_of_str C w = Inr c
                     else \<exists>p. peer_of_str C w = Inr p))"
  by (auto simp: parse_command_def and_then_None one_None word_cases arg_cases block_arg_def
      split: list.splits option.splits if_splits)

section \<open>Keys\<close>

lemma bit_to_be_bytes:
  assumes "n < 64"
  shows "bit i n = bit (to_be_bytes i ! (7 - n div 8)) (n mod 8)"
proof -
  define k where "k = n div 8"
  have k: "k \<in> {0, 1, 2, 3, 4, 5, 6, 7}" using assms by (auto simp: k_def)
  have "to_be_bytes i ! (7 - k) = ucast (drop_bit (8 * k) i)"
    using k by (auto simp: to_be_bytes_def)
  then show ?thesis using assms
    by (simp add: k_def [symmetric] bit_simps) (simp add: k_def)
qed

text \<open>The secret key of a node is 32 bytes, and nodes with different numbers have different ones.\<close>

lemma length_secret: "length (secret i) = 32"
  by (simp add: secret_def to_be_bytes_def)

lemma secret_eq: "secret i = secret j \<longleftrightarrow> i = j"
proof -
  have "i = j" if "to_be_bytes i = to_be_bytes j"
    by (rule bit_word_eqI) (simp add: bit_to_be_bytes that)
  moreover have "length (to_be_bytes k) = 8" for k by (simp add: to_be_bytes_def)
  ultimately show ?thesis by (auto simp: secret_def)
qed

end
