(* ===== verification/Runtime.thy ===== *)
theory Runtime
  imports Address_Book
begin

text \<open>
  What the node is run on: the shared variables of \<open>src/src/variable.rs\<close> and the executor of
  \<open>src/src/executor.rs\<close>.

  A variable lives behind an \<open>Arc\<close> that its writer and its readers share: it is a cell of an
  explicit heap, and writers and readers are cell numbers.  The two async runtimes are other
  crates; a task is a number, and what becomes of it is a value of \<open>fate\<close>.
\<close>

section \<open>Variables\<close>

type_synonym 'a heap = "'a list"

datatype var_writer = Writer nat
datatype var_reader = Reader nat

definition writer_new :: "'a \<Rightarrow> 'a heap \<Rightarrow> var_writer \<times> 'a heap" where
  "writer_new v h = (Writer (length h), h @ [v])"

text \<open>An assignment through the guard that \<open>write\<close> returns, and a look through that of \<open>read\<close>.\<close>

fun writer_write :: "var_writer \<Rightarrow> ('a \<Rightarrow> 'a) \<Rightarrow> 'a heap \<Rightarrow> 'a heap" where
  "writer_write (Writer c) f h = h[c := f (h ! c)]"

fun writer_read :: "var_writer \<Rightarrow> 'a heap \<Rightarrow> 'a" where
  "writer_read (Writer c) h = h ! c"

fun writer_reader :: "var_writer \<Rightarrow> var_reader" where
  "writer_reader (Writer c) = Reader c"

fun reader_project :: "('a \<Rightarrow> 'b) \<Rightarrow> var_reader \<Rightarrow> 'a heap \<Rightarrow> 'b" where
  "reader_project f (Reader c) h = f (h ! c)"

fun reader_get :: "var_reader \<Rightarrow> 'a heap \<Rightarrow> 'a" where
  "reader_get (Reader c) h = h ! c"

fun reader_get_cloned :: "var_reader \<Rightarrow> 'a heap \<Rightarrow> 'a" where
  "reader_get_cloned (Reader c) h = h ! c"

text \<open>What happens to the heap over time: new variables and writes, through any writer.\<close>

datatype 'a var_op = NewVar 'a | WriteVar var_writer "'a \<Rightarrow> 'a"

fun var_step :: "'a var_op \<Rightarrow> 'a heap \<Rightarrow> 'a heap" where
  "var_step (NewVar v) h = snd (writer_new v h)"
| "var_step (WriteVar w f) h = writer_write w f h"

fun writes_to :: "var_writer \<Rightarrow> 'a var_op \<Rightarrow> 'a \<Rightarrow> 'a" where
  "writes_to w (WriteVar w' f) v = (if w' = w then f v else v)"
| "writes_to w (NewVar _) v = v"

lemma length_var_step: "length h \<le> length (var_step op h)"
proof (cases op)
  case (WriteVar w f)
  then show ?thesis by (cases w) simp
qed (simp add: writer_new_def)

lemma var_step_cell:
  "c < length h \<Longrightarrow> var_step op h ! c = writes_to (Writer c) op (h ! c)"
proof (cases op)
  case (WriteVar w f)
  assume "c < length h"
  with WriteVar show ?thesis by (cases w) simp
qed (simp add: writer_new_def nth_append)

lemma run_cell:
  "c < length h \<Longrightarrow> fold var_step ops h ! c = fold (writes_to (Writer c)) ops (h ! c)"
proof (induction ops arbitrary: h)
  case (Cons op ops)
  have "c < length (var_step op h)" using Cons.prems length_var_step [of h op] by simp
  from Cons.IH [OF this] var_step_cell [OF Cons.prems] show ?case by simp
qed simp

text \<open>A reader always sees what the writer it came from has made of the initial value: all writes
  through that variable in their order, and nothing that happens to other variables.\<close>

lemma reader_sees_writes:
  "let (w, h') = writer_new v h; h'' = fold var_step ops h'; r = writer_reader w;
       now = fold (writes_to w) ops v
   in reader_get r h'' = now \<and> reader_get_cloned r h'' = now \<and> writer_read w h'' = now \<and>
      reader_project f r h'' = f now"
proof -
  have "length h < length (h @ [v])" by simp
  from run_cell [OF this, of ops] show ?thesis by (simp add: writer_new_def Let_def)
qed

section \<open>Tasks\<close>

datatype executor = Tokio | AsyncGlobal

record features =
  feat_tokio :: bool
  feat_async_global :: bool

text \<open>Without any runtime the crate does not compile.\<close>

definition executor_new :: "features \<Rightarrow> executor option" where
  "executor_new F =
     (if feat_async_global F then Some AsyncGlobal
      else if feat_tokio F then Some Tokio
      else None)"

type_synonym task = nat

datatype join_handle = TokioHandle task | AsyncGlobalHandle "task option"

definition spawn :: "executor \<Rightarrow> task \<Rightarrow> join_handle" where
  "spawn ex t = (case ex of AsyncGlobal \<Rightarrow> AsyncGlobalHandle (Some t) | Tokio \<Rightarrow> TokioHandle t)"

definition spawn_blocking :: "executor \<Rightarrow> task \<Rightarrow> join_handle" where
  "spawn_blocking ex t =
     (case ex of AsyncGlobal \<Rightarrow> AsyncGlobalHandle (Some t) | Tokio \<Rightarrow> TokioHandle t)"

datatype fate = Detached task | Cancelled task | NoTask

text \<open>
  Dropping a handle, as the comments in the source say: a tokio task detaches, a task of the
  async-global-executor is cancelled.
\<close>

fun drop_handle :: "join_handle \<Rightarrow> fate" where
  "drop_handle (TokioHandle t) = Detached t"
| "drop_handle (AsyncGlobalHandle (Some t)) = Cancelled t"
| "drop_handle (AsyncGlobalHandle None) = NoTask"

definition detach :: "features \<Rightarrow> join_handle \<Rightarrow> fate" where
  "detach F h =
     (case h of
        AsyncGlobalHandle (Some t) \<Rightarrow> if feat_async_global F then Detached t else drop_handle h
      | _ \<Rightarrow> drop_handle h)"

definition abort :: "features \<Rightarrow> join_handle \<Rightarrow> fate" where
  "abort F h =
     (if feat_tokio F \<and> \<not> feat_async_global F
      then (case h of TokioHandle t \<Rightarrow> Cancelled t | _ \<Rightarrow> drop_handle h)
      else drop_handle h)"

datatype 'a task_status = Running | Finished 'a | Failed string

text \<open>
  \<open>JoinHandle::poll\<close>; \<open>None\<close> is the panic that awaiting a task of the async-global-executor
  which has panicked passes on.
\<close>

definition join_poll :: "(task \<Rightarrow> 'a task_status) \<Rightarrow> join_handle \<Rightarrow> (string + 'a) poll option" where
  "join_poll status h =
     (case h of
        TokioHandle t \<Rightarrow>
          Some (case status t of
                  Finished r \<Rightarrow> Ready (Inr r)
                | Failed e \<Rightarrow> Ready (Inl (''tokio::task::JoinHandle Error: '' @ e))
                | Running \<Rightarrow> Pending)
      | AsyncGlobalHandle (Some t) \<Rightarrow>
          (case status t of
             Finished r \<Rightarrow> Some (Ready (Inr r))
           | Failed e \<Rightarrow> None
           | Running \<Rightarrow> Some Pending)
      | AsyncGlobalHandle None \<Rightarrow> Some (Ready (Inl ''Future detached'')))"


end
