(* ===== verification/Storage.thy ===== *)
theory Storage
  imports Runtime
begin

text \<open>
  The block store service: \<open>src/src/db.rs\<close>.

  The sqlite block store is another crate.  It is the argument \<open>block_store\<close>, a record of the
  operations the service calls on a connection (\<open>'db\<close>), a transaction (\<open>'txn\<close>) and a temporary
  pin (\<open>'pin\<close>); each may fail.  \<open>rw\<close> runs a closure in a transaction and commits if it succeeds;
  a transaction that is not committed is abandoned.  The file system, the clock of the garbage
  collector and the outcome of a spawned task are arguments as well.
\<close>

section \<open>The block store\<close>

type_synonym bytes = "8 word list"
type_synonym path = "string list"

datatype storage_error = StoreError nat | IoFailure nat | JoinError string

type_synonym 'a sresult = "storage_error + 'a"

record ('db, 'txn, 'pin) block_store =
  bs_transaction :: "'db \<Rightarrow> 'txn"
  bs_commit :: "'txn \<Rightarrow> unit sresult \<times> 'db"
  bs_abandon :: "'txn \<Rightarrow> 'db"
  bs_temp_pin :: "'txn \<Rightarrow> 'pin \<times> 'txn"
  bs_extend_temp_pin :: "cid \<Rightarrow> 'pin \<Rightarrow> 'txn \<Rightarrow> unit sresult \<times> 'pin \<times> 'txn"
  bs_block_cids :: "'txn \<Rightarrow> cid list sresult \<times> 'txn"
  bs_has_block :: "cid \<Rightarrow> 'txn \<Rightarrow> bool sresult \<times> 'txn"
  bs_get_block :: "cid \<Rightarrow> 'txn \<Rightarrow> bytes option sresult \<times> 'txn"
  bs_put_block :: "block \<Rightarrow> 'txn \<Rightarrow> unit sresult \<times> 'txn"
  bs_resolve :: "string \<Rightarrow> 'txn \<Rightarrow> cid option sresult \<times> 'txn"
  bs_alias :: "string \<Rightarrow> cid option \<Rightarrow> 'txn \<Rightarrow> unit sresult \<times> 'txn"
  bs_aliases :: "'txn \<Rightarrow> (string \<times> cid) list sresult \<times> 'txn"
  bs_reverse_alias :: "cid \<Rightarrow> 'txn \<Rightarrow> string list option sresult \<times> 'txn"
  bs_missing_blocks :: "cid \<Rightarrow> 'txn \<Rightarrow> cid list sresult \<times> 'txn"
  bs_incremental_gc :: "nat \<Rightarrow> duration \<Rightarrow> 'db \<Rightarrow> bool sresult \<times> 'db"
  bs_flush :: "'db \<Rightarrow> unit sresult \<times> 'db"
  bs_stats :: "'db \<Rightarrow> (64 word \<times> 64 word) sresult"

section \<open>Configuration and opening\<close>

record storage_config =
  sc_path :: "path option"
  sc_access_db_path :: "path option"
  sc_cache_size_blocks :: "64 word"
  sc_cache_size_bytes :: "64 word"
  sc_gc_interval :: duration
  sc_gc_min_blocks :: nat
  sc_gc_target_duration :: duration

definition u64_max :: nat where
  "u64_max = 2 ^ 64 - 1"

definition storage_config_new ::
  "path option \<Rightarrow> path option \<Rightarrow> 64 word \<Rightarrow> duration \<Rightarrow> storage_config" where
  "storage_config_new path access_db_path cache_size gc_interval =
     \<lparr>sc_path = path, sc_access_db_path = access_db_path, sc_cache_size_blocks = cache_size,
      sc_cache_size_bytes = of_nat u64_max, sc_gc_interval = gc_interval,
      sc_gc_min_blocks = u64_max,
      sc_gc_target_duration = u64_max * 10 ^ 9 + (10 ^ 9 - 1)\<rparr>"

text \<open>The file system and the constructors of the block store, each with the error it gives.\<close>

record store_env =
  is_file :: "path \<Rightarrow> bool"
  create_dir_all :: "path \<Rightarrow> nat option"
  open_tracker :: "path \<Rightarrow> nat option"
  open_store :: "path option \<Rightarrow> nat option"
  additional_connection :: "nat option"

text \<open>A path is used as it is if it is a file, else as a directory, created if needed.\<close>

definition file_in :: "store_env \<Rightarrow> string \<Rightarrow> path \<Rightarrow> path sresult" where
  "file_in W name path =
     (if is_file W path then Inr path
      else case create_dir_all W path of
             Some e \<Rightarrow> Inl (IoFailure e)
           | None \<Rightarrow> Inr (path @ [name]))"

text \<open>
  What \<open>open\<close> sets up: where access times and blocks are kept (\<open>None\<close> is memory), the size
  targets, and whether the garbage collector has a connection of its own or shares the service's.
\<close>

record opened =
  op_tracker :: "path option"
  op_store :: "path option"
  op_size_targets :: "64 word \<times> 64 word"
  op_gc_shares :: bool

definition open_tracker_at :: "store_env \<Rightarrow> path option \<Rightarrow> path option sresult" where
  "open_tracker_at W access_db_path =
     (case access_db_path of
        None \<Rightarrow> Inr None
      | Some path \<Rightarrow>
          (case file_in W ''access'' path of
             Inl e \<Rightarrow> Inl e
           | Inr path \<Rightarrow>
               (case open_tracker W path of Some e \<Rightarrow> Inl (StoreError e) | None \<Rightarrow> Inr (Some path))))"

definition open_store_at :: "store_env \<Rightarrow> path option \<Rightarrow> path option sresult" where
  "open_store_at W path =
     (case (case path of None \<Rightarrow> Inr None | Some path \<Rightarrow> map_sum id Some (file_in W ''db'' path)) of
        Inl e \<Rightarrow> Inl e
      | Inr path \<Rightarrow> (case open_store W path of Some e \<Rightarrow> Inl (StoreError e) | None \<Rightarrow> Inr path))"

definition storage_open_plan :: "store_env \<Rightarrow> storage_config \<Rightarrow> opened sresult" where
  "storage_open_plan W config =
     (case open_tracker_at W (sc_access_db_path config) of
        Inl e \<Rightarrow> Inl e
      | Inr tracker \<Rightarrow>
          (case open_store_at W (sc_path config) of
             Inl e \<Rightarrow> Inl e
           | Inr store \<Rightarrow>
               let plan = \<lparr>op_tracker = tracker, op_store = store,
                     op_size_targets = (sc_cache_size_blocks config, sc_cache_size_bytes config),
                     op_gc_shares = sc_path config = None\<rparr>
               in if sc_path config = None then Inr plan
                  else (case additional_connection W of
                          Some e \<Rightarrow> Inl (StoreError e)
                        | None \<Rightarrow> Inr plan)))"

text \<open>
  \<open>StorageServiceInner\<close>, with the prometheus counters: queries by label and samples of their
  duration by label.
\<close>

record 'db storage =
  st_executor :: executor
  st_db :: 'db
  st_gc_target_duration :: duration
  st_gc_min_blocks :: nat
  st_gc_task :: "join_handle option"
  queries_total :: "(string, nat) hmap"
  query_duration :: "(string, nat) hmap"

definition storage_open ::
  "store_env \<Rightarrow> (opened \<Rightarrow> 'db) \<Rightarrow> executor \<Rightarrow> task \<Rightarrow> storage_config \<Rightarrow> 'db storage sresult" where
  "storage_open W connect ex gc_task config =
     (case storage_open_plan W config of
        Inl e \<Rightarrow> Inl e
      | Inr plan \<Rightarrow>
          Inr \<lparr>st_executor = ex, st_db = connect plan,
               st_gc_target_duration = sc_gc_target_duration config,
               st_gc_min_blocks = sc_gc_min_blocks config,
               st_gc_task = Some (spawn ex gc_task), queries_total = [], query_duration = []\<rparr>)"

text \<open>One turn of the garbage collector's loop: a failure is logged and forgotten.\<close>

definition gc_turn :: "('db, 'txn, 'pin) block_store \<Rightarrow> nat \<Rightarrow> duration \<Rightarrow> 'db \<Rightarrow> 'db" where
  "gc_turn B min_blocks target db = snd (bs_incremental_gc B min_blocks target db)"

text \<open>Dropping the service: what becomes of the garbage collector.\<close>

definition storage_drop :: "features \<Rightarrow> 'db storage \<Rightarrow> fate" where
  "storage_drop F s = (case st_gc_task s of Some t \<Rightarrow> abort F t | None \<Rightarrow> NoTask)"

section \<open>Batches\<close>

fun batch_temp_pin ::
  "('db, 'txn, 'pin) block_store \<Rightarrow> cid list \<Rightarrow> 'pin \<Rightarrow> 'txn \<Rightarrow> unit sresult \<times> 'pin \<times> 'txn" where
  "batch_temp_pin B [] pin t = (Inr (), pin, t)"
| "batch_temp_pin B (link # links) pin t =
     (case bs_extend_temp_pin B link pin t of
        (Inl e, pin, t) \<Rightarrow> (Inl e, pin, t)
      | (Inr _, pin, t) \<Rightarrow> batch_temp_pin B links pin t)"

definition batch_create_temp_pin :: "('db, 'txn, 'pin) block_store \<Rightarrow> 'txn \<Rightarrow> 'pin sresult \<times> 'txn" where
  "batch_create_temp_pin B t = (let (pin, t) = bs_temp_pin B t in (Inr pin, t))"

definition batch_iter :: "('db, 'txn, 'pin) block_store \<Rightarrow> 'txn \<Rightarrow> cid list sresult \<times> 'txn" where
  "batch_iter B t = bs_block_cids B t"

definition batch_contains :: "('db, 'txn, 'pin) block_store \<Rightarrow> cid \<Rightarrow> 'txn \<Rightarrow> bool sresult \<times> 'txn" where
  "batch_contains B cid t = bs_has_block B cid t"

definition batch_get ::
  "('db, 'txn, 'pin) block_store \<Rightarrow> cid \<Rightarrow> 'txn \<Rightarrow> bytes option sresult \<times> 'txn" where
  "batch_get B cid t = bs_get_block B cid t"

definition batch_insert ::
  "('db, 'txn, 'pin) block_store \<Rightarrow> block \<Rightarrow> 'txn \<Rightarrow> unit sresult \<times> 'txn" where
  "batch_insert B block t = bs_put_block B block t"

definition batch_resolve ::
  "('db, 'txn, 'pin) block_store \<Rightarrow> string \<Rightarrow> 'txn \<Rightarrow> cid option sresult \<times> 'txn" where
  "batch_resolve B alias t = bs_resolve B alias t"

definition batch_alias ::
  "('db, 'txn, 'pin) block_store \<Rightarrow> string \<Rightarrow> cid option \<Rightarrow> 'txn \<Rightarrow> unit sresult \<times> 'txn" where
  "batch_alias B alias cid t = bs_alias B alias cid t"

definition batch_aliases ::
  "('db, 'txn, 'pin) block_store \<Rightarrow> 'txn \<Rightarrow> (string \<times> cid) list sresult \<times> 'txn" where
  "batch_aliases B t = bs_aliases B t"

definition batch_reverse_alias ::
  "('db, 'txn, 'pin) block_store \<Rightarrow> cid \<Rightarrow> 'txn \<Rightarrow> string list option sresult \<times> 'txn" where
  "batch_reverse_alias B cid t = bs_reverse_alias B cid t"

definition batch_missing_blocks ::
  "('db, 'txn, 'pin) block_store \<Rightarrow> cid \<Rightarrow> 'txn \<Rightarrow> cid list sresult \<times> 'txn" where
  "batch_missing_blocks B cid t = bs_missing_blocks B cid t"

section \<open>The service\<close>

definition inc :: "string \<Rightarrow> (string, nat) hmap \<Rightarrow> (string, nat) hmap" where
  "inc label m = or_default_modify 0 label Suc m"

text \<open>
  \<open>rw\<close>: the closure may change what it has captured (\<open>'c\<close>), whether or not it succeeds.  The
  duration of the query is recorded when its timer is dropped, so in any case.
\<close>

definition rw_captured ::
  "('db, 'txn, 'pin) block_store \<Rightarrow> string \<Rightarrow> ('c \<Rightarrow> 'txn \<Rightarrow> 'r sresult \<times> 'c \<times> 'txn) \<Rightarrow> 'c \<Rightarrow>
     'db storage \<Rightarrow> 'r sresult \<times> 'c \<times> 'db storage" where
  "rw_captured B op f c s =
     (let s = s\<lparr>queries_total := inc op (queries_total s),
              query_duration := inc op (inc ''lock_wait'' (query_duration s))\<rparr>;
          (res, c, txn) = f c (bs_transaction B (st_db s))
      in case res of
           Inl e \<Rightarrow> (Inl e, c, s\<lparr>st_db := bs_abandon B txn\<rparr>)
         | Inr r \<Rightarrow>
             (case bs_commit B txn of
                (Inl e, db) \<Rightarrow> (Inl e, c, s\<lparr>st_db := db\<rparr>)
              | (Inr _, db) \<Rightarrow> (Inr r, c, s\<lparr>st_db := db\<rparr>)))"

definition rw ::
  "('db, 'txn, 'pin) block_store \<Rightarrow> string \<Rightarrow> ('txn \<Rightarrow> 'r sresult \<times> 'txn) \<Rightarrow>
     'db storage \<Rightarrow> 'r sresult \<times> 'db storage" where
  "rw B op f s =
     (let (res, _, s) = rw_captured B op (\<lambda>_ t. let (r, t) = f t in (r, (), t)) () s in (res, s))"

definition storage_create_temp_pin ::
  "('db, 'txn, 'pin) block_store \<Rightarrow> 'db storage \<Rightarrow> 'pin sresult \<times> 'db storage" where
  "storage_create_temp_pin B s = rw B ''create_temp_pin'' (batch_create_temp_pin B) s"

definition storage_temp_pin ::
  "('db, 'txn, 'pin) block_store \<Rightarrow> 'pin \<Rightarrow> cid list \<Rightarrow> 'db storage \<Rightarrow> unit sresult \<times> 'pin \<times> 'db storage" where
  "storage_temp_pin B temp cids s = rw_captured B ''temp_pin'' (batch_temp_pin B cids) temp s"

definition storage_iter ::
  "('db, 'txn, 'pin) block_store \<Rightarrow> 'db storage \<Rightarrow> cid list sresult \<times> 'db storage" where
  "storage_iter B s = rw B ''iter'' (batch_iter B) s"

definition storage_contains ::
  "('db, 'txn, 'pin) block_store \<Rightarrow> cid \<Rightarrow> 'db storage \<Rightarrow> bool sresult \<times> 'db storage" where
  "storage_contains B cid s = rw B ''contains'' (batch_contains B cid) s"

definition storage_get ::
  "('db, 'txn, 'pin) block_store \<Rightarrow> cid \<Rightarrow> 'db storage \<Rightarrow> bytes option sresult \<times> 'db storage" where
  "storage_get B cid s = rw B ''get'' (batch_get B cid) s"

definition storage_insert ::
  "('db, 'txn, 'pin) block_store \<Rightarrow> block \<Rightarrow> 'db storage \<Rightarrow> unit sresult \<times> 'db storage" where
  "storage_insert B block s = rw B ''insert'' (batch_insert B block) s"

definition storage_alias ::
  "('db, 'txn, 'pin) block_store \<Rightarrow> string \<Rightarrow> cid option \<Rightarrow> 'db storage \<Rightarrow> unit sresult \<times> 'db storage" where
  "storage_alias B alias cid s = rw B ''alias'' (batch_alias B alias cid) s"

definition storage_aliases ::
  "('db, 'txn, 'pin) block_store \<Rightarrow> 'db storage \<Rightarrow> (string \<times> cid) list sresult \<times> 'db storage" where
  "storage_aliases B s = rw B ''aliases'' (batch_aliases B) s"

definition storage_resolve ::
  "('db, 'txn, 'pin) block_store \<Rightarrow> string \<Rightarrow> 'db storage \<Rightarrow> cid option sresult \<times> 'db storage" where
  "storage_resolve B alias s = rw B ''resolve'' (batch_resolve B alias) s"

definition storage_reverse_alias ::
  "('db, 'txn, 'pin) block_store \<Rightarrow> cid \<Rightarrow> 'db storage \<Rightarrow> string list option sresult \<times> 'db storage" where
  "storage_reverse_alias B cid s = rw B ''reverse_alias'' (batch_reverse_alias B cid) s"

definition storage_missing_blocks ::
  "('db, 'txn, 'pin) block_store \<Rightarrow> cid \<Rightarrow> 'db storage \<Rightarrow> cid list sresult \<times> 'db storage" where
  "storage_missing_blocks B cid s = rw B ''missing_blocks'' (batch_missing_blocks B cid) s"

text \<open>
  The loop of \<open>evict\<close>: collect until nothing is left to collect.  The lock is free between two
  turns; \<open>other\<close> is what other users of the store do then.  Fuel bounds the turns.
\<close>

fun evict_loop ::
  "('db, 'txn, 'pin) block_store \<Rightarrow> (nat \<Rightarrow> 'db \<Rightarrow> 'db) \<Rightarrow> nat \<Rightarrow> duration \<Rightarrow> nat \<Rightarrow> 'db \<Rightarrow>
     (unit sresult \<times> 'db) option" where
  "evict_loop B other min_blocks target 0 db = None"
| "evict_loop B other min_blocks target (Suc fuel) db =
     (case bs_incremental_gc B min_blocks target db of
        (Inl e, db) \<Rightarrow> Some (Inl e, db)
      | (Inr True, db) \<Rightarrow> Some (Inr (), db)
      | (Inr False, db) \<Rightarrow> evict_loop B other min_blocks target fuel (other fuel db))"

text \<open>
  \<open>evict\<close> and \<open>flush\<close> run on a blocking thread; \<open>lost\<close> is a failure of that task, with the
  state it leaves the store in.
\<close>

definition storage_evict ::
  "('db, 'txn, 'pin) block_store \<Rightarrow> (nat \<Rightarrow> 'db \<Rightarrow> 'db) \<Rightarrow> (string \<times> 'db) option \<Rightarrow> nat \<Rightarrow> 'db storage \<Rightarrow>
     (unit sresult \<times> 'db storage) option" where
  "storage_evict B other lost fuel s =
     (case lost of
        Some (e, db) \<Rightarrow> Some (Inl (JoinError e), s\<lparr>st_db := db\<rparr>)
      | None \<Rightarrow>
          map_option (\<lambda>(res, db). (res, s\<lparr>st_db := db\<rparr>))
            (evict_loop B other (st_gc_min_blocks s) (st_gc_target_duration s) fuel (st_db s)))"

text \<open>\<open>observe_future\<close>: a future that fails leaves no sample of its duration.\<close>

definition observe_future :: "string \<Rightarrow> 'r sresult \<Rightarrow> 'db storage \<Rightarrow> 'db storage" where
  "observe_future name res s =
     (let s = s\<lparr>queries_total := inc name (queries_total s)\<rparr>
      in case res of
           Inr _ \<Rightarrow> s\<lparr>query_duration := inc name (query_duration s)\<rparr>
         | Inl _ \<Rightarrow> s)"

definition storage_flush ::
  "('db, 'txn, 'pin) block_store \<Rightarrow> (string \<times> 'db) option \<Rightarrow> 'db storage \<Rightarrow> unit sresult \<times> 'db storage" where
  "storage_flush B lost s =
     (case lost of
        Some (e, db) \<Rightarrow>
          (Inl (JoinError e), observe_future ''flush'' (Inl (JoinError e) :: unit sresult) (s\<lparr>st_db := db\<rparr>))
      | None \<Rightarrow>
          let (res, db) = bs_flush B (st_db s)
          in (res, observe_future ''flush'' (Inr res) (s\<lparr>st_db := db\<rparr>)))"

text \<open>The collector of the store's size: gauges are signed.\<close>

definition collect_stats :: "('db, 'txn, 'pin) block_store \<Rightarrow> 'db \<Rightarrow> (string \<times> int) list" where
  "collect_stats B db =
     (case bs_stats B db of
        Inr (blocks, bytes) \<Rightarrow>
          [(''block_store_block_count'', sint blocks), (''block_store_size'', sint bytes)]
      | Inl _ \<Rightarrow> [])"

end
