(* ===== verification/Ipfs.thy ===== *)
theory Ipfs
  imports Storage Service
begin

text \<open>
  The node: \<open>Ipfs\<close> of \<open>src/src/lib.rs\<close>, which joins the storage service and the network
  service.

  Most methods pass on to one of the two. \<open>res\<close> is the outcome of putting a command on the
  bounded queue (see \<open>Service\<close>), \<open>tx\<close> the channel made for the answer, \<open>b\<close> the address book
  that the readers of the network service share. \<open>fetch\<close> and \<open>sync\<close> use both services.
\<close>

record 'db ipfs =
  ip_storage :: "'db storage"
  ip_network :: service

record ipfs_config =
  ipc_storage :: storage_config
  ipc_network :: network_config

text \<open>\<open>Config::new\<close>.\<close>

definition ipfs_config_new :: "(nat \<Rightarrow> network_config) \<Rightarrow> path \<Rightarrow> nat \<Rightarrow> ipfs_config" where
  "ipfs_config_new network_new path keypair =
     \<lparr>ipc_storage = storage_config_new (Some (path @ [''blocks''])) None 0 (10000 * 10 ^ 6),
      ipc_network = network_new keypair\<rparr>"

datatype ipfs_error =
    IpfsStorage storage_error
  | IpfsService service_error
  | IpfsSend string
  | IpfsQuery query_error
  | IpfsBlockNotFound cid

text \<open>\<open>new0\<close>: the storage is opened first; the state of the swarm task is part of the result.\<close>

definition ipfs_new ::
  "(storage_config \<Rightarrow> 'db storage sresult) \<Rightarrow>
     (network_config \<Rightarrow> service_error + service \<times> transport \<times> net \<times> identify_config option) \<Rightarrow>
     ipfs_config \<Rightarrow> ipfs_error + 'db ipfs \<times> net" where
  "ipfs_new open_storage network_new config =
     (case open_storage (ipc_storage config) of
        Inl e \<Rightarrow> Inl (IpfsStorage e)
      | Inr storage \<Rightarrow>
          (case network_new (ipc_network config) of
             Inl e \<Rightarrow> Inl (IpfsService e)
           | Inr (network, _, n, _) \<Rightarrow> Inr (\<lparr>ip_storage = storage, ip_network = network\<rparr>, n)))"

section \<open>The store that bitswap uses\<close>

definition bitswap_contains ::
  "('db, 'txn, 'pin) block_store \<Rightarrow> cid \<Rightarrow> 'db storage \<Rightarrow> bool sresult \<times> 'db storage" where
  "bitswap_contains B cid s = storage_contains B cid s"

definition bitswap_get_block ::
  "('db, 'txn, 'pin) block_store \<Rightarrow> cid \<Rightarrow> 'db storage \<Rightarrow> bytes option sresult \<times> 'db storage" where
  "bitswap_get_block B cid s = storage_get B cid s"

definition bitswap_insert ::
  "('db, 'txn, 'pin) block_store \<Rightarrow> block \<Rightarrow> 'db storage \<Rightarrow> unit sresult \<times> 'db storage" where
  "bitswap_insert B block s = storage_insert B block s"

definition bitswap_missing_blocks ::
  "('db, 'txn, 'pin) block_store \<Rightarrow> cid \<Rightarrow> 'db storage \<Rightarrow> cid list sresult \<times> 'db storage" where
  "bitswap_missing_blocks B cid s = storage_missing_blocks B cid s"

section \<open>Network methods\<close>

definition ipfs_local_public_key :: "'db ipfs \<Rightarrow> nat" where
  "ipfs_local_public_key i = svc_public_key (ip_network i)"

definition ipfs_local_peer_id :: "'db ipfs \<Rightarrow> peer_id" where
  "ipfs_local_peer_id i = svc_peer_id (ip_network i)"

definition ipfs_local_node_name :: "'db ipfs \<Rightarrow> string" where
  "ipfs_local_node_name i = svc_node_name (ip_network i)"

text \<open>A method of the network service, run on that part of the node.\<close>

definition on_network :: "(service \<Rightarrow> service) \<Rightarrow> 'db ipfs \<Rightarrow> 'db ipfs" where
  "on_network f i = i\<lparr>ip_network := f (ip_network i)\<rparr>"

definition ask_network :: "(service \<Rightarrow> 'r \<times> service) \<Rightarrow> 'db ipfs \<Rightarrow> 'r \<times> 'db ipfs" where
  "ask_network f i = (let (r, n) = f (ip_network i) in (r, i\<lparr>ip_network := n\<rparr>))"

definition ipfs_add_external_address :: "try_send \<Rightarrow> multiaddr \<Rightarrow> 'db ipfs \<Rightarrow> 'db ipfs" where
  "ipfs_add_external_address res addr i = on_network (svc_add_external_address res addr) i"

definition ipfs_add_address :: "try_send \<Rightarrow> peer_id \<Rightarrow> multiaddr \<Rightarrow> 'db ipfs \<Rightarrow> 'db ipfs" where
  "ipfs_add_address res peer addr i = on_network (svc_add_address res peer addr) i"

definition ipfs_add_addresses :: "try_send \<Rightarrow> (peer_id \<times> multiaddr) list \<Rightarrow> 'db ipfs \<Rightarrow> 'db ipfs" where
  "ipfs_add_addresses res addresses i = on_network (svc_add_addresses res addresses) i"

definition ipfs_remove_address :: "try_send \<Rightarrow> peer_id \<Rightarrow> multiaddr \<Rightarrow> 'db ipfs \<Rightarrow> 'db ipfs" where
  "ipfs_remove_address res peer addr i = on_network (svc_remove_address res peer addr) i"

definition ipfs_prune_peers :: "try_send \<Rightarrow> duration \<Rightarrow> 'db ipfs \<Rightarrow> 'db ipfs" where
  "ipfs_prune_peers res min_age i = on_network (svc_prune_peers res min_age) i"

definition ipfs_dial :: "try_send \<Rightarrow> peer_id \<Rightarrow> 'db ipfs \<Rightarrow> 'db ipfs" where
  "ipfs_dial res peer i = on_network (svc_dial res peer) i"

definition ipfs_dial_address :: "try_send \<Rightarrow> peer_id \<Rightarrow> multiaddr \<Rightarrow> 'db ipfs \<Rightarrow> 'db ipfs" where
  "ipfs_dial_address res peer addr i = on_network (svc_dial_address res peer addr) i"

definition ipfs_ban :: "try_send \<Rightarrow> peer_id \<Rightarrow> 'db ipfs \<Rightarrow> 'db ipfs" where
  "ipfs_ban res peer i = on_network (svc_ban res peer) i"

definition ipfs_unban :: "try_send \<Rightarrow> peer_id \<Rightarrow> 'db ipfs \<Rightarrow> 'db ipfs" where
  "ipfs_unban res peer i = on_network (svc_unban res peer) i"

definition ipfs_listeners :: "address_book \<Rightarrow> multiaddr list" where
  "ipfs_listeners b = svc_listeners b"

definition ipfs_external_addresses :: "address_book \<Rightarrow> address_record list" where
  "ipfs_external_addresses b = svc_external_addresses b"

definition ipfs_peers :: "address_book \<Rightarrow> peer_id list" where
  "ipfs_peers b = svc_peers b"

definition ipfs_connections :: "address_book \<Rightarrow> (peer_id \<times> multiaddr \<times> time \<times> direction) list" where
  "ipfs_connections b = svc_connections b"

definition ipfs_peer_info :: "peer_id \<Rightarrow> address_book \<Rightarrow> peer_info option" where
  "ipfs_peer_info peer b = svc_peer_info peer b"

definition ipfs_is_connected :: "peer_id \<Rightarrow> address_book \<Rightarrow> bool" where
  "ipfs_is_connected peer b = is_connected peer b"

definition ipfs_is_bootstrapped :: "net \<Rightarrow> bool" where
  "ipfs_is_bootstrapped n = bootstrapped n"

definition ipfs_listen_on ::
  "try_send \<Rightarrow> multiaddr \<Rightarrow> channel \<Rightarrow> 'db ipfs \<Rightarrow> listener_event list \<times> 'db ipfs" where
  "ipfs_listen_on res addr tx i = ask_network (svc_listen_on res addr tx) i"

definition ipfs_bootstrap ::
  "try_send \<Rightarrow> (peer_id \<times> multiaddr) list \<Rightarrow> channel \<Rightarrow> 'db ipfs \<Rightarrow> unit response \<times> 'db ipfs" where
  "ipfs_bootstrap res nodes tx i = ask_network (svc_bootstrap res nodes tx) i"

definition ipfs_providers ::
  "try_send \<Rightarrow> key \<Rightarrow> channel \<Rightarrow> 'db ipfs \<Rightarrow> peer_id list response \<times> 'db ipfs" where
  "ipfs_providers res k tx i = ask_network (svc_providers res k tx) i"

definition ipfs_provide ::
  "try_send \<Rightarrow> key \<Rightarrow> channel \<Rightarrow> 'db ipfs \<Rightarrow> unit response \<times> 'db ipfs" where
  "ipfs_provide res k tx i = ask_network (svc_provide res k tx) i"

definition ipfs_get_record ::
  "try_send \<Rightarrow> key \<Rightarrow> quorum \<Rightarrow> channel \<Rightarrow> 'db ipfs \<Rightarrow> peer_record list response \<times> 'db ipfs" where
  "ipfs_get_record res k q tx i = ask_network (svc_get_record res k q tx) i"

definition ipfs_put_record ::
  "try_send \<Rightarrow> kad_record \<Rightarrow> quorum \<Rightarrow> channel \<Rightarrow> 'db ipfs \<Rightarrow> unit response \<times> 'db ipfs" where
  "ipfs_put_record res r q tx i = ask_network (svc_put_record res r q tx) i"

definition ipfs_subscribe ::
  "try_send \<Rightarrow> string \<Rightarrow> channel \<Rightarrow> 'db ipfs \<Rightarrow> channel response \<times> 'db ipfs" where
  "ipfs_subscribe res topic tx i = ask_network (svc_subscribe res topic tx) i"

definition ipfs_publish ::
  "try_send \<Rightarrow> string \<Rightarrow> string \<Rightarrow> channel \<Rightarrow> 'db ipfs \<Rightarrow> unit response \<times> 'db ipfs" where
  "ipfs_publish res topic msg tx i = ask_network (svc_publish res topic msg tx) i"

definition ipfs_broadcast ::
  "try_send \<Rightarrow> string \<Rightarrow> string \<Rightarrow> channel \<Rightarrow> 'db ipfs \<Rightarrow> unit response \<times> 'db ipfs" where
  "ipfs_broadcast res topic msg tx i = ask_network (svc_broadcast res topic msg tx) i"

definition ipfs_swarm_events ::
  "try_send \<Rightarrow> channel \<Rightarrow> 'db ipfs \<Rightarrow> channel response \<times> 'db ipfs" where
  "ipfs_swarm_events res tx i = ask_network (svc_swarm_events res tx) i"

definition ipfs_unprovide :: "try_send \<Rightarrow> key \<Rightarrow> 'db ipfs \<Rightarrow> (string + unit) \<times> 'db ipfs" where
  "ipfs_unprovide res k i = ask_network (svc_unprovide res k) i"

definition ipfs_remove_record :: "try_send \<Rightarrow> key \<Rightarrow> 'db ipfs \<Rightarrow> (string + unit) \<times> 'db ipfs" where
  "ipfs_remove_record res k i = ask_network (svc_remove_record res k) i"

section \<open>Storage methods\<close>

definition ask_storage :: "('db storage \<Rightarrow> 'r \<times> 'db storage) \<Rightarrow> 'db ipfs \<Rightarrow> 'r \<times> 'db ipfs" where
  "ask_storage f i = (let (r, s) = f (ip_storage i) in (r, i\<lparr>ip_storage := s\<rparr>))"

definition ipfs_create_temp_pin ::
  "('db, 'txn, 'pin) block_store \<Rightarrow> 'db ipfs \<Rightarrow> 'pin sresult \<times> 'db ipfs" where
  "ipfs_create_temp_pin B i = ask_storage (storage_create_temp_pin B ) i"

definition ipfs_iter ::
  "('db, 'txn, 'pin) block_store \<Rightarrow> 'db ipfs \<Rightarrow> cid list sresult \<times> 'db ipfs" where
  "ipfs_iter B i = ask_storage (storage_iter B ) i"

definition ipfs_contains ::
  "('db, 'txn, 'pin) block_store \<Rightarrow> cid \<Rightarrow> 'db ipfs \<Rightarrow> bool sresult \<times> 'db ipfs" where
  "ipfs_contains B cid i = ask_storage (storage_contains B cid) i"

definition ipfs_insert ::
  "('db, 'txn, 'pin) block_store \<Rightarrow> block \<Rightarrow> 'db ipfs \<Rightarrow> unit sresult \<times> 'db ipfs" where
  "ipfs_insert B block i = ask_storage (storage_insert B block) i"

definition ipfs_alias ::
  "('db, 'txn, 'pin) block_store \<Rightarrow> string \<Rightarrow> cid option \<Rightarrow> 'db ipfs \<Rightarrow> unit sresult \<times> 'db ipfs" where
  "ipfs_alias B alias cid i = ask_storage (storage_alias B alias cid) i"

definition ipfs_aliases ::
  "('db, 'txn, 'pin) block_store \<Rightarrow> 'db ipfs \<Rightarrow> (string \<times> cid) list sresult \<times> 'db ipfs" where
  "ipfs_aliases B i = ask_storage (storage_aliases B ) i"

definition ipfs_resolve ::
  "('db, 'txn, 'pin) block_store \<Rightarrow> string \<Rightarrow> 'db ipfs \<Rightarrow> cid option sresult \<times> 'db ipfs" where
  "ipfs_resolve B alias i = ask_storage (storage_resolve B alias) i"

definition ipfs_reverse_alias ::
  "('db, 'txn, 'pin) block_store \<Rightarrow> cid \<Rightarrow> 'db ipfs \<Rightarrow> string list option sresult \<times> 'db ipfs" where
  "ipfs_reverse_alias B cid i = ask_storage (storage_reverse_alias B cid) i"

definition ipfs_flush ::
  "('db, 'txn, 'pin) block_store \<Rightarrow> (string \<times> 'db) option \<Rightarrow> 'db ipfs \<Rightarrow> unit sresult \<times> 'db ipfs" where
  "ipfs_flush B lost i = ask_storage (storage_flush B lost) i"

definition ipfs_temp_pin ::
  "('db, 'txn, 'pin) block_store \<Rightarrow> 'pin \<Rightarrow> cid \<Rightarrow> 'db ipfs \<Rightarrow> unit sresult \<times> 'pin \<times> 'db ipfs" where
  "ipfs_temp_pin B temp cid i =
     (let (r, temp, s) = storage_temp_pin B temp [cid] (ip_storage i) in (r, temp, i\<lparr>ip_storage := s\<rparr>))"

definition ipfs_evict ::
  "('db, 'txn, 'pin) block_store \<Rightarrow> (nat \<Rightarrow> 'db \<Rightarrow> 'db) \<Rightarrow> (string \<times> 'db) option \<Rightarrow> nat \<Rightarrow> 'db ipfs \<Rightarrow>
     (unit sresult \<times> 'db ipfs) option" where
  "ipfs_evict B other lost fuel i =
     map_option (\<lambda>(r, s). (r, i\<lparr>ip_storage := s\<rparr>)) (storage_evict B other lost fuel (ip_storage i))"

definition ipfs_batch_ops ::
  "('db, 'txn, 'pin) block_store \<Rightarrow> ('txn \<Rightarrow> 'r sresult \<times> 'txn) \<Rightarrow> 'db ipfs \<Rightarrow> 'r sresult \<times> 'db ipfs" where
  "ipfs_batch_ops B f i = ask_storage (rw B ''batch_ops'' f) i"

definition ipfs_get ::
  "('db, 'txn, 'pin) block_store \<Rightarrow> cid \<Rightarrow> 'db ipfs \<Rightarrow> (ipfs_error + block) \<times> 'db ipfs" where
  "ipfs_get B cid i =
     (let (r, i) = ask_storage (storage_get B cid) i
      in (case r of
            Inl e \<Rightarrow> Inl (IpfsStorage e)
          | Inr (Some data) \<Rightarrow> Inr (cid, data)
          | Inr None \<Rightarrow> Inl (IpfsBlockNotFound cid), i))"

text \<open>
  \<open>fetch\<close>: \<open>outcome\<close> is what awaiting the query gives, \<open>meanwhile\<close> what happens to the storage
  until then (bitswap inserts what it receives).
\<close>

definition ipfs_fetch ::
  "('db, 'txn, 'pin) block_store \<Rightarrow> try_send \<Rightarrow> query_error + unit \<Rightarrow> ('db storage \<Rightarrow> 'db storage) \<Rightarrow>
     cid \<Rightarrow> peer_id list \<Rightarrow> channel \<Rightarrow> 'db ipfs \<Rightarrow> (ipfs_error + block) \<times> 'db ipfs" where
  "ipfs_fetch B res outcome meanwhile cid provs tx i =
     (let (r, i) = ipfs_get B cid i
      in if r \<noteq> Inl (IpfsBlockNotFound cid) then (r, i)
         else if provs = [] then (Inl (IpfsBlockNotFound cid), i)
         else
           let (response, i) = ask_network (svc_get res cid provs tx) i
           in case response of
                ReadyError e \<Rightarrow> (Inl (IpfsSend e), i)
              | ReadyValue (u :: unit) \<Rightarrow> (Inl (IpfsBlockNotFound cid), i)
              | AwaitReply _ \<Rightarrow>
                  (case outcome of
                     Inl e \<Rightarrow> (Inl (IpfsQuery e), i)
                   | Inr _ \<Rightarrow> ipfs_get B cid (i\<lparr>ip_storage := meanwhile (ip_storage i)\<rparr>)))"

text \<open>\<open>sync\<close>: an error of the storage counts as nothing missing (\<open>.ok().unwrap_or_default()\<close>).\<close>

definition ipfs_sync ::
  "('db, 'txn, 'pin) block_store \<Rightarrow> try_send \<Rightarrow> cid \<Rightarrow> peer_id list \<Rightarrow> channel \<Rightarrow> 'db ipfs \<Rightarrow>
     sync_query response \<times> 'db ipfs" where
  "ipfs_sync B res cid provs tx i =
     (let (r, i) = ask_storage (storage_missing_blocks B cid) i;
          missing = (case r of Inr missing \<Rightarrow> missing | Inl _ \<Rightarrow> [])
      in ask_network (svc_sync res cid provs missing tx) i)"

section \<open>The \<open>Store\<close> trait\<close>

text \<open>Its other methods are those above; fetching and syncing ask all known peers, and
  syncing then awaits the query it is given (\<open>sync_query_poll\<close>).\<close>

definition store_fetch ::
  "('db, 'txn, 'pin) block_store \<Rightarrow> try_send \<Rightarrow> query_error + unit \<Rightarrow> ('db storage \<Rightarrow> 'db storage) \<Rightarrow>
     cid \<Rightarrow> address_book \<Rightarrow> channel \<Rightarrow> 'db ipfs \<Rightarrow> (ipfs_error + block) \<times> 'db ipfs" where
  "store_fetch B res outcome meanwhile cid b tx i =
     ipfs_fetch B res outcome meanwhile cid (ipfs_peers b) tx i"

definition store_sync ::
  "('db, 'txn, 'pin) block_store \<Rightarrow> try_send \<Rightarrow> cid \<Rightarrow> address_book \<Rightarrow> channel \<Rightarrow> 'db ipfs \<Rightarrow>
     sync_query response \<times> 'db ipfs" where
  "store_sync B res cid b tx i = ipfs_sync B res cid (ipfs_peers b) tx i"

text \<open>\<open>register_metrics\<close>: the collectors in the order they are registered, up to an error.\<close>

fun register_all :: "(string \<Rightarrow> 'r \<Rightarrow> nat + 'r) \<Rightarrow> string list \<Rightarrow> 'r \<Rightarrow> (nat + unit) \<times> 'r" where
  "register_all reg [] r = (Inr (), r)"
| "register_all reg (c # cs) r =
     (case reg c r of Inl e \<Rightarrow> (Inl e, r) | Inr r \<Rightarrow> register_all reg cs r)"

definition storage_metrics :: "string list" where
  "storage_metrics = [''QUERIES_TOTAL'', ''QUERY_DURATION'', ''SqliteStoreCollector'']"

definition net_metrics :: "string list" where
  "net_metrics =
     [''LISTENERS'', ''LISTEN_ADDRS'', ''EXTERNAL_ADDRS'', ''DISCOVERED'', ''CONNECTED'',
      ''CONNECTIONS'', ''LISTENER_ERROR'', ''ADDRESS_REACH_FAILURE'', ''DIAL_FAILURE'']"

definition ipfs_register_metrics :: "(string \<Rightarrow> 'r \<Rightarrow> nat + 'r) \<Rightarrow> 'r \<Rightarrow> (nat + unit) \<times> 'r" where
  "ipfs_register_metrics reg r =
     (case register_all reg storage_metrics r of
        (Inl e, r) \<Rightarrow> (Inl e, r)
      | (Inr _, r) \<Rightarrow> register_all reg net_metrics r)"

end
