(* ===== verification/Cli_Main.thy ===== *)
theory Cli_Main
  imports Cli Ipfs
begin

text \<open>
  The command line tool: \<open>src/cli/src/main.rs\<close>.  \<open>cli_network_config\<close> is the configuration \<open>run\<close>
  makes of its arguments, \<open>cli_start\<close> what it does before the loop, \<open>forward_event\<close> the task
  that prints the node's events, \<open>run_command\<close> the match in the loop and \<open>cli_loop\<close> the loop over
  the lines of standard input.  What a command needs from outside (outcomes of the queue and of
  awaited queries, the shared address book) is the record \<open>cli_io\<close>.
\<close>

section \<open>Starting\<close>

definition cli_storage_config :: "cli_config \<Rightarrow> storage_config" where
  "cli_storage_config config =
     storage_config_new (map_option (\<lambda>p. [p]) (cc_path config)) None 10 (10000 * 10 ^ 6)"

definition cli_node_name :: "cli_config \<Rightarrow> string" where
  "cli_node_name config =
     (case cc_node_name config of
        Some name \<Rightarrow> name
      | None \<Rightarrow> ''node'' @ show_nat (unat (cc_keypair config)))"

text \<open>
  \<open>NetworkConfig { .., ..Default::default() }\<close>: \<open>generated_key\<close> is the key \<open>default\<close> generates,
  \<open>key_from\<close> makes a key of a secret.
\<close>

definition cli_network_config ::
  "string \<Rightarrow> string \<Rightarrow> (nat \<Rightarrow> nat) \<Rightarrow> nat \<Rightarrow> (8 word list \<Rightarrow> nat) \<Rightarrow> cli_config \<Rightarrow> network_config" where
  "cli_network_config generated_name default_agent public_key generated_key key_from config =
     (let network = (network_config_new generated_name default_agent public_key generated_key)
            \<lparr>nc_node_key := key_from (secret (cc_keypair config)),
             nc_mdns := (if cc_enable_mdns config then Some 0 else None),
             nc_kad := None,
             nc_port_reuse := \<not> cc_disable_port_reuse config\<rparr>
      in network\<lparr>nc_identify :=
           map_option (\<lambda>c. c\<lparr>ic_agent_version := cli_node_name config\<rparr>) (nc_identify network)\<rparr>)"

text \<open>
  Listening (the stream of listener events is dropped at once, so one channel \<open>tx\<close> stands for all) and
  external addresses; a bootstrap list is \<open>unimplemented!()\<close>, which panics.
\<close>

definition cli_start :: "try_send \<Rightarrow> channel \<Rightarrow> cli_config \<Rightarrow> 'db ipfs \<Rightarrow> 'db ipfs option" where
  "cli_start res tx config i =
     (let i = fold (\<lambda>addr i. snd (ipfs_listen_on res addr tx i)) (cc_listen_on config) i;
          i = fold (ipfs_add_external_address res) (cc_external config) i
      in if cc_bootstrap config \<noteq> [] then None else Some i)"

section \<open>Events\<close>

definition forward_event :: "(connection_failure \<Rightarrow> string) \<Rightarrow> address_book \<Rightarrow> event \<Rightarrow> cli_event option" where
  "forward_event debug_failure b ev =
     (case ev of
        NewListener _ \<Rightarrow> Some CliNewListener
      | NewListenAddr _ addr \<Rightarrow> Some (CliNewListenAddr addr)
      | ExpiredListenAddr _ addr \<Rightarrow> Some (CliExpiredListenAddr addr)
      | ListenerClosed _ \<Rightarrow> Some CliListenerClosed
      | NewExternalAddr addr \<Rightarrow> Some (CliNewExternalAddr addr)
      | ExpiredExternalAddr addr \<Rightarrow> Some (CliExpiredExternalAddr addr)
      | Discovered peer \<Rightarrow> Some (CliDiscovered peer)
      | Unreachable peer \<Rightarrow> Some (CliUnreachable peer)
      | Connected peer \<Rightarrow> Some (CliConnected peer)
      | Disconnected peer \<Rightarrow> Some (CliDisconnected peer)
      | Subscribed peer topic \<Rightarrow> Some (CliSubscribed peer topic)
      | Unsubscribed peer topic \<Rightarrow> Some (CliUnsubscribed peer topic)
      | Bootstrapped \<Rightarrow> Some CliBootstrapped
      | NewInfo peer \<Rightarrow>
          (case ipfs_peer_info peer b of
             Some info \<Rightarrow> Some (CliPeerInfo peer (peer_info_io_from debug_failure info))
           | None \<Rightarrow> Some (CliPeerRemoved peer))
      | ListenerError _ _ \<Rightarrow> None
      | DialFailure p a e \<Rightarrow> Some (CliDialFailure p a e)
      | ConnectionEstablished p a \<Rightarrow> Some (CliConnectionEstablished p (get_remote_address a))
      | ConnectionClosed p a \<Rightarrow> Some (CliConnectionClosed p (get_remote_address a))
      | AddressChanged _ _ _ \<Rightarrow> None)"

section \<open>Commands\<close>

record 'db cli_io =
  io_res :: try_send
  io_tx :: channel
  io_book :: address_book
  io_lost :: "(string \<times> 'db) option"
  io_synced :: "ipfs_error + unit"
  io_error_str :: "ipfs_error \<Rightarrow> string"

record 'db cli =
  cli_node :: "'db ipfs"
  cli_out :: "cli_event list"
  cli_err :: "string list"

text \<open>
  A command: its result, the node afterwards, and what it prints.  A query that \<open>sync\<close> returns at once is
  already complete, so one poll ends it; \<open>io_synced\<close> is the outcome of one that is awaited.
\<close>

fun run_command ::
  "('db, 'txn, 'pin) block_store \<Rightarrow> 'db cli_io \<Rightarrow> command \<Rightarrow> 'db ipfs \<Rightarrow>
     (ipfs_error + cli_event list) \<times> 'db ipfs" where
  "run_command B io (CliAddAddress peer addr) i = (Inr [], ipfs_add_address (io_res io) peer addr i)"
| "run_command B io (CliDial peer) i = (Inr [], ipfs_dial (io_res io) peer i)"
| "run_command B io CliPrunePeers i = (Inr [], ipfs_prune_peers (io_res io) 0 i)"
| "run_command B io (CliGet cid) i = apfst (map_sum id (\<lambda>block. [CliBlock block])) (ipfs_get B cid i)"
| "run_command B io (CliInsert block) i = apfst (map_sum IpfsStorage (\<lambda>_. [])) (ipfs_insert B block i)"
| "run_command B io (CliAlias alias cid) i = apfst (map_sum IpfsStorage (\<lambda>_. [])) (ipfs_alias B alias cid i)"
| "run_command B io CliFlush i = apfst (map_sum IpfsStorage (\<lambda>_. [CliFlushed])) (ipfs_flush B (io_lost io) i)"
| "run_command B io (CliSync cid) i =
     (let (response, i) = ipfs_sync B (io_res io) cid (ipfs_peers (io_book io)) (io_tx io) i
      in (case response of
            ReadyError e \<Rightarrow> Inl (IpfsSend e)
          | ReadyValue q \<Rightarrow>
              (case sync_query_poll 1 (sq_rx q) of
                 Some (Ready (Inl e), _) \<Rightarrow> Inl (IpfsQuery (QueryFailed e))
               | _ \<Rightarrow> Inr [CliSynced])
          | AwaitReply _ \<Rightarrow> map_sum id (\<lambda>_. [CliSynced]) (io_synced io), i))"

text \<open>One turn of the loop on a line that was read; \<open>None\<close> is a panic.\<close>

definition cli_line ::
  "('db, 'txn, 'pin) block_store \<Rightarrow> codec \<Rightarrow> 'db cli_io \<Rightarrow> string \<Rightarrow> 'db cli \<Rightarrow> 'db cli option" where
  "cli_line B C io line st =
     (case parse_command C line of
        None \<Rightarrow> None
      | Some parsed \<Rightarrow>
          let (result, node) =
                (case parsed of
                   Inl err \<Rightarrow> (Inl err, cli_node st)
                 | Inr c \<Rightarrow> apfst (map_sum (io_error_str io) id) (run_command B io c (cli_node st)));
              st = st\<lparr>cli_node := node\<rparr>
          in Some (case result of
                     Inr printed \<Rightarrow> st\<lparr>cli_out := cli_out st @ printed\<rparr>
                   | Inl err \<Rightarrow>
                       st\<lparr>cli_err := cli_err st @ [''main loop error (line = '' @ line @ ''): '' @ err]\<rparr>))"

text \<open>
  The loop: \<open>read_line\<close> gives the next line (\<open>Inr\<close>), or an error that ends the loop (\<open>Inl\<close>); at the
  end of the input it reads nothing, successfully, every time.  Fuel counts the turns; the result
  says whether the loop has ended.
\<close>

fun cli_loop ::
  "('db, 'txn, 'pin) block_store \<Rightarrow> codec \<Rightarrow> 'db cli_io \<Rightarrow> nat \<Rightarrow> (nat + string) list \<Rightarrow> 'db cli \<Rightarrow>
     (nat option \<times> 'db cli) option" where
  "cli_loop B C io 0 input st = Some (None, st)"
| "cli_loop B C io (Suc turns) [] st =
     (case cli_line B C io [] st of None \<Rightarrow> None | Some st \<Rightarrow> cli_loop B C io turns [] st)"
| "cli_loop B C io (Suc turns) (Inl e # input) st = Some (Some e, st)"
| "cli_loop B C io (Suc turns) (Inr line # input) st =
     (case cli_line B C io line st of None \<Rightarrow> None | Some st \<Rightarrow> cli_loop B C io turns input st)"

end
