(* ===== verification/Harness.thy ===== *)
theory Harness
  imports Cli_Main
begin

text \<open>
  The simulation harness: \<open>src/harness/src/lib.rs\<close> and the checks its programs under
  \<open>src/harness/src/bin\<close> make on the events of the nodes.

  The network simulator is another crate: a simulated machine has a number and an IPv4 address.
  The harness starts one command line tool per machine, sends it commands and waits for events.
\<close>

section \<open>Machines and roles\<close>

record machine =
  m_id :: nat
  m_addr :: ip4

record harness_opts =
  n_nodes :: nat
  n_providers :: nat
  n_consumers :: nat
  n_spam :: nat
  delay_ms :: nat
  ho_enable_mdns :: bool
  tree_width :: nat
  tree_depth :: nat
  ho_disable_port_reuse :: bool

text \<open>\<open>peer_id\<close> of the command line crate; \<open>peer_from\<close> makes a peer id of a secret key.\<close>

definition cli_peer_id :: "(8 word list \<Rightarrow> peer_id) \<Rightarrow> 64 word \<Rightarrow> peer_id" where
  "cli_peer_id peer_from i = peer_from (secret i)"

definition machine_peer_id :: "(8 word list \<Rightarrow> peer_id) \<Rightarrow> machine \<Rightarrow> peer_id" where
  "machine_peer_id peer_from m = cli_peer_id peer_from (of_nat (m_id m))"

definition machine_multiaddr :: "machine \<Rightarrow> multiaddr" where
  "machine_multiaddr m = [Ip4 (m_addr m), Tcp 30000]"

definition harness_is_loopback :: "multiaddr \<Rightarrow> bool" where
  "harness_is_loopback addr =
     (case first_protocol addr of
        Some (Ip4 ip) \<Rightarrow> if \<not> ip4_is_loopback ip then False else True
      | _ \<Rightarrow> True)"

datatype role = Provider | Consumer | Idle

fun role_range :: "harness_opts \<Rightarrow> role \<Rightarrow> nat \<times> nat" where
  "role_range opts Provider = (0, n_providers opts)"
| "role_range opts Consumer = (n_providers opts, n_providers opts + n_consumers opts)"
| "role_range opts Idle = (n_providers opts + n_consumers opts, n_nodes opts)"

text \<open>\<open>nodes\<close>: slicing panics (\<open>None\<close>) if the range is not inside the list of machines.\<close>

definition nodes ::
  "(8 word list \<Rightarrow> peer_id) \<Rightarrow> machine list \<Rightarrow> nat \<times> nat \<Rightarrow> (nat \<times> peer_id \<times> multiaddr) list option" where
  "nodes peer_from machines bounds =
     (if fst bounds \<le> snd bounds \<and> snd bounds \<le> length machines
      then Some (map (\<lambda>m. let peer = machine_peer_id peer_from m
                         in (m_id m, peer, push_protocol (machine_multiaddr m) (P2p (PeerHash peer))))
                  (take (snd bounds - fst bounds) (drop (fst bounds) machines)))
      else None)"

definition role_nodes ::
  "(8 word list \<Rightarrow> peer_id) \<Rightarrow> machine list \<Rightarrow> harness_opts \<Rightarrow> role \<Rightarrow> (nat \<times> peer_id \<times> multiaddr) list option" where
  "role_nodes peer_from machines opts r = nodes peer_from machines (role_range opts r)"

text \<open>The configuration of node \<open>i\<close> in \<open>run_netsim\<close>, in the temporary directory \<open>tmp\<close>.\<close>

definition node_name :: "harness_opts \<Rightarrow> nat \<Rightarrow> string" where
  "node_name opts i =
     (if i < n_providers opts then ''provider'' @ show_nat i
      else if i < n_providers opts + n_consumers opts then ''consumer'' @ show_nat (i - n_providers opts)
      else ''idle'' @ show_nat (i - n_providers opts - n_consumers opts))"

definition netsim_config :: "harness_opts \<Rightarrow> string \<Rightarrow> nat \<Rightarrow> cli_config" where
  "netsim_config opts tmp i =
     \<lparr>cc_path = Some (tmp @ ''/'' @ show_nat i), cc_node_name = Some (node_name opts i),
      cc_keypair = of_nat i, cc_enable_mdns = ho_enable_mdns opts, cc_listen_on = [listen_any],
      cc_bootstrap = [], cc_external = [], cc_disable_port_reuse = ho_disable_port_reuse opts\<rparr>"

section \<open>Deadlines\<close>

text \<open>\<open>deadline\<close>: the time-out for a wait that ends \<open>d\<close> seconds after a moment \<open>elapsed\<close> ago.\<close>

definition deadline :: "duration \<Rightarrow> nat \<Rightarrow> duration option" where
  "deadline elapsed d =
     do { soon \<leftarrow> dur_add elapsed (100 * 10 ^ 6);
          Some (if from_secs d \<le> soon then 100 * 10 ^ 6 else from_secs d - elapsed) }"

text \<open>A wait with a deadline lasts at least a tenth of a second and never goes past the deadline by more
  than that; its computation never underflows.\<close>

lemma deadline_bounds:
  assumes "elapsed + 100 * 10 ^ 6 \<le> duration_max"
  shows "\<exists>dur. deadline elapsed d = Some dur \<and> 100 * 10 ^ 6 \<le> dur \<and>
    elapsed + dur \<le> max (from_secs d) (elapsed + 100 * 10 ^ 6)"
  using dur_add_small [OF assms] by (auto simp: deadline_def)

section \<open>Test data\<close>

record node =
  nd_links :: "cid list"
  nd_depth :: nat
  nd_payload :: "8 word list"

text \<open>
  \<open>encode\<close> is \<open>Block::encode\<close> for a node, which may fail; \<open>rng k n\<close> are the \<open>n\<close> random bytes drawn
  for the \<open>k\<close>-th block.
\<close>

definition create_block ::
  "(node \<Rightarrow> nat + block) \<Rightarrow> (nat \<Rightarrow> nat \<Rightarrow> 8 word list) \<Rightarrow> nat \<Rightarrow> cid list \<Rightarrow> nat \<Rightarrow> nat + block" where
  "create_block encode rng k links depth =
     encode \<lparr>nd_links = links, nd_depth = depth,
             nd_payload = rng k (if links = [] then 1024 * 16 else 512)\<rparr>"

text \<open>The end of \<open>build_tree_0\<close>: the block is made after those it links to.\<close>

definition push_block ::
  "(node \<Rightarrow> nat + block) \<Rightarrow> (nat \<Rightarrow> nat \<Rightarrow> 8 word list) \<Rightarrow> cid list \<Rightarrow> nat \<Rightarrow> block list \<Rightarrow>
     (nat + cid) \<times> block list" where
  "push_block encode rng links depth blocks =
     (case create_block encode rng (length blocks) links depth of
        Inl e \<Rightarrow> (Inl e, blocks)
      | Inr b \<Rightarrow> (Inr (fst b), blocks @ [b]))"

fun build_tree_0 ::
  "(node \<Rightarrow> nat + block) \<Rightarrow> (nat \<Rightarrow> nat \<Rightarrow> 8 word list) \<Rightarrow> nat \<Rightarrow> nat \<Rightarrow> block list \<Rightarrow> (nat + cid) \<times> block list"
and build_links ::
  "(node \<Rightarrow> nat + block) \<Rightarrow> (nat \<Rightarrow> nat \<Rightarrow> 8 word list) \<Rightarrow> nat \<Rightarrow> nat \<Rightarrow> nat \<Rightarrow> cid list \<Rightarrow> block list \<Rightarrow>
     (nat + cid list) \<times> block list" where
  "build_tree_0 encode rng width 0 blocks = push_block encode rng [] 0 blocks"
| "build_tree_0 encode rng width (Suc depth) blocks =
     (case build_links encode rng width depth width [] blocks of
        (Inl e, blocks) \<Rightarrow> (Inl e, blocks)
      | (Inr links, blocks) \<Rightarrow> push_block encode rng links (Suc depth) blocks)"
| "build_links encode rng width depth 0 links blocks = (Inr links, blocks)"
| "build_links encode rng width depth (Suc k) links blocks =
     (case build_tree_0 encode rng width depth blocks of
        (Inl e, blocks) \<Rightarrow> (Inl e, blocks)
      | (Inr cid, blocks) \<Rightarrow> build_links encode rng width depth k (links @ [cid]) blocks)"

definition build_tree ::
  "(node \<Rightarrow> nat + block) \<Rightarrow> (nat \<Rightarrow> nat \<Rightarrow> 8 word list) \<Rightarrow> nat \<Rightarrow> nat \<Rightarrow> nat + cid \<times> block list" where
  "build_tree encode rng width depth =
     (case build_tree_0 encode rng width depth [] of
        (Inl e, _) \<Rightarrow> Inl e
      | (Inr cid, blocks) \<Rightarrow> Inr (cid, blocks))"

text \<open>The number of blocks of a tree, and that every block was made after those it links to.\<close>

fun tree_size :: "nat \<Rightarrow> nat \<Rightarrow> nat" where
  "tree_size width 0 = 1"
| "tree_size width (Suc depth) = width * tree_size width depth + 1"

lemma tree_size_sum: "tree_size width depth = (\<Sum>k\<le>depth. width ^ k)"
proof (induction depth)
  case (Suc depth)
  have "(\<Sum>k\<le>Suc depth. width ^ k) = 1 + (\<Sum>k\<le>depth. width ^ Suc k)"
    by (subst sum.atMost_Suc_shift) simp
  with Suc show ?case by (simp add: sum_distrib_left)
qed simp

definition links_back ::
  "(node \<Rightarrow> nat + block) \<Rightarrow> (nat \<Rightarrow> nat \<Rightarrow> 8 word list) \<Rightarrow> block list \<Rightarrow> bool" where
  "links_back encode rng blocks \<longleftrightarrow>
     (\<forall>i < length blocks. \<exists>links depth.
        create_block encode rng i links depth = Inr (blocks ! i) \<and>
        set links \<subseteq> fst ` set (take i blocks))"

lemma push_block_ok:
  assumes "\<forall>n. \<exists>b. encode n = Inr b" and "links_back encode rng blocks"
    and "set links \<subseteq> fst ` set blocks"
  shows "\<exists>b. push_block encode rng links depth blocks = (Inr (fst b), blocks @ [b]) \<and>
    links_back encode rng (blocks @ [b])"
proof -
  obtain b where b: "create_block encode rng (length blocks) links depth = Inr b"
    using assms(1) unfolding create_block_def by blast
  have "links_back encode rng (blocks @ [b])"
    unfolding links_back_def
  proof (intro allI impI)
    fix i assume "i < length (blocks @ [b])"
    then consider "i < length blocks" | "i = length blocks" by force
    then show "\<exists>links depth. create_block encode rng i links depth = Inr ((blocks @ [b]) ! i) \<and>
        set links \<subseteq> fst ` set (take i (blocks @ [b]))"
    proof cases
      case 1
      with assms(2) show ?thesis by (simp add: links_back_def nth_append)
    next
      case 2
      with b assms(3) show ?thesis by (intro exI [of _ links] exI [of _ depth]) simp
    qed
  qed
  with b show ?thesis by (intro exI [of _ b]) (simp add: push_block_def)
qed

lemma build_tree_ok:
  "\<forall>n. \<exists>b. encode n = Inr b \<Longrightarrow> links_back encode rng blocks \<Longrightarrow>
     \<exists>cid new. build_tree_0 encode rng width depth blocks = (Inr cid, blocks @ new) \<and>
       links_back encode rng (blocks @ new) \<and> length new = tree_size width depth \<and>
       cid = fst (last new)"
  "\<forall>n. \<exists>b. encode n = Inr b \<Longrightarrow> links_back encode rng blocks \<Longrightarrow>
     \<exists>cids new. build_links encode rng width depth k links blocks = (Inr (links @ cids), blocks @ new) \<and>
       links_back encode rng (blocks @ new) \<and> length new = k * tree_size width depth \<and>
       length cids = k \<and> set cids \<subseteq> fst ` set new"
proof (induction encode rng width depth blocks and encode rng width depth k links blocks
    rule: build_tree_0_build_links.induct)
  case (1 encode rng width blocks)
  obtain b where "push_block encode rng [] 0 blocks = (Inr (fst b), blocks @ [b])"
    "links_back encode rng (blocks @ [b])"
    using push_block_ok [OF 1, of "[]" 0] by auto
  then show ?case by (intro exI [of _ "fst b"] exI [of _ "[b]"]) simp
next
  case (2 encode rng width depth blocks)
  obtain cids new where *: "build_links encode rng width depth width [] blocks = (Inr cids, blocks @ new)"
    "links_back encode rng (blocks @ new)" "length new = width * tree_size width depth"
    "set cids \<subseteq> fst ` set new"
    using 2(1) [OF 2(2,3)] by auto
  have "set cids \<subseteq> fst ` set (blocks @ new)" using *(4) by auto
  from push_block_ok [OF 2(2) *(2) this, of "Suc depth"]
  obtain b where "push_block encode rng cids (Suc depth) (blocks @ new) = (Inr (fst b), (blocks @ new) @ [b])"
    "links_back encode rng ((blocks @ new) @ [b])"
    by blast
  with * show ?case by (intro exI [of _ "fst b"] exI [of _ "new @ [b]"]) simp
next
  case (3 encode rng width depth links blocks)
  then show ?case by simp
next
  case (4 encode rng width depth k links blocks)
  obtain cid new where *: "build_tree_0 encode rng width depth blocks = (Inr cid, blocks @ new)"
    "links_back encode rng (blocks @ new)" "length new = tree_size width depth" "cid = fst (last new)"
    using 4(1) [OF 4(3,4)] by blast
  obtain cids new' where "build_links encode rng width depth k (links @ [cid]) (blocks @ new) =
      (Inr ((links @ [cid]) @ cids), (blocks @ new) @ new')" "links_back encode rng ((blocks @ new) @ new')"
    "length new' = k * tree_size width depth" "length cids = k" "set cids \<subseteq> fst ` set new'"
    using 4(2) [OF *(1) [symmetric] refl 4(3) *(2)] by auto
  moreover have "tree_size width depth \<noteq> 0" by (cases depth) simp_all
  with * have "cid \<in> fst ` set new" by (cases new rule: rev_cases) auto
  ultimately show ?case using *
    by (intro exI [of _ "cid # cids"] exI [of _ "new @ new'"]) auto
qed



end
