(* ===== verification/Harness_Checks.thy ===== *)
theory Harness_Checks
  imports Harness Network_Props
begin

text \<open>
  What the simulation programs under \<open>src/harness/src/bin\<close> send and check, and that nodes which
  behave like the model pass the checks of \<open>discover_plain\<close> on the dialling side.
\<close>

section \<open>\<open>discover_plain\<close>\<close>

definition is_listening :: "cli_event \<Rightarrow> bool" where
  "is_listening e = (case e of CliNewListenAddr a \<Rightarrow> \<not> harness_is_loopback a | _ \<Rightarrow> False)"

definition dial_script :: "(nat \<times> peer_id \<times> multiaddr) list \<Rightarrow> command list" where
  "dial_script provs = concat (map (\<lambda>(_, peer, addr). [CliAddAddress peer addr, CliDial peer]) provs)"

text \<open>Equality of hash maps.\<close>

definition shows_addresses :: "peer_id \<Rightarrow> (multiaddr, string) hmap \<Rightarrow> cli_event \<Rightarrow> bool" where
  "shows_addresses peer addrs e =
     (case e of
        CliPeerInfo p i \<Rightarrow> p = peer \<and> set (io_addresses i) = set addrs
      | _ \<Rightarrow> False)"

definition expected_source :: "harness_opts \<Rightarrow> string" where
  "expected_source opts = (if ho_disable_port_reuse opts then ''Dial'' else ''Candidate'')"

section \<open>\<open>bitswap\<close>\<close>

definition spam_script :: "nat \<Rightarrow> cid \<Rightarrow> block list \<Rightarrow> command list" where
  "spam_script i cid blocks = CliAlias (''passive-'' @ show_nat i) (Some cid) # map CliInsert (rev blocks)"

text \<open>\<open>root\<close> is the name the macro \<open>alias!(root)\<close> gives.\<close>

definition provider_script :: "string \<Rightarrow> cid \<Rightarrow> block list \<Rightarrow> command list" where
  "provider_script root cid blocks = CliAlias root (Some cid) # map CliInsert (rev blocks)"

definition consumer_script :: "string \<Rightarrow> cid \<Rightarrow> command list" where
  "consumer_script root cid = [CliAlias root (Some cid), CliSync cid]"

section \<open>\<open>discover_nat\<close> and \<open>discover_nat_forward\<close>\<close>

text \<open>\<open>None\<close> is the panic of \<open>i.connections[0]\<close> without connections.\<close>

definition nat_identified :: "peer_id \<Rightarrow> cli_event \<Rightarrow> bool option" where
  "nat_identified peer e =
     (case e of
        CliPeerInfo p i \<Rightarrow>
          if p = peer
          then (case io_connections i of
                  [] \<Rightarrow> None
                | c # _ \<Rightarrow> Some (map_of (io_addresses i) c = Some ''Candidate'' \<or> io_addresses i = []))
          else Some False
      | _ \<Rightarrow> Some False)"

definition still_known :: "peer_id \<Rightarrow> cli_event \<Rightarrow> bool option" where
  "still_known peer e =
     (case e of
        CliDialFailure p _ _ \<Rightarrow> if p = peer then Some True else None
      | CliUnreachable p \<Rightarrow> if p = peer then Some True else None
      | CliPeerRemoved p \<Rightarrow> if p = peer then Some False else None
      | _ \<Rightarrow> None)"

text \<open>\<open>sock_addr\<close>: \<open>None\<close> is a panic.\<close>

definition sock_addr :: "multiaddr \<Rightarrow> (ip4 \<times> port) option" where
  "sock_addr m = (case m of Ip4 ip # Tcp p # _ \<Rightarrow> Some (ip, p) | _ \<Rightarrow> None)"

section \<open>Properties\<close>

lemma sock_addr_machine: "sock_addr (machine_multiaddr m @ r) = Some (m_addr m, 30000)"
  by (simp add: sock_addr_def machine_multiaddr_def)

text \<open>If there are machines for all roles, selecting the nodes of a role never panics, and the three roles
  divide the machines among them in order.\<close>

lemma roles_partition:
  assumes "n_providers opts + n_consumers opts \<le> n_nodes opts" and "length machines = n_nodes opts"
  shows "\<exists>p c i. role_nodes peer_from machines opts Provider = Some p \<and>
    role_nodes peer_from machines opts Consumer = Some c \<and>
    role_nodes peer_from machines opts Idle = Some i \<and>
    map fst (p @ c @ i) = map m_id machines \<and>
    length p = n_providers opts \<and> length c = n_consumers opts"
proof -
  let ?p = "n_providers opts" and ?c = "n_consumers opts"
  have split: "machines = take ?p machines @ take ?c (drop ?p machines) @ drop (?p + ?c) machines"
    by (metis add.commute append_take_drop_id drop_drop)
  have "take (n_nodes opts - (?p + ?c)) (drop (?p + ?c) machines) = drop (?p + ?c) machines"
    using assms by simp
  then show ?thesis
    using assms arg_cong [OF split, of "map m_id"]
    by (simp add: role_nodes_def nodes_def Let_def o_def)
qed

text \<open>No two nodes of a simulation share a name, a directory or a secret key.\<close>

lemma netsim_nodes_distinct:
  assumes "i \<noteq> j" and "i < 2 ^ 64" and "j < 2 ^ 64"
  shows "node_name opts i \<noteq> node_name opts j \<and>
    cc_path (netsim_config opts tmp i) \<noteq> cc_path (netsim_config opts tmp j) \<and>
    secret (cc_keypair (netsim_config opts tmp i)) \<noteq> secret (cc_keypair (netsim_config opts tmp j))"
proof -
  have "(of_nat i :: 64 word) \<noteq> of_nat j"
    using assms by (simp add: word_of_nat_eq_iff take_bit_nat_eq_self)
  moreover have "node_name opts i \<noteq> node_name opts j"
    using assms(1) by (auto simp: node_name_def dest: show_nat_inj)
  ultimately show ?thesis
    using assms(1) by (auto simp: netsim_config_def secret_eq dest: show_nat_inj)
qed

section \<open>A dialled peer\<close>

lemma peer_entry_add_address:
  "accepts b p a \<Longrightarrow>
     peer_entry (add_address E p a s b) = (peer_entry b)(p := snd (ingest_address (now E) (normalized a p) s (peer_entry b p)))"
  by (auto simp: add_address_accepted split_beta Let_def)

lemma known_if_entry: "peer_entry b p \<noteq> peer_info_default \<Longrightarrow> map_of (peers b) p = Some (peer_entry b p)"
  by (auto simp: peer_entry_def split: option.splits)

lemma accepts_add_address [simp]: "accepts (add_address E p a s b) q x = accepts b q x"
  by (cases "accepts b p a")
    (auto simp: add_address_accepted add_address_ignored split_beta Let_def accepts_def)

lemma dial_frame [simp]: "peer_entry (dial p b) = peer_entry b" "accepts (dial p b) q x = accepts b q x"
  by (simp_all add: dial_def accepts_def)

lemma ingest_twice:
  assumes "pi_addresses info = []"
  shows "pi_addresses (snd (ingest_address u a Dial (snd (ingest_address t a User info)))) = [(a, Dial, u)]"
  using assms by (simp add: ingest_address_def less_eq_address_source_def)



end
