(* ===== verification/Netsim.thy ===== *)
theory Netsim
  imports Harness_Checks
begin

text \<open>
  Running programs on the network simulator.  The simulator is another crate, given by the record
  \<open>netsim\<close> of its operations on a state of its own: a machine runs a command line tool, whose
  standard input is written by \<open>send\<close> and whose output is read, event by event, by \<open>recv\<close> and
  \<open>select\<close>.  Programs are functions of that state; they may end with an error or panic.
\<close>

section \<open>The simulator\<close>

text \<open>
  What awaiting a time-limited read gives: \<open>Err(TimeoutError)\<close>, \<open>Ok(None)\<close> or \<open>Ok(Some(event))\<close>.
\<close>

datatype awaited = TimedOut | NoEvent | Event cli_event

record nat_config =
  forward_ports :: "(port \<times> ip4 \<times> port) list"

text \<open>
  \<open>select\<close> applies its closure to events, which may panic (the outer \<open>None\<close> of its result); a
  closure is a test here, and what it computes of the chosen event is computed afterwards.
\<close>

record 's netsim =
  ns_now :: "'s \<Rightarrow> duration"
  ns_machines :: "'s \<Rightarrow> machine list"
  ns_send :: "nat \<Rightarrow> command \<Rightarrow> 's \<Rightarrow> 's"
  ns_recv :: "nat \<Rightarrow> duration option \<Rightarrow> 's \<Rightarrow> awaited \<times> 's"
  ns_select :: "nat \<Rightarrow> (cli_event \<Rightarrow> bool option) \<Rightarrow> duration \<Rightarrow> 's \<Rightarrow> awaited option \<times> 's"
  ns_select_draining :: "nat \<Rightarrow> (cli_event \<Rightarrow> bool option) \<Rightarrow> duration \<Rightarrow> 's \<Rightarrow> awaited option \<times> 's"
  ns_drain :: "nat \<Rightarrow> 's \<Rightarrow> 's"
  ns_drain_matching :: "nat \<Rightarrow> (cli_event \<Rightarrow> bool) \<Rightarrow> 's \<Rightarrow> 's"
  ns_down :: "nat \<Rightarrow> 's \<Rightarrow> 's"
  ns_range :: "nat \<Rightarrow> 's \<Rightarrow> nat"
  ns_random_subnet :: "'s \<Rightarrow> nat \<times> 's"
  ns_spawn_network :: "nat \<Rightarrow> 's \<Rightarrow> nat \<times> 's"
  ns_spawn_machine :: "string list \<Rightarrow> duration option \<Rightarrow> 's \<Rightarrow> nat \<times> 's"
  ns_plug :: "nat \<Rightarrow> nat \<Rightarrow> 's \<Rightarrow> 's"
  ns_add_nat_route :: "nat_config \<Rightarrow> nat \<Rightarrow> nat \<Rightarrow> 's \<Rightarrow> 's"

section \<open>Programs\<close>

text \<open>\<open>StillRunning\<close> is a loop that has not ended within the turns it was given.\<close>

datatype 'a ran = RanOk 'a | RanErr string | Panicked | StillRunning

type_synonym ('s, 'a) prog = "'s \<Rightarrow> 'a ran \<times> 's"

definition and_do :: "('s, 'a) prog \<Rightarrow> ('a \<Rightarrow> ('s, 'b) prog) \<Rightarrow> ('s, 'b) prog" where
  "and_do p f s =
     (case p s of
        (RanOk x, s) \<Rightarrow> f x s
      | (RanErr e, s) \<Rightarrow> (RanErr e, s)
      | (Panicked, s) \<Rightarrow> (Panicked, s)
      | (StillRunning, s) \<Rightarrow> (StillRunning, s))"

definition pure :: "'a \<Rightarrow> ('s, 'a) prog" where
  "pure x s = (RanOk x, s)"

definition modify :: "('s \<Rightarrow> 's) \<Rightarrow> ('s, unit) prog" where
  "modify f s = (RanOk (), f s)"

definition of_option :: "'a option \<Rightarrow> ('s, 'a) prog" where
  "of_option x s = (case x of Some y \<Rightarrow> RanOk y | None \<Rightarrow> Panicked, s)"

fun for_each :: "'a list \<Rightarrow> ('a \<Rightarrow> ('s, unit) prog) \<Rightarrow> ('s, unit) prog" where
  "for_each [] f = pure ()"
| "for_each (x # xs) f = and_do (f x) (\<lambda>_. for_each xs f)"

lemma and_do_pure [simp]: "and_do (pure x) f = f x"
  by (simp add: and_do_def pure_def fun_eq_iff)

lemma and_do_ok: "and_do p f s = (RanOk y, s') \<longleftrightarrow> (\<exists>x t. p s = (RanOk x, t) \<and> f x t = (RanOk y, s'))"
  by (auto simp: and_do_def split: prod.splits ran.splits)

lemma for_each_append:
  "for_each (xs @ ys) f s = and_do (for_each xs f) (\<lambda>_. for_each ys f) s"
  by (induction xs arbitrary: s) (auto simp: and_do_def pure_def split: prod.splits ran.splits)

text \<open>A loop whose body always succeeds, does.\<close>

lemma for_each_total:
  assumes "\<And>x s. x \<in> set xs \<Longrightarrow> \<exists>s'. f x s = (RanOk (), s')"
  shows "\<exists>s'. for_each xs f s = (RanOk (), s')"
  using assms
proof (induction xs arbitrary: s)
  case (Cons x xs)
  obtain t where "f x s = (RanOk (), t)" using Cons.prems by fastforce
  moreover obtain s' where "for_each xs f t = (RanOk (), s')" using Cons by fastforce
  ultimately show ?case by (auto simp: and_do_ok)
qed (simp add: pure_def)

text \<open>A loop that succeeds with a log: what each turn appends.\<close>

lemma for_each_log:
  assumes "for_each xs f s = (RanOk (), s')"
    and "\<And>x s s'. x \<in> set xs \<Longrightarrow> f x s = (RanOk (), s') \<Longrightarrow> tr s' = tr s @ log x"
  shows "tr s' = tr s @ concat (map log xs)"
  using assms
proof (induction xs arbitrary: s)
  case (Cons x xs)
  then obtain t where "f x s = (RanOk (), t)" "for_each xs f t = (RanOk (), s')"
    by (auto simp: and_do_ok)
  with Cons show ?case by fastforce
qed (simp add: pure_def)

section \<open>Waiting\<close>

text \<open>
  \<open>.deadline(started, d)\<close> and \<open>.timeout(d)\<close> followed by one \<open>unwrap\<close>, which leaves an option, or by
  two.
\<close>

definition unwrap_time :: "awaited option \<Rightarrow> cli_event option ran" where
  "unwrap_time r =
     (case r of
        Some (Event e) \<Rightarrow> RanOk (Some e)
      | Some NoEvent \<Rightarrow> RanOk None
      | _ \<Rightarrow> Panicked)"

definition by_deadline ::
  "'s netsim \<Rightarrow> duration \<Rightarrow> nat \<Rightarrow> (duration \<Rightarrow> 's \<Rightarrow> awaited option \<times> 's) \<Rightarrow> ('s, cli_event option) prog" where
  "by_deadline N started d read s =
     (case deadline (ns_now N s - started) d of
        None \<Rightarrow> (Panicked, s)
      | Some dur \<Rightarrow> apfst unwrap_time (read dur s))"

definition by_timeout ::
  "nat \<Rightarrow> (duration \<Rightarrow> 's \<Rightarrow> awaited option \<times> 's) \<Rightarrow> ('s, cli_event option) prog" where
  "by_timeout d read s = apfst unwrap_time (read (from_secs d) s)"

text \<open>The second \<open>unwrap\<close>, and the semicolon that drops the option instead.\<close>

definition unwrap_event :: "('s, cli_event option) prog \<Rightarrow> ('s, cli_event) prog" where
  "unwrap_event p = and_do p of_option"

definition ignore_event :: "('s, cli_event option) prog \<Rightarrow> ('s, unit) prog" where
  "ignore_event p = and_do p (\<lambda>_. pure ())"

lemma unwrap_event_ok:
  "unwrap_event p s = (RanOk e, s') \<longleftrightarrow> p s = (RanOk (Some e), s')"
  by (auto simp: unwrap_event_def and_do_ok of_option_def split: option.splits)

text \<open>The test of a \<open>select\<close> whose closure cannot panic.\<close>

abbreviation total_test :: "(cli_event \<Rightarrow> bool) \<Rightarrow> cli_event \<Rightarrow> bool option" where
  "total_test f \<equiv> \<lambda>e. Some (f e)"

text \<open>
  A loop around \<open>recv\<close>: \<open>step\<close> says what to leave the loop with, if at all.
\<close>

fun recv_loop ::
  "nat \<Rightarrow> ('s, cli_event option) prog \<Rightarrow> (cli_event option \<Rightarrow> 'a ran option) \<Rightarrow> ('s, 'a) prog" where
  "recv_loop 0 read step s = (StillRunning, s)"
| "recv_loop (Suc turns) read step s =
     and_do read (\<lambda>e. case step e of Some r \<Rightarrow> \<lambda>s. (r, s) | None \<Rightarrow> recv_loop turns read step) s"

text \<open>\<open>recv().await\<close>, with no time limit.\<close>

definition recv_forever :: "'s netsim \<Rightarrow> nat \<Rightarrow> ('s, cli_event option) prog" where
  "recv_forever N m s =
     (case ns_recv N m None s of
        (Event e, s) \<Rightarrow> (RanOk (Some e), s)
      | (NoEvent, s) \<Rightarrow> (RanOk None, s)
      | (TimedOut, s) \<Rightarrow> (StillRunning, s))"

definition recv_within :: "'s netsim \<Rightarrow> nat \<Rightarrow> duration \<Rightarrow> 's \<Rightarrow> awaited option \<times> 's" where
  "recv_within N m dur s = apfst Some (ns_recv N m (Some dur) s)"

section \<open>\<open>run_netsim\<close>\<close>

definition spawn_node ::
  "'s netsim \<Rightarrow> (multiaddr \<Rightarrow> string) \<Rightarrow> duration option \<Rightarrow> nat \<Rightarrow> cli_config \<Rightarrow> ('s, unit) prog" where
  "spawn_node N addr_text delay net cfg s =
     (let (machine, s) = ns_spawn_machine N (config_args addr_text cfg) delay s
      in (RanOk (), ns_plug N machine net s))"

text \<open>
  \<open>start\<close> is \<open>Netsim::new()\<close>; \<open>unshare\<close> and \<open>tmp\<close> are the results of entering a user namespace and of
  making a temporary directory.
\<close>

definition run_netsim ::
  "'s netsim \<Rightarrow> (multiaddr \<Rightarrow> string) \<Rightarrow> string + unit \<Rightarrow> string + string \<Rightarrow> harness_opts \<Rightarrow>
     (harness_opts \<Rightarrow> nat \<Rightarrow> string \<Rightarrow> ('s, unit) prog) \<Rightarrow> ('s, unit) prog" where
  "run_netsim N addr_text unshare tmp opts f start =
     (case unshare of
        Inl e \<Rightarrow> (RanErr e, start)
      | Inr _ \<Rightarrow>
          (case tmp of
             Inl e \<Rightarrow> (RanErr e, start)
           | Inr dir \<Rightarrow>
               let (range_a, s) = ns_random_subnet N start;
                   (net, s) = ns_spawn_network N range_a s
               in and_do
                    (for_each [0..<n_nodes opts]
                       (\<lambda>i. spawn_node N addr_text (Some (delay_ms opts * 10 ^ 6)) net (netsim_config opts dir i)))
                    (\<lambda>_. f opts net dir) s))"

text \<open>
  \<open>.timeout(d)\<close> around a whole program: if it takes longer, its result is the time-out, whatever it
  would have been.
\<close>

definition limited :: "'s netsim \<Rightarrow> nat \<Rightarrow> ('s, unit) prog \<Rightarrow> ('s, unit) prog" where
  "limited N d p s =
     (let (r, s') = p s
      in (if from_secs d < ns_now N s' - ns_now N s then RanErr ''timeout'' else r, s'))"

end
