(* ===== verification/Programs.thy ===== *)
theory Programs
  imports Netsim
begin

text \<open>
  The simulation programs: \<open>src/harness/src/bin\<close>.  Hash maps of nodes are lists in the order
  \<open>ord\<close> in which they are iterated over; \<open>turns\<close> bounds the loops that have no bound of their own.
\<close>

type_synonym node_map = "(nat \<times> peer_id \<times> multiaddr) list"

definition send_all :: "'s netsim \<Rightarrow> nat \<Rightarrow> command list \<Rightarrow> ('s, unit) prog" where
  "send_all N m cs = for_each cs (\<lambda>c. modify (ns_send N m c))"

definition slice :: "nat \<times> nat \<Rightarrow> 'a list \<Rightarrow> 'a list option" where
  "slice bounds xs =
     (if fst bounds \<le> snd bounds \<and> snd bounds \<le> length xs
      then Some (take (snd bounds - fst bounds) (drop (fst bounds) xs)) else None)"

section \<open>\<open>discover_plain\<close>\<close>

definition await_listening :: "'s netsim \<Rightarrow> nat list \<Rightarrow> ('s, unit) prog" where
  "await_listening N ids s =
     (let started = ns_now N s
      in for_each ids (\<lambda>m. ignore_event (by_deadline N started 5 (ns_select N m (total_test is_listening)))) s)"

definition dial_all :: "'s netsim \<Rightarrow> node_map \<Rightarrow> node_map \<Rightarrow> ('s, unit) prog" where
  "dial_all N cons provs = for_each cons (\<lambda>(m, _). send_all N m (dial_script provs))"

definition await_shown ::
  "'s netsim \<Rightarrow> duration \<Rightarrow> node_map \<Rightarrow> node_map \<Rightarrow> string \<Rightarrow> ('s, unit) prog" where
  "await_shown N started watchers watched source =
     for_each watchers (\<lambda>(m, _). for_each watched (\<lambda>(_, peer, addr).
       ignore_event (by_deadline N started 5
         (ns_select N m (total_test (shows_addresses peer [(addr, source)]))))))"

definition discover_plain ::
  "'s netsim \<Rightarrow> (8 word list \<Rightarrow> peer_id) \<Rightarrow> (node_map \<Rightarrow> node_map) \<Rightarrow> harness_opts \<Rightarrow> ('s, unit) prog" where
  "discover_plain N peer_from ord opts s =
     and_do (of_option (role_nodes peer_from (ns_machines N s) opts Provider)) (\<lambda>ps.
     and_do (of_option (role_nodes peer_from (ns_machines N s) opts Consumer)) (\<lambda>cs.
       let provs = ord ps; cons = ord cs
       in and_do (await_listening N (map fst provs @ map fst cons)) (\<lambda>_.
          and_do (dial_all N cons provs) (\<lambda>_ s.
            let started = ns_now N s
            in and_do (await_shown N started cons provs ''Dial'') (\<lambda>_.
                 await_shown N started provs cons (expected_source opts)) s)))) s"

definition discover_plain_main ::
  "'s netsim \<Rightarrow> (8 word list \<Rightarrow> peer_id) \<Rightarrow> (node_map \<Rightarrow> node_map) \<Rightarrow> harness_opts \<Rightarrow> ('s, unit) prog" where
  "discover_plain_main N peer_from ord opts = limited N 120 (discover_plain N peer_from ord opts)"

section \<open>\<open>sim_open\<close>\<close>

definition listening_step :: "cli_event option \<Rightarrow> unit ran option" where
  "listening_step e =
     (case e of
        Some (CliNewListenAddr a) \<Rightarrow> if \<not> harness_is_loopback a then Some (RanOk ()) else None
      | _ \<Rightarrow> None)"

definition connected_step :: "peer_id \<Rightarrow> cli_event option \<Rightarrow> unit ran option" where
  "connected_step peer e =
     (case e of
        Some (CliConnected p) \<Rightarrow> if p = peer then Some (RanOk ()) else None
      | Some (CliUnreachable p) \<Rightarrow> if p = peer then Some (RanErr ''sim open failed'') else None
      | _ \<Rightarrow> None)"

definition spawn_delayed ::
  "'s netsim \<Rightarrow> (multiaddr \<Rightarrow> string) \<Rightarrow> nat \<Rightarrow> 64 word \<Rightarrow> ('s, unit) prog" where
  "spawn_delayed N addr_text net k = spawn_node N addr_text (Some (100 * 10 ^ 6)) net (cli_config_new k)"

text \<open>The body from the point where the two machines are there.\<close>

definition sim_open_pair ::
  "'s netsim \<Rightarrow> nat \<Rightarrow> (8 word list \<Rightarrow> peer_id) \<Rightarrow> machine \<Rightarrow> machine \<Rightarrow> ('s, unit) prog" where
  "sim_open_pair N turns peer_from a b =
     (let a_id = machine_peer_id peer_from a; b_id = machine_peer_id peer_from b
      in and_do (recv_loop turns (recv_forever N (m_id a)) listening_step) (\<lambda>_.
         and_do (recv_loop turns (recv_forever N (m_id b)) listening_step) (\<lambda>_.
         and_do (modify (ns_send N (m_id a) (CliAddAddress b_id (machine_multiaddr b)))) (\<lambda>_.
         and_do (modify (ns_send N (m_id b) (CliAddAddress a_id (machine_multiaddr a)))) (\<lambda>_.
         and_do (modify (ns_send N (m_id a) (CliDial b_id))) (\<lambda>_.
         and_do (modify (ns_send N (m_id b) (CliDial a_id))) (\<lambda>_ s.
           let started = ns_now N s
           in and_do (recv_loop turns (by_deadline N started 15 (recv_within N (m_id a))) (connected_step b_id)) (\<lambda>_.
                recv_loop turns (by_deadline N started 15 (recv_within N (m_id b))) (connected_step a_id)) s)))))))"

definition sim_open ::
  "'s netsim \<Rightarrow> nat \<Rightarrow> (multiaddr \<Rightarrow> string) \<Rightarrow> (8 word list \<Rightarrow> peer_id) \<Rightarrow> ('s, unit) prog" where
  "sim_open N turns addr_text peer_from start =
     (let (subnet, s) = ns_random_subnet N start;
          (net, s) = ns_spawn_network N subnet s
      in and_do (spawn_delayed N addr_text net 0) (\<lambda>_.
         and_do (spawn_delayed N addr_text net 1) (\<lambda>_ s.
           case ns_machines N s of
             a # b # _ \<Rightarrow> sim_open_pair N turns peer_from a b s
           | _ \<Rightarrow> (Panicked, s))) s)"

definition sim_open_main ::
  "'s netsim \<Rightarrow> nat \<Rightarrow> (multiaddr \<Rightarrow> string) \<Rightarrow> (8 word list \<Rightarrow> peer_id) \<Rightarrow> ('s, unit) prog" where
  "sim_open_main N turns addr_text peer_from = limited N 120 (sim_open N turns addr_text peer_from)"

section \<open>\<open>bitswap\<close>\<close>

definition await_listener :: "'s netsim \<Rightarrow> nat \<Rightarrow> machine \<Rightarrow> ('s, unit) prog" where
  "await_listener N turns m = recv_loop turns (by_timeout 3 (recv_within N (m_id m))) listening_step"

fun is_flushed :: "cli_event \<Rightarrow> bool" where
  "is_flushed CliFlushed = True"
| "is_flushed _ = False"

fun is_synced :: "cli_event \<Rightarrow> bool" where
  "is_synced CliSynced = True"
| "is_synced _ = False"

fun is_block :: "cli_event \<Rightarrow> bool" where
  "is_block (CliBlock _) = True"
| "is_block _ = False"

definition of_result :: "nat + 'a \<Rightarrow> ('s, 'a) prog" where
  "of_result x s = (case x of Inr y \<Rightarrow> RanOk y | Inl _ \<Rightarrow> RanErr ''build_tree'', s)"

definition flush_all :: "'s netsim \<Rightarrow> machine list \<Rightarrow> ('s, unit) prog" where
  "flush_all N ms =
     and_do (for_each ms (\<lambda>m. modify (ns_send N (m_id m) CliFlush))) (\<lambda>_ s.
       let started = ns_now N s
       in for_each ms (\<lambda>m. and_do (unwrap_event
            (by_deadline N started 10 (ns_select_draining N (m_id m) (total_test is_flushed)))) (\<lambda>_. pure ())) s)"

definition await_sync :: "'s netsim \<Rightarrow> machine list \<Rightarrow> ('s, unit) prog" where
  "await_sync N ms s =
     (let started = ns_now N s
      in for_each ms (\<lambda>m.
           and_do (unwrap_event (by_deadline N started 20 (ns_select_draining N (m_id m) (total_test is_synced)))) (\<lambda>_.
           and_do (modify (ns_send N (m_id m) CliFlush)) (\<lambda>_.
           and_do (unwrap_event (by_timeout 1 (ns_select_draining N (m_id m) (total_test is_flushed)))) (\<lambda>_. pure ())))) s)"

text \<open>The check of the data: \<open>assert_eq!\<close> panics.\<close>

definition check_block :: "'s netsim \<Rightarrow> duration \<Rightarrow> machine \<Rightarrow> block \<Rightarrow> ('s, unit) prog" where
  "check_block N started m b =
     and_do (modify (ns_send N (m_id m) (CliGet (fst b)))) (\<lambda>_.
     and_do (unwrap_event (by_deadline N started 5 (ns_select_draining N (m_id m) (total_test is_block)))) (\<lambda>e.
       if e = CliBlock b then pure () else of_option None))"

definition check_data :: "'s netsim \<Rightarrow> machine list \<Rightarrow> block list \<Rightarrow> ('s, unit) prog" where
  "check_data N ms blocks s =
     (let started = ns_now N s in for_each ms (\<lambda>m. for_each blocks (check_block N started m)) s)"

text \<open>\<open>rng i\<close> are the random bytes of the \<open>i\<close>-th tree, \<open>root\<close> is the name of the alias.\<close>

definition bitswap_test ::
  "'s netsim \<Rightarrow> nat \<Rightarrow> (node \<Rightarrow> nat + block) \<Rightarrow> (nat \<Rightarrow> nat \<Rightarrow> nat \<Rightarrow> 8 word list) \<Rightarrow> string \<Rightarrow> harness_opts \<Rightarrow>
     ('s, unit) prog" where
  "bitswap_test N turns encode rng root opts s0 =
     (let ms = ns_machines N s0
      in and_do (for_each ms (await_listener N turns)) (\<lambda>_.
         and_do (for_each [0..<n_spam opts] (\<lambda>i.
           and_do (of_result (build_tree encode (rng i) (tree_width opts) (tree_depth opts))) (\<lambda>(cid, blocks).
             for_each ms (\<lambda>m. send_all N (m_id m) (spam_script i cid blocks))))) (\<lambda>_.
         and_do (of_result (build_tree encode (rng (n_spam opts)) (tree_width opts) (tree_depth opts))) (\<lambda>(cid, blocks).
         and_do (of_option (slice (role_range opts Provider) ms)) (\<lambda>provs.
         and_do (for_each provs (\<lambda>m. send_all N (m_id m) (provider_script root cid blocks))) (\<lambda>_.
         and_do (flush_all N ms) (\<lambda>_.
         and_do (of_option (slice (role_range opts Consumer) ms)) (\<lambda>cons.
         and_do (for_each cons (\<lambda>m. send_all N (m_id m) (consumer_script root cid))) (\<lambda>_.
         and_do (await_sync N cons) (\<lambda>_.
           check_data N cons blocks))))))))) s0)"

definition bitswap_main ::
  "'s netsim \<Rightarrow> nat \<Rightarrow> (node \<Rightarrow> nat + block) \<Rightarrow> (nat \<Rightarrow> nat \<Rightarrow> nat \<Rightarrow> 8 word list) \<Rightarrow> string \<Rightarrow> harness_opts \<Rightarrow>
     ('s, unit) prog" where
  "bitswap_main N turns encode rng root opts = limited N 240 (bitswap_test N turns encode rng root opts)"

end
