(* ===== verification/Programs_Nat.thy ===== *)
theory Programs_Nat
  imports Programs
begin

text \<open>
  The two programs with a network address translator: \<open>discover_nat.rs\<close>, and
  \<open>discover_nat_forward.rs\<close>, where the translator forwards a port to the first consumer.
\<close>

section \<open>Setting up\<close>

text \<open>The second network: a random range other than that of the first.\<close>

fun other_subnet :: "'s netsim \<Rightarrow> nat \<Rightarrow> nat \<Rightarrow> ('s, nat) prog" where
  "other_subnet N 0 range_a s = (StillRunning, s)"
| "other_subnet N (Suc turns) range_a s =
     (let (r, s) = ns_random_subnet N s
      in if r \<noteq> range_a then (RanOk r, s) else other_subnet N turns range_a s)"

definition nat_consumer_config :: "harness_opts \<Rightarrow> string \<Rightarrow> nat \<Rightarrow> cli_config" where
  "nat_consumer_config opts tmp i =
     \<lparr>cc_path = Some (tmp @ ''/'' @ show_nat i), cc_node_name = Some (''consumer-'' @ show_nat i),
      cc_keypair = of_nat i, cc_enable_mdns = ho_enable_mdns opts, cc_listen_on = [listen_any],
      cc_bootstrap = [], cc_external = [], cc_disable_port_reuse = ho_disable_port_reuse opts\<rparr>"

definition spawn_consumers ::
  "'s netsim \<Rightarrow> (multiaddr \<Rightarrow> string) \<Rightarrow> harness_opts \<Rightarrow> string \<Rightarrow> nat \<Rightarrow> ('s, unit) prog" where
  "spawn_consumers N addr_text opts tmp net_b =
     for_each [n_nodes opts..<2 * n_nodes opts]
       (\<lambda>i. spawn_node N addr_text None net_b (nat_consumer_config opts tmp i))"

section \<open>Checks\<close>

fun is_disconnected :: "peer_id \<Rightarrow> cli_event \<Rightarrow> bool" where
  "is_disconnected peer (CliDisconnected p) = (p = peer)"
| "is_disconnected peer _ = False"

fun is_removed :: "peer_id \<Rightarrow> cli_event \<Rightarrow> bool" where
  "is_removed peer (CliPeerRemoved p) = (p = peer)"
| "is_removed peer _ = False"

fun is_dial_problem :: "peer_id \<Rightarrow> cli_event \<Rightarrow> bool" where
  "is_dial_problem peer (CliDialFailure p _ _) = (p = peer)"
| "is_dial_problem peer (CliUnreachable p) = (p = peer)"
| "is_dial_problem peer _ = False"

text \<open>Dial a peer that is gone; if it is still known after the failure, pruning removes it.\<close>

definition check_pruned :: "'s netsim \<Rightarrow> nat \<Rightarrow> peer_id \<Rightarrow> ('s, unit) prog" where
  "check_pruned N m peer =
     and_do (modify (ns_send N m (CliDial peer))) (\<lambda>_.
     and_do (unwrap_event (by_timeout 10 (ns_select N m (\<lambda>e. Some (still_known peer e \<noteq> None))))) (\<lambda>e.
       if still_known peer e = Some True
       then and_do (modify (ns_send N m CliPrunePeers)) (\<lambda>_.
              ignore_event (by_timeout 10 (ns_select N m (total_test (is_removed peer)))))
       else pure ()))"

definition await_no_address :: "'s netsim \<Rightarrow> duration \<Rightarrow> nat \<Rightarrow> peer_id \<Rightarrow> ('s, unit) prog" where
  "await_no_address N started m peer =
     ignore_event (by_deadline N started 10 (ns_select N m (total_test (shows_addresses peer []))))"

definition all_down :: "'s netsim \<Rightarrow> node_map \<Rightarrow> ('s, unit) prog" where
  "all_down N cons = for_each cons (\<lambda>(m, _). modify (ns_down N m))"

definition await_disconnected :: "'s netsim \<Rightarrow> duration \<Rightarrow> nat \<Rightarrow> peer_id \<Rightarrow> ('s, unit) prog" where
  "await_disconnected N started m peer =
     ignore_event (by_deadline N started 30 (ns_select N m (total_test (is_disconnected peer))))"

section \<open>\<open>discover_nat\<close>\<close>

definition await_shown_draining :: "'s netsim \<Rightarrow> duration \<Rightarrow> node_map \<Rightarrow> node_map \<Rightarrow> ('s, unit) prog" where
  "await_shown_draining N started watchers watched =
     for_each watchers (\<lambda>(m, _). for_each watched (\<lambda>(_, peer, addr).
       ignore_event (by_deadline N started 5
         (ns_select_draining N m (total_test (shows_addresses peer [(addr, ''Dial'')]))))))"

definition nat_check :: "'s netsim \<Rightarrow> harness_opts \<Rightarrow> node_map \<Rightarrow> node_map \<Rightarrow> ('s, unit) prog" where
  "nat_check N opts provs cons s =
     (let started = ns_now N s
      in if ho_disable_port_reuse opts
         then for_each provs (\<lambda>(m, _). for_each cons (\<lambda>(_, peer, _). await_no_address N started m peer)) s
         else
           and_do (for_each provs (\<lambda>(m, _).
             and_do (for_each cons (\<lambda>(_, peer, _).
               ignore_event (by_deadline N started 10 (ns_select N m (nat_identified peer))))) (\<lambda>_.
               modify (ns_drain N m)))) (\<lambda>_.
           and_do (all_down N cons) (\<lambda>_ s.
             let started = ns_now N s
             in for_each provs (\<lambda>(m, _). for_each cons (\<lambda>(_, peer, _).
                  and_do (await_disconnected N started m peer) (\<lambda>_.
                  and_do (modify (ns_drain_matching N m (is_dial_problem peer))) (\<lambda>_.
                    check_pruned N m peer)))) s)) s)"

definition discover_nat ::
  "'s netsim \<Rightarrow> nat \<Rightarrow> (multiaddr \<Rightarrow> string) \<Rightarrow> (8 word list \<Rightarrow> peer_id) \<Rightarrow> (node_map \<Rightarrow> node_map) \<Rightarrow>
     harness_opts \<Rightarrow> nat \<Rightarrow> string \<Rightarrow> ('s, unit) prog" where
  "discover_nat N turns addr_text peer_from ord opts net_a tmp s0 =
     and_do (other_subnet N turns (ns_range N net_a s0)) (\<lambda>range_b s.
       let (net_b, s) = ns_spawn_network N range_b s;
           s = ns_add_nat_route N \<lparr>forward_ports = []\<rparr> net_a net_b s
       in and_do (spawn_consumers N addr_text opts tmp net_b) (\<lambda>_ s.
          and_do (of_option (nodes peer_from (ns_machines N s) (0, n_nodes opts))) (\<lambda>ps.
          and_do (of_option (nodes peer_from (ns_machines N s) (n_nodes opts, 2 * n_nodes opts))) (\<lambda>cs.
            let provs = ord ps; cons = ord cs
            in and_do (await_listening N (map fst provs @ map fst cons)) (\<lambda>_.
               and_do (dial_all N cons provs) (\<lambda>_ s.
               and_do (await_shown_draining N (ns_now N s) cons provs) (\<lambda>_.
                 nat_check N opts provs cons) s)))) s) s) s0"

definition discover_nat_main ::
  "'s netsim \<Rightarrow> nat \<Rightarrow> (multiaddr \<Rightarrow> string) \<Rightarrow> (8 word list \<Rightarrow> peer_id) \<Rightarrow> (node_map \<Rightarrow> node_map) \<Rightarrow>
     harness_opts \<Rightarrow> nat \<Rightarrow> string \<Rightarrow> ('s, unit) prog" where
  "discover_nat_main N turns addr_text peer_from ord opts net_a tmp =
     limited N 120 (discover_nat N turns addr_text peer_from ord opts net_a tmp)"

section \<open>\<open>discover_nat_forward\<close>\<close>

text \<open>The address of the first connection with port 30000; no connection is a panic.\<close>

definition forwarded :: "multiaddr \<Rightarrow> multiaddr option" where
  "forwarded a = replace_protocol a 1 (\<lambda>_. Some (Tcp 30000))"

definition first_connection :: "peer_id \<Rightarrow> cli_event \<Rightarrow> multiaddr option option" where
  "first_connection peer e =
     (case e of
        CliPeerInfo p i \<Rightarrow>
          if p = peer then (case io_connections i of [] \<Rightarrow> None | a # _ \<Rightarrow> Some (Some a)) else Some None
      | _ \<Rightarrow> Some None)"

definition has_forwarded :: "peer_id \<Rightarrow> cli_event \<Rightarrow> bool option" where
  "has_forwarded peer e =
     (case first_connection peer e of
        None \<Rightarrow> None
      | Some None \<Rightarrow> Some False
      | Some (Some a) \<Rightarrow> Some (forwarded a \<noteq> None))"

text \<open>The last test holds of any peer: it stands outside the parentheses.\<close>

definition forward_identified :: "peer_id \<Rightarrow> multiaddr \<Rightarrow> multiaddr option \<Rightarrow> cli_event \<Rightarrow> bool" where
  "forward_identified peer a_1 a_nat e =
     (case e of
        CliPeerInfo p i \<Rightarrow>
          p = peer \<and>
            (map_of (io_addresses i) a_1 = Some ''Candidate'' \<and>
             (case a_nat of None \<Rightarrow> True | Some a \<Rightarrow> map_of (io_addresses i) a = Some ''Dial'')) \<or>
          io_addresses i = []
      | _ \<Rightarrow> False)"

definition await_forwarded :: "'s netsim \<Rightarrow> duration \<Rightarrow> nat \<Rightarrow> peer_id \<Rightarrow> ('s, unit) prog" where
  "await_forwarded N started m peer =
     and_do (unwrap_event (by_deadline N started 5 (ns_select N m (has_forwarded peer)))) (\<lambda>e.
     and_do (of_option (Option.bind (Option.bind (first_connection peer e) id) forwarded)) (\<lambda>a_nat.
       ignore_event (by_deadline N started 10
         (ns_select N m (total_test (shows_addresses peer [(a_nat, ''Dial'')]))))))"

definition await_identified :: "'s netsim \<Rightarrow> duration \<Rightarrow> nat \<Rightarrow> nat \<Rightarrow> nat \<Rightarrow> peer_id \<Rightarrow> ('s, unit) prog" where
  "await_identified N started m_nat m c_id peer =
     and_do (unwrap_event (by_timeout 1
       (ns_select N m (\<lambda>e. map_option (\<lambda>a. a \<noteq> None) (first_connection peer e))))) (\<lambda>e.
     and_do (of_option (Option.bind (first_connection peer e) id)) (\<lambda>a_1.
       let a_nat = (case forwarded a_1 of
                      Some a \<Rightarrow> if c_id = m_nat \<and> a \<noteq> a_1 then Some a else None
                    | None \<Rightarrow> None)
       in ignore_event (by_deadline N started 10
            (ns_select N m (total_test (forward_identified peer a_1 a_nat))))))"

definition forward_check ::
  "'s netsim \<Rightarrow> harness_opts \<Rightarrow> nat \<Rightarrow> node_map \<Rightarrow> node_map \<Rightarrow> ('s, unit) prog" where
  "forward_check N opts m_nat provs cons s =
     (let started = ns_now N s
      in if ho_disable_port_reuse opts
         then for_each provs (\<lambda>(m, _). for_each cons (\<lambda>(c_id, peer, _).
                if c_id = m_nat then await_forwarded N started m peer
                else await_no_address N started m peer)) s
         else
           and_do (for_each provs (\<lambda>(m, _).
             and_do (for_each cons (\<lambda>(c_id, peer, _). await_identified N started m_nat m c_id peer)) (\<lambda>_.
               modify (ns_drain N m)))) (\<lambda>_.
           and_do (all_down N cons) (\<lambda>_ s.
             let started = ns_now N s
             in and_do (for_each provs (\<lambda>(m, _).
                  and_do (for_each cons (\<lambda>(_, peer, _). await_disconnected N started m peer)) (\<lambda>_.
                    modify (ns_drain N m)))) (\<lambda>_.
                  for_each provs (\<lambda>(m, _). for_each cons (\<lambda>(_, peer, _). check_pruned N m peer))) s)) s)"

definition forward_config :: "multiaddr \<Rightarrow> nat_config option" where
  "forward_config addr =
     map_option (\<lambda>(ip, p). \<lparr>forward_ports = [(30000, ip, p)]\<rparr>) (sock_addr addr)"

definition discover_nat_forward ::
  "'s netsim \<Rightarrow> nat \<Rightarrow> (multiaddr \<Rightarrow> string) \<Rightarrow> (8 word list \<Rightarrow> peer_id) \<Rightarrow> (node_map \<Rightarrow> node_map) \<Rightarrow>
     harness_opts \<Rightarrow> nat \<Rightarrow> string \<Rightarrow> ('s, unit) prog" where
  "discover_nat_forward N turns addr_text peer_from ord opts net_a tmp s0 =
     and_do (other_subnet N turns (ns_range N net_a s0)) (\<lambda>range_b s.
       let (net_b, s) = ns_spawn_network N range_b s
       in and_do (spawn_consumers N addr_text opts tmp net_b) (\<lambda>_ s.
          let ms = ns_machines N s
          in and_do (of_option (nodes peer_from ms (0, n_nodes opts))) (\<lambda>ps.
             and_do (of_option (nodes peer_from ms (n_nodes opts, 2 * n_nodes opts))) (\<lambda>cs.
             and_do (of_option (if n_nodes opts < length ms then Some (m_id (ms ! n_nodes opts)) else None)) (\<lambda>m_nat.
             and_do (of_option (Option.bind (map_of cs m_nat) (\<lambda>(_, addr). forward_config addr))) (\<lambda>nat_cfg s.
               let s = ns_add_nat_route N nat_cfg net_a net_b s; provs = ord ps; cons = ord cs
               in and_do (await_listening N (map fst provs @ map fst cons)) (\<lambda>_.
                  and_do (dial_all N cons provs) (\<lambda>_ s.
                  and_do (await_shown N (ns_now N s) cons provs ''Dial'') (\<lambda>_.
                    forward_check N opts m_nat provs cons) s)) s)))) s) s) s0"

definition discover_nat_forward_main ::
  "'s netsim \<Rightarrow> nat \<Rightarrow> (multiaddr \<Rightarrow> string) \<Rightarrow> (8 word list \<Rightarrow> peer_id) \<Rightarrow> (node_map \<Rightarrow> node_map) \<Rightarrow>
     harness_opts \<Rightarrow> nat \<Rightarrow> string \<Rightarrow> ('s, unit) prog" where
  "discover_nat_forward_main N turns addr_text peer_from ord opts net_a tmp =
     limited N 120 (discover_nat_forward N turns addr_text peer_from ord opts net_a tmp)"

end
