(* ===== verification/Storage_Props.thy ===== *)
theory Storage_Props
  imports Storage
begin

text \<open>
  What the storage service guarantees, given what the block store is documented to do: it is a
  map of blocks and aliases (\<open>store_laws\<close>), and its garbage collector ends and keeps what is
  pinned (\<open>gc_laws\<close>).
\<close>

section \<open>Calls\<close>

datatype store_call =
    CallInsert block
  | CallAlias string "cid option"
  | CallGet cid
  | CallContains cid
  | CallResolve string

datatype store_result = ResUnit | ResData "bytes option" | ResBool bool | ResCid "cid option"

fun storage_call ::
  "('db, 'txn, 'pin) block_store \<Rightarrow> store_call \<Rightarrow> 'db storage \<Rightarrow> store_result sresult \<times> 'db storage" where
  "storage_call B (CallInsert b) s = apfst (map_sum id (\<lambda>_. ResUnit)) (storage_insert B b s)"
| "storage_call B (CallAlias a c) s = apfst (map_sum id (\<lambda>_. ResUnit)) (storage_alias B a c s)"
| "storage_call B (CallGet c) s = apfst (map_sum id ResData) (storage_get B c s)"
| "storage_call B (CallContains c) s = apfst (map_sum id ResBool) (storage_contains B c s)"
| "storage_call B (CallResolve a) s = apfst (map_sum id ResCid) (storage_resolve B a s)"

text \<open>Calls in a row, up to the first that fails.\<close>

fun storage_calls ::
  "('db, 'txn, 'pin) block_store \<Rightarrow> store_call list \<Rightarrow> 'db storage \<Rightarrow>
     store_result list sresult \<times> 'db storage" where
  "storage_calls B [] s = (Inr [], s)"
| "storage_calls B (c # cs) s =
     (case storage_call B c s of
        (Inl e, s) \<Rightarrow> (Inl e, s)
      | (Inr r, s) \<Rightarrow> apfst (map_sum id (\<lambda>rs. r # rs)) (storage_calls B cs s))"

section \<open>The service as a map\<close>

record contents =
  c_blocks :: "cid \<rightharpoonup> bytes"
  c_aliases :: "string \<rightharpoonup> cid"

fun spec_call :: "store_call \<Rightarrow> contents \<Rightarrow> store_result \<times> contents" where
  "spec_call (CallInsert b) m = (ResUnit, m\<lparr>c_blocks := (c_blocks m)(fst b \<mapsto> snd b)\<rparr>)"
| "spec_call (CallAlias a c) m = (ResUnit, m\<lparr>c_aliases := (c_aliases m)(a := c)\<rparr>)"
| "spec_call (CallGet c) m = (ResData (c_blocks m c), m)"
| "spec_call (CallContains c) m = (ResBool (c \<in> dom (c_blocks m)), m)"
| "spec_call (CallResolve a) m = (ResCid (c_aliases m a), m)"

fun spec_calls :: "store_call list \<Rightarrow> contents \<Rightarrow> store_result list \<times> contents" where
  "spec_calls [] m = ([], m)"
| "spec_calls (c # cs) m =
     (let (r, m) = spec_call c m; (rs, m) = spec_calls cs m in (r # rs, m))"

text \<open>
  What the block store promises: a transaction starts from the contents of the store, a commit
  makes its contents those of the store, writes write and reads read.
\<close>

definition store_laws ::
  "('db, 'txn, 'pin) block_store \<Rightarrow> ('db \<Rightarrow> contents) \<Rightarrow> ('txn \<Rightarrow> contents) \<Rightarrow> bool" where
  "store_laws B vd vt \<longleftrightarrow>
     (\<forall>db. vt (bs_transaction B db) = vd db) \<and>
     (\<forall>t db u. bs_commit B t = (Inr u, db) \<longrightarrow> vd db = vt t) \<and>
     (\<forall>b t t' u. bs_put_block B b t = (Inr u, t') \<longrightarrow>
        vt t' = (vt t)\<lparr>c_blocks := (c_blocks (vt t))(fst b \<mapsto> snd b)\<rparr>) \<and>
     (\<forall>a c t t' u. bs_alias B a c t = (Inr u, t') \<longrightarrow>
        vt t' = (vt t)\<lparr>c_aliases := (c_aliases (vt t))(a := c)\<rparr>) \<and>
     (\<forall>c t t' r. bs_get_block B c t = (Inr r, t') \<longrightarrow> r = c_blocks (vt t) c \<and> vt t' = vt t) \<and>
     (\<forall>c t t' r. bs_has_block B c t = (Inr r, t') \<longrightarrow> r = (c \<in> dom (c_blocks (vt t))) \<and> vt t' = vt t) \<and>
     (\<forall>a t t' r. bs_resolve B a t = (Inr r, t') \<longrightarrow> r = c_aliases (vt t) a \<and> vt t' = vt t)"

lemma rw_Inr:
  "rw B op f s = (Inr r, s') \<Longrightarrow>
     \<exists>t u. f (bs_transaction B (st_db s)) = (Inr r, t) \<and> bs_commit B t = (Inr u, st_db s')"
  by (auto simp: rw_def rw_captured_def Let_def split: prod.splits sum.splits)

lemma call_Inr: "apfst (map_sum id g) x = (Inr r, s') \<longleftrightarrow> (\<exists>y. x = (Inr y, s') \<and> r = g y)"
  by (cases x; cases "fst x") auto

lemma batch_fns:
  "batch_insert B b = bs_put_block B b" "batch_alias B a c = bs_alias B a c"
  "batch_get B x = bs_get_block B x" "batch_contains B x = bs_has_block B x"
  "batch_resolve B a = bs_resolve B a"
  by (intro ext; simp add: batch_insert_def batch_alias_def batch_get_def batch_contains_def
      batch_resolve_def)+

lemmas storage_defs = storage_insert_def storage_alias_def storage_get_def storage_contains_def
  storage_resolve_def batch_fns

text \<open>An operation on transactions that refines \<open>g\<close> makes a call of the service that does.\<close>

lemma rw_refines:
  assumes "store_laws B vd vt" and "rw B op f s = (Inr r, s')"
    and "\<And>t t'. f t = (Inr r, t') \<Longrightarrow> (r, vt t') = g (vt t)"
  shows "(r, vd (st_db s')) = g (vd (st_db s))"
proof -
  obtain t u where "f (bs_transaction B (st_db s)) = (Inr r, t)" "bs_commit B t = (Inr u, st_db s')"
    using rw_Inr [OF assms(2)] by blast
  with assms(1) assms(3) [of "bs_transaction B (st_db s)" t] show ?thesis
    unfolding store_laws_def by metis
qed

lemma storage_call_refines:
  assumes laws: "store_laws B vd vt" and "storage_call B c s = (Inr r, s')"
  shows "spec_call c (vd (st_db s)) = (r, vd (st_db s'))"
proof (cases c)
  case (CallInsert b)
  with assms(2) have "rw B ''insert'' (bs_put_block B b) s = (Inr (), s')" "r = ResUnit"
    by (auto simp: call_Inr storage_defs)
  with rw_refines [OF laws this(1), of "\<lambda>m. ((), snd (spec_call c m))"] laws CallInsert show ?thesis
    by (simp add: store_laws_def)
next
  case (CallAlias a x)
  with assms(2) have "rw B ''alias'' (bs_alias B a x) s = (Inr (), s')" "r = ResUnit"
    by (auto simp: call_Inr storage_defs)
  with rw_refines [OF laws this(1), of "\<lambda>m. ((), snd (spec_call c m))"] laws CallAlias show ?thesis
    by (simp add: store_laws_def)
next
  case (CallGet x)
  with assms(2) obtain y where "rw B ''get'' (bs_get_block B x) s = (Inr y, s')" "r = ResData y"
    by (auto simp: call_Inr storage_defs)
  with rw_refines [OF laws this(1), of "\<lambda>m. (c_blocks m x, m)"] laws CallGet show ?thesis
    by (simp add: store_laws_def)
next
  case (CallContains x)
  with assms(2) obtain y where "rw B ''contains'' (bs_has_block B x) s = (Inr y, s')" "r = ResBool y"
    by (auto simp: call_Inr storage_defs)
  with rw_refines [OF laws this(1), of "\<lambda>m. (x \<in> dom (c_blocks m), m)"] laws CallContains show ?thesis
    by (simp add: store_laws_def)
next
  case (CallResolve a)
  with assms(2) obtain y where "rw B ''resolve'' (bs_resolve B a) s = (Inr y, s')" "r = ResCid y"
    by (auto simp: call_Inr storage_defs)
  with rw_refines [OF laws this(1), of "\<lambda>m. (c_aliases m a, m)"] laws CallResolve show ?thesis
    by (simp add: store_laws_def)
qed

lemma storage_calls_refine:
  assumes "store_laws B vd vt" and "storage_calls B cs s = (Inr rs, s')"
  shows "spec_calls cs (vd (st_db s)) = (rs, vd (st_db s'))"
  using assms(2)
proof (induction cs arbitrary: s rs)
  case (Cons c cs)
  then obtain r s1 where c: "storage_call B c s = (Inr r, s1)"
    by (cases "storage_call B c s"; cases "fst (storage_call B c s)") auto
  with Cons.prems obtain rs1 where rs: "storage_calls B cs s1 = (Inr rs1, s')" "rs = r # rs1"
    by (auto simp: call_Inr)
  from storage_call_refines [OF assms(1) c] Cons.IH [OF rs(1)] rs(2) show ?case by simp
qed simp


text \<open>A store that keeps its contents in two association lists, whose collector drops a block a turn.\<close>

record map_db =
  m_blocks :: "(cid, bytes) hmap"
  m_aliases :: "(string, cid) hmap"

definition map_store :: "(map_db, map_db, cid list) block_store" where
  "map_store =
     \<lparr>bs_transaction = id, bs_commit = (\<lambda>t. (Inr (), t)), bs_abandon = id,
      bs_temp_pin = (\<lambda>t. ([], t)), bs_extend_temp_pin = (\<lambda>c p t. (Inr (), c # p, t)),
      bs_block_cids = (\<lambda>t. (Inr (keys (m_blocks t)), t)),
      bs_has_block = (\<lambda>c t. (Inr (contains_key (m_blocks t) c), t)),
      bs_get_block = (\<lambda>c t. (Inr (map_of (m_blocks t) c), t)),
      bs_put_block = (\<lambda>b t. (Inr (), t\<lparr>m_blocks := AList.update (fst b) (snd b) (m_blocks t)\<rparr>)),
      bs_resolve = (\<lambda>a t. (Inr (map_of (m_aliases t) a), t)),
      bs_alias = (\<lambda>a c t. (Inr (), t\<lparr>m_aliases :=
         (case c of None \<Rightarrow> AList.delete a (m_aliases t) | Some c \<Rightarrow> AList.update a c (m_aliases t))\<rparr>)),
      bs_aliases = (\<lambda>t. (Inr (m_aliases t), t)),
      bs_reverse_alias = (\<lambda>c t. (Inr None, t)),
      bs_missing_blocks = (\<lambda>c t. (if contains_key (m_blocks t) c then Inr [] else Inr [c], t)),
      bs_incremental_gc = (\<lambda>n d t.
         (case filter (\<lambda>(c, _). c \<notin> snd ` set (m_aliases t)) (m_blocks t) of
            [] \<Rightarrow> (Inr True, t)
          | (c, _) # _ \<Rightarrow> (Inr False, t\<lparr>m_blocks := AList.delete c (m_blocks t)\<rparr>))),
      bs_flush = (\<lambda>t. (Inr (), t)), bs_stats = (\<lambda>t. Inr (of_nat (length (m_blocks t)), 0))\<rparr>"

definition map_view :: "map_db \<Rightarrow> contents" where
  "map_view t = \<lparr>c_blocks = map_of (m_blocks t), c_aliases = map_of (m_aliases t)\<rparr>"

definition sample_storage :: "map_db \<Rightarrow> map_db storage" where
  "sample_storage db =
     \<lparr>st_executor = AsyncGlobal, st_db = db, st_gc_target_duration = 1, st_gc_min_blocks = 1,
      st_gc_task = None, queries_total = [], query_duration = []\<rparr>"

lemma map_store_laws: "store_laws map_store map_view map_view"
  by (auto simp: store_laws_def map_store_def map_view_def alist_simps split: option.split)


section \<open>Eviction\<close>

text \<open>
  What the store promises of its garbage collector: a turn collects at least the minimum number of
  blocks, so one that reports more to do has collected something unless that number is zero, and
  no turn touches a block that is pinned.
\<close>

definition gc_laws ::
  "('db, 'txn, 'pin) block_store \<Rightarrow> ('db \<Rightarrow> nat) \<Rightarrow> ('db \<Rightarrow> cid \<Rightarrow> bytes option) \<Rightarrow> ('db \<Rightarrow> cid \<Rightarrow> bool) \<Rightarrow> bool" where
  "gc_laws B garbage block pinned \<longleftrightarrow>
     (\<forall>m d db db'. 0 < m \<longrightarrow> bs_incremental_gc B m d db = (Inr False, db') \<longrightarrow> garbage db' < garbage db) \<and>
     (\<forall>m d db r db' c. bs_incremental_gc B m d db = (r, db') \<longrightarrow> pinned db c \<longrightarrow>
        pinned db' c \<and> block db' c = block db c)"

text \<open>The other users of the store make no new garbage and leave a pinned block alone.\<close>

definition harmless ::
  "('db \<Rightarrow> nat) \<Rightarrow> ('db \<Rightarrow> cid \<Rightarrow> bytes option) \<Rightarrow> ('db \<Rightarrow> cid \<Rightarrow> bool) \<Rightarrow> (nat \<Rightarrow> 'db \<Rightarrow> 'db) \<Rightarrow> bool" where
  "harmless garbage block pinned other \<longleftrightarrow>
     (\<forall>i db. garbage (other i db) \<le> garbage db) \<and>
     (\<forall>i db c. pinned db c \<longrightarrow> pinned (other i db) c \<and> block (other i db) c = block db c)"

lemma evict_loop_ends:
  assumes "gc_laws B garbage block pinned" and "harmless garbage block pinned other" and "0 < m"
  shows "garbage db < fuel \<Longrightarrow>
    \<exists>res db'. evict_loop B other m d fuel db = Some (res, db') \<and>
      (\<forall>c. pinned db c \<longrightarrow> pinned db' c \<and> block db' c = block db c) \<and>
      (res = Inr () \<longrightarrow> (\<exists>db0. bs_incremental_gc B m d db0 = (Inr True, db')))"
proof (induction fuel arbitrary: db)
  case (Suc fuel)
  obtain r db1 where gc: "bs_incremental_gc B m d db = (r, db1)" by fastforce
  have kept: "pinned db1 c \<and> block db1 c = block db c" if "pinned db c" for c
    using assms(1) gc that by (auto simp: gc_laws_def)
  consider (err) e where "r = Inl e" | (fin) "r = Inr True" | (more) "r = Inr False" by (cases r) auto
  then show ?case
  proof cases
    case more
    have "garbage (other fuel db1) < fuel"
    proof -
      have "garbage db1 < garbage db" using assms(1,3) gc more by (auto simp: gc_laws_def)
      moreover have "garbage (other fuel db1) \<le> garbage db1" using assms(2) by (simp add: harmless_def)
      ultimately show ?thesis using Suc.prems by simp
    qed
    from Suc.IH [OF this] obtain res db' where *: "evict_loop B other m d fuel (other fuel db1) = Some (res, db')"
      "\<And>c. pinned (other fuel db1) c \<Longrightarrow> pinned db' c \<and> block db' c = block (other fuel db1) c"
      "res = Inr () \<Longrightarrow> \<exists>db0. bs_incremental_gc B m d db0 = (Inr True, db')" by blast
    have "pinned db' c \<and> block db' c = block db c" if "pinned db c" for c
      using kept [OF that] assms(2) *(2) [of c] by (simp add: harmless_def)
    with * gc more show ?thesis by auto
  qed (use gc kept in auto)
qed simp


definition unaliased :: "map_db \<Rightarrow> (cid \<times> bytes) list" where
  "unaliased t = filter (\<lambda>(c, _). c \<notin> snd ` set (m_aliases t)) (m_blocks t)"

lemma map_store_gc_laws:
  "gc_laws map_store (\<lambda>t. length (unaliased t)) (\<lambda>t. map_of (m_blocks t)) (\<lambda>t c. c \<in> snd ` set (m_aliases t))"
proof -
  have less: "length (unaliased (t\<lparr>m_blocks := AList.delete c (m_blocks t)\<rparr>)) < Suc (length r)"
    if "unaliased t = (c, x) # r" for t c x r
  proof -
    have "unaliased (t\<lparr>m_blocks := AList.delete c (m_blocks t)\<rparr>) = filter (\<lambda>(k, _). c \<noteq> k) (unaliased t)"
      by (simp add: unaliased_def AList.delete_eq case_prod_unfold conj_commute)
    also have "length \<dots> < length (unaliased t)"
      using that by (intro length_filter_less [of "(c, x)"]) simp_all
    finally show ?thesis using that by simp
  qed
  have aliased: "c \<notin> snd ` set (m_aliases t)" if "unaliased t = (c, x) # r" for t c x r
  proof -
    have "(c, x) \<in> set (unaliased t)" using that by simp
    then show ?thesis by (simp add: unaliased_def)
  qed
  have gc: "bs_incremental_gc map_store m d t =
      (case unaliased t of
         [] \<Rightarrow> (Inr True, t)
       | (c, _) # _ \<Rightarrow> (Inr False, t\<lparr>m_blocks := AList.delete c (m_blocks t)\<rparr>))" for m d t
    by (simp add: map_store_def unaliased_def)
  show ?thesis
    unfolding gc_laws_def gc
    by (auto split: list.splits simp: alist_simps dest: aliased less)
qed


end
