(* ===== verification/Ipfs_Props.thy ===== *)
theory Ipfs_Props
  imports Ipfs Storage_Props
begin

text \<open>
  What the node guarantees about blocks, given the documented behaviour of the block store.
\<close>

abbreviation stored :: "('db \<Rightarrow> contents) \<Rightarrow> 'db ipfs \<Rightarrow> cid \<Rightarrow> bytes option" where
  "stored vd i c \<equiv> c_blocks (vd (st_db (ip_storage i))) c"

lemma ask_storage_call:
  assumes "store_laws B vd vt" and "ask_storage (storage_get B c) i = (Inr x, i')"
  shows "x = stored vd i c \<and> vd (st_db (ip_storage i')) = vd (st_db (ip_storage i)) \<and>
    ip_network i' = ip_network i"
proof -
  obtain s' where get: "storage_get B c (ip_storage i) = (Inr x, s')" and i': "i' = i\<lparr>ip_storage := s'\<rparr>"
    using assms(2) by (auto simp: ask_storage_def split: prod.splits)
  have "storage_call B (CallGet c) (ip_storage i) = (Inr (ResData x), s')" using get by simp
  from storage_call_refines [OF assms(1) this] i' show ?thesis by auto
qed

lemma ipfs_get_spec:
  assumes "store_laws B vd vt" and "ipfs_get B c i = (r, i')"
  shows "(\<exists>e. r = Inl (IpfsStorage e)) \<or>
    r = (case stored vd i c of Some d \<Rightarrow> Inr (c, d) | None \<Rightarrow> Inl (IpfsBlockNotFound c)) \<and>
    vd (st_db (ip_storage i')) = vd (st_db (ip_storage i))"
proof (cases "fst (ask_storage (storage_get B c) i)")
  case (Inr x)
  then obtain i1 where *: "ask_storage (storage_get B c) i = (Inr x, i1)" by (metis prod.collapse)
  with ask_storage_call [OF assms(1) this] assms(2) show ?thesis
    by (auto simp: ipfs_get_def split: option.splits)
qed (use assms(2) in \<open>auto simp: ipfs_get_def split: prod.splits\<close>)

lemma ipfs_get_network: "ip_network (snd (ipfs_get B c i)) = ip_network i"
  by (simp add: ipfs_get_def ask_storage_def split: prod.split)

text \<open>What is inserted can be read: a block that was inserted without error comes back under its cid with
  its data, unless the store reports an error.\<close>

lemma insert_then_get:
  assumes "store_laws B vd vt" and "ipfs_insert B (c, d) i = (Inr u, i')"
  shows "case fst (ipfs_get B c i') of
      Inr b \<Rightarrow> b = (c, d)
    | Inl e \<Rightarrow> (\<exists>x. e = IpfsStorage x)"
proof -
  obtain s' where ins: "storage_insert B (c, d) (ip_storage i) = (Inr u, s')" "i' = i\<lparr>ip_storage := s'\<rparr>"
    using assms(2) by (auto simp: ipfs_insert_def ask_storage_def split: prod.splits)
  then have "storage_call B (CallInsert (c, d)) (ip_storage i) = (Inr ResUnit, s')" by simp
  from storage_call_refines [OF assms(1) this] have "vd (st_db s') =
      (vd (st_db (ip_storage i)))\<lparr>c_blocks := (c_blocks (vd (st_db (ip_storage i))))(c \<mapsto> d)\<rparr>"
    by simp
  then have "stored vd i' c = Some d" by (simp add: ins)
  with ipfs_get_spec [OF assms(1) prod.collapse [symmetric], of c i'] show ?thesis by auto
qed

definition sample_service :: service where
  "sample_service = \<lparr>svc_public_key = 1, svc_peer_id = 1, svc_node_name = ''n'', cmd_queue = []\<rparr>"

definition sample_ipfs :: "map_db ipfs" where
  "sample_ipfs =
     \<lparr>ip_storage = sample_storage \<lparr>m_blocks = [(5, [1])], m_aliases = []\<rparr>, ip_network = sample_service\<rparr>"



section \<open>Synchronisation\<close>

text \<open>(C35) If the storage cannot tell which blocks are missing, \<open>sync\<close> reports success at once, whatever the
  providers, without asking the network: the returned query is already complete with \<open>Ok\<close>.\<close>

theorem sync_hides_storage_error:
  assumes "storage_missing_blocks B c (ip_storage i) = (Inl e, s')"
  shows "ipfs_sync B res c provs tx i = (ReadyValue (sync_query_ready (Inr ())), i\<lparr>ip_storage := s'\<rparr>) \<and>
    fst (the (sync_query_poll 1 (sq_rx (sync_query_ready (Inr ()))))) = Ready (Inr ())"
  using assms
  by (simp add: ipfs_sync_def ask_storage_def ask_network_def svc_sync_def sync_query_ready_def)

theorem sync_hides_storage_error_witness:
  "\<exists>s'. ipfs_sync (map_store\<lparr>bs_missing_blocks := (\<lambda>c t. (Inl (StoreError 1), t))\<rparr>) TryFull 9 [2] 3 sample_ipfs =
     (ReadyValue (sync_query_ready (Inr ())), sample_ipfs\<lparr>ip_storage := s'\<rparr>)"
proof -
  let ?B = "map_store\<lparr>bs_missing_blocks := (\<lambda>c t. (Inl (StoreError 1), t))\<rparr>"
  obtain s' where "storage_missing_blocks ?B 9 (ip_storage sample_ipfs) = (Inl (StoreError 1), s')"
    by (simp add: storage_missing_blocks_def batch_missing_blocks_def rw_def rw_captured_def)
  from sync_hides_storage_error [OF this, of TryFull "[2]" 3] show ?thesis by blast
qed

end
