(* ===== verification/Cli_Props.thy ===== *)
theory Cli_Props
  imports Cli_Main Ipfs_Props
begin

text \<open>
  The tool as its controlling process sees it.
\<close>

text \<open>A line that prints a command has the effect and the output of that command and no other: the tool
  runs the command it was printed from, on the node as it is.\<close>

lemma cli_line_runs_command:
  assumes "command_ok C c" and "line_end t" and "run_command B io c (cli_node st) = (Inr printed, node)"
  shows "cli_line B C io (show_command C c @ t) st =
    Some (st\<lparr>cli_node := node, cli_out := cli_out st @ printed\<rparr>)"
proof -
  have "parse_command C (show_command C c @ t) = Some (Inr c)"
    using assms(1,2) by (intro parse_command_end parse_command_show)
  with assms(3) show ?thesis by (simp add: cli_line_def)
qed

text \<open>(C40) At the end of its input the tool does not stop: every further turn of the loop reads nothing, reports
  the same invalid command and goes on, and the node is left as it is.\<close>

theorem cli_spins_at_end_of_input:
  "cli_loop B C io turns [] st =
     Some (None, st\<lparr>cli_err := cli_err st @
       replicate turns (''main loop error (line = ): invalid command ``'')\<rparr>)"
proof (induction turns arbitrary: st)
  case (Suc turns)
  have "cli_line B C io [] st =
      Some (st\<lparr>cli_err := cli_err st @ [''main loop error (line = ): invalid command ``'']\<rparr>)"
    by (simp add: cli_line_def parse_command_def)
  with Suc.IH show ?case by simp
qed simp

text \<open>The node name given on the command line is lost: whatever it is, the node announces itself to its
  peers under the generated name, because starting the behaviour overwrites what the tool has set.\<close>

lemma cli_name_overwritten:
  assumes "behaviour_new pk tp m g (cli_network_config name agent pk key key_from config) = Inr (n, ident, rest)"
  shows "map_option ic_agent_version ident = Some name"
  using assms
  by (auto simp: behaviour_new_def cli_network_config_def network_config_new_def Let_def
      split: option.splits if_splits)

end
