(* ===== verification/Tool_Script.thy ===== *)
theory Tool_Script
  imports Cli_Props Harness_Checks
begin

text \<open>
  The tool from end to end: lines on its standard input are parsed, run on the node and carried
  out by the storage service.  Seen from outside it is a map of blocks and a map of aliases, and
  what the harness writes to it can be read back.
\<close>

section \<open>The tool as a map\<close>

text \<open>What a command prints and does to the contents of the store; \<open>sync\<close> depends on other nodes.\<close>

fun local_command :: "command \<Rightarrow> bool" where
  "local_command (CliSync _) = False"
| "local_command _ = True"

fun spec_command :: "command \<Rightarrow> contents \<Rightarrow> cli_event list \<times> contents" where
  "spec_command (CliInsert b) m = ([], m\<lparr>c_blocks := (c_blocks m)(fst b \<mapsto> snd b)\<rparr>)"
| "spec_command (CliAlias a c) m = ([], m\<lparr>c_aliases := (c_aliases m)(a := c)\<rparr>)"
| "spec_command (CliGet c) m =
     (case c_blocks m c of Some d \<Rightarrow> [CliBlock (c, d)] | None \<Rightarrow> [], m)"
| "spec_command CliFlush m = ([CliFlushed], m)"
| "spec_command _ m = ([], m)"

fun spec_commands :: "command list \<Rightarrow> contents \<Rightarrow> cli_event list \<times> contents" where
  "spec_commands [] m = ([], m)"
| "spec_commands (c # cs) m =
     (let (out, m) = spec_command c m; (outs, m) = spec_commands cs m in (out @ outs, m))"

lemma spec_commands_append:
  "spec_commands (cs @ ds) m =
     (let (xs, m) = spec_commands cs m; (ys, m) = spec_commands ds m in (xs @ ys, m))"
  by (induction cs arbitrary: m) (simp_all add: Let_def split_beta)

definition flush_law :: "('db, 'txn, 'pin) block_store \<Rightarrow> ('db \<Rightarrow> contents) \<Rightarrow> bool" where
  "flush_law B vd \<longleftrightarrow> (\<forall>db u db'. bs_flush B db = (Inr u, db') \<longrightarrow> vd db' = vd db)"

abbreviation held_by :: "('db \<Rightarrow> contents) \<Rightarrow> 'db cli \<Rightarrow> contents" where
  "held_by vd st \<equiv> vd (st_db (ip_storage (cli_node st)))"

lemma storage_spec:
  assumes "store_laws B vd vt"
  shows "storage_insert B b s = (Inr u, s') \<Longrightarrow> vd (st_db s') = snd (spec_command (CliInsert b) (vd (st_db s)))"
    and "storage_alias B a c s = (Inr u, s') \<Longrightarrow> vd (st_db s') = snd (spec_command (CliAlias a c) (vd (st_db s)))"
    and "storage_get B x s = (Inr d, s') \<Longrightarrow> d = c_blocks (vd (st_db s)) x \<and> vd (st_db s') = vd (st_db s)"
  using storage_call_refines [OF assms, of "CallInsert b" s ResUnit s']
    storage_call_refines [OF assms, of "CallAlias a c" s ResUnit s']
    storage_call_refines [OF assms, of "CallGet x" s "ResData d" s']
  by (auto simp: call_Inr)

lemma map_sum_Inr: "map_sum f g x = Inr y \<longleftrightarrow> (\<exists>z. x = Inr z \<and> y = g z)"
  by (cases x) auto

lemma run_command_spec:
  assumes "store_laws B vd vt" and "flush_law B vd" and "io_lost io = None" and "local_command c"
    and "run_command B io c i = (Inr printed, i')"
  shows "(printed, vd (st_db (ip_storage i'))) = spec_command c (vd (st_db (ip_storage i)))"
proof (cases c)
  case (CliInsert b)
  with assms(5) obtain s' where "storage_insert B b (ip_storage i) = (Inr (), s')"
    "i' = i\<lparr>ip_storage := s'\<rparr>" "printed = []"
    by (auto simp: ipfs_insert_def ask_storage_def Let_def map_sum_Inr split: prod.splits sum.splits)
  with storage_spec(1) [OF assms(1)] CliInsert show ?thesis by simp
next
  case (CliAlias a x)
  with assms(5) obtain s' where "storage_alias B a x (ip_storage i) = (Inr (), s')"
    "i' = i\<lparr>ip_storage := s'\<rparr>" "printed = []"
    by (auto simp: ipfs_alias_def ask_storage_def Let_def map_sum_Inr split: prod.splits sum.splits)
  with storage_spec(2) [OF assms(1)] CliAlias show ?thesis by simp
next
  case (CliGet x)
  with assms(5) obtain d s' where "storage_get B x (ip_storage i) = (Inr (Some d), s')"
    "i' = i\<lparr>ip_storage := s'\<rparr>" "printed = [CliBlock (x, d)]"
    by (auto simp: ipfs_get_def ask_storage_def Let_def map_sum_Inr split: prod.splits sum.splits option.splits)
  with storage_spec(3) [OF assms(1)] CliGet show ?thesis by (auto split: option.splits)
next
  case CliFlush
  with assms(3,5) obtain db' where "bs_flush B (st_db (ip_storage i)) = (Inr (), db')"
    "st_db (ip_storage i') = db'" "printed = [CliFlushed]"
    by (auto simp: ipfs_flush_def ask_storage_def storage_flush_def observe_future_def Let_def
        map_sum_Inr split: prod.splits)
  with assms(2) CliFlush show ?thesis by (auto simp: flush_law_def)
qed (use assms(4,5) in \<open>auto simp: ipfs_add_address_def ipfs_dial_def ipfs_prune_peers_def on_network_def\<close>)

section \<open>Lines\<close>

lemma cli_line_command:
  assumes "command_ok C c" and "line_end t"
  shows "\<exists>st'. cli_line B C io (show_command C c @ t) st = Some st' \<and>
    (\<exists>es. cli_err st' = cli_err st @ es \<and>
       (es = [] \<longrightarrow> (\<exists>printed node. run_command B io c (cli_node st) = (Inr printed, node) \<and>
          st' = st\<lparr>cli_node := node, cli_out := cli_out st @ printed\<rparr>)))"
proof -
  have parsed: "parse_command C (show_command C c @ t) = Some (Inr c)"
    using assms by (intro parse_command_end parse_command_show)
  obtain r node where r: "run_command B io c (cli_node st) = (r, node)" by fastforce
  show ?thesis
  proof (cases r)
    case (Inl e)
    with parsed r show ?thesis by (simp add: cli_line_def)
  next
    case (Inr printed)
    with parsed r show ?thesis by (simp add: cli_line_def)
  qed
qed

lemma cli_loop_refines:
  assumes "store_laws B vd vt" and "flush_law B vd" and "io_lost io = None"
  shows "list_all (\<lambda>(c, t). command_ok C c \<and> local_command c \<and> line_end t) cs \<Longrightarrow>
    \<exists>st'. cli_loop B C io (length cs) (map (\<lambda>(c, t). Inr (show_command C c @ t)) cs) st = Some (None, st') \<and>
      (\<exists>es. cli_err st' = cli_err st @ es \<and>
         (es = [] \<longrightarrow> (\<exists>outs. cli_out st' = cli_out st @ outs \<and>
            spec_commands (map fst cs) (held_by vd st) = (outs, held_by vd st'))))"
proof (induction cs arbitrary: st)
  case (Cons x cs)
  obtain c t where x: "x = (c, t)" by fastforce
  with Cons.prems have c: "command_ok C c" "line_end t" "local_command c" by auto
  obtain st1 es1 where st1: "cli_line B C io (show_command C c @ t) st = Some st1" "cli_err st1 = cli_err st @ es1"
    "es1 = [] \<Longrightarrow> \<exists>printed node. run_command B io c (cli_node st) = (Inr printed, node) \<and>
       st1 = st\<lparr>cli_node := node, cli_out := cli_out st @ printed\<rparr>"
    using cli_line_command [OF c(1,2)] by metis
  obtain st' es where st': "cli_loop B C io (length cs) (map (\<lambda>(c, t). Inr (show_command C c @ t)) cs) st1 = Some (None, st')"
    "cli_err st' = cli_err st1 @ es"
    "es = [] \<Longrightarrow> \<exists>outs. cli_out st' = cli_out st1 @ outs \<and>
       spec_commands (map fst cs) (held_by vd st1) = (outs, held_by vd st')"
    using Cons.IH [of st1] Cons.prems by auto
  have "\<exists>outs. cli_out st' = cli_out st @ outs \<and>
      spec_commands (map fst (x # cs)) (held_by vd st) = (outs, held_by vd st')" if "es1 @ es = []"
  proof -
    obtain printed node where run: "run_command B io c (cli_node st) = (Inr printed, node)"
      "st1 = st\<lparr>cli_node := node, cli_out := cli_out st @ printed\<rparr>"
      using st1(3) \<open>es1 @ es = []\<close> by auto
    obtain outs where outs: "cli_out st' = cli_out st1 @ outs"
      "spec_commands (map fst cs) (held_by vd st1) = (outs, held_by vd st')"
      using st'(3) \<open>es1 @ es = []\<close> by auto
    have "spec_command c (held_by vd st) = (printed, held_by vd st1)"
      using run_command_spec [OF assms c(3) run(1)] run(2) by simp
    with outs run(2) x show ?thesis by simp
  qed
  with st1(1,2) st'(1,2) x show ?case by simp
qed simp


definition sample_io :: "map_db cli_io" where
  "sample_io =
     \<lparr>io_res = TrySent, io_tx = 0, io_book = address_book_new 1 True True False, io_lost = None,
      io_synced = Inr (), io_error_str = (\<lambda>_. ''error'')\<rparr>"

lemma sample_flush_law: "flush_law map_store map_view"
  by (simp add: flush_law_def map_store_def)

definition sample_cli :: "map_db cli" where
  "sample_cli = \<lparr>cli_node = sample_ipfs, cli_out = [], cli_err = []\<rparr>"

definition sample_script :: "(command \<times> string) list" where
  "sample_script =
     [(CliInsert (3, [1, 2, 255]), [CHR 0x0A]), (CliPrunePeers, []), (CliFlush, [CHR 0x0A]), (CliGet 3, [CHR 0x0A])]"


section \<open>What the harness writes\<close>

lemma spec_inserts:
  "spec_commands (map CliInsert bs) m =
     ([], m\<lparr>c_blocks := fold (\<lambda>b f. f(fst b \<mapsto> snd b)) bs (c_blocks m)\<rparr>)"
  by (induction bs arbitrary: m) simp_all

lemma fold_insert_lookup:
  assumes "b \<in> set bs" and "\<And>x y. x \<in> set bs \<Longrightarrow> y \<in> set bs \<Longrightarrow> fst x = fst y \<Longrightarrow> x = y"
  shows "fold (\<lambda>b f. f(fst b \<mapsto> snd b)) bs m (fst b) = Some (snd b)"
  using assms
proof (induction bs arbitrary: m rule: rev_induct)
  case (snoc x bs)
  show ?case
  proof (cases "fst x = fst b")
    case True
    with snoc.prems have "x = b" by (metis in_set_conv_decomp)
    then show ?thesis by simp
  next
    case False
    with snoc.prems(1) have "b \<in> set bs" by auto
    with snoc False show ?thesis by simp
  qed
qed simp

lemma spec_gets:
  assumes "\<And>b. b \<in> set bs \<Longrightarrow> c_blocks m (fst b) = Some (snd b)"
  shows "spec_commands (map (CliGet \<circ> fst) bs) m = (map CliBlock bs, m)"
  using assms by (induction bs) simp_all

lemma spec_provider_script:
  assumes "\<And>x y. x \<in> set bs \<Longrightarrow> y \<in> set bs \<Longrightarrow> fst x = fst y \<Longrightarrow> x = y"
  shows "\<exists>m'. spec_commands (provider_script root cid bs @ [CliFlush] @ map (CliGet \<circ> fst) bs) m =
      (CliFlushed # map CliBlock bs, m') \<and> c_aliases m' root = Some cid"
proof -
  let ?m = "m\<lparr>c_aliases := (c_aliases m)(root \<mapsto> cid)\<rparr>"
  let ?m' = "?m\<lparr>c_blocks := fold (\<lambda>b f. f(fst b \<mapsto> snd b)) (rev bs) (c_blocks ?m)\<rparr>"
  have "spec_commands (map (CliGet \<circ> fst) bs) ?m' = (map CliBlock bs, ?m')"
    using fold_insert_lookup [of _ "rev bs"] assms by (intro spec_gets) simp
  then show ?thesis
    using spec_inserts [of "rev bs" ?m]
    by (simp add: provider_script_def spec_commands_append)
qed

text \<open>Blocks that \<open>Block::encode\<close> makes: the other side accepts them, and cids do not collide.\<close>

definition encode_laws :: "codec \<Rightarrow> (node \<Rightarrow> nat + block) \<Rightarrow> bool" where
  "encode_laws C encode \<longleftrightarrow>
     (\<forall>n. \<exists>b. encode n = Inr b \<and> block_ok C b) \<and>
     (\<forall>n n' b b'. encode n = Inr b \<longrightarrow> encode n' = Inr b' \<longrightarrow> fst b = fst b' \<longrightarrow> b = b')"

lemma build_tree_blocks:
  assumes "encode_laws C encode"
  shows "\<exists>cid blocks. build_tree encode rng width depth = Inr (cid, blocks) \<and> cid \<in> fst ` set blocks \<and>
    (\<forall>b \<in> set blocks. \<exists>n. encode n = Inr b)"
proof -
  have "\<forall>n. \<exists>b. encode n = Inr b" using assms unfolding encode_laws_def by blast
  moreover have "links_back encode rng []" by (simp add: links_back_def)
  ultimately obtain cid blocks where *: "build_tree_0 encode rng width depth [] = (Inr cid, blocks)"
    "links_back encode rng blocks" "length blocks = tree_size width depth" "cid = fst (last blocks)"
    using build_tree_ok(1) [of encode rng "[]" width depth] by auto
  have "\<exists>n. encode n = Inr b" if "b \<in> set blocks" for b
    using that *(2) by (fastforce simp: links_back_def create_block_def in_set_conv_nth)
  moreover have "tree_size width depth \<noteq> 0" by (cases depth) simp_all
  with * have "cid \<in> fst ` set blocks" by (cases blocks rule: rev_cases) auto
  ultimately show ?thesis using *(1) by (auto simp: build_tree_def)
qed


definition sample_encode :: "node \<Rightarrow> nat + block" where
  "sample_encode n = Inr (if nd_links n = [] then (1, [7]) else (2, [8, 9]))"


end
