(* ===== verification/Programs_Props.thy ===== *)
theory Programs_Props
  imports Programs_Nat Tool_Script "HOL-Library.Code_Target_Nat"
begin

text \<open>
  What a successful run of a simulation program says about the nodes, and what the programs do
  when the nodes are gone.
\<close>

section \<open>Nodes that have exited\<close>

text \<open>
  In the states \<open>P\<close> the tools of all machines have exited: their outputs have ended, so reading
  gives no event at once, and nothing brings them back.  The clock is far from overflowing.
\<close>

definition exited :: "'s netsim \<Rightarrow> ('s \<Rightarrow> bool) \<Rightarrow> bool" where
  "exited N P \<longleftrightarrow>
     (\<forall>s. P s \<longrightarrow> ns_now N s + 10 ^ 9 \<le> duration_max) \<and>
     (\<forall>m c s. P s \<longrightarrow> P (ns_send N m c s)) \<and>
     (\<forall>m d s. P s \<longrightarrow> fst (ns_recv N m d s) = NoEvent \<and> P (snd (ns_recv N m d s))) \<and>
     (\<forall>m f d s. P s \<longrightarrow> fst (ns_select N m f d s) = Some NoEvent \<and> P (snd (ns_select N m f d s)))"

definition goes :: "('s \<Rightarrow> bool) \<Rightarrow> ('s, 'a) prog \<Rightarrow> bool" where
  "goes P p \<longleftrightarrow> (\<forall>s. P s \<longrightarrow> (\<exists>x s'. p s = (RanOk x, s') \<and> P s'))"

lemma goes_run: "goes P p \<Longrightarrow> P s \<Longrightarrow> \<exists>x s'. p s = (RanOk x, s') \<and> P s'"
  by (simp add: goes_def)

lemma goes_pure [intro]: "goes P (pure x)"
  by (simp add: goes_def pure_def)

lemma goes_and_do [intro]: "goes P p \<Longrightarrow> (\<And>x. goes P (f x)) \<Longrightarrow> goes P (and_do p f)"
  unfolding goes_def and_do_def by fastforce

lemma goes_for_each [intro]: "(\<And>x. goes P (f x)) \<Longrightarrow> goes P (for_each xs f)"
  by (induction xs) auto

lemma goes_send: "exited N P \<Longrightarrow> goes P (modify (ns_send N m c))"
  by (simp add: goes_def modify_def exited_def)

lemma deadline_some:
  assumes "elapsed + 10 ^ 9 \<le> duration_max"
  shows "\<exists>dur. deadline elapsed d = Some dur"
  using deadline_bounds [of elapsed d] assms by fastforce

lemma goes_select:
  assumes "exited N P"
  shows "goes P (ignore_event (by_deadline N started d (ns_select N m f)))"
  unfolding goes_def
proof (intro allI impI)
  fix s assume "P s"
  with assms have "(ns_now N s - started) + 10 ^ 9 \<le> duration_max" by (fastforce simp: exited_def)
  then obtain dur where "deadline (ns_now N s - started) d = Some dur" using deadline_some by blast
  moreover obtain s' where "ns_select N m f dur s = (Some NoEvent, s')" "P s'"
    using assms \<open>P s\<close> by (metis exited_def prod.collapse)
  ultimately show "\<exists>x s'. ignore_event (by_deadline N started d (ns_select N m f)) s = (RanOk x, s') \<and> P s'"
    by (simp add: ignore_event_def and_do_def by_deadline_def unwrap_time_def pure_def)
qed

lemma goes_discover_plain_parts:
  assumes "exited N P"
  shows "goes P (await_listening N ids)" "goes P (dial_all N cons provs)"
    "goes P (await_shown N started watchers watched source)"
proof -
  have "goes P (for_each ids (\<lambda>m. ignore_event (by_deadline N started 5 (ns_select N m (total_test is_listening)))))" for started
    using assms by (intro goes_for_each goes_select)
  then show "goes P (await_listening N ids)" by (simp add: goes_def await_listening_def Let_def)
  show "goes P (dial_all N cons provs)"
    using assms unfolding dial_all_def send_all_def by (auto simp: split_beta intro!: goes_for_each goes_send)
  show "goes P (await_shown N started watchers watched source)"
    using assms unfolding await_shown_def by (auto simp: split_beta intro!: goes_for_each goes_select)
qed

lemma discover_plain_exited:
  assumes "exited N P" and "P s"
    and "n_providers opts + n_consumers opts \<le> length (ns_machines N s)"
  shows "\<exists>s'. discover_plain N peer_from ord opts s = (RanOk (), s')"
proof -
  obtain ps cs where roles: "role_nodes peer_from (ns_machines N s) opts Provider = Some ps"
    "role_nodes peer_from (ns_machines N s) opts Consumer = Some cs"
    using assms(3) by (simp add: role_nodes_def nodes_def)
  note parts = goes_discover_plain_parts [OF assms(1)]
  obtain s1 where s1: "await_listening N (map fst (ord ps) @ map fst (ord cs)) s = (RanOk (), s1)" "P s1"
    using goes_run [OF parts(1) assms(2)] by (metis old.unit.exhaust)
  obtain s2 where s2: "dial_all N (ord cs) (ord ps) s1 = (RanOk (), s2)" "P s2"
    using goes_run [OF parts(2) s1(2)] by (metis old.unit.exhaust)
  obtain s3 where s3: "await_shown N (ns_now N s2) (ord cs) (ord ps) ''Dial'' s2 = (RanOk (), s3)" "P s3"
    using goes_run [OF parts(3) s2(2)] by (metis old.unit.exhaust)
  obtain s4 where "await_shown N (ns_now N s2) (ord ps) (ord cs) (expected_source opts) s3 = (RanOk (), s4)"
    using goes_run [OF parts(3) s3(2)] by (metis old.unit.exhaust)
  with roles s1 s2 s3 show ?thesis
    by (simp add: discover_plain_def and_do_def of_option_def Let_def)
qed

text \<open>A loop that gets no event but goes on never ends.\<close>

lemma recv_loop_exited:
  assumes "\<And>s. P s \<Longrightarrow> \<exists>s'. read s = (RanOk None, s') \<and> P s'" and "step None = None"
  shows "P s \<Longrightarrow> fst (recv_loop turns read step s) = StillRunning"
proof (induction turns arbitrary: s)
  case (Suc turns)
  obtain s' where "read s = (RanOk None, s')" "P s'" using assms(1) Suc.prems by blast
  with Suc.IH assms(2) show ?case by (simp add: and_do_def)
qed simp

lemma recv_exited:
  assumes "exited N P" and "P s"
  shows "\<exists>s'. recv_forever N m s = (RanOk None, s') \<and> P s'"
    and "\<exists>s'. by_timeout d (recv_within N m) s = (RanOk None, s') \<and> P s'"
proof -
  have r: "\<exists>s'. ns_recv N m dur s = (NoEvent, s') \<and> P s'" for dur
    using assms by (metis exited_def prod.collapse)
  from r [of None] show "\<exists>s'. recv_forever N m s = (RanOk None, s') \<and> P s'"
    by (auto simp: recv_forever_def)
  from r [of "Some (from_secs d)"] show "\<exists>s'. by_timeout d (recv_within N m) s = (RanOk None, s') \<and> P s'"
    by (auto simp: by_timeout_def recv_within_def unwrap_time_def)
qed

lemma and_do_still_running: "fst (p s) = StillRunning \<Longrightarrow> fst (and_do p f s) = StillRunning"
  by (auto simp: and_do_def split: prod.split)


definition silent_sim :: "machine list netsim" where
  "silent_sim =
     \<lparr>ns_now = (\<lambda>_. 0), ns_machines = id, ns_send = (\<lambda>_ _ s. s), ns_recv = (\<lambda>_ _ s. (NoEvent, s)),
      ns_select = (\<lambda>_ _ _ s. (Some NoEvent, s)), ns_select_draining = (\<lambda>_ _ _ s. (Some NoEvent, s)),
      ns_drain = (\<lambda>_ s. s), ns_drain_matching = (\<lambda>_ _ s. s), ns_down = (\<lambda>_ s. s), ns_range = (\<lambda>_ _. 0),
      ns_random_subnet = (\<lambda>s. (1, s)), ns_spawn_network = (\<lambda>_ s. (0, s)),
      ns_spawn_machine = (\<lambda>_ _ s. (0, s)), ns_plug = (\<lambda>_ _ s. s), ns_add_nat_route = (\<lambda>_ _ _ s. s)\<rparr>"

definition sample_opts :: harness_opts where
  "sample_opts =
     \<lparr>n_nodes = 2, n_providers = 1, n_consumers = 1, n_spam = 0, delay_ms = 0, ho_enable_mdns = False,
      tree_width = 2, tree_depth = 1, ho_disable_port_reuse = False\<rparr>"

definition sample_machines :: "machine list" where
  "sample_machines = [\<lparr>m_id = 0, m_addr = 1\<rparr>, \<lparr>m_id = 1, m_addr = 2\<rparr>]"


section \<open>What a successful sync test has seen\<close>

datatype io = Sent nat command | Seen nat cli_event

text \<open>
  A record \<open>tr\<close> of what was sent and of the events that were picked, each of which passes the test.
\<close>

definition records :: "'s netsim \<Rightarrow> ('s \<Rightarrow> io list) \<Rightarrow> bool" where
  "records N tr \<longleftrightarrow>
     (\<forall>m c s. tr (ns_send N m c s) = tr s @ [Sent m c]) \<and>
     (\<forall>m f d s e s'. ns_select_draining N m f d s = (Some (Event e), s') \<longrightarrow>
        f e = Some True \<and> tr s' = tr s @ [Seen m e])"

lemma records_send: "records N tr \<Longrightarrow> modify (ns_send N m c) s = (RanOk (), s') \<Longrightarrow> tr s' = tr s @ [Sent m c]"
  by (auto simp: records_def modify_def)

lemma records_picked:
  assumes "records N tr" and "unwrap_event (by_deadline N started d (ns_select_draining N m f)) s = (RanOk e, s')"
  shows "f e = Some True \<and> tr s' = tr s @ [Seen m e]"
proof -
  obtain dur where dur: "apfst unwrap_time (ns_select_draining N m f dur s) = (RanOk (Some e), s')"
    using assms(2) by (auto simp: unwrap_event_ok by_deadline_def split: option.splits)
  then have "ns_select_draining N m f dur s = (Some (Event e), s')"
    by (cases "ns_select_draining N m f dur s") (auto simp: unwrap_time_def split: option.splits awaited.splits)
  with assms(1) show ?thesis by (simp add: records_def)
qed

lemma check_block_log:
  assumes "records N tr" and "check_block N started m b s = (RanOk (), s')"
  shows "tr s' = tr s @ [Sent (m_id m) (CliGet (fst b)), Seen (m_id m) (CliBlock b)]"
proof -
  obtain t e where t: "modify (ns_send N (m_id m) (CliGet (fst b))) s = (RanOk (), t)"
    and e: "unwrap_event (by_deadline N started 5 (ns_select_draining N (m_id m) (total_test is_block))) t = (RanOk e, s')"
      "e = CliBlock b"
    using assms(2) by (auto simp: check_block_def and_do_ok pure_def of_option_def split: if_splits)
  from records_send [OF assms(1) t] records_picked [OF assms(1) e(1)] e(2) show ?thesis by simp
qed

lemma check_data_log:
  assumes "records N tr" and "check_data N ms blocks s = (RanOk (), s')"
  shows "tr s' = tr s @ concat (map (\<lambda>m. concat (map
    (\<lambda>b. [Sent (m_id m) (CliGet (fst b)), Seen (m_id m) (CliBlock b)]) blocks)) ms)"
  using assms(2) unfolding check_data_def Let_def
  by (rule for_each_log) (rule for_each_log [where f = "check_block N (ns_now N s) _"], assumption, rule check_block_log [OF assms(1)])

text \<open>(C11) The sync test passes only if the data is there: if \<open>bitswap\<close> succeeds then its last exchanges with the
  simulated nodes were, for every consumer and every block of the tree it had built, the request
  for that block and as the answer exactly that block.\<close>

theorem bitswap_sound:
  assumes "records N tr" and "bitswap_test N turns encode rng root opts s = (RanOk (), s')"
  shows "\<exists>cid blocks consumers before.
    build_tree encode (rng (n_spam opts)) (tree_width opts) (tree_depth opts) = Inr (cid, blocks) \<and>
    slice (role_range opts Consumer) (ns_machines N s) = Some consumers \<and>
    tr s' = before @ concat (map (\<lambda>m. concat (map
      (\<lambda>b. [Sent (m_id m) (CliGet (fst b)), Seen (m_id m) (CliBlock b)]) blocks)) consumers)"
proof -
  obtain cid blocks consumers t where
    "build_tree encode (rng (n_spam opts)) (tree_width opts) (tree_depth opts) = Inr (cid, blocks)"
    "slice (role_range opts Consumer) (ns_machines N s) = Some consumers"
    "check_data N consumers blocks t = (RanOk (), s')"
    using assms(2)
    by (auto simp: bitswap_test_def Let_def and_do_ok of_result_def of_option_def split: sum.splits option.splits)
  with check_data_log [OF assms(1)] show ?thesis by blast
qed

text \<open>A simulator whose nodes share their blocks: the last command sent to a node determines its answer.\<close>

fun sent_to :: "nat \<Rightarrow> io \<Rightarrow> bool" where
  "sent_to m (Sent k _) = (k = m)"
| "sent_to m _ = False"

fun inserted :: "io \<Rightarrow> block list" where
  "inserted (Sent _ (CliInsert b)) = [b]"
| "inserted _ = []"

definition echo_answer :: "nat \<Rightarrow> io list \<Rightarrow> cli_event option" where
  "echo_answer m s =
     (case rev (filter (sent_to m) s) of
        Sent _ CliFlush # _ \<Rightarrow> Some CliFlushed
      | Sent _ (CliSync _) # _ \<Rightarrow> Some CliSynced
      | Sent _ (CliGet c) # _ \<Rightarrow> map_option (\<lambda>d. CliBlock (c, d)) (map_of (concat (map inserted s)) c)
      | _ \<Rightarrow> None)"

definition echo_sim :: "io list netsim" where
  "echo_sim =
     \<lparr>ns_now = (\<lambda>_. 0), ns_machines = (\<lambda>_. sample_machines), ns_send = (\<lambda>m c s. s @ [Sent m c]),
      ns_recv = (\<lambda>_ _ s. (Event (CliNewListenAddr [Ip4 167772161, Tcp 30000]), s)),
      ns_select = (\<lambda>_ _ _ s. (Some TimedOut, s)),
      ns_select_draining = (\<lambda>m f _ s.
         (case echo_answer m s of
            Some e \<Rightarrow> if f e = Some True then (Some (Event e), s @ [Seen m e]) else (Some TimedOut, s)
          | None \<Rightarrow> (Some TimedOut, s))),
      ns_drain = (\<lambda>_ s. s), ns_drain_matching = (\<lambda>_ _ s. s), ns_down = (\<lambda>_ s. s), ns_range = (\<lambda>_ _. 0),
      ns_random_subnet = (\<lambda>s. (1, s)), ns_spawn_network = (\<lambda>_ s. (0, s)),
      ns_spawn_machine = (\<lambda>_ _ s. (0, s)), ns_plug = (\<lambda>_ _ s. s), ns_add_nat_route = (\<lambda>_ _ _ s. s)\<rparr>"

theorem bitswap_sound_witness:
  "let (r, s') = bitswap_test echo_sim 1 sample_encode (\<lambda>_ _ _. []) ''root'' sample_opts []
   in r = RanOk () \<and> (\<exists>before. s' = before @
     [Sent 1 (CliGet 1), Seen 1 (CliBlock (1, [7])), Sent 1 (CliGet 1), Seen 1 (CliBlock (1, [7])),
      Sent 1 (CliGet 2), Seen 1 (CliBlock (2, [8, 9]))])"
proof -
  have rec: "records echo_sim id"
    by (auto simp: records_def echo_sim_def split: option.splits if_splits)
  have tree: "build_tree sample_encode ((\<lambda>_ _ _. []) (n_spam sample_opts)) (tree_width sample_opts) (tree_depth sample_opts) =
      Inr (2, [(1, [7]), (1, [7]), (2, [8, 9])])"
    and cons: "slice (role_range sample_opts Consumer) (ns_machines echo_sim []) = Some [\<lparr>m_id = 1, m_addr = 2\<rparr>]"
    by code_simp+
  have "fst (bitswap_test echo_sim 1 sample_encode (\<lambda>_ _ _. []) ''root'' sample_opts []) = RanOk ()" by code_simp
  then obtain s' where s': "bitswap_test echo_sim 1 sample_encode (\<lambda>_ _ _. []) ''root'' sample_opts [] = (RanOk (), s')"
    by (metis prod.collapse)
  from bitswap_sound [OF rec s'] show ?thesis
    unfolding s' tree cons by simp
qed

end
