(* ===== verification/Spec2Isabelle.thy ===== *)
theory Spec2Isabelle
  imports Address_Types Topics Programs_Props
begin

text \<open>
  Verification of ipfs-embed, a peer-to-peer block store that is embedded in other programs.

  \<^bold>\<open>The program.\<close>  A node (\<open>Ipfs\<close> in \<open>src/src/lib.rs\<close>) consists of a storage service
  (\<open>src/src/db.rs\<close>), which wraps a database of blocks and aliases, and a network service
  (\<open>src/src/net\<close>).  The network service sends commands over a queue to one task that owns the
  libp2p swarm; the swarm's behaviour (\<open>behaviour.rs\<close>) combines the protocols with an address book
  (\<open>peers.rs\<close>, \<open>peer_info.rs\<close>, \<open>address_handler.rs\<close>), which remembers for each peer its addresses,
  where each was learned and how well it works.  A command line tool (\<open>src/cli\<close>) wraps a node and
  speaks a line protocol, with which a simulation harness (\<open>src/harness\<close>) drives many nodes.

  \<^bold>\<open>The theories.\<close>  Each models its part function by function, under the source's names, with a
  prefix where several types have a method of the same name.

  \<^item> \<open>Prelude\<close>: hash maps and sets, times, and the locales \<open>step_system\<close>, \<open>total_step_system\<close> and
    \<open>refined_step_system\<close>: a partial step function with an invariant it keeps, one that moreover never
    fails on admissible inputs, and one whose steps act on an abstract view like a given function.
    All theorems on runs below come from interpretations of these.
  \<^item> \<open>Rust_Text\<close>: UTF-8, \<open>split_whitespace\<close>, decimal and hexadecimal numbers of Rust's library.
  \<^item> \<open>Multiaddr\<close>: addresses and endpoints, the peer id at the end of an address, loopback addresses.
  \<^item> \<open>Peer_Info\<close>: \<open>PeerInfo\<close>, \<open>Rtt\<close>, \<open>AddressSource\<close> and the order on sources.
  \<^item> \<open>Address_Book\<close>: \<open>AddressBook\<close>, its methods, swarm events and \<open>poll\<close>; \<open>Address_Book_Inv\<close> has its
    invariant, the contract \<open>book_method\<close> and one interpretation of it per method;
    \<open>Address_Book_Props\<close> has the properties, \<open>Address_Types\<close> those on whose addresses are in it.
  \<^item> \<open>Behaviour\<close>: \<open>NetworkBackendBehaviour\<close> and the handlers of every protocol's events; \<open>Network\<close>: the
    swarm task's commands and events as the step function \<open>net_step\<close>; \<open>Network_Inv\<close>: its invariant and
    the ledger of reply channels; \<open>Network_Props\<close> and \<open>Topics\<close>: its properties.
  \<^item> \<open>Service\<close>: \<open>NetworkService\<close>, its construction, the task that forwards listener events, sync queries.
  \<^item> \<open>Runtime\<close>: shared variables (\<open>variable.rs\<close>) and the executor (\<open>executor.rs\<close>).
  \<^item> \<open>Storage\<close> and \<open>Storage_Props\<close>: \<open>StorageService\<close> and \<open>Batch\<close>.
  \<^item> \<open>Ipfs\<close> and \<open>Ipfs_Props\<close>: the node.
  \<^item> \<open>Cli\<close>: the printers and parsers of the line protocol; \<open>Cli_Main\<close> and \<open>Cli_Props\<close>: the tool.
  \<^item> \<open>Tool_Script\<close>: whole scripts of commands, from the text of the lines to the block store.
  \<^item> \<open>Harness\<close> and \<open>Harness_Checks\<close>: the harness, and what its programs send and check; \<open>Netsim\<close>: the
    simulator's interface, programs that use it, and \<open>run_netsim\<close>; \<open>Programs\<close> and \<open>Programs_Nat\<close>: the
    five programs under \<open>src/harness/src/bin\<close>; \<open>Programs_Props\<close>: their properties.

  \<^bold>\<open>State and effects.\<close>  Structs are records and enums datatypes.  A method takes and returns the
  record.  Hash maps are association lists and hash sets lists, each with distinct keys, so
  iteration has some order that no theorem depends on beyond what its statement says.  A panic is
  \<open>None\<close>, an error \<open>Inl\<close>.  Machine words are words where they wrap or are printed, and durations are
  nanoseconds.  What a method takes from outside (clocks, random numbers, answers of the protocols)
  is an argument, and what it tells others (messages on channels, calls to protocols) is recorded in
  the state.

  \<^bold>\<open>What is shown.\<close>  The numbers are those of the properties.

  \<^item> Address book: no run panics and the invariant and its gauges hold (C2); connections and listen
    addresses are those the swarm has announced (C3); good addresses are kept (C6); the book never
    dials itself (C12); addresses name the peer they are filed under (C21), unless a
    peer lists an address of another (C22); redials end (C13); its operations on every branch (C23, C24, C25, C28);
    and its tables of sources and failures, and failure rates (C29, C30, C31, C38).
  \<^item> Swarm task: every reply channel is waiting, answered or dropped, exactly once (C1), and none is
    dropped if queries and results fit (C5); no run panics (C4); topics (C7, C34); bootstrap and
    quorum (C14, C15).
  \<^item> Network service: sync queries, listeners and the start (C26, C36, C37).
  \<^item> Storage and node: refinement of a map (C8), the end of eviction (C10), \<open>fetch\<close> (C18), an error that
    \<open>sync\<close> hides (C35) and the fate of tasks (C39).
  \<^item> Tool and harness: round trips of the line protocol (C16, C17) and where its parser panics (C33),
    the loop at the end of input (C40), the tool as a map driven by its standard input (C9), with the
    harness's data read back (C20); what the harness checks (C19), its data (C27), what a
    successful sync test has seen (C11) and what the tests make of nodes that have exited (C32).

  \<^bold>\<open>Code of other crates\<close> is an argument.  The block store is the record \<open>block_store\<close> of operations
  that may fail, with the hypotheses \<open>store_laws\<close> (reads see earlier writes of the same
  transaction, committing makes it visible) and \<open>gc_laws\<close> (an unfinished turn of the collector
  that has to collect some minimum leaves less garbage, and pinned blocks stay); \<open>map_store\<close> satisfies them.  Printers and parsers of
  peer ids, addresses, cids and JSON are the record \<open>codec\<close>; \<open>sample_codec\<close> satisfies what the round
  trips ask of it.  The simulator is the record \<open>netsim\<close>; \<open>exited\<close> and \<open>records\<close> say of one that the
  output of all its machines has ended, and that a log has what was sent to and read from them.  The protocols of libp2p appear as the events they send and the calls they are
  sent.

  \<^bold>\<open>Loops.\<close>  All definitions terminate.  Fuel appears in four places.  \<open>evict_loop\<close> has the number of
  turns, and C10 shows that one more than the amount of garbage is
  enough unless \<open>gc_min_blocks\<close> is zero.  \<open>sync_query_poll\<close> has the
  number of receptions; C26 says which is enough and that none is for a closed channel.
  \<open>cli_loop\<close> has the number of lines to read, since the tool's loop is meant to run for ever; C9 gives it the
  length of the script.  The loops of the simulation programs that wait for an event (\<open>recv_loop\<close>) or draw
  a random network (\<open>other_subnet\<close>) have a number of turns, after which they are \<open>StillRunning\<close>.

  \<^bold>\<open>Not modelled.\<close>  The transports and the protocols themselves, the database, the two async
  runtimes, the network simulator and the metrics library are other crates.  The HTTP server of \<open>telemetry.rs\<close>, logging
  and the build of the tool by \<open>cargo\<close> are pure input and output.
  Scheduling of tasks appears as the order of the inputs of a run, so what is shown of runs holds
  for every interleaving of events and commands, but nothing is shown about their timing.
\<close>

end
